(* ===== verification/Prelude.thy ===== *)
theory Prelude
  imports Main "HOL-Library.Word" "HOL-Library.Sublist"
begin

text \<open>
  What the components of the development share: the error codes of
  \<^verbatim>\<open>include/error_code.h\<close>, the outcome of C code that may run into undefined behaviour,
  C strings, and the array operations of \<^verbatim>\<open><string.h>\<close> on lists with the lemmas the
  component theories use. Characters are bytes; a C string is a \<open>string\<close> without its
  terminator unless a definition works on the memory that holds it.
\<close>

named_theorems array_simps \<open>lengths and contents of arrays after a C array operation\<close>
named_theorems code_defs \<open>definitions of the straight-line operations of a component\<close>

section \<open>Error codes\<close>

definition VOLC_OK :: int where "VOLC_OK = 0"
definition VOLC_ERR_INIT :: int where "VOLC_ERR_INIT = -1"
definition VOLC_ERR_CONNECT :: int where "VOLC_ERR_CONNECT = -2"
definition VOLC_ERR_SEND :: int where "VOLC_ERR_SEND = -3"
definition VOLC_ERR_MALLOC :: int where "VOLC_ERR_MALLOC = -4"
definition VOLC_ERR_MALLOC_FAILED :: int where "VOLC_ERR_MALLOC_FAILED = -4"
definition VOLC_ERR_INVALID_PARAM :: int where "VOLC_ERR_INVALID_PARAM = -5"
definition VOLC_ERR_NULL_POINTER :: int where "VOLC_ERR_NULL_POINTER = -6"
definition VOLC_ERR_FILE_DELETE :: int where "VOLC_ERR_FILE_DELETE = -9"
definition VOLC_ERR_MQTT_SUB :: int where "VOLC_ERR_MQTT_SUB = -10000"
definition VOLC_ERR_MQTT_PUB :: int where "VOLC_ERR_MQTT_PUB = -10001"
definition VOLC_ERR_OTA_DOWNLOAD_FILE_SIGN_CHECK :: int where
  "VOLC_ERR_OTA_DOWNLOAD_FILE_SIGN_CHECK = -503"
definition VOLC_ERR_OTA_INSTALL_FAILED :: int where "VOLC_ERR_OTA_INSTALL_FAILED = -505"
definition VOLC_ERR_TM_USER_INPUT_OUT_RANGE :: int where "VOLC_ERR_TM_USER_INPUT_OUT_RANGE = -601"
definition VOLC_ERR_DM_PUBLISH_TYPE_UNKNOWN :: int where "VOLC_ERR_DM_PUBLISH_TYPE_UNKNOWN = -602"
definition VOLC_ERR_HTTP_MALLOC_FAILED :: int where "VOLC_ERR_HTTP_MALLOC_FAILED = 0x01010001"
definition VOLC_ERR_INVALID_HTTP_CONTEXT :: int where "VOLC_ERR_INVALID_HTTP_CONTEXT = 0x01010003"
definition VOLC_ERR_HTTP_CONN_INIT_FAILED :: int where
  "VOLC_ERR_HTTP_CONN_INIT_FAILED = 0x01010004"
definition VOLC_ERR_HTTP_CONN_FAILED :: int where "VOLC_ERR_HTTP_CONN_FAILED = 0x01020002"
definition VOLC_ERR_HTTP_SEND_FAILED :: int where "VOLC_ERR_HTTP_SEND_FAILED = 0x01020004"
definition VOLC_ERR_HTTP_RECV_TOO_LARGE :: int where "VOLC_ERR_HTTP_RECV_TOO_LARGE = 0x01020008"

lemmas error_codes =
  VOLC_OK_def VOLC_ERR_INIT_def VOLC_ERR_CONNECT_def VOLC_ERR_SEND_def VOLC_ERR_MALLOC_def
  VOLC_ERR_MALLOC_FAILED_def VOLC_ERR_INVALID_PARAM_def VOLC_ERR_NULL_POINTER_def
  VOLC_ERR_FILE_DELETE_def VOLC_ERR_MQTT_SUB_def VOLC_ERR_MQTT_PUB_def
  VOLC_ERR_OTA_DOWNLOAD_FILE_SIGN_CHECK_def VOLC_ERR_OTA_INSTALL_FAILED_def
  VOLC_ERR_TM_USER_INPUT_OUT_RANGE_def VOLC_ERR_DM_PUBLISH_TYPE_UNKNOWN_def
  VOLC_ERR_HTTP_MALLOC_FAILED_def VOLC_ERR_INVALID_HTTP_CONTEXT_def
  VOLC_ERR_HTTP_CONN_INIT_FAILED_def VOLC_ERR_HTTP_CONN_FAILED_def VOLC_ERR_HTTP_SEND_FAILED_def
  VOLC_ERR_HTTP_RECV_TOO_LARGE_def

section \<open>Undefined behaviour as a value\<close>

text \<open>
  An access the C standard leaves undefined is the left injection of a sum, with the kind of
  access; the code has no defined state after it.
\<close>

datatype ub = NullDeref | OutOfBounds | DivByZero | UseAfterFree | SignedOverflow | Uninit

type_synonym 'a c_result = "ub + 'a"

definition c_bind :: "'a c_result \<Rightarrow> ('a \<Rightarrow> 'b c_result) \<Rightarrow> 'b c_result" where
  "c_bind r f = (case r of Inl u \<Rightarrow> Inl u | Inr x \<Rightarrow> f x)"

lemma c_bind_simps [simp]:
  "c_bind (Inl u) f = Inl u" "c_bind (Inr x) f = f x"
  by (simp_all add: c_bind_def)

lemma c_bind_Inr_iff: "c_bind r f = Inr y \<longleftrightarrow> (\<exists>x. r = Inr x \<and> f x = Inr y)"
  by (cases r) auto

lemma c_bind_assoc: "c_bind (c_bind r f) g = c_bind r (\<lambda>x. c_bind (f x) g)"
  by (cases r) auto

lemma c_bind_cong [fundef_cong]:
  "r = r' \<Longrightarrow> (\<And>x. r' = Inr x \<Longrightarrow> f x = f' x) \<Longrightarrow> c_bind r f = c_bind r' f'"
  by (cases r') auto

text \<open>A loop that computes a result for each element and ends at the first undefined one.\<close>

fun c_map :: "('a \<Rightarrow> 'b c_result) \<Rightarrow> 'a list \<Rightarrow> 'b list c_result" where
  "c_map f [] = Inr []"
| "c_map f (x # xs) = c_bind (f x) (\<lambda>y. c_bind (c_map f xs) (\<lambda>ys. Inr (y # ys)))"

lemma c_map_Inr: "(\<And>x. x \<in> set xs \<Longrightarrow> f x = Inr (g x)) \<Longrightarrow> c_map f xs = Inr (map g xs)"
  by (induction xs) auto

lemma c_map_cong [fundef_cong]:
  "xs = ys \<Longrightarrow> (\<And>x. x \<in> set ys \<Longrightarrow> f x = g x) \<Longrightarrow> c_map f xs = c_map g ys"
  by (induction ys arbitrary: xs) auto

lemma c_map_Inl: "x \<in> set xs \<Longrightarrow> f x = Inl u \<Longrightarrow> \<exists>e. c_map f xs = Inl e"
  by (induction xs) (auto simp: c_bind_def split: sum.splits)

section \<open>C strings and byte arrays\<close>

definition NUL :: char where "NUL = CHR 0x00"

text \<open>The C string that starts a piece of memory: everything before the first terminator.\<close>

definition cstr :: "char list \<Rightarrow> string" where
  "cstr mem = takeWhile (\<lambda>c. c \<noteq> NUL) mem"

lemma cstr_id [simp]: "NUL \<notin> set s \<Longrightarrow> cstr s = s"
  unfolding cstr_def takeWhile_eq_all_conv by metis

lemma cstr_terminated [simp]: "NUL \<notin> set s \<Longrightarrow> cstr (s @ NUL # junk) = s"
proof -
  assume "NUL \<notin> set s"
  then have "\<forall>x\<in>set s. x \<noteq> NUL" by metis
  then show ?thesis by (simp add: cstr_def takeWhile_append2)
qed

lemma NUL_notin_cstr [simp]: "NUL \<notin> set (cstr mem)"
  by (auto simp: cstr_def dest: set_takeWhileD)

text \<open>\<^verbatim>\<open>strncmp(s, t, n) == 0\<close> on strings given without their terminators.\<close>

definition strncmp_eq :: "string \<Rightarrow> string \<Rightarrow> nat \<Rightarrow> bool" where
  "strncmp_eq s t n \<longleftrightarrow> take n s = take n t"

lemma strncmp_eq_refl [simp]: "strncmp_eq s s n"
  by (simp add: strncmp_eq_def)

lemma strncmp_eq_prefix: "strncmp_eq s t (length s) \<longleftrightarrow> prefix s t"
  by (auto simp: strncmp_eq_def prefix_def) (metis append_take_drop_id)

text \<open>
  \<^verbatim>\<open>memcpy(dst + d, src, n)\<close>, \<^verbatim>\<open>memmove\<close> inside one array and \<^verbatim>\<open>realloc\<close> of an array to
  \<open>n\<close> elements, where new elements are uninitialised.
\<close>

definition memcpy_at :: "nat \<Rightarrow> 'a list \<Rightarrow> 'a list \<Rightarrow> 'a list" where
  "memcpy_at d src xs = take d xs @ src @ drop (d + length src) xs"

definition memmove_in :: "nat \<Rightarrow> nat \<Rightarrow> nat \<Rightarrow> 'a list \<Rightarrow> 'a list" where
  "memmove_in d s n xs = take d xs @ take n (drop s xs) @ drop (d + n) xs"

definition realloc_to :: "'a \<Rightarrow> nat \<Rightarrow> 'a list \<Rightarrow> 'a list" where
  "realloc_to uninit n xs = take n xs @ replicate (n - length xs) uninit"

lemma length_memcpy_at [array_simps]:
  "d + length src \<le> length xs \<Longrightarrow> length (memcpy_at d src xs) = length xs"
  by (simp add: memcpy_at_def)

lemma take_memcpy_at [array_simps]:
  "d \<le> length xs \<Longrightarrow> take (d + length src) (memcpy_at d src xs) = take d xs @ src"
  by (simp add: memcpy_at_def)

lemma length_memmove_in [array_simps]:
  "d + n \<le> length xs \<Longrightarrow> s + n \<le> length xs \<Longrightarrow> length (memmove_in d s n xs) = length xs"
  by (simp add: memmove_in_def)

lemma take_memmove_in [array_simps]:
  "d \<le> s \<Longrightarrow> s + n \<le> length xs \<Longrightarrow> take (d + n) (memmove_in d s n xs) = take d xs @ take n (drop s xs)"
  by (simp add: memmove_in_def)

lemma length_realloc_to [array_simps]: "length (realloc_to u n xs) = n"
  by (simp add: realloc_to_def)

lemma take_realloc_to [array_simps]:
  "k \<le> n \<Longrightarrow> k \<le> length xs \<Longrightarrow> take k (realloc_to u n xs) = take k xs"
  by (simp add: realloc_to_def)

lemma nth_realloc_to [array_simps]:
  "i < n \<Longrightarrow> i < length xs \<Longrightarrow> realloc_to u n xs ! i = xs ! i"
  by (simp add: realloc_to_def nth_append)

lemma realloc_append [array_simps]:
  assumes "n \<le> length xs"
  shows "(realloc_to u (Suc n) xs)[n := x] = take n xs @ [x]"
proof (cases "n = length xs")
  case True
  then show ?thesis by (simp add: realloc_to_def list_update_append)
next
  case False
  with assms have "n < length xs" by simp
  then show ?thesis by (simp add: realloc_to_def take_Suc_conv_app_nth list_update_append)
qed

section \<open>Lists\<close>

text \<open>Removing the first element that satisfies a test.\<close>

fun remove_first :: "('a \<Rightarrow> bool) \<Rightarrow> 'a list \<Rightarrow> 'a list" where
  "remove_first P [] = []"
| "remove_first P (x # xs) = (if P x then xs else x # remove_first P xs)"

text \<open>The index of the first element that satisfies a test.\<close>

fun first_index :: "('a \<Rightarrow> bool) \<Rightarrow> 'a list \<Rightarrow> nat option" where
  "first_index P [] = None"
| "first_index P (x # xs) = (if P x then Some 0 else map_option Suc (first_index P xs))"

lemma first_index_None_iff: "first_index P xs = None \<longleftrightarrow> (\<forall>x\<in>set xs. \<not> P x)"
  by (induction xs) auto

lemma first_index_Some:
  "first_index P xs = Some i \<Longrightarrow> i < length xs \<and> P (xs ! i) \<and> (\<forall>j<i. \<not> P (xs ! j))"
proof (induction xs arbitrary: i)
  case (Cons x xs)
  then show ?case by (auto split: if_splits simp: nth_Cons split: nat.splits)
qed simp

lemma remove_first_index:
  "first_index P xs = Some i \<Longrightarrow> remove_first P xs = take i xs @ drop (Suc i) xs"
  by (induction xs arbitrary: i) (auto split: if_splits)

lemma remove_first_id: "first_index P xs = None \<Longrightarrow> remove_first P xs = xs"
  by (induction xs) (auto split: if_splits)

lemma length_remove_first:
  "length (remove_first P xs) = (if \<exists>x\<in>set xs. P x then length xs - 1 else length xs)"
  by (induction xs) (auto simp: Suc_diff_le, metis Suc_pred length_pos_if_in_set)

lemma set_remove_first_subset: "set (remove_first P xs) \<subseteq> set xs"
  by (induction xs) auto

lemma filter_remove_first_other:
  "(\<And>x. P x \<Longrightarrow> \<not> Q x) \<Longrightarrow> filter Q (remove_first P xs) = filter Q xs"
  by (induction xs) auto

lemma filter_remove_first_same:
  "filter P (remove_first P xs) = tl (filter P xs)"
  by (induction xs) auto

lemma subseq_remove_first: "subseq (remove_first P xs) xs"
  by (induction xs) auto

section \<open>Runs and invariants\<close>

text \<open>
  The states a component reaches from its initial states, with the labels of the steps taken,
  and the interface every invariant proof shares: an invariant that holds initially and is
  kept by each step holds in every reachable state.
\<close>

inductive reaches :: "('s \<Rightarrow> bool) \<Rightarrow> ('s \<Rightarrow> 'l \<Rightarrow> 's \<Rightarrow> bool) \<Rightarrow> 'l list \<Rightarrow> 's \<Rightarrow> bool"
  for init step where
  start: "init s \<Longrightarrow> reaches init step [] s"
| step: "reaches init step ls s \<Longrightarrow> step s l t \<Longrightarrow> reaches init step (ls @ [l]) t"

locale invariant_system =
  fixes init :: "'s \<Rightarrow> bool"
    and step :: "'s \<Rightarrow> 'l \<Rightarrow> 's \<Rightarrow> bool"
    and inv :: "'s \<Rightarrow> bool"
  assumes init_inv: "init s \<Longrightarrow> inv s"
    and step_inv: "inv s \<Longrightarrow> step s l t \<Longrightarrow> inv t"
begin

lemma reaches_inv: "reaches init step ls s \<Longrightarrow> inv s"
  by (induction rule: reaches.induct) (auto intro: init_inv step_inv)

end

section \<open>Refinement\<close>

text \<open>
  A run of operations that may end in undefined behaviour, with what the operations do in order; and
  the interface of a refinement: every step of the code is the step of its specification, so every
  run is. \<open>obs\<close> extracts what the specification speaks of from what the code does.
\<close>

fun c_run :: "('p \<Rightarrow> 's \<Rightarrow> ('s \<times> 'c list \<times> 'r) c_result) \<Rightarrow> 'p list \<Rightarrow> 's \<Rightarrow> ('s \<times> 'c list) c_result" where
  "c_run exec [] s = Inr (s, [])"
| "c_run exec (p # ps) s =
     c_bind (exec p s) (\<lambda>(s, calls, _). c_bind (c_run exec ps s) (\<lambda>(s', calls'). Inr (s', calls @ calls')))"

fun spec_run :: "('p \<Rightarrow> 'a \<Rightarrow> 'a \<times> 'd list) \<Rightarrow> 'p list \<Rightarrow> 'a \<Rightarrow> 'a \<times> 'd list" where
  "spec_run spec [] a = (a, [])"
| "spec_run spec (p # ps) a =
     (let (a1, ds) = spec p a; (a2, ds') = spec_run spec ps a1 in (a2, ds @ ds'))"

locale refinement =
  fixes exec :: "'p \<Rightarrow> 's \<Rightarrow> ('s \<times> 'c list \<times> 'r) c_result"
    and spec :: "'p \<Rightarrow> 'a \<Rightarrow> 'a \<times> 'd list"
    and abs :: "'s \<Rightarrow> 'a"
    and obs :: "'c list \<Rightarrow> 'd list"
    and valid :: "'s \<Rightarrow> bool"
  assumes obs_Nil: "obs [] = []"
    and obs_append: "obs (xs @ ys) = obs xs @ obs ys"
    and step_refines: "valid s \<Longrightarrow> exec p s = Inr (t, calls, ret) \<Longrightarrow> valid t \<and> spec p (abs s) = (abs t, obs calls)"
begin

lemma run_refines:
  "valid s \<Longrightarrow> c_run exec ps s = Inr (t, calls) \<Longrightarrow> valid t \<and> spec_run spec ps (abs s) = (abs t, obs calls)"
proof (induction ps arbitrary: s calls)
  case Nil
  then show ?case by (simp add: obs_Nil)
next
  case (Cons p ps)
  obtain s1 c1 r c2 where step: "exec p s = Inr (s1, c1, r)" and rest: "c_run exec ps s1 = Inr (t, c2)" and c: "calls = c1 @ c2"
    using Cons.prems(2) by (auto simp: c_bind_Inr_iff)
  show ?case
    using step_refines [OF Cons.prems(1) step] Cons.IH [OF _ rest] by (simp add: c obs_append)
qed

end

section \<open>Codecs\<close>

text \<open>
  The interface of an encoder and its decoder: what was encoded is decoded to itself, so the
  encoding of valid data determines it.
\<close>

locale codec =
  fixes enc :: "'a \<Rightarrow> 'b option"
    and dec :: "'b \<Rightarrow> 'a option"
    and valid :: "'a \<Rightarrow> bool"
  assumes roundtrip: "valid x \<Longrightarrow> \<exists>y. enc x = Some y \<and> dec y = Some x"
begin

lemma enc_total: "valid x \<Longrightarrow> enc x \<noteq> None"
  using roundtrip by force

lemma dec_enc: "valid x \<Longrightarrow> enc x = Some y \<Longrightarrow> dec y = Some x"
  using roundtrip [of x] by auto

lemma enc_injective: "valid x \<Longrightarrow> valid y \<Longrightarrow> enc x = enc y \<Longrightarrow> x = y"
  using roundtrip [of x] roundtrip [of y] by auto

end

end
