(* ===== verification/Basic.thy ===== *)
theory Basic
  imports Prelude
begin

text \<open>
  The device configuration of \<^verbatim>\<open>include/iot_basic.h\<close> and the operations of
  \<^verbatim>\<open>src/iot_basic.c\<close> on it: the deep copy with its roll back when an allocation fails, the
  option setter and the printable authentication type. Pointers to strings are \<open>string option\<close>.
\<close>

datatype auth_type = AUTH_DEVICE_SECRET | AUTH_PRE_REGISTERED | AUTH_NO_PRE_REGISTERED | AUTH_UNKNOWN

fun auth_code :: "auth_type \<Rightarrow> int" where
  "auth_code AUTH_DEVICE_SECRET = -1"
| "auth_code AUTH_PRE_REGISTERED = 0"
| "auth_code AUTH_NO_PRE_REGISTERED = 1"
| "auth_code AUTH_UNKNOWN = 100"

fun iot_auth_type_c_str :: "auth_type \<Rightarrow> string" where
  "iot_auth_type_c_str AUTH_DEVICE_SECRET = ''-1''"
| "iot_auth_type_c_str AUTH_PRE_REGISTERED = ''0''"
| "iot_auth_type_c_str AUTH_NO_PRE_REGISTERED = ''1''"
| "iot_auth_type_c_str _ = ''UNKNOWN''"

record basic_config =
  bc_http_host :: "string option"
  bc_instance_id :: "string option"
  bc_auth_type :: auth_type
  bc_product_key :: "string option"
  bc_product_secret :: "string option"
  bc_device_name :: "string option"
  bc_device_secret :: "string option"
  bc_verify_ssl :: bool
  bc_ssl_ca_cert :: "string option"
  bc_ssl_ca_path :: "string option"

text \<open>The string fields, in the order the copy allocates them.\<close>

datatype cfg_field = F_http_host | F_instance_id | F_product_key | F_product_secret
  | F_device_name | F_device_secret | F_ssl_ca_path | F_ssl_ca_cert

fun field_of :: "basic_config \<Rightarrow> cfg_field \<Rightarrow> string option" where
  "field_of c F_http_host = bc_http_host c"
| "field_of c F_instance_id = bc_instance_id c"
| "field_of c F_product_key = bc_product_key c"
| "field_of c F_product_secret = bc_product_secret c"
| "field_of c F_device_name = bc_device_name c"
| "field_of c F_device_secret = bc_device_secret c"
| "field_of c F_ssl_ca_path = bc_ssl_ca_path c"
| "field_of c F_ssl_ca_cert = bc_ssl_ca_cert c"

definition all_fields :: "cfg_field list" where
  "all_fields = [F_http_host, F_instance_id, F_product_key, F_product_secret, F_device_name,
     F_device_secret, F_ssl_ca_path, F_ssl_ca_cert]"

text \<open>\<^verbatim>\<open>COPY_STR_FIELD\<close>: \<open>dup f\<close> is whether the \<^verbatim>\<open>strdup\<close> of field \<open>f\<close> succeeds.\<close>

definition copy_str_field :: "(cfg_field \<Rightarrow> bool) \<Rightarrow> basic_config \<Rightarrow> cfg_field \<Rightarrow> string option" where
  "copy_str_field dup src f = (case field_of src f of None \<Rightarrow> None | Some s \<Rightarrow> if dup f then Some s else None)"

definition copied :: "(cfg_field \<Rightarrow> bool) \<Rightarrow> basic_config \<Rightarrow> basic_config" where
  "copied dup src =
     \<lparr>bc_http_host = copy_str_field dup src F_http_host,
      bc_instance_id = copy_str_field dup src F_instance_id,
      bc_auth_type = bc_auth_type src,
      bc_product_key = copy_str_field dup src F_product_key,
      bc_product_secret = copy_str_field dup src F_product_secret,
      bc_device_name = copy_str_field dup src F_device_name,
      bc_device_secret = copy_str_field dup src F_device_secret,
      bc_verify_ssl = bc_verify_ssl src,
      bc_ssl_ca_cert = copy_str_field dup src F_ssl_ca_cert,
      bc_ssl_ca_path = copy_str_field dup src F_ssl_ca_path\<rparr>"

text \<open>\<open>alloc\<close> is the result of the \<^verbatim>\<open>malloc\<close> of the structure.\<close>

definition iot_config_dup ::
  "bool \<Rightarrow> (cfg_field \<Rightarrow> bool) \<Rightarrow> basic_config option \<Rightarrow> basic_config option" where
  "iot_config_dup alloc dup srcp =
     (case srcp of None \<Rightarrow> None
      | Some src \<Rightarrow>
         if \<not> alloc then None
         else
           let dst = copied dup src in
           if list_ex (\<lambda>f. field_of src f \<noteq> None \<and> field_of dst f = None) all_fields then None
           else Some dst)"

text \<open>The options of \<^verbatim>\<open>onesdk_iot_basic_set_option\<close> with the value each one reads.\<close>

datatype basic_option =
    OPT_HTTP_HOST string | OPT_INSTANCE_ID string | OPT_VERIFY_MODE auth_type
  | OPT_PRODUCT_KEY string | OPT_PRODUCT_SECRET string | OPT_DEVICE_KEY string
  | OPT_DEVICE_SECRET string | OPT_VERIFY_SSL bool | OPT_SSL_CA_PATH string | OPT_OTHER

fun set_option_cfg :: "basic_option \<Rightarrow> basic_config \<Rightarrow> basic_config option" where
  "set_option_cfg (OPT_HTTP_HOST v) c = Some (c\<lparr>bc_http_host := Some v\<rparr>)"
| "set_option_cfg (OPT_INSTANCE_ID v) c = Some (c\<lparr>bc_instance_id := Some v\<rparr>)"
| "set_option_cfg (OPT_VERIFY_MODE v) c = Some (c\<lparr>bc_auth_type := v\<rparr>)"
| "set_option_cfg (OPT_PRODUCT_KEY v) c = Some (c\<lparr>bc_product_key := Some v\<rparr>)"
| "set_option_cfg (OPT_PRODUCT_SECRET v) c = Some (c\<lparr>bc_product_secret := Some v\<rparr>)"
| "set_option_cfg (OPT_DEVICE_KEY v) c = Some (c\<lparr>bc_device_name := Some v\<rparr>)"
| "set_option_cfg (OPT_DEVICE_SECRET v) c = Some (c\<lparr>bc_device_secret := Some v\<rparr>)"
| "set_option_cfg (OPT_VERIFY_SSL v) c = Some (c\<lparr>bc_verify_ssl := v\<rparr>)"
| "set_option_cfg (OPT_SSL_CA_PATH v) c = Some (c\<lparr>bc_ssl_ca_path := Some v\<rparr>)"
| "set_option_cfg OPT_OTHER c = None"

text \<open>The context holds a pointer to its configuration.\<close>

definition onesdk_iot_basic_set_option ::
  "basic_config option option \<Rightarrow> basic_option \<Rightarrow> (basic_config option option \<times> int) c_result" where
  "onesdk_iot_basic_set_option ctx opt =
     (case ctx of None \<Rightarrow> Inr (ctx, VOLC_ERR_INVALID_PARAM)
      | Some cfgp \<Rightarrow>
         if opt = OPT_OTHER then Inr (ctx, VOLC_ERR_INVALID_PARAM)
         else (case cfgp of None \<Rightarrow> Inl NullDeref
               | Some c \<Rightarrow> (case set_option_cfg opt c of
                     Some c' \<Rightarrow> Inr (Some (Some c'), VOLC_OK)
                   | None \<Rightarrow> Inr (ctx, VOLC_ERR_INVALID_PARAM))))"

lemma copy_str_field_ok: "field_of src f = None \<or> dup f \<Longrightarrow> copy_str_field dup src f = field_of src f"
  by (auto simp: copy_str_field_def split: option.splits)

lemma all_fields_complete: "f \<in> set all_fields"
  by (cases f) (simp_all add: all_fields_def)

text \<open>The copy is all or nothing: equal to the source exactly when every needed allocation works.\<close>

lemma iot_config_dup_spec:
  "iot_config_dup alloc dup srcp =
     (case srcp of None \<Rightarrow> None
      | Some src \<Rightarrow> if alloc \<and> (\<forall>f. field_of src f \<noteq> None \<longrightarrow> dup f) then Some src else None)"
proof (cases srcp)
  case (Some src)
  define dst where "dst = copied dup src"
  have fld: "field_of dst f = copy_str_field dup src f" for f
    by (cases f) (simp_all add: dst_def copied_def)
  have roll: "list_ex (\<lambda>f. field_of src f \<noteq> None \<and> field_of dst f = None) all_fields
      \<longleftrightarrow> (\<exists>f. field_of src f \<noteq> None \<and> \<not> dup f)"
    by (auto simp: list_ex_iff all_fields_complete fld copy_str_field_def split: option.splits)
  have same: "dst = src" if "\<forall>f. field_of src f \<noteq> None \<longrightarrow> dup f"
  proof -
    have "copy_str_field dup src f = field_of src f" for f
      using that by (intro copy_str_field_ok) blast
    then show ?thesis by (simp add: dst_def copied_def)
  qed
  show ?thesis
    using roll same by (auto simp: Some iot_config_dup_def dst_def [symmetric])
qed (simp add: iot_config_dup_def)

end
