(* ===== verification/Mqtt.thy ===== *)
theory Mqtt
  imports Basic
begin

text \<open>
  The MQTT client of \<^verbatim>\<open>src/iot/iot_mqtt.c\<close>: its context, the two pending lists, the API
  (\<^verbatim>\<open>iot_mqtt_subscribe\<close>, \<^verbatim>\<open>iot_mqtt_publish\<close>, connect, reconnect) and the libwebsockets
  callback, one definition per \<^verbatim>\<open>case\<close>. The calls into libwebsockets are recorded in the
  order they are made; their results, and the results of the allocations the code checks, are
  arguments. A handler holds the mutex of the list it works on, so one definition is one
  atomic step.
\<close>

section \<open>State\<close>

record topic_map =
  tm_topic :: string
  tm_message_cb :: "nat option"
  tm_event_cb :: "nat option"
  tm_user_data :: nat
  tm_qos :: int

record pub_param =
  pp_topic :: string
  pp_topic_len :: nat
  pp_payload :: "8 word list"
  pp_payload_len :: nat
  pp_qos :: int

record pending_pub =
  publish_params :: "pub_param list"
  sent_list :: "bool list"
  pub_count :: nat

record mqtt_config =
  mqtt_host :: string
  mq_basic :: "basic_config option"
  mq_username :: "string option"
  mq_password :: "string option"
  keep_alive :: "16 word"
  auto_reconnect :: bool
  ping_interval :: int
  enable_mqtts :: bool

record mqtt_ctx =
  mq_config :: mqtt_config
  mq_wsi :: "nat option"
  sub_topic_maps :: "topic_map list"
  pending_sub :: "topic_map list option"
  pending_pub :: "pending_pub option"
  is_connected :: bool
  waiting_for_suback :: bool
  waiting_for_puback :: bool

text \<open>The calls into libwebsockets and into user callbacks.\<close>

datatype ssl_flag = USE_SSL | ALLOW_SELFSIGNED

datatype lws_call =
    CallbackOnWritable
  | SetTimer int
  | CancelService
  | SendSubscribe "(string \<times> int) list"
  | SendPublish pub_param
  | ClientConnect "string option" "string option" string "16 word" int "ssl_flag list"
  | MessageCallback nat string "8 word list" nat

type_synonym mqtt_result = "mqtt_ctx \<times> lws_call list \<times> int"

definition QOS0 :: int where "QOS0 = 0"
definition QOS1 :: int where "QOS1 = 1"

lemmas qos_defs = QOS0_def QOS1_def

text \<open>Contents of array elements beyond the count: never read.\<close>

definition uninit_pub :: pub_param where
  "uninit_pub = \<lparr>pp_topic = [], pp_topic_len = 0, pp_payload = [], pp_payload_len = 0, pp_qos = 0\<rparr>"

section \<open>The list of messages to publish\<close>

text \<open>The messages the list holds, each with its mark: what the arrays are for.\<close>

definition pub_view :: "pending_pub \<Rightarrow> (pub_param \<times> bool) list" where
  "pub_view l = take (pub_count l) (zip (publish_params l) (sent_list l))"

definition pub_queue :: "mqtt_ctx \<Rightarrow> (pub_param \<times> bool) list" where
  "pub_queue c = (case pending_pub c of None \<Rightarrow> [] | Some l \<Rightarrow> pub_view l)"

definition pub_wf :: "pending_pub \<Rightarrow> bool" where
  "pub_wf l \<longleftrightarrow> pub_count l \<le> length (publish_params l) \<and> pub_count l \<le> length (sent_list l)"

datatype pub_alloc = AllocTopic | AllocPayload | AllocList | AllocParams | AllocSent

definition publish_finish :: "mqtt_ctx \<Rightarrow> int \<Rightarrow> mqtt_result" where
  "publish_finish c ret = (c, if is_connected c then [CallbackOnWritable, CancelService] else [], ret)"

text \<open>Lines 665 to 696: what happens under the lock once the list exists.\<close>

definition publish_locked :: "(pub_alloc \<Rightarrow> bool) \<Rightarrow> mqtt_ctx \<Rightarrow> pending_pub \<Rightarrow> pub_param \<Rightarrow> mqtt_result" where
  "publish_locked ok c l p =
     (if pub_count l > 10 then publish_finish (c\<lparr>pending_pub := Some l\<rparr>) VOLC_ERR_MQTT_PUB
      else if \<not> ok AllocParams then publish_finish (c\<lparr>pending_pub := Some l\<rparr>) VOLC_ERR_MALLOC
      else
        let l1 = l\<lparr>publish_params := realloc_to uninit_pub (pub_count l + 1) (publish_params l)\<rparr> in
        if \<not> ok AllocSent then publish_finish (c\<lparr>pending_pub := Some l1\<rparr>) VOLC_ERR_MALLOC
        else
          let l2 = l1\<lparr>sent_list := realloc_to False (pub_count l1 + 1) (sent_list l1)\<rparr>;
              l3 = l2\<lparr>publish_params := (publish_params l2)[pub_count l2 := p],
                      sent_list := (sent_list l2)[pub_count l2 := False],
                      pub_count := pub_count l2 + 1\<rparr>
          in publish_finish (c\<lparr>pending_pub := Some l3\<rparr>) VOLC_OK)"

definition iot_mqtt_publish ::
  "(pub_alloc \<Rightarrow> bool) \<Rightarrow> mqtt_ctx \<Rightarrow> string \<Rightarrow> 8 word list \<Rightarrow> int \<Rightarrow> mqtt_result" where
  "iot_mqtt_publish ok c topic payload qos =
     (if \<not> ok AllocTopic then (c, [], VOLC_ERR_MALLOC)
      else if payload \<noteq> [] \<and> \<not> ok AllocPayload then (c, [], VOLC_ERR_MALLOC)
      else
        let p = \<lparr>pp_topic = topic, pp_topic_len = length topic, pp_payload = payload,
                 pp_payload_len = length payload, pp_qos = qos\<rparr> in
        case pending_pub c of
          None \<Rightarrow>
            if \<not> ok AllocList then publish_finish c VOLC_ERR_MALLOC
            else publish_locked ok c \<lparr>publish_params = [], sent_list = [], pub_count = 0\<rparr> p
        | Some l \<Rightarrow> publish_locked ok c l p)"

text \<open>
  The loop that sends (lines 219 to 243). The result of
  \<^verbatim>\<open>lws_mqtt_client_send_publish\<close> for the message at index \<open>i\<close> is \<open>fails i\<close>.
\<close>

function send_loop ::
  "(nat \<Rightarrow> bool) \<Rightarrow> nat \<Rightarrow> pending_pub \<Rightarrow> lws_call list \<Rightarrow> pending_pub \<times> lws_call list \<times> bool" where
  "send_loop fails i l calls =
     (if i < pub_count l then
        if sent_list l ! i then send_loop fails (i + 1) l calls
        else
          let p = publish_params l ! i in
          if pp_qos p = QOS0 then
            (if fails i then send_loop fails (i + 1) l (calls @ [SendPublish p])
             else send_loop fails (i + 1) (l\<lparr>sent_list := (sent_list l)[i := True]\<rparr>)
                    (calls @ [SendPublish p]))
          else if pp_qos p = QOS1 then
            (if fails i then send_loop fails (i + 1) l (calls @ [SendPublish p])
             else (l\<lparr>sent_list := (sent_list l)[i := True]\<rparr>, calls @ [SendPublish p], True))
          else send_loop fails (i + 1) l calls
      else (l, calls, False))"
  by pat_completeness auto
termination
  by (relation "measure (\<lambda>(fails, i, l, calls). pub_count l - i)") auto

declare send_loop.simps [simp del]

text \<open>The loop that compacts the arrays in place (lines 246 to 263).\<close>

definition is_sent_qos0 :: "pub_param \<times> bool \<Rightarrow> bool" where
  "is_sent_qos0 m \<longleftrightarrow> snd m \<and> pp_qos (fst m) = QOS0"

function compact_loop :: "nat \<Rightarrow> nat \<Rightarrow> pending_pub \<Rightarrow> pending_pub \<times> nat" where
  "compact_loop i new_count l =
     (if i < pub_count l then
        if is_sent_qos0 (publish_params l ! i, sent_list l ! i)
        then compact_loop (i + 1) new_count l
        else compact_loop (i + 1) (new_count + 1)
               (if new_count \<noteq> i
                then l\<lparr>publish_params := (publish_params l)[new_count := publish_params l ! i],
                       sent_list := (sent_list l)[new_count := sent_list l ! i]\<rparr>
                else l)
      else (l, new_count))"
  by pat_completeness auto
termination
  by (relation "measure (\<lambda>(i, new_count, l). pub_count l - i)") auto

declare compact_loop.simps [simp del]

definition compact_list :: "pending_pub \<Rightarrow> pending_pub option" where
  "compact_list l =
     (case compact_loop 0 0 l of (l', new_count) \<Rightarrow>
        if new_count < pub_count l' then
          (if new_count = 0 then None else Some (l'\<lparr>pub_count := new_count\<rparr>))
        else Some l')"

text \<open>Lines 215 to 278.\<close>

definition writeable_pub :: "(nat \<Rightarrow> bool) \<Rightarrow> mqtt_ctx \<Rightarrow> mqtt_result" where
  "writeable_pub fails c =
     (case pending_pub c of
        Some l \<Rightarrow>
          if waiting_for_puback c then (c, [], 0)
          else (case send_loop fails 0 l [] of (l', calls, waiting) \<Rightarrow>
                  (c\<lparr>pending_pub := compact_list l',
                     waiting_for_puback := waiting\<rparr>, calls, 0))
      | None \<Rightarrow> (c, [], 0))"

text \<open>\<^verbatim>\<open>LWS_CALLBACK_MQTT_ACK\<close>, lines 280 to 324.\<close>

definition in_flight :: "pub_param \<times> bool \<Rightarrow> bool" where
  "in_flight m \<longleftrightarrow> snd m \<and> pp_qos (fst m) \<noteq> QOS0"

definition ack_list :: "pending_pub \<Rightarrow> pending_pub option" where
  "ack_list l =
     (case first_index in_flight (pub_view l) of
        None \<Rightarrow> Some l
      | Some k \<Rightarrow>
          let n = pub_count l;
              l1 = (if k < n - 1
                    then l\<lparr>publish_params := memmove_in k (k + 1) (n - k - 1) (publish_params l),
                           sent_list := memmove_in k (k + 1) (n - k - 1) (sent_list l)\<rparr>
                    else l);
              l2 = l1\<lparr>pub_count := n - 1\<rparr>
          in if pub_count l2 = 0 then None else Some l2)"

definition on_mqtt_ack :: "mqtt_ctx \<Rightarrow> mqtt_result" where
  "on_mqtt_ack c =
     ((if waiting_for_puback c
       then c\<lparr>waiting_for_puback := False,
              pending_pub := (case pending_pub c of None \<Rightarrow> None | Some l \<Rightarrow> ack_list l)\<rparr>
       else c), [CallbackOnWritable], 0)"

section \<open>Subscriptions\<close>

datatype sub_alloc = AllocPendingList | AllocTopicCopy | AllocMaps

definition append_sub_topic :: "(sub_alloc \<Rightarrow> bool) \<Rightarrow> mqtt_ctx \<Rightarrow> topic_map \<Rightarrow> mqtt_ctx" where
  "append_sub_topic ok c t =
     (case pending_sub c of
        None \<Rightarrow>
          if \<not> ok AllocPendingList then c
          else if \<not> ok AllocTopicCopy \<or> \<not> ok AllocMaps then c\<lparr>pending_sub := Some []\<rparr>
          else c\<lparr>pending_sub := Some [t]\<rparr>
      | Some ts \<Rightarrow>
          if \<not> ok AllocTopicCopy \<or> \<not> ok AllocMaps then c
          else c\<lparr>pending_sub := Some (ts @ [t])\<rparr>)"

definition subscribed_topics :: "mqtt_ctx \<Rightarrow> string list" where
  "subscribed_topics c = map tm_topic (sub_topic_maps c)"

text \<open>Null pointers are \<open>None\<close>.\<close>

definition iot_mqtt_subscribe ::
  "(sub_alloc \<Rightarrow> bool) \<Rightarrow> mqtt_ctx option \<Rightarrow> topic_map option \<Rightarrow> mqtt_ctx option \<times> int" where
  "iot_mqtt_subscribe ok cp tp =
     (case (cp, tp) of
        (Some c, Some t) \<Rightarrow>
          if tm_topic t \<in> set (subscribed_topics c) then (Some c, VOLC_OK)
          else (Some (append_sub_topic ok c t), 0)
      | _ \<Rightarrow> (cp, VOLC_ERR_INVALID_PARAM))"

text \<open>
  The loop that moves a batch into \<^verbatim>\<open>sub_topic_maps\<close> (lines 132 to 174);
  \<open>grow i\<close> is the result of the \<^verbatim>\<open>realloc\<close> for the \<open>i\<close>-th topic of the batch.
\<close>

fun move_batch :: "(nat \<Rightarrow> bool) \<Rightarrow> nat \<Rightarrow> topic_map list \<Rightarrow> topic_map list \<Rightarrow> topic_map list" where
  "move_batch grow i [] subs = subs"
| "move_batch grow i (t # ts) subs =
     (if tm_topic t \<in> set (map tm_topic subs) then move_batch grow (i + 1) ts subs
      else if \<not> grow i then move_batch grow (i + 1) ts subs
      else move_batch grow (i + 1) ts (subs @ [t]))"

text \<open>The environment of one \<^verbatim>\<open>CLIENT_WRITEABLE\<close> callback.\<close>

record writeable_env =
  we_alloc_topics :: bool
  we_sub_fails :: bool
  we_grow :: "nat \<Rightarrow> bool"
  we_pub_fails :: "nat \<Rightarrow> bool"

text \<open>Lines 97 to 211.\<close>

definition writeable_sub :: "writeable_env \<Rightarrow> mqtt_ctx \<Rightarrow> topic_map list \<Rightarrow> mqtt_result" where
  "writeable_sub env c ts =
     (let num_to_subscribe = (if length ts > 7 then 7 else length ts);
          batch = take num_to_subscribe ts;
          param = map (\<lambda>t. (tm_topic t, tm_qos t)) batch in
      if \<not> we_alloc_topics env then (c, [], VOLC_ERR_MALLOC)
      else if we_sub_fails env then (c, [SendSubscribe param], 0)
      else
        let c1 = c\<lparr>waiting_for_suback := True,
                   sub_topic_maps := move_batch (we_grow env) 0 batch (sub_topic_maps c)\<rparr>;
            rest = drop num_to_subscribe ts in
        if length rest > 0
        then (c1\<lparr>pending_sub := Some rest\<rparr>, [SendSubscribe param, CallbackOnWritable], 0)
        else (c1\<lparr>pending_sub := None\<rparr>, [SendSubscribe param], 0))"

text \<open>\<^verbatim>\<open>LWS_CALLBACK_MQTT_CLIENT_WRITEABLE\<close>, lines 89 to 278.\<close>

definition on_client_writeable :: "writeable_env \<Rightarrow> mqtt_ctx \<Rightarrow> mqtt_result" where
  "on_client_writeable env c =
     (if waiting_for_suback c then (c, [], 0)
      else case pending_sub c of
        Some (t # ts) \<Rightarrow> writeable_sub env c (t # ts)
      | _ \<Rightarrow> writeable_pub (we_pub_fails env) c)"

text \<open>\<^verbatim>\<open>LWS_CALLBACK_MQTT_SUBSCRIBED\<close>, lines 68 to 87.\<close>

definition on_mqtt_subscribed :: "mqtt_ctx \<Rightarrow> mqtt_result" where
  "on_mqtt_subscribed c =
     (let c1 = c\<lparr>waiting_for_suback := False\<rparr>;
          has_pending_subs = (case pending_sub c1 of Some ts \<Rightarrow> length ts > 0 | None \<Rightarrow> False);
          has_pending_pubs = (case pending_pub c1 of Some l \<Rightarrow> pub_count l > 0 | None \<Rightarrow> False)
      in (c1, (if has_pending_subs then [CallbackOnWritable] else []) @
              (if has_pending_pubs then [CallbackOnWritable] else []), 0))"

section \<open>Connecting and reconnecting\<close>

text \<open>
  Lines 514 to 552. \<open>wsi\<close> is the result of \<^verbatim>\<open>lws_client_connect_via_info\<close>; the user name is
  also the client id.
\<close>

definition iot_mqtt_connect :: "nat option \<Rightarrow> mqtt_ctx \<Rightarrow> mqtt_result" where
  "iot_mqtt_connect wsi c =
     (let cfg = mq_config c;
          port = (if enable_mqtts cfg then 8883 else 1883);
          ssl = (if enable_mqtts cfg then [USE_SSL, ALLOW_SELFSIGNED] else []);
          call = ClientConnect (mq_username cfg) (mq_password cfg) (mqtt_host cfg) (keep_alive cfg) port ssl
      in (c\<lparr>mq_wsi := wsi\<rparr>, [call], if wsi = None then 1 else 0))"

definition iot_mqtt_disconnect :: "mqtt_ctx \<Rightarrow> mqtt_result" where
  "iot_mqtt_disconnect c = (c, [CancelService], VOLC_OK)"

text \<open>Lines 598 to 622: the loop re-queues every subscribed topic.\<close>

fun resubscribe :: "(nat \<Rightarrow> sub_alloc \<Rightarrow> bool) \<Rightarrow> nat \<Rightarrow> topic_map list \<Rightarrow> mqtt_ctx \<Rightarrow> mqtt_ctx" where
  "resubscribe ok i [] c = c"
| "resubscribe ok i (t # ts) c = resubscribe ok (i + 1) ts (append_sub_topic (ok i) c t)"

definition iot_mqtt_reconnect ::
  "nat option \<Rightarrow> (nat \<Rightarrow> sub_alloc \<Rightarrow> bool) \<Rightarrow> mqtt_ctx \<Rightarrow> mqtt_result" where
  "iot_mqtt_reconnect wsi ok c =
     (case iot_mqtt_disconnect c of (c1, calls1, ret1) \<Rightarrow>
        if ret1 \<noteq> VOLC_OK then (c1, calls1, ret1)
        else case iot_mqtt_connect wsi c1 of (c2, calls2, ret2) \<Rightarrow>
          if ret2 \<noteq> VOLC_OK then (c2, calls1 @ calls2, ret2)
          else (resubscribe ok 0 (sub_topic_maps c2) c2, calls1 @ calls2, ret2))"

text \<open>Lines 380 to 395. The allocation result is \<open>alloc\<close>; a missing name is dereferenced.\<close>

definition iot_mqtt_get_username :: "bool \<Rightarrow> basic_config \<Rightarrow> string option c_result" where
  "iot_mqtt_get_username alloc b =
     (case (bc_product_key b, bc_device_name b) of
        (Some pk, Some dn) \<Rightarrow> Inr (if alloc then Some (pk @ ''|'' @ dn) else None)
      | _ \<Rightarrow> Inl NullDeref)"

definition IOT_DEFAULT_PING_INTERVAL_S :: int where "IOT_DEFAULT_PING_INTERVAL_S = 60"

text \<open>
  Lines 429 to 467. \<open>password b\<close> is the result of \<^verbatim>\<open>_iot_mqtt_get_password\<close> and \<open>created\<close>
  that of \<^verbatim>\<open>lws_create_context\<close>. Arguments that may be null are options; the structure the
  caller passes is cleared.
\<close>

definition cleared_ctx :: "mqtt_config \<Rightarrow> mqtt_ctx" where
  "cleared_ctx cfg = \<lparr>mq_config = cfg, mq_wsi = None, sub_topic_maps = [], pending_sub = None,
     pending_pub = None, is_connected = False, waiting_for_suback = False, waiting_for_puback = False\<rparr>"

definition iot_mqtt_init ::
  "bool \<Rightarrow> (basic_config \<Rightarrow> string option) \<Rightarrow> bool \<Rightarrow> mqtt_ctx option \<Rightarrow> mqtt_config option
    \<Rightarrow> (mqtt_ctx option \<times> int) c_result" where
  "iot_mqtt_init alloc password created cp cfgp =
     (case (cp, cfgp) of
        (Some c, Some cfg) \<Rightarrow>
          (case mq_basic cfg of
             None \<Rightarrow> Inr (Some (cleared_ctx cfg), VOLC_ERR_INVALID_PARAM)
           | Some b \<Rightarrow>
               c_bind (iot_mqtt_get_username alloc b) (\<lambda>user.
                 let cfg1 = cfg\<lparr>mq_username := user, mq_password := password b,
                      ping_interval := (if ping_interval cfg \<le> 0 then IOT_DEFAULT_PING_INTERVAL_S
                                        else ping_interval cfg)\<rparr>
                 in Inr (Some (cleared_ctx cfg1), if created then VOLC_OK else VOLC_ERR_INIT)))
      | _ \<Rightarrow> Inr (cp, VOLC_ERR_INVALID_PARAM))"

section \<open>The libwebsockets callback\<close>

text \<open>
  \<^verbatim>\<open>LWS_CALLBACK_MQTT_CLIENT_RX\<close>, lines 331 to 354: the first stored topic that matches the
  received one gets the message. The received topic is a byte string of the given length.
\<close>

definition topic_matches :: "string \<Rightarrow> string \<Rightarrow> bool c_result" where
  "topic_matches rx sub =
     (if strncmp_eq rx sub (length rx) then Inr True
      else if sub = [] then Inl OutOfBounds
      else Inr (last sub = CHR ''+'' \<and> strncmp_eq rx sub (length sub - 1)))"

fun find_subscription :: "string \<Rightarrow> topic_map list \<Rightarrow> topic_map option c_result" where
  "find_subscription rx [] = Inr None"
| "find_subscription rx (t # ts) =
     c_bind (topic_matches rx (tm_topic t)) (\<lambda>m.
       if m then Inr (Some t) else find_subscription rx ts)"

definition on_client_rx :: "mqtt_ctx \<Rightarrow> string \<Rightarrow> 8 word list \<Rightarrow> mqtt_result c_result" where
  "on_client_rx c rx payload =
     c_bind (find_subscription rx (sub_topic_maps c)) (\<lambda>found.
       case found of
         None \<Rightarrow> Inr (c, [CallbackOnWritable], 0)
       | Some t \<Rightarrow>
           (case tm_message_cb t of
              None \<Rightarrow> Inl NullDeref
            | Some f \<Rightarrow> Inr (c, [MessageCallback f rx payload (tm_user_data t), CallbackOnWritable], 0)))"

text \<open>
  \<^verbatim>\<open>ping_interval * 1000000\<close> is a multiplication of two \<^verbatim>\<open>int\<close> values.
\<close>

definition timer_usecs :: "int \<Rightarrow> int c_result" where
  "timer_usecs secs =
     (let us = secs * 1000000 in
      if - (2 ^ 31) \<le> us \<and> us < 2 ^ 31 then Inr us else Inl SignedOverflow)"

datatype mqtt_event =
    ConnectionError
  | ClientClosed "nat option" "nat \<Rightarrow> sub_alloc \<Rightarrow> bool"
  | ClientEstablished
  | MqttSubscribed
  | ClientWriteable writeable_env
  | MqttAck
  | MqttResend
  | ClientRx string "8 word list"
  | MqttTimer
  | OtherReason

text \<open>\<^verbatim>\<open>callback_mqtt\<close>, lines 30 to 370. The connection that reports the event is stored first.\<close>

fun mqtt_case :: "mqtt_event \<Rightarrow> mqtt_ctx \<Rightarrow> mqtt_result c_result" where
  "mqtt_case ConnectionError c = Inr (c\<lparr>is_connected := False\<rparr>, [], 0)"
| "mqtt_case (ClientClosed wsi ok) c =
     (let c1 = c\<lparr>is_connected := False\<rparr> in
      if auto_reconnect (mq_config c1)
      then (case iot_mqtt_reconnect wsi ok c1 of (c2, calls, _) \<Rightarrow> Inr (c2, calls, 0))
      else Inr (c1, [], 0))"
| "mqtt_case ClientEstablished c =
     c_bind (timer_usecs (ping_interval (mq_config c))) (\<lambda>us.
       Inr (c\<lparr>is_connected := True, waiting_for_puback := False, waiting_for_suback := False\<rparr>,
            [CallbackOnWritable, SetTimer us], 0))"
| "mqtt_case MqttSubscribed c = Inr (on_mqtt_subscribed c)"
| "mqtt_case (ClientWriteable env) c = Inr (on_client_writeable env c)"
| "mqtt_case MqttAck c = Inr (on_mqtt_ack c)"
| "mqtt_case MqttResend c = Inr (c, [CallbackOnWritable], 0)"
| "mqtt_case (ClientRx rx payload) c = on_client_rx c rx payload"
| "mqtt_case MqttTimer c =
     (if is_connected c
      then c_bind (timer_usecs (ping_interval (mq_config c))) (\<lambda>us.
             Inr (c, [SetTimer us, CallbackOnWritable, CancelService], 0))
      else Inr (c, [], 0))"
| "mqtt_case OtherReason c = Inr (c, [], 0)"

definition callback_mqtt :: "nat \<Rightarrow> mqtt_event \<Rightarrow> mqtt_ctx \<Rightarrow> mqtt_result c_result" where
  "callback_mqtt wsi e c = mqtt_case e (c\<lparr>mq_wsi := Some wsi\<rparr>)"

text \<open>
  Lines 469 to 512: everything the context owns is released. The destroyed user name and
  password are left in the configuration as dangling pointers, which no operation clears.
\<close>

definition iot_mqtt_deinit :: "mqtt_ctx option \<Rightarrow> mqtt_ctx option" where
  "iot_mqtt_deinit cp =
     map_option (\<lambda>c. c\<lparr>sub_topic_maps := [], pending_sub := None, pending_pub := None\<rparr>) cp"

section \<open>The client as a transition system\<close>

text \<open>
  One operation of the client: a call of the API or a callback. Operations of different
  threads interleave in any order, so every list of operations is a history.
\<close>

datatype mqtt_op =
    OpPublish "pub_alloc \<Rightarrow> bool" string "8 word list" int
  | OpSubscribe "sub_alloc \<Rightarrow> bool" topic_map
  | OpConnect "nat option"
  | OpDisconnect
  | OpReconnect "nat option" "nat \<Rightarrow> sub_alloc \<Rightarrow> bool"
  | OpCallback nat mqtt_event

fun mqtt_exec :: "mqtt_op \<Rightarrow> mqtt_ctx \<Rightarrow> mqtt_result c_result" where
  "mqtt_exec (OpPublish ok topic payload qos) c = Inr (iot_mqtt_publish ok c topic payload qos)"
| "mqtt_exec (OpSubscribe ok t) c =
     (case iot_mqtt_subscribe ok (Some c) (Some t) of
        (Some c', ret) \<Rightarrow> Inr (c', [], ret) | (None, ret) \<Rightarrow> Inr (c, [], ret))"
| "mqtt_exec (OpConnect wsi) c = Inr (iot_mqtt_connect wsi c)"
| "mqtt_exec OpDisconnect c = Inr (iot_mqtt_disconnect c)"
| "mqtt_exec (OpReconnect wsi ok) c = Inr (iot_mqtt_reconnect wsi ok c)"
| "mqtt_exec (OpCallback wsi e) c = callback_mqtt wsi e c"

inductive mqtt_step :: "mqtt_ctx \<Rightarrow> mqtt_op \<times> lws_call list \<Rightarrow> mqtt_ctx \<Rightarrow> bool" where
  mqtt_stepI: "mqtt_exec op c = Inr (c', calls, ret) \<Longrightarrow> mqtt_step c (op, calls) c'"

inductive_simps mqtt_step_iff: "mqtt_step c (op, calls) c'"

definition mqtt_init_state :: "mqtt_ctx \<Rightarrow> bool" where
  "mqtt_init_state c \<longleftrightarrow> (\<exists>cfg. c = cleared_ctx cfg)"

abbreviation mqtt_reaches :: "(mqtt_op \<times> lws_call list) list \<Rightarrow> mqtt_ctx \<Rightarrow> bool" where
  "mqtt_reaches \<equiv> reaches mqtt_init_state mqtt_step"

text \<open>The same histories as a function, for evaluation.\<close>

fun mqtt_run :: "mqtt_op list \<Rightarrow> mqtt_ctx \<Rightarrow> (mqtt_ctx \<times> lws_call list) c_result" where
  "mqtt_run [] c = Inr (c, [])"
| "mqtt_run (op # ops) c =
     c_bind (mqtt_exec op c) (\<lambda>(c1, calls1, _).
       c_bind (mqtt_run ops c1) (\<lambda>(c2, calls2). Inr (c2, calls1 @ calls2)))"

end
