(* ===== verification/MqttQueue.thy ===== *)
theory MqttQueue
  imports Mqtt
begin

text \<open>
  The publish list of the MQTT client against its specification: the arrays that
  \<^verbatim>\<open>iot_mqtt.c\<close> shifts in place behave as a queue of messages with sent marks. Sending marks
  messages, the in-place compaction is a filter, the acknowledgement removes the first message
  in flight, and publishing appends or rejects.
\<close>

section \<open>Specification on the queue\<close>

fun send_spec ::
  "(nat \<Rightarrow> bool) \<Rightarrow> nat \<Rightarrow> (pub_param \<times> bool) list \<Rightarrow> (pub_param \<times> bool) list \<times> lws_call list \<times> bool" where
  "send_spec fails i [] = ([], [], False)"
| "send_spec fails i ((p, sent) # ms) =
     (if sent \<or> pp_qos p \<noteq> QOS0 \<and> pp_qos p \<noteq> QOS1 then
        (case send_spec fails (i + 1) ms of (ms', calls, w) \<Rightarrow> ((p, sent) # ms', calls, w))
      else if pp_qos p = QOS1 \<and> \<not> fails i then ((p, True) # ms, [SendPublish p], True)
      else (case send_spec fails (i + 1) ms of (ms', calls, w) \<Rightarrow>
              ((p, \<not> fails i) # ms', SendPublish p # calls, w)))"

section \<open>Views of the arrays\<close>

lemma length_pub_view: "pub_wf l \<Longrightarrow> length (pub_view l) = pub_count l"
  by (simp add: pub_wf_def pub_view_def)

lemma nth_pub_view:
  "pub_wf l \<Longrightarrow> i < pub_count l \<Longrightarrow> pub_view l ! i = (publish_params l ! i, sent_list l ! i)"
  by (simp add: pub_wf_def pub_view_def)

lemma drop_pub_view:
  "pub_wf l \<Longrightarrow> i < pub_count l \<Longrightarrow>
     drop i (pub_view l) = (publish_params l ! i, sent_list l ! i) # drop (Suc i) (pub_view l)"
  by (metis Cons_nth_drop_Suc length_pub_view nth_pub_view)

definition mark_sent :: "nat \<Rightarrow> pending_pub \<Rightarrow> pending_pub" where
  "mark_sent i l = l\<lparr>sent_list := (sent_list l)[i := True]\<rparr>"

lemma mark_sent_simps [simp]:
  "pub_count (mark_sent i l) = pub_count l" "publish_params (mark_sent i l) = publish_params l"
  "pub_wf (mark_sent i l) = pub_wf l"
  by (simp_all add: mark_sent_def pub_wf_def)

lemma pub_view_mark_sent:
  assumes "pub_wf l" "i < pub_count l"
  shows "pub_view (mark_sent i l) = (pub_view l)[i := (publish_params l ! i, True)]"
proof (rule nth_equalityI)
  show "length (pub_view (mark_sent i l)) = length ((pub_view l)[i := (publish_params l ! i, True)])"
    using assms by (simp add: length_pub_view)
next
  fix j assume "j < length (pub_view (mark_sent i l))"
  then have j: "j < pub_count l" using assms by (simp add: length_pub_view)
  have "i < length (sent_list l)" using assms by (simp add: pub_wf_def)
  then show "pub_view (mark_sent i l) ! j = (pub_view l)[i := (publish_params l ! i, True)] ! j"
    using assms j
    by (cases "i = j") (simp_all add: nth_pub_view length_pub_view mark_sent_def pub_wf_def nth_list_update)
qed

section \<open>Sending\<close>

definition send_done ::
  "(nat \<Rightarrow> bool) \<Rightarrow> nat \<Rightarrow> pending_pub \<Rightarrow> lws_call list \<Rightarrow> pending_pub \<times> lws_call list \<times> bool \<Rightarrow> bool" where
  "send_done fails i l calls r \<longleftrightarrow>
     (case (r, send_spec fails i (drop i (pub_view l))) of
        ((l', calls', w), (ms, new_calls, w')) \<Rightarrow>
          pub_wf l' \<and> pub_count l' = pub_count l \<and>
          pub_view l' = take i (pub_view l) @ ms \<and> calls' = calls @ new_calls \<and> w = w')"

lemma send_done_skip:
  assumes wf: "pub_wf l" and i: "i < pub_count l" and wf': "pub_wf l1"
    and cnt: "pub_count l1 = pub_count l"
    and view: "pub_view l1 = (pub_view l)[i := (publish_params l ! i, s)]"
    and spec: "\<And>ms. send_spec fails i ((publish_params l ! i, sent_list l ! i) # ms) =
       (case send_spec fails (Suc i) ms of (ms', c, w) \<Rightarrow> ((publish_params l ! i, s) # ms', new @ c, w))"
    and rec: "send_done fails (i + 1) l1 (calls @ new) r"
  shows "send_done fails i l calls r"
proof -
  obtain l' calls' w where r: "r = (l', calls', w)" by (cases r)
  have len: "length (pub_view l) = pub_count l" using wf by (rule length_pub_view)
  have d: "drop (i + 1) (pub_view l1) = drop (Suc i) (pub_view l)"
    by (simp add: view)
  have t: "take (i + 1) (pub_view l1) = take i (pub_view l) @ [(publish_params l ! i, s)]"
    using i len by (simp add: view take_Suc_conv_app_nth)
  show ?thesis
    using rec d t cnt
    by (simp add: send_done_def r drop_pub_view [OF wf i] spec del: send_spec.simps split: prod.splits)
qed

lemma list_update_view_same: "pub_wf l \<Longrightarrow> i < pub_count l \<Longrightarrow>
    pub_view l = (pub_view l)[i := (publish_params l ! i, sent_list l ! i)]"
  by (metis list_update_id nth_pub_view)

lemma send_loop_done: "pub_wf l \<Longrightarrow> i \<le> pub_count l \<Longrightarrow> send_done fails i l calls (send_loop fails i l calls)"
proof (induction fails i l calls rule: send_loop.induct)
  case (1 fails i l calls)
  note wf = "1.prems"(1)
  show ?case
  proof (cases "i < pub_count l")
    case False
    with "1.prems" have "i = pub_count l" by simp
    then show ?thesis
      unfolding send_loop.simps [of fails i l calls]
      using wf by (simp add: send_done_def length_pub_view)
  next
    case i: True
    let ?p = "publish_params l ! i"
    note unfold = send_loop.simps [of fails i l calls] i
    consider (skip) "sent_list l ! i \<or> pp_qos ?p \<noteq> QOS0 \<and> pp_qos ?p \<noteq> QOS1"
      | (fail) "\<not> sent_list l ! i" "pp_qos ?p = QOS0 \<or> pp_qos ?p = QOS1" "fails i"
      | (sent0) "\<not> sent_list l ! i" "pp_qos ?p = QOS0" "\<not> fails i"
      | (sent1) "\<not> sent_list l ! i" "pp_qos ?p = QOS1" "\<not> fails i"
      by blast
    then show ?thesis
    proof cases
      case skip
      have rec: "send_done fails (i + 1) l calls (send_loop fails (i + 1) l calls)"
        using skip i wf "1.IH"(1,5) by (cases "sent_list l ! i") (auto simp: Let_def)
      have eq: "send_loop fails i l calls = send_loop fails (i + 1) l calls"
        using skip by (auto simp: unfold Let_def)
      show ?thesis
        unfolding eq
        by (rule send_done_skip [OF wf i wf refl, where new = "[]" and s = "sent_list l ! i"])
           (use skip rec list_update_view_same [OF wf i] in \<open>auto split: prod.splits\<close>)
    next
      case fail
      have rec: "send_done fails (i + 1) l (calls @ [SendPublish ?p])
          (send_loop fails (i + 1) l (calls @ [SendPublish ?p]))"
        using fail i wf "1.IH"(2,4) by (auto simp: qos_defs)
      have eq: "send_loop fails i l calls = send_loop fails (i + 1) l (calls @ [SendPublish ?p])"
        using fail by (auto simp: unfold Let_def)
      show ?thesis
        unfolding eq
        by (rule send_done_skip [OF wf i wf refl, where new = "[SendPublish ?p]" and s = False])
           (use fail rec list_update_view_same [OF wf i] in \<open>auto split: prod.splits\<close>)
    next
      case sent0
      have rec: "send_done fails (i + 1) (mark_sent i l) (calls @ [SendPublish ?p])
          (send_loop fails (i + 1) (mark_sent i l) (calls @ [SendPublish ?p]))"
        using sent0 i wf "1.IH"(3) by (auto simp: qos_defs mark_sent_def pub_wf_def)
      have eq: "send_loop fails i l calls =
          send_loop fails (i + 1) (mark_sent i l) (calls @ [SendPublish ?p])"
        using sent0 by (auto simp: unfold Let_def mark_sent_def)
      show ?thesis
        unfolding eq
        by (rule send_done_skip [OF wf i, where new = "[SendPublish ?p]" and s = True])
           (use sent0 rec wf pub_view_mark_sent [OF wf i] in \<open>auto simp: qos_defs split: prod.splits\<close>)
    next
      case sent1
      have eq: "send_loop fails i l calls = (mark_sent i l, calls @ [SendPublish ?p], True)"
        using sent1 by (auto simp: unfold Let_def mark_sent_def qos_defs)
      have "pub_view (mark_sent i l) = take i (pub_view l) @ (?p, True) # drop (Suc i) (pub_view l)"
        using pub_view_mark_sent [OF wf i] i wf by (simp add: upd_conv_take_nth_drop length_pub_view)
      then show ?thesis
        using sent1 wf by (auto simp: eq send_done_def drop_pub_view [OF wf i] qos_defs)
    qed
  qed
qed

section \<open>Compaction\<close>

definition keep :: "pub_param \<times> bool \<Rightarrow> bool" where
  "keep m \<longleftrightarrow> \<not> is_sent_qos0 m"

lemma zip_update_both: "(zip xs ys)[k := (a, b)] = zip (xs[k := a]) (ys[k := b])"
  by (simp add: update_zip)

lemma compact_loop_spec:
  assumes "pub_wf l" "nc \<le> i" "i \<le> pub_count l" "compact_loop i nc l = (l', n')"
  shows "pub_wf l' \<and> pub_count l' = pub_count l \<and>
     n' = nc + length (filter keep (drop i (pub_view l))) \<and>
     take n' (zip (publish_params l') (sent_list l')) =
       take nc (pub_view l) @ filter keep (drop i (pub_view l))"
  using assms
proof (induction i nc l arbitrary: l' n' rule: compact_loop.induct)
  case (1 i nc l)
  note wf = "1.prems"(1) and nc = "1.prems"(2)
  have len: "length (pub_view l) = pub_count l" using wf by (rule length_pub_view)
  show ?case
  proof (cases "i < pub_count l")
    case False
    have "compact_loop i nc l = (l, nc)"
      unfolding compact_loop.simps [of i nc l] using False by simp
    with False "1.prems" have "i = pub_count l" "l' = l" "n' = nc" by simp_all
    with nc wf len show ?thesis by (simp add: pub_view_def min_absorb1)
  next
    case i: True
    let ?m = "(publish_params l ! i, sent_list l ! i)"
    note unfold = compact_loop.simps [of i nc l] i
    have d: "drop i (pub_view l) = ?m # drop (Suc i) (pub_view l)"
      by (rule drop_pub_view [OF wf i])
    show ?thesis
    proof (cases "is_sent_qos0 ?m")
      case True
      have "compact_loop (i + 1) nc l = (l', n')" using "1.prems"(4) True by (simp add: unfold)
      from "1.IH"(1) [OF i True wf _ _ this] i nc True show ?thesis
        by (auto simp: d keep_def)
    next
      case False
      define l1 where "l1 = (if nc \<noteq> i then l\<lparr>publish_params := (publish_params l)[nc := publish_params l ! i],
          sent_list := (sent_list l)[nc := sent_list l ! i]\<rparr> else l)"
      have rec: "compact_loop (i + 1) (nc + 1) l1 = (l', n')"
        using "1.prems"(4) False by (simp add: unfold l1_def)
      have wf1: "pub_wf l1" and c1: "pub_count l1 = pub_count l"
        using wf by (auto simp: l1_def pub_wf_def)
      have view1: "pub_view l1 = (pub_view l)[nc := ?m]"
      proof (cases "nc = i")
        case True
        then show ?thesis using list_update_view_same [OF wf i] by (simp add: l1_def)
      next
        case False
        then show ?thesis by (simp add: l1_def pub_view_def zip_update_both [symmetric] take_update_swap)
      qed
      have "take (nc + 1) (pub_view l1) = take nc (pub_view l) @ [?m]"
        using nc i len by (simp add: view1 take_Suc_conv_app_nth)
      moreover have "drop (i + 1) (pub_view l1) = drop (Suc i) (pub_view l)"
        using nc by (simp add: view1)
      ultimately show ?thesis
        using "1.IH"(2) [OF i False, folded l1_def, OF wf1 _ _ rec] nc i False c1
        by (auto simp: d keep_def)
    qed
  qed
qed

definition opt_view :: "pending_pub option \<Rightarrow> (pub_param \<times> bool) list" where
  "opt_view lo = (case lo of None \<Rightarrow> [] | Some l \<Rightarrow> pub_view l)"

definition opt_wf :: "pending_pub option \<Rightarrow> bool" where
  "opt_wf lo = (case lo of None \<Rightarrow> True | Some l \<Rightarrow> pub_wf l)"

lemma opt_simps [simp]:
  "opt_view None = []" "opt_view (Some l) = pub_view l" "opt_wf None" "opt_wf (Some l) = pub_wf l"
  by (simp_all add: opt_view_def opt_wf_def)

lemma pub_queue_opt_view: "pub_queue c = opt_view (pending_pub c)"
  by (simp add: pub_queue_def opt_view_def)

lemma compact_list_spec:
  assumes "pub_wf l"
  shows "opt_wf (compact_list l) \<and> opt_view (compact_list l) = filter keep (pub_view l)"
proof -
  obtain l' n' where r: "compact_loop 0 0 l = (l', n')" by (cases "compact_loop 0 0 l")
  have s: "pub_wf l'" "pub_count l' = pub_count l" "n' = length (filter keep (pub_view l))"
    "take n' (zip (publish_params l') (sent_list l')) = filter keep (pub_view l)"
    using compact_loop_spec [OF assms _ _ r] by auto
  have "n' \<le> pub_count l'"
    using s(2,3) length_filter_le [of keep "pub_view l"] length_pub_view [OF assms] by simp
  then consider "n' = 0" "0 < pub_count l'" | "0 < n'" "n' < pub_count l'" | "n' = pub_count l'" by linarith
  then show ?thesis
  proof cases
    case 1 then show ?thesis using s by (simp add: compact_list_def r)
  next
    case 2 then show ?thesis using s by (simp add: compact_list_def r pub_wf_def pub_view_def)
  next
    case 3 then show ?thesis using s by (simp add: compact_list_def r pub_view_def)
  qed
qed

section \<open>Acknowledgement and publishing\<close>

lemma take_memmove_zip:
  assumes "k < n" "n \<le> length xs" "n \<le> length ys"
  shows "take (n - 1) (zip (memmove_in k (k + 1) (n - k - 1) xs) (memmove_in k (k + 1) (n - k - 1) ys)) =
    take k (take n (zip xs ys)) @ drop (Suc k) (take n (zip xs ys))"
proof -
  have n: "n - 1 = k + (n - k - 1)" using assms by simp
  have "take (n - 1) (memmove_in k (k + 1) (n - k - 1) zs) = take k zs @ take (n - k - 1) (drop (Suc k) zs)"
    if "n \<le> length zs" for zs :: "'c list"
    using that assms take_memmove_in [of k "k + 1" "n - k - 1" zs] n by simp
  note mv = this [OF assms(2)] this [OF assms(3)]
  have "take k (take n (zip xs ys)) = zip (take k xs) (take k ys)"
    using assms by (simp add: take_zip min_absorb1)
  moreover have "drop (Suc k) (take n (zip xs ys)) =
      zip (take (n - k - 1) (drop (Suc k) xs)) (take (n - k - 1) (drop (Suc k) ys))"
    by (simp add: drop_take take_zip drop_zip)
  moreover have "length (take k xs) = length (take k ys)" using assms by simp
  ultimately show ?thesis
    unfolding take_zip [of "n - 1"] mv by simp
qed

lemma ack_list_spec:
  assumes wf: "pub_wf l"
  shows "opt_wf (ack_list l) \<and> opt_view (ack_list l) = remove_first in_flight (pub_view l)"
proof (cases "first_index in_flight (pub_view l)")
  case None
  then show ?thesis using wf by (simp add: ack_list_def remove_first_id)
next
  case (Some k)
  let ?n = "pub_count l"
  have k: "k < ?n" using first_index_Some [OF Some] wf by (simp add: length_pub_view)
  have rem: "remove_first in_flight (pub_view l) = take k (pub_view l) @ drop (Suc k) (pub_view l)"
    by (rule remove_first_index [OF Some])
  have len: "?n \<le> length (publish_params l)" "?n \<le> length (sent_list l)"
    using wf by (simp_all add: pub_wf_def)
  show ?thesis
  proof (cases "k < ?n - 1")
    case True
    define l2 where "l2 = l\<lparr>publish_params := memmove_in k (k + 1) (?n - k - 1) (publish_params l),
        sent_list := memmove_in k (k + 1) (?n - k - 1) (sent_list l), pub_count := ?n - 1\<rparr>"
    have ack: "ack_list l = Some l2"
      using True by (simp add: ack_list_def Some Let_def l2_def)
    have "pub_wf l2"
      using True len k by (auto simp: l2_def pub_wf_def length_memmove_in)
    moreover have "pub_view l2 = take k (pub_view l) @ drop (Suc k) (pub_view l)"
      using take_memmove_zip [OF k len] by (simp add: l2_def pub_view_def)
    ultimately show ?thesis by (simp add: ack rem)
  next
    case False
    with k have n: "?n = Suc k" by simp
    have ack: "ack_list l = (if ?n - 1 = 0 then None else Some (l\<lparr>pub_count := ?n - 1\<rparr>))"
      using False by (simp add: ack_list_def Some Let_def)
    have "pub_view (l\<lparr>pub_count := ?n - 1\<rparr>) = take k (pub_view l)" "drop (Suc k) (pub_view l) = []"
      using len n by (simp_all add: pub_view_def)
    then show ?thesis using wf n by (auto simp: ack rem pub_wf_def)
  qed
qed

lemma publish_locked_spec:
  assumes wf: "pub_wf l" and r: "publish_locked ok c l p = (c', calls, ret)"
  shows "opt_wf (pending_pub c') \<and> ret \<in> {VOLC_OK, VOLC_ERR_MALLOC, VOLC_ERR_MQTT_PUB} \<and>
    opt_view (pending_pub c') = (if ret = VOLC_OK then pub_view l @ [(p, False)] else pub_view l) \<and>
    (ret = VOLC_OK \<longleftrightarrow> pub_count l \<le> 10 \<and> ok AllocParams \<and> ok AllocSent)"
proof -
  have len: "pub_count l \<le> length (publish_params l)" "pub_count l \<le> length (sent_list l)"
    using wf by (simp_all add: pub_wf_def)
  have grow: "pub_view \<lparr>publish_params = take n ps @ [p], sent_list = take n ss @ [False], pub_count = Suc n\<rparr>
      = take n (zip ps ss) @ [(p, False)]" if "n \<le> length ps" "n \<le> length ss" for n ps ss
    using that by (simp add: pub_view_def take_zip)
  obtain ps ss n where l: "l = \<lparr>publish_params = ps, sent_list = ss, pub_count = n\<rparr>" by (cases l)
  note [simp] = publish_locked_def publish_finish_def error_codes
  consider "n > 10" | "n \<le> 10" "\<not> ok AllocParams" | "n \<le> 10" "ok AllocParams" "\<not> ok AllocSent"
    | "n \<le> 10" "ok AllocParams" "ok AllocSent" by linarith
  then show ?thesis
  proof cases
    case 3
    then show ?thesis using r len
      by (auto simp: l pub_wf_def pub_view_def length_realloc_to take_zip take_realloc_to)
  next
    case 4
    then have "pending_pub c' = Some \<lparr>publish_params = take n ps @ [p], sent_list = take n ss @ [False],
        pub_count = Suc n\<rparr>" "ret = VOLC_OK"
      using r len by (auto simp: l realloc_append)
    with 4 show ?thesis using len grow [of n] by (simp add: l pub_wf_def pub_view_def take_zip)
  qed (use r wf in \<open>auto simp: l\<close>)
qed

end
