(* ===== verification/MqttProps.thy ===== *)
theory MqttProps
  imports MqttQueue
begin

text \<open>
  What the MQTT client of \<^verbatim>\<open>src/iot/iot_mqtt.c\<close> guarantees over whole histories of API calls
  and callbacks: bounded and well-formed publish queue, duplicate-free subscriptions, one QoS 1
  message in flight within a connection, progress of subscriptions, and the dispatch of
  received messages.
\<close>

section \<open>Effect of each operation on the queue\<close>

lemma send_loop_view:
  assumes "pub_wf l" "send_loop fails 0 l [] = (l', calls, w)"
    and "send_spec fails 0 (pub_view l) = (ms, calls', w')"
  shows "pub_wf l' \<and> pub_view l' = ms \<and> calls = calls' \<and> w = w'"
  using send_loop_done [OF assms(1), of 0 fails "[]"] assms(2,3) by (simp add: send_done_def)

lemma writeable_pub_spec:
  assumes wf: "opt_wf (pending_pub c)" and nw: "\<not> waiting_for_puback c"
    and r: "writeable_pub fails c = (c', calls, ret)"
    and s: "send_spec fails 0 (pub_queue c) = (ms, calls', w)"
  shows "opt_wf (pending_pub c') \<and> pub_queue c' = filter keep ms \<and> calls = calls' \<and>
    waiting_for_puback c' = w \<and> ret = 0"
proof (cases "pending_pub c")
  case None
  then show ?thesis using r s nw by (auto simp: writeable_pub_def pub_queue_opt_view)
next
  case (Some l)
  obtain l' calls2 w2 where l': "send_loop fails 0 l [] = (l', calls2, w2)"
    by (cases "send_loop fails 0 l []")
  have wfl: "pub_wf l" using wf Some by simp
  have s': "send_spec fails 0 (pub_view l) = (ms, calls', w)" using s Some by (simp add: pub_queue_opt_view)
  note sl = send_loop_view [OF wfl l' s']
  from sl have "opt_wf (compact_list l') \<and> opt_view (compact_list l') = filter keep ms"
    using compact_list_spec [of l'] by auto
  then show ?thesis
    using r nw Some l' sl by (auto simp: writeable_pub_def pub_queue_opt_view)
qed

lemma writeable_pub_frame:
  "writeable_pub fails c = (c', calls, ret) \<Longrightarrow>
     sub_topic_maps c' = sub_topic_maps c \<and> pending_sub c' = pending_sub c \<and>
     is_connected c' = is_connected c \<and> waiting_for_suback c' = waiting_for_suback c \<and>
     mq_config c' = mq_config c"
  by (auto simp: writeable_pub_def split: option.splits if_splits prod.splits)

lemma writeable_pub_waiting:
  "waiting_for_puback c \<Longrightarrow> writeable_pub fails c = (c, [], 0)"
  by (auto simp: writeable_pub_def split: option.splits)

lemma on_mqtt_ack_spec:
  assumes "opt_wf (pending_pub c)" "on_mqtt_ack c = (c', calls, ret)"
  shows "opt_wf (pending_pub c') \<and> \<not> waiting_for_puback c' \<and>
    pub_queue c' = (if waiting_for_puback c then remove_first in_flight (pub_queue c) else pub_queue c) \<and>
    sub_topic_maps c' = sub_topic_maps c"
proof (cases "waiting_for_puback c")
  case True
  then show ?thesis
    using assms ack_list_spec by (cases "pending_pub c") (auto simp: on_mqtt_ack_def pub_queue_opt_view)
next
  case False
  then show ?thesis using assms by (auto simp: on_mqtt_ack_def)
qed

lemma publish_finish_queue [simp]:
  "fst (publish_finish c ret) = c" "snd (snd (publish_finish c ret)) = ret"
  by (simp_all add: publish_finish_def)

lemma publish_locked_frame:
  "publish_locked ok c l p = (c', calls, ret) \<Longrightarrow>
     sub_topic_maps c' = sub_topic_maps c \<and> waiting_for_puback c' = waiting_for_puback c \<and>
     pending_sub c' = pending_sub c"
  by (auto simp: publish_locked_def publish_finish_def Let_def split: if_splits)

definition published :: "string \<Rightarrow> 8 word list \<Rightarrow> int \<Rightarrow> pub_param" where
  "published topic payload qos = \<lparr>pp_topic = topic, pp_topic_len = length topic,
     pp_payload = payload, pp_payload_len = length payload, pp_qos = qos\<rparr>"

lemma iot_mqtt_publish_spec:
  assumes wf: "opt_wf (pending_pub c)" and r: "iot_mqtt_publish ok c topic payload qos = (c', calls, ret)"
  shows "opt_wf (pending_pub c') \<and> ret \<in> {VOLC_OK, VOLC_ERR_MALLOC, VOLC_ERR_MQTT_PUB} \<and>
    pub_queue c' = (if ret = VOLC_OK then pub_queue c @ [(published topic payload qos, False)]
                    else pub_queue c) \<and>
    (ret = VOLC_OK \<longrightarrow> length (pub_queue c) \<le> 10) \<and>
    sub_topic_maps c' = sub_topic_maps c \<and> waiting_for_puback c' = waiting_for_puback c"
proof -
  let ?p = "published topic payload qos"
  define new where "new = \<lparr>publish_params = [], sent_list = [], pub_count = 0\<rparr>"
  have new: "pub_wf new" "pub_view new = []" "pub_count new = 0" by (simp_all add: new_def pub_wf_def pub_view_def)
  have locked: ?thesis if "publish_locked ok c l ?p = (c', calls, ret)" "pub_wf l" "pub_view l = pub_queue c" for l
  proof -
    have v: "opt_view (pending_pub c') = (if ret = VOLC_OK then pub_queue c @ [(?p, False)] else pub_queue c)"
      and o: "opt_wf (pending_pub c')" "ret \<in> {VOLC_OK, VOLC_ERR_MALLOC, VOLC_ERR_MQTT_PUB}"
      and n: "ret = VOLC_OK \<longrightarrow> pub_count l \<le> 10"
      using publish_locked_spec [OF that(2,1)] that(3) by metis+
    have "length (pub_queue c) = pub_count l" using length_pub_view [OF that(2)] that(3) by simp
    with v o n publish_locked_frame [OF that(1)] show ?thesis
      unfolding pub_queue_opt_view [of c'] by metis
  qed
  have fail: ?thesis if "c' = c" "ret = VOLC_ERR_MALLOC" using that wf by (simp add: error_codes)
  show ?thesis
  proof (cases "pending_pub c")
    case None
    consider "c' = c" "ret = VOLC_ERR_MALLOC" | "publish_locked ok c new ?p = (c', calls, ret)"
      using r None by (auto simp: iot_mqtt_publish_def Let_def publish_finish_def published_def new_def split: if_splits)
    then show ?thesis
    proof cases
      case 1 then show ?thesis by (rule fail)
    next
      case 2
      have "pub_view new = pub_queue c" using new None by (simp add: pub_queue_opt_view)
      then show ?thesis by (rule locked [OF 2 new(1)])
    qed
  next
    case (Some l)
    consider "c' = c" "ret = VOLC_ERR_MALLOC" | "publish_locked ok c l ?p = (c', calls, ret)"
      using r Some by (auto simp: iot_mqtt_publish_def Let_def published_def split: if_splits)
    then show ?thesis
    proof cases
      case 1 then show ?thesis by (rule fail)
    next
      case 2
      have "pub_wf l" "pub_view l = pub_queue c" using wf Some by (simp_all add: pub_queue_opt_view)
      then show ?thesis by (rule locked [OF 2])
    qed
  qed
qed

section \<open>Subscriptions\<close>

lemma append_sub_topic_frame:
  "sub_topic_maps (append_sub_topic ok c t) = sub_topic_maps c"
  "pending_pub (append_sub_topic ok c t) = pending_pub c"
  "waiting_for_puback (append_sub_topic ok c t) = waiting_for_puback c"
  "mq_config (append_sub_topic ok c t) = mq_config c"
  by (auto simp: append_sub_topic_def split: option.splits)

lemma resubscribe_frame:
  "sub_topic_maps (resubscribe ok i ts c) = sub_topic_maps c \<and>
   pending_pub (resubscribe ok i ts c) = pending_pub c \<and>
   waiting_for_puback (resubscribe ok i ts c) = waiting_for_puback c"
  by (induction ok i ts c rule: resubscribe.induct) (auto simp: append_sub_topic_frame)

lemma iot_mqtt_reconnect_frame:
  "iot_mqtt_reconnect wsi ok c = (c', calls, ret) \<Longrightarrow>
     sub_topic_maps c' = sub_topic_maps c \<and> pending_pub c' = pending_pub c \<and>
     waiting_for_puback c' = waiting_for_puback c"
  by (auto simp: iot_mqtt_reconnect_def iot_mqtt_disconnect_def iot_mqtt_connect_def Let_def
      resubscribe_frame split: if_splits)

lemma move_batch_distinct:
  "distinct (map tm_topic subs) \<Longrightarrow> distinct (map tm_topic (move_batch grow i ts subs))"
  by (induction grow i ts subs rule: move_batch.induct) auto

lemma move_batch_prefix: "prefix subs (move_batch grow i ts subs)"
  by (induction grow i ts subs rule: move_batch.induct) (auto intro: prefix_order.trans [rotated])

lemma move_batch_topics:
  "(\<And>k. grow k) \<Longrightarrow> set (map tm_topic (move_batch grow i ts subs)) = set (map tm_topic subs) \<union> set (map tm_topic ts)"
  by (induction grow i ts subs rule: move_batch.induct) auto

lemma writeable_sub_frame:
  "writeable_sub env c ts = (c', calls, ret) \<Longrightarrow>
     pending_pub c' = pending_pub c \<and> waiting_for_puback c' = waiting_for_puback c \<and>
     (distinct (subscribed_topics c) \<longrightarrow> distinct (subscribed_topics c'))"
  by (auto simp: writeable_sub_def Let_def subscribed_topics_def move_batch_distinct split: if_splits)

section \<open>Invariants of every history\<close>

text \<open>How one operation changes the publish queue: the only ways it ever changes.\<close>

definition queue_change :: "mqtt_ctx \<Rightarrow> mqtt_op \<Rightarrow> mqtt_ctx \<Rightarrow> bool" where
  "queue_change c op c' \<longleftrightarrow> opt_wf (pending_pub c') \<and>
     (distinct (subscribed_topics c) \<longrightarrow> distinct (subscribed_topics c')) \<and>
     ((pub_queue c' = pub_queue c \<and>
         (waiting_for_puback c' = waiting_for_puback c \<or>
          ((\<exists>w. op = OpCallback w ClientEstablished) \<and> \<not> waiting_for_puback c')))
       \<or> (\<exists>p. pub_queue c' = pub_queue c @ [(p, False)] \<and> length (pub_queue c) \<le> 10 \<and>
              waiting_for_puback c' = waiting_for_puback c)
       \<or> (\<exists>fails ms calls. \<not> waiting_for_puback c \<and>
              send_spec fails 0 (pub_queue c) = (ms, calls, waiting_for_puback c') \<and>
              pub_queue c' = filter keep ms)
       \<or> ((\<exists>w. op = OpCallback w MqttAck) \<and> waiting_for_puback c \<and> \<not> waiting_for_puback c' \<and>
              pub_queue c' = remove_first in_flight (pub_queue c)))"

lemma callback_queue_change:
  assumes wf: "opt_wf (pending_pub c)" and r: "callback_mqtt wsi e c = Inr (c', calls, ret)"
  shows "queue_change c (OpCallback wsi e) c'"
proof -
  define c0 where "c0 = c\<lparr>mq_wsi := Some wsi\<rparr>"
  have c0: "pub_queue c0 = pub_queue c" "opt_wf (pending_pub c0)" "subscribed_topics c0 = subscribed_topics c"
    "waiting_for_puback c0 = waiting_for_puback c"
    using wf by (simp_all add: c0_def pub_queue_opt_view subscribed_topics_def)
  have r0: "mqtt_case e c0 = Inr (c', calls, ret)" using r by (simp add: callback_mqtt_def c0_def)
  have pubs: "queue_change c (OpCallback wsi e) c'" if w: "writeable_pub fails c0 = (c', calls, ret)" for fails
  proof (cases "waiting_for_puback c0")
    case True
    then show ?thesis using w c0 by (auto simp: writeable_pub_waiting queue_change_def)
  next
    case False
    obtain ms calls' wt where s: "send_spec fails 0 (pub_queue c0) = (ms, calls', wt)"
      by (cases "send_spec fails 0 (pub_queue c0)")
    show ?thesis
      unfolding queue_change_def
      using writeable_pub_spec [OF c0(2) False w s] writeable_pub_frame [OF w] s c0 False
      by (metis c0(3) subscribed_topics_def)
  qed
  show ?thesis
  proof (cases e)
    case (ClientClosed wsi2 ok)
    obtain c2 calls2 ret2 where rc: "iot_mqtt_reconnect wsi2 ok (c0\<lparr>is_connected := False\<rparr>) = (c2, calls2, ret2)"
      by (cases "iot_mqtt_reconnect wsi2 ok (c0\<lparr>is_connected := False\<rparr>)")
    show ?thesis
      using ClientClosed r0 c0 iot_mqtt_reconnect_frame [OF rc]
      by (auto simp: queue_change_def rc pub_queue_opt_view subscribed_topics_def Let_def split: if_splits)
  next
    case (ClientWriteable env)
    show ?thesis
    proof (cases "waiting_for_suback c0")
      case True
      then show ?thesis using ClientWriteable r0 c0 by (auto simp: on_client_writeable_def queue_change_def)
    next
      case False
      show ?thesis
      proof (cases "\<exists>t ts. pending_sub c0 = Some (t # ts)")
        case True
        then obtain t ts where "writeable_sub env c0 (t # ts) = (c', calls, ret)"
          using ClientWriteable r0 False by (auto simp: on_client_writeable_def)
        from writeable_sub_frame [OF this] c0 show ?thesis
          by (auto simp: queue_change_def pub_queue_opt_view)
      next
        case none: False
        then have "writeable_pub (we_pub_fails env) c0 = (c', calls, ret)"
          using ClientWriteable r0 False
          by (auto simp: on_client_writeable_def split: option.splits list.splits)
        then show ?thesis by (rule pubs)
      qed
    qed
  next
    case MqttAck
    then have a: "on_mqtt_ack c0 = (c', calls, ret)" using r0 by simp
    show ?thesis
      using on_mqtt_ack_spec [OF c0(2) a] c0 MqttAck
      by (auto simp: queue_change_def subscribed_topics_def split: if_splits)
  next
    case (ClientRx rx payload)
    then show ?thesis
      using r0 c0 by (auto simp: on_client_rx_def c_bind_Inr_iff queue_change_def split: option.splits)
  qed (use r0 c0 in \<open>auto simp: queue_change_def pub_queue_opt_view subscribed_topics_def
         on_mqtt_subscribed_def Let_def c_bind_Inr_iff split: if_splits\<close>)
qed

lemma exec_queue_change:
  assumes wf: "opt_wf (pending_pub c)" and r: "mqtt_exec op c = Inr (c', calls, ret)"
  shows "queue_change c op c'"
proof (cases op)
  case (OpPublish ok topic payload qos)
  then have p: "iot_mqtt_publish ok c topic payload qos = (c', calls, ret)" using r by simp
  show ?thesis
    using iot_mqtt_publish_spec [OF wf p] by (auto simp: queue_change_def subscribed_topics_def split: if_splits)
next
  case (OpSubscribe ok t)
  then show ?thesis
    using r wf
    by (auto simp: iot_mqtt_subscribe_def queue_change_def pub_queue_opt_view subscribed_topics_def
        append_sub_topic_frame split: if_splits)
next
  case (OpReconnect wsi ok)
  then have "iot_mqtt_reconnect wsi ok c = (c', calls, ret)" using r by simp
  from iot_mqtt_reconnect_frame [OF this] wf show ?thesis
    by (auto simp: queue_change_def pub_queue_opt_view subscribed_topics_def)
next
  case (OpCallback wsi e)
  then show ?thesis using callback_queue_change [OF wf] r by auto
qed (use r wf in \<open>auto simp: queue_change_def pub_queue_opt_view subscribed_topics_def
       iot_mqtt_connect_def iot_mqtt_disconnect_def Let_def\<close>)

section \<open>Properties of sending\<close>

lemma send_spec_length: "send_spec fails i q = (ms, calls, w) \<Longrightarrow> length ms = length q"
  by (induction fails i q arbitrary: ms calls w rule: send_spec.induct) (auto split: if_splits prod.splits)

lemma send_spec_in_flight:
  "send_spec fails i q = (ms, calls, w) \<Longrightarrow>
     length (filter in_flight ms) = length (filter in_flight q) + (if w then 1 else 0)"
  by (induction fails i q arbitrary: ms calls w rule: send_spec.induct)
     (auto simp: in_flight_def qos_defs split: if_splits prod.splits)

lemma send_spec_calls:
  "send_spec fails i q = (ms, calls, w) \<Longrightarrow> set calls \<subseteq> {SendPublish p |p. (p, False) \<in> set q}"
  by (induction fails i q arbitrary: ms calls w rule: send_spec.induct) (auto split: if_splits prod.splits)

lemma send_spec_all_in_flight:
  "\<forall>m\<in>set q. in_flight m \<Longrightarrow> send_spec fails i q = (q, [], False)"
  by (induction fails i q rule: send_spec.induct) (auto simp: in_flight_def)

lemma filter_in_flight_keep: "filter in_flight (filter keep ms) = filter in_flight ms"
  by (induction ms) (auto simp: in_flight_def keep_def is_sent_qos0_def)

lemma filter_keep_all_in_flight: "\<forall>m\<in>set q. in_flight m \<Longrightarrow> filter keep q = q"
  by (induction q) (auto simp: in_flight_def keep_def is_sent_qos0_def)

section \<open>The invariants\<close>

definition mqtt_inv :: "mqtt_ctx \<Rightarrow> bool" where
  "mqtt_inv c \<longleftrightarrow> opt_wf (pending_pub c) \<and> length (pub_queue c) \<le> 11 \<and> distinct (subscribed_topics c)"

lemma mqtt_inv_step: "mqtt_inv c \<Longrightarrow> mqtt_step c l c' \<Longrightarrow> mqtt_inv c'"
proof -
  assume inv: "mqtt_inv c" and "mqtt_step c l c'"
  then obtain op calls ret where "mqtt_exec op c = Inr (c', calls, ret)"
    by (cases l) (auto simp: mqtt_step_iff)
  with inv have ch: "queue_change c op c'" by (auto simp: mqtt_inv_def intro: exec_queue_change)
  have wf: "opt_wf (pending_pub c')" "distinct (subscribed_topics c')"
    using ch inv by (simp_all add: queue_change_def mqtt_inv_def)
  have n: "length (pub_queue c) \<le> 11" using inv by (simp add: mqtt_inv_def)
  from ch [unfolded queue_change_def, THEN conjunct2, THEN conjunct2]
  have "length (pub_queue c') \<le> 11"
  proof (elim disjE conjE exE)
    fix fails ms cs
    assume "send_spec fails 0 (pub_queue c) = (ms, cs, waiting_for_puback c')" "pub_queue c' = filter keep ms"
    with n show ?thesis using length_filter_le [of keep ms] by (simp add: send_spec_length)
  next
    assume "pub_queue c' = remove_first in_flight (pub_queue c)"
    with n show ?thesis by (auto simp: length_remove_first)
  qed (use n in auto)
  with wf show "mqtt_inv c'" by (simp add: mqtt_inv_def)
qed

definition one_in_flight :: "mqtt_ctx \<Rightarrow> bool" where
  "one_in_flight c \<longleftrightarrow> opt_wf (pending_pub c) \<and>
     length (filter in_flight (pub_queue c)) = (if waiting_for_puback c then 1 else 0)"

lemma mqtt_init_invs:
  "mqtt_init_state c \<Longrightarrow> mqtt_inv c" "mqtt_init_state c \<Longrightarrow> one_in_flight c"
  by (auto simp: mqtt_init_state_def cleared_ctx_def mqtt_inv_def one_in_flight_def pub_queue_def
      subscribed_topics_def)

interpretation mqtt: invariant_system mqtt_init_state mqtt_step mqtt_inv
  by unfold_locales (erule mqtt_init_invs(1), rule mqtt_inv_step)

text \<open>Histories in which a connection is not re-established while an acknowledgement is due.\<close>

definition mqtt_conn_step :: "mqtt_ctx \<Rightarrow> mqtt_op \<times> lws_call list \<Rightarrow> mqtt_ctx \<Rightarrow> bool" where
  "mqtt_conn_step c l c' \<longleftrightarrow> mqtt_step c l c' \<and>
     (waiting_for_puback c \<longrightarrow> (\<forall>w. fst l \<noteq> OpCallback w ClientEstablished))"

lemma one_in_flight_step:
  assumes inv: "one_in_flight c" and st: "mqtt_conn_step c l c'"
  shows "one_in_flight c'"
proof -
  obtain op calls ret where l: "l = (op, calls)" and r: "mqtt_exec op c = Inr (c', calls, ret)"
    using st by (cases l) (auto simp: mqtt_conn_step_def mqtt_step_iff)
  have ch: "queue_change c op c'" using inv r by (auto simp: one_in_flight_def intro: exec_queue_change)
  have est: "waiting_for_puback c \<longrightarrow> (\<forall>w. op \<noteq> OpCallback w ClientEstablished)"
    using st by (simp add: mqtt_conn_step_def l)
  have wf: "opt_wf (pending_pub c')" using ch by (simp add: queue_change_def)
  have cnt: "length (filter in_flight (pub_queue c)) = (if waiting_for_puback c then 1 else 0)"
    using inv by (simp add: one_in_flight_def)
  from ch [unfolded queue_change_def, THEN conjunct2, THEN conjunct2]
  show ?thesis
  proof (elim disjE conjE exE)
    assume "pub_queue c' = pub_queue c" "waiting_for_puback c' = waiting_for_puback c"
    with cnt wf show ?thesis by (simp add: one_in_flight_def)
  next
    fix w assume "pub_queue c' = pub_queue c" "op = OpCallback w ClientEstablished" "\<not> waiting_for_puback c'"
    with cnt wf est show ?thesis by (auto simp: one_in_flight_def)
  next
    fix p assume "pub_queue c' = pub_queue c @ [(p, False)]" "waiting_for_puback c' = waiting_for_puback c"
    with cnt wf show ?thesis by (simp add: one_in_flight_def in_flight_def)
  next
    fix fails ms cs
    assume "\<not> waiting_for_puback c" "send_spec fails 0 (pub_queue c) = (ms, cs, waiting_for_puback c')"
      "pub_queue c' = filter keep ms"
    with cnt wf send_spec_in_flight [of fails 0 "pub_queue c" ms cs "waiting_for_puback c'"]
    show ?thesis unfolding one_in_flight_def by (simp only: filter_in_flight_keep) simp
  next
    assume "waiting_for_puback c" "\<not> waiting_for_puback c'"
      "pub_queue c' = remove_first in_flight (pub_queue c)"
    with cnt wf show ?thesis by (simp add: one_in_flight_def filter_remove_first_same)
  qed
qed

interpretation mqtt_conn: invariant_system mqtt_init_state mqtt_conn_step one_in_flight
  by unfold_locales (erule mqtt_init_invs(2), rule one_in_flight_step)

text \<open>The state in which the queue is full of messages that are marked as sent and no acknowledgement is awaited.\<close>

definition wedged :: "mqtt_ctx \<Rightarrow> bool" where
  "wedged c \<longleftrightarrow> opt_wf (pending_pub c) \<and> length (pub_queue c) = 11 \<and>
     (\<forall>m\<in>set (pub_queue c). in_flight m) \<and> \<not> waiting_for_puback c"

lemma wedged_step:
  assumes w: "wedged c" and st: "mqtt_step c l c'"
  shows "wedged c' \<and> pub_queue c' = pub_queue c"
proof -
  obtain op calls ret where "mqtt_exec op c = Inr (c', calls, ret)"
    using st by (cases l) (auto simp: mqtt_step_iff)
  with w have ch: "queue_change c op c'" by (auto simp: wedged_def intro: exec_queue_change)
  have snd: "send_spec fails 0 (pub_queue c) = (pub_queue c, [], False)" for fails
    using w by (simp add: wedged_def send_spec_all_in_flight)
  have flt: "filter keep (pub_queue c) = pub_queue c"
    using w by (simp add: wedged_def filter_keep_all_in_flight)
  from ch w snd flt show ?thesis
    by (auto simp: queue_change_def wedged_def)
qed

interpretation wedge: invariant_system "\<lambda>s. wedged s \<and> pub_queue s = q" mqtt_step
    "\<lambda>s. wedged s \<and> pub_queue s = q" for q
  by unfold_locales (auto dest: wedged_step)

section \<open>Dispatch of received messages\<close>

lemma topic_matches_iff:
  "sub \<noteq> [] \<Longrightarrow> topic_matches rx sub =
     Inr (prefix rx sub \<or> last sub = CHR ''+'' \<and> prefix (butlast sub) rx)"
  by (auto simp: topic_matches_def strncmp_eq_prefix strncmp_eq_def butlast_conv_take prefix_def)
     (metis append_take_drop_id)+

lemma find_subscription_first:
  assumes "\<forall>t\<in>set ts. tm_topic t \<noteq> []"
  shows "find_subscription rx ts = Inr (find (\<lambda>t. prefix rx (tm_topic t) \<or>
           last (tm_topic t) = CHR ''+'' \<and> prefix (butlast (tm_topic t)) rx) ts)"
  using assms by (induction ts) (auto simp: topic_matches_iff)

section \<open>Subscription progress\<close>

definition good_env :: writeable_env where
  "good_env = \<lparr>we_alloc_topics = True, we_sub_fails = False, we_grow = (\<lambda>_. True), we_pub_fails = (\<lambda>_. False)\<rparr>"

definition sub_round :: "nat \<Rightarrow> mqtt_op list" where
  "sub_round w = [OpCallback w (ClientWriteable good_env), OpCallback w MqttSubscribed]"

lemma good_env_simps [simp]:
  "we_alloc_topics good_env" "\<not> we_sub_fails good_env" "we_grow good_env = (\<lambda>_. True)"
  by (simp_all add: good_env_def)

lemma on_client_writeable_pending:
  "pending_sub c = Some ts \<Longrightarrow> ts \<noteq> [] \<Longrightarrow> \<not> waiting_for_suback c \<Longrightarrow>
     on_client_writeable env c = writeable_sub env c ts"
  by (cases ts) (simp_all add: on_client_writeable_def)

lemma sub_round_step:
  assumes ts: "pending_sub c = Some ts" "ts \<noteq> []" "\<not> waiting_for_suback c"
  shows "\<exists>c' calls. mqtt_run (sub_round w) c = Inr (c', calls) \<and> \<not> waiting_for_suback c' \<and>
    pending_sub c' = (if length ts \<le> 7 then None else Some (drop 7 ts)) \<and>
    set (subscribed_topics c') = set (subscribed_topics c) \<union> tm_topic ` set (take 7 ts)"
proof -
  let ?c = "c\<lparr>mq_wsi := Some w\<rparr>"
  have mv: "tm_topic ` set (move_batch (\<lambda>_. True) 0 b subs) = tm_topic ` set subs \<union> tm_topic ` set b" for b subs
    using move_batch_topics [of "\<lambda>_. True" 0 b subs] by simp
  have wr: "on_client_writeable good_env ?c = writeable_sub good_env ?c ts"
    by (rule on_client_writeable_pending) (use ts in simp_all)
  obtain c1 calls where w: "writeable_sub good_env ?c ts = (c1, calls, 0)"
    and c1: "pending_sub c1 = (if length ts \<le> 7 then None else Some (drop 7 ts))"
      "set (subscribed_topics c1) = set (subscribed_topics c) \<union> tm_topic ` set (take 7 ts)"
    using ts by (cases "length ts > 7") (auto simp: writeable_sub_def Let_def subscribed_topics_def mv)
  obtain c2 calls2 where s: "on_mqtt_subscribed (c1\<lparr>mq_wsi := Some w\<rparr>) = (c2, calls2, 0)"
    and c2: "\<not> waiting_for_suback c2" "pending_sub c2 = pending_sub c1"
      "subscribed_topics c2 = subscribed_topics c1"
    by (simp add: on_mqtt_subscribed_def Let_def subscribed_topics_def)
  have "mqtt_run (sub_round w) c = Inr (c2, calls @ calls2)"
    by (simp add: sub_round_def callback_mqtt_def wr w s)
  with c1 c2 show ?thesis by auto
qed

lemma mqtt_run_append:
  "mqtt_run (xs @ ys) c = c_bind (mqtt_run xs c) (\<lambda>(c1, k1).
     c_bind (mqtt_run ys c1) (\<lambda>(c2, k2). Inr (c2, k1 @ k2)))"
proof (induction xs arbitrary: c)
  case Nil
  show ?case by (cases "mqtt_run ys c") auto
next
  case (Cons x xs)
  then show ?case
    by (cases "mqtt_exec x c") (auto simp: c_bind_assoc case_prod_beta)
qed

lemma mqtt_run_reaches:
  assumes "mqtt_run ops c = Inr (c', calls)" "reaches I mqtt_step tr c"
  shows "\<exists>tr'. reaches I mqtt_step tr' c'"
  using assms
proof (induction ops arbitrary: c calls tr)
  case (Cons op ops)
  then obtain c1 k1 r1 k2 where st: "mqtt_exec op c = Inr (c1, k1, r1)" "mqtt_run ops c1 = Inr (c', k2)"
    by (auto simp: c_bind_Inr_iff)
  then have "reaches I mqtt_step (tr @ [(op, k1)]) c1"
    using Cons.prems(2) by (intro reaches.step) (auto intro: mqtt_stepI)
  then show ?case using Cons.IH st(2) by blast
qed auto

end
