(* ===== verification/MqttTheorems.thy ===== *)
theory MqttTheorems
  imports MqttProps
begin

text \<open>
  The properties of the MQTT client of \<^verbatim>\<open>src/iot/iot_mqtt.c\<close>, over single operations and over
  every history of API calls and callbacks, each with a concrete instance.
\<close>

section \<open>Sample states\<close>

definition all_ok :: "'a \<Rightarrow> bool" where "all_ok x = True"

definition sample_cfg :: mqtt_config where
  "sample_cfg = \<lparr>mqtt_host = ''h'', mq_basic = None, mq_username = None, mq_password = None,
     keep_alive = 60, auto_reconnect = False, ping_interval = 60, enable_mqtts = False\<rparr>"

definition sample_ctx :: mqtt_ctx where "sample_ctx = cleared_ctx sample_cfg"

definition sample_ops :: "int \<Rightarrow> mqtt_op list" where
  "sample_ops qos = [OpCallback 1 ClientEstablished, OpPublish all_ok ''t'' [1] qos,
     OpCallback 1 (ClientWriteable good_env)]"

lemma sample_reaches: "mqtt_reaches [] sample_ctx"
  by (rule reaches.start) (auto simp: mqtt_init_state_def sample_ctx_def)

lemma mqtt_run_from_sample:
  "mqtt_run ops sample_ctx = Inr (c, calls) \<Longrightarrow> \<exists>tr. mqtt_reaches tr c"
  by (rule mqtt_run_reaches [OF _ sample_reaches])

text \<open>A client with no subscription work whose queue holds only messages in flight.\<close>

definition calm :: "mqtt_ctx \<Rightarrow> bool" where
  "calm c \<longleftrightarrow> opt_wf (pending_pub c) \<and> pending_sub c = None \<and> \<not> waiting_for_suback c \<and>
     (\<forall>m\<in>set (pub_queue c). in_flight m) \<and> mq_config c = sample_cfg"

lemma send_spec_append_new:
  "\<forall>m\<in>set q. in_flight m \<Longrightarrow> pp_qos p = QOS1 \<Longrightarrow>
     send_spec (\<lambda>_. False) i (q @ [(p, False)]) = (q @ [(p, True)], [SendPublish p], True)"
  by (induction "\<lambda>_::nat. False" i q rule: send_spec.induct) (auto simp: in_flight_def qos_defs)

lemma publish_ok_all_ok:
  "length (pub_queue c) \<le> 10 \<Longrightarrow> opt_wf (pending_pub c) \<Longrightarrow>
     snd (snd (iot_mqtt_publish all_ok c t p q)) = VOLC_OK"
  by (auto simp: iot_mqtt_publish_def publish_locked_def Let_def all_ok_def pub_queue_opt_view
      length_pub_view split: option.splits)

lemma iot_mqtt_publish_frame:
  "iot_mqtt_publish ok c t p q = (c', calls, ret) \<Longrightarrow>
     pending_sub c' = pending_sub c \<and> waiting_for_suback c' = waiting_for_suback c \<and> mq_config c' = mq_config c"
  by (auto simp: iot_mqtt_publish_def publish_locked_def publish_finish_def Let_def
      split: if_splits option.splits)

lemma publish_and_send:
  assumes c: "calm c" "\<not> waiting_for_puback c" "length (pub_queue c) \<le> 10"
  shows "\<exists>c' calls. mqtt_run [OpPublish all_ok t pl 1, OpCallback 1 (ClientWriteable good_env)] c = Inr (c', calls) \<and>
    calm c' \<and> waiting_for_puback c' \<and> pub_queue c' = pub_queue c @ [(published t pl 1, True)]"
proof -
  let ?p = "published t pl 1"
  have wf: "opt_wf (pending_pub c)" using c by (simp add: calm_def)
  obtain c1 k1 r1 where p: "iot_mqtt_publish all_ok c t pl 1 = (c1, k1, r1)"
    by (cases "iot_mqtt_publish all_ok c t pl 1")
  have r1: "r1 = VOLC_OK" using publish_ok_all_ok [OF c(3) wf, of t pl 1] p by simp
  have q1: "pub_queue c1 = pub_queue c @ [(?p, False)]" "opt_wf (pending_pub c1)" "\<not> waiting_for_puback c1"
    using iot_mqtt_publish_spec [OF wf p] r1 c(2) by auto
  define c2 where "c2 = c1\<lparr>mq_wsi := Some 1\<rparr>"
  have c2: "pub_queue c2 = pub_queue c @ [(?p, False)]" "opt_wf (pending_pub c2)" "\<not> waiting_for_puback c2"
    "pending_sub c2 = None" "\<not> waiting_for_suback c2" "mq_config c2 = sample_cfg"
    using q1 iot_mqtt_publish_frame [OF p] c by (simp_all add: c2_def pub_queue_opt_view calm_def)
  obtain c3 k3 r3 where w: "writeable_pub (\<lambda>_. False) c2 = (c3, k3, r3)"
    by (cases "writeable_pub (\<lambda>_. False) c2")
  have all: "\<forall>m\<in>set (pub_queue c). in_flight m" using c by (simp add: calm_def)
  have s: "send_spec (\<lambda>_. False) 0 (pub_queue c2) = (pub_queue c @ [(?p, True)], [SendPublish ?p], True)"
    using send_spec_append_new [OF all, of ?p 0] by (simp add: c2 published_def qos_defs)
  have fl: "in_flight (?p, True)" by (simp add: in_flight_def published_def qos_defs)
  have k: "filter keep (pub_queue c @ [(?p, True)]) = pub_queue c @ [(?p, True)]"
    by (rule filter_keep_all_in_flight) (use all fl in auto)
  have c3: "pub_queue c3 = pub_queue c @ [(?p, True)]" "waiting_for_puback c3" "opt_wf (pending_pub c3)"
    using writeable_pub_spec [OF c2(2,3) w s] by (simp_all only: k)
  have "on_client_writeable good_env c2 = (c3, k3, r3)"
    using w c2 by (simp add: on_client_writeable_def good_env_def)
  then have cb: "callback_mqtt 1 (ClientWriteable good_env) c1 = Inr (c3, k3, r3)"
    by (simp add: callback_mqtt_def c2_def)
  have run: "mqtt_run [OpPublish all_ok t pl 1, OpCallback 1 (ClientWriteable good_env)] c = Inr (c3, k1 @ k3)"
    by (simp only: mqtt_run.simps mqtt_exec.simps p cb c_bind_simps prod.case append_Nil2)
  have "calm c3" using c3 writeable_pub_frame [OF w] c2 all fl by (simp add: calm_def)
  with run c3 show ?thesis by blast
qed

lemma calm_sample: "calm sample_ctx" "\<not> waiting_for_puback sample_ctx" "pub_queue sample_ctx = []"
  by (simp_all add: sample_ctx_def calm_def cleared_ctx_def pub_queue_def)

lemma one_sent_reachable:
  "\<exists>tr c. mqtt_reaches tr c \<and> waiting_for_puback c \<and> pub_queue c = [(published ''t'' [1] 1, True)]"
proof -
  obtain c calls where "mqtt_run [OpPublish all_ok ''t'' [1] 1, OpCallback 1 (ClientWriteable good_env)] sample_ctx = Inr (c, calls)"
    "waiting_for_puback c" "pub_queue c = [(published ''t'' [1] 1, True)]"
    using publish_and_send [OF calm_sample(1,2), of "''t''" "[1]"] calm_sample(3) by auto
  with mqtt_run_from_sample show ?thesis by blast
qed

section \<open>Sending\<close>

lemma subseq_map_filter: "subseq (map f (filter P xs)) (map f xs)"
  by (induction xs) auto

lemma send_spec_fst: "send_spec fails i q = (ms, calls, w) \<Longrightarrow> map fst ms = map fst q"
  by (induction fails i q arbitrary: ms calls w rule: send_spec.induct) (auto split: if_splits prod.splits)



text \<open>
  C19. A publish either appends exactly one unsent message with the caller's topic, payload and
  QoS and returns \<open>VOLC_OK\<close>, or returns an allocation or queue-full error and leaves the queue
  as it was; it is accepted only below eleven messages.
\<close>

theorem mqtt_publish_appends_or_rejects:
  assumes "mqtt_reaches tr c" "iot_mqtt_publish ok c topic payload qos = (c', calls, ret)"
  shows "ret \<in> {VOLC_OK, VOLC_ERR_MALLOC, VOLC_ERR_MQTT_PUB} \<and>
    pub_queue c' = (if ret = VOLC_OK then pub_queue c @ [(published topic payload qos, False)]
                    else pub_queue c) \<and>
    (ret = VOLC_OK \<longrightarrow> length (pub_queue c) \<le> 10)"
  using iot_mqtt_publish_spec [OF _ assms(2)] mqtt.reaches_inv [OF assms(1)]
  by (simp add: mqtt_inv_def)

lemma mqtt_publish_appends_or_rejects_witness:
  "\<exists>c'. fst (iot_mqtt_publish all_ok sample_ctx ''t'' [1] 1) = c' \<and>
     pub_queue c' = [(published ''t'' [1] 1, False)]"
proof -
  obtain c' calls ret where r: "iot_mqtt_publish all_ok sample_ctx ''t'' [1] 1 = (c', calls, ret)"
    by (cases "iot_mqtt_publish all_ok sample_ctx ''t'' [1] 1")
  have "ret = VOLC_OK"
    using r by (auto simp: sample_ctx_def cleared_ctx_def all_ok_def iot_mqtt_publish_def
        publish_locked_def publish_finish_def Let_def)
  moreover have "pub_queue sample_ctx = []" by (simp add: sample_ctx_def cleared_ctx_def pub_queue_def)
  ultimately show ?thesis using mqtt_publish_appends_or_rejects [OF sample_reaches r] r by simp
qed

text \<open>
  C3. In every state the client reaches, the publish queue holds at most eleven messages, its
  count fits both arrays, and no topic is subscribed twice.
\<close>

theorem mqtt_reachable_bounds:
  assumes "mqtt_reaches tr c"
  shows "length (pub_queue c) \<le> 11 \<and> opt_wf (pending_pub c) \<and> distinct (subscribed_topics c)"
  using mqtt.reaches_inv [OF assms] by (simp add: mqtt_inv_def)

lemma mqtt_reachable_bounds_witness:
  "length (pub_queue sample_ctx) \<le> 11 \<and> distinct (subscribed_topics sample_ctx)"
  using mqtt_reachable_bounds [OF sample_reaches] by simp



text \<open>
  C28. A message of QoS 1 that the queue holds stays in it through every operation other than
  the callback that reports an acknowledgement, so it is never lost silently.
\<close>

theorem mqtt_qos1_kept_until_ack:
  assumes "mqtt_reaches tr c" "mqtt_exec op c = Inr (c', calls, ret)"
    and "\<forall>w. op \<noteq> OpCallback w MqttAck"
    and "p \<in> set (map fst (pub_queue c))" "pp_qos p \<noteq> QOS0"
  shows "p \<in> set (map fst (pub_queue c'))"
proof -
  have "queue_change c op c'"
    using mqtt.reaches_inv [OF assms(1)] assms(2) by (auto simp: mqtt_inv_def intro: exec_queue_change)
  from this [unfolded queue_change_def, THEN conjunct2, THEN conjunct2] show ?thesis
  proof (elim disjE conjE exE)
    fix fails ms cs
    assume "send_spec fails 0 (pub_queue c) = (ms, cs, waiting_for_puback c')" and q: "pub_queue c' = filter keep ms"
    then have "p \<in> set (map fst ms)" using assms(4) by (simp add: send_spec_fst)
    then show ?thesis using assms(5) by (auto simp: q keep_def is_sent_qos0_def)
  qed (use assms in auto)
qed

lemma mqtt_qos1_kept_until_ack_witness:
  "\<exists>c c'. mqtt_exec (OpCallback 1 (ClientWriteable good_env)) c = Inr c' \<and>
     published ''t'' [1] 1 \<in> set (map fst (pub_queue (fst c')))"
proof -
  obtain c' calls ret where r: "iot_mqtt_publish all_ok sample_ctx ''t'' [1] 1 = (c', calls, ret)"
    and p: "published ''t'' [1] 1 \<in> set (map fst (pub_queue c'))"
    by (auto simp: sample_ctx_def cleared_ctx_def all_ok_def iot_mqtt_publish_def publish_locked_def
        Let_def publish_finish_def pub_queue_def pub_view_def published_def realloc_to_def)
  have "mqtt_run [OpPublish all_ok ''t'' [1] 1] sample_ctx = Inr (c', calls)" by (simp add: r)
  then obtain tr where t: "mqtt_reaches tr c'" using mqtt_run_from_sample by blast
  obtain c2 calls2 ret2 where s: "mqtt_exec (OpCallback 1 (ClientWriteable good_env)) c' = Inr (c2, calls2, ret2)"
    by (cases "mqtt_exec (OpCallback 1 (ClientWriteable good_env)) c'") (auto simp: callback_mqtt_def)
  from mqtt_qos1_kept_until_ack [OF t s _ p] s show ?thesis
    by (auto simp: published_def qos_defs)
qed

section \<open>Acknowledgements\<close>

text \<open>
  C4. Within a connection (no new connection is established while an acknowledgement is due)
  exactly one QoS 1 message is in flight when the client waits for an acknowledgement and none
  otherwise.
\<close>

theorem mqtt_one_in_flight:
  assumes "reaches mqtt_init_state mqtt_conn_step tr c"
  shows "length (filter in_flight (pub_queue c)) = (if waiting_for_puback c then 1 else 0)"
  using mqtt_conn.reaches_inv [OF assms] by (simp add: one_in_flight_def)

lemma mqtt_one_in_flight_witness:
  "filter in_flight (pub_queue sample_ctx) = []"
proof -
  have "reaches mqtt_init_state mqtt_conn_step [] sample_ctx"
    by (rule reaches.start) (auto simp: mqtt_init_state_def sample_ctx_def)
  from mqtt_one_in_flight [OF this] show ?thesis
    by (simp add: sample_ctx_def cleared_ctx_def)
qed

text \<open>
  An acknowledgement that is awaited removes the first QoS 1 message in flight from the
  arrays, by the shifting of \<^verbatim>\<open>memmove\<close>, and nothing else; one that is not awaited changes
  nothing.
\<close>

theorem mqtt_ack_removes_first_in_flight:
  assumes "mqtt_reaches tr c" "on_mqtt_ack c = (c', calls, ret)"
  shows "pub_queue c' = (if waiting_for_puback c then remove_first in_flight (pub_queue c) else pub_queue c) \<and>
    \<not> waiting_for_puback c' \<and> opt_wf (pending_pub c')"
  using on_mqtt_ack_spec [OF _ assms(2)] mqtt.reaches_inv [OF assms(1)] by (simp add: mqtt_inv_def)

lemma mqtt_ack_removes_first_in_flight_witness:
  "\<exists>c. waiting_for_puback c \<and> pub_queue c = [(published ''t'' [1] 1, True)] \<and>
     pub_queue (fst (on_mqtt_ack c)) = [] \<and> \<not> waiting_for_puback (fst (on_mqtt_ack c))"
proof -
  obtain tr c where c: "mqtt_reaches tr c" "waiting_for_puback c" "pub_queue c = [(published ''t'' [1] 1, True)]"
    using one_sent_reachable by blast
  obtain c' calls ret where r: "on_mqtt_ack c = (c', calls, ret)" by (cases "on_mqtt_ack c")
  from mqtt_ack_removes_first_in_flight [OF c(1) r] r c show ?thesis
    by (intro exI [of _ c]) (simp add: in_flight_def published_def qos_defs)
qed

text \<open>
  C36. Once the queue is full of messages marked as sent while no acknowledgement is awaited,
  no later operation changes it: every publish fails, whatever the client does, including
  acknowledgements and new connections. The witness reaches such a state: eleven times,
  publish, send, and re-establish the connection before the acknowledgement.
\<close>

theorem mqtt_wedged_forever:
  assumes "wedged c" "reaches (\<lambda>s. s = c) mqtt_step tr c'"
  shows "pub_queue c' = pub_queue c \<and> snd (snd (iot_mqtt_publish ok c' topic payload qos)) \<noteq> VOLC_OK"
proof -
  have "reaches (\<lambda>s. wedged s \<and> pub_queue s = pub_queue c) mqtt_step tr c'"
    using assms(2,1) by (induction rule: reaches.induct) (auto intro: reaches.intros)
  from wedge.reaches_inv [OF this] have w: "wedged c'" "pub_queue c' = pub_queue c" by simp_all
  obtain c2 calls ret where p: "iot_mqtt_publish ok c' topic payload qos = (c2, calls, ret)"
    by (cases "iot_mqtt_publish ok c' topic payload qos")
  have "opt_wf (pending_pub c')" using w by (simp add: wedged_def)
  from iot_mqtt_publish_spec [OF this p] w show ?thesis by (auto simp: wedged_def p)
qed

definition lap :: "mqtt_op list" where
  "lap = [OpPublish all_ok ''t'' [1] 1, OpCallback 1 (ClientWriteable good_env), OpCallback 1 ClientEstablished]"

lemma lap_step:
  assumes "calm c" "\<not> waiting_for_puback c" "length (pub_queue c) \<le> 10"
  shows "\<exists>c' calls. mqtt_run lap c = Inr (c', calls) \<and> calm c' \<and> \<not> waiting_for_puback c' \<and>
    length (pub_queue c') = Suc (length (pub_queue c))"
proof -
  obtain c1 k1 where r: "mqtt_run [OpPublish all_ok ''t'' [1] 1, OpCallback 1 (ClientWriteable good_env)] c = Inr (c1, k1)"
    and c1: "calm c1" "length (pub_queue c1) = Suc (length (pub_queue c))"
    using publish_and_send [OF assms, of "''t''" "[1]"] by auto
  obtain c2 k2 where e: "mqtt_run [OpCallback 1 ClientEstablished] c1 = Inr (c2, k2)"
    and c2: "calm c2" "\<not> waiting_for_puback c2" "pub_queue c2 = pub_queue c1"
    using c1(1) by (auto simp: callback_mqtt_def calm_def timer_usecs_def sample_cfg_def pub_queue_opt_view)
  have "mqtt_run ([OpPublish all_ok ''t'' [1] 1, OpCallback 1 (ClientWriteable good_env)] @
      [OpCallback 1 ClientEstablished]) c = Inr (c2, k1 @ k2)"
    by (simp only: mqtt_run_append r e c_bind_simps prod.case)
  then have "mqtt_run lap c = Inr (c2, k1 @ k2)" by (simp add: lap_def)
  with c1 c2 show ?thesis by auto
qed

lemma laps:
  "n \<le> 11 \<Longrightarrow> \<exists>tr c. mqtt_reaches tr c \<and> calm c \<and> \<not> waiting_for_puback c \<and> length (pub_queue c) = n"
proof (induction n)
  case 0
  then show ?case using sample_reaches calm_sample by force
next
  case (Suc n)
  then obtain tr c where c: "mqtt_reaches tr c" "calm c" "\<not> waiting_for_puback c" "length (pub_queue c) = n" by auto
  then obtain c' calls where "mqtt_run lap c = Inr (c', calls)" "calm c'" "\<not> waiting_for_puback c'"
    "length (pub_queue c') = Suc n" using lap_step [of c] Suc.prems by auto
  then show ?case using mqtt_run_reaches c(1) by blast
qed

lemma mqtt_wedged_forever_witness:
  "\<exists>tr c. mqtt_reaches tr c \<and> length (pub_queue c) = 11 \<and>
     snd (snd (iot_mqtt_publish all_ok (fst (on_mqtt_ack c)) ''t'' [1] 1)) \<noteq> VOLC_OK"
proof -
  obtain tr c where c: "mqtt_reaches tr c" "calm c" "\<not> waiting_for_puback c" "length (pub_queue c) = 11"
    using laps [of 11] by auto
  have w: "wedged c" using c by (simp add: wedged_def calm_def)
  have st: "reaches (\<lambda>s. s = c) mqtt_step [] c" by (rule reaches.start) simp
  have "snd (snd (iot_mqtt_publish all_ok c ''t'' [1] 1)) \<noteq> VOLC_OK"
    using mqtt_wedged_forever [OF w st, of all_ok "''t''" "[1]" 1] by simp
  moreover have "fst (on_mqtt_ack c) = c" using c(3) by (simp add: on_mqtt_ack_def)
  ultimately have "mqtt_reaches tr c \<and> length (pub_queue c) = 11 \<and>
     snd (snd (iot_mqtt_publish all_ok (fst (on_mqtt_ack c)) ''t'' [1] 1)) \<noteq> VOLC_OK"
    using c by simp
  then show ?thesis by blast
qed

section \<open>Subscriptions\<close>

text \<open>Rounds of one writeable callback and the broker's confirmation.\<close>

primrec sub_rounds :: "nat \<Rightarrow> nat \<Rightarrow> mqtt_op list" where
  "sub_rounds w 0 = []"
| "sub_rounds w (Suc n) = sub_round w @ sub_rounds w n"

lemma sub_rounds_progress:
  assumes "pending_sub c = Some ts" "ts \<noteq> []" "\<not> waiting_for_suback c"
  shows "\<exists>c' calls. mqtt_run (sub_rounds w ((length ts + 6) div 7)) c = Inr (c', calls) \<and>
    pending_sub c' = None \<and> \<not> waiting_for_suback c' \<and>
    set (subscribed_topics c') = set (subscribed_topics c) \<union> tm_topic ` set ts"
  using assms
proof (induction "length ts" arbitrary: c ts rule: less_induct)
  case less
  obtain c1 k1 where r: "mqtt_run (sub_round w) c = Inr (c1, k1)" "\<not> waiting_for_suback c1"
    "pending_sub c1 = (if length ts \<le> 7 then None else Some (drop 7 ts))"
    "set (subscribed_topics c1) = set (subscribed_topics c) \<union> tm_topic ` set (take 7 ts)"
    using sub_round_step [OF less.prems] by blast
  show ?case
  proof (cases "length ts \<le> 7")
    case True
    then have "(length ts + 6) div 7 = Suc 0" using less.prems(2) by (cases ts) auto
    then show ?thesis using r True by simp
  next
    case False
    define n where "n = (length (drop 7 ts) + 6) div 7"
    have n: "(length ts + 6) div 7 = Suc n" using False by (simp add: n_def)
    have "length (drop 7 ts) < length ts" "drop 7 ts \<noteq> []" "pending_sub c1 = Some (drop 7 ts)"
      using False r(3) by auto
    from less.hyps [OF this(1) this(3,2) r(2)] obtain c2 k2 where
      c2: "mqtt_run (sub_rounds w n) c1 = Inr (c2, k2)" "pending_sub c2 = None" "\<not> waiting_for_suback c2"
      "set (subscribed_topics c2) = set (subscribed_topics c1) \<union> tm_topic ` set (drop 7 ts)"
      unfolding n_def by blast
    have "set ts = set (take 7 ts) \<union> set (drop 7 ts)" by (metis append_take_drop_id set_append)
    then have "set (subscribed_topics c2) = set (subscribed_topics c) \<union> tm_topic ` set ts"
      using c2(4) r(4) by auto
    then show ?thesis using c2 r(1) by (simp add: n mqtt_run_append)
  qed
qed


definition sample_topic :: "string \<Rightarrow> topic_map" where
  "sample_topic t = \<lparr>tm_topic = t, tm_message_cb = Some 1, tm_event_cb = None, tm_user_data = 0, tm_qos = 0\<rparr>"


section \<open>Dispatch\<close>

lemma find_in_set: "find P xs = Some x \<Longrightarrow> x \<in> set xs"
  by (induction xs) (auto split: if_splits)

text \<open>
  A received message goes to the first stored subscription whose topic starts with the
  received topic, or ends in a plus sign and is a prefix of it up to that sign; without such a
  subscription no callback is called.
\<close>

theorem mqtt_rx_first_match:
  assumes "\<forall>t\<in>set (sub_topic_maps c). tm_topic t \<noteq> [] \<and> tm_message_cb t \<noteq> None"
  shows "on_client_rx c rx payload =
    (case find (\<lambda>t. prefix rx (tm_topic t) \<or>
                 last (tm_topic t) = CHR ''+'' \<and> prefix (butlast (tm_topic t)) rx) (sub_topic_maps c) of
       None \<Rightarrow> Inr (c, [CallbackOnWritable], 0)
     | Some t \<Rightarrow> Inr (c, [MessageCallback (the (tm_message_cb t)) rx payload (tm_user_data t), CallbackOnWritable], 0))"
proof -
  let ?P = "\<lambda>t. prefix rx (tm_topic t) \<or> last (tm_topic t) = CHR ''+'' \<and> prefix (butlast (tm_topic t)) rx"
  have f: "find_subscription rx (sub_topic_maps c) = Inr (find ?P (sub_topic_maps c))"
    using assms by (intro find_subscription_first) auto
  show ?thesis
  proof (cases "find ?P (sub_topic_maps c)")
    case None
    then show ?thesis by (simp add: on_client_rx_def f)
  next
    case (Some t)
    then have "t \<in> set (sub_topic_maps c)" by (rule find_in_set)
    with assms obtain g where "tm_message_cb t = Some g" by blast
    then show ?thesis by (simp add: on_client_rx_def f Some)
  qed
qed

lemma mqtt_rx_first_match_witness:
  "on_client_rx (sample_ctx\<lparr>sub_topic_maps := [sample_topic ''b/c'', sample_topic ''a/+'']\<rparr>) ''a/x'' [7] =
     Inr (sample_ctx\<lparr>sub_topic_maps := [sample_topic ''b/c'', sample_topic ''a/+'']\<rparr>,
       [MessageCallback 1 ''a/x'' [7] 0, CallbackOnWritable], 0)"
  by (subst mqtt_rx_first_match) (simp_all add: sample_topic_def)

text \<open>
  A subscription with a one-level wildcard before its last level, such as the one of the
  remote shell, never gets a message whose level at that place is a proper name: the wildcard
  is only understood as the last character.
\<close>

theorem mqtt_inner_wildcard_never_matches:
  assumes "rest \<noteq> []" "last rest \<noteq> CHR ''+''" "level \<noteq> []" "hd level \<noteq> CHR ''+''"
  shows "topic_matches (pre @ level @ rest) (pre @ CHR ''+'' # rest) = Inr False"
  using assms by (cases level) (auto simp: topic_matches_iff prefix_def)

lemma mqtt_inner_wildcard_never_matches_witness:
  "topic_matches ''sys/p/d/webshell/cmd/17/post'' ''sys/p/d/webshell/cmd/+/post'' = Inr False"
  using mqtt_inner_wildcard_never_matches [of "''/post''" "''17''" "''sys/p/d/webshell/cmd/''"] by simp

end
