(* ===== verification/Sse.thy ===== *)
theory Sse
  imports Prelude
begin

text \<open>
  Server-sent events: the message parser and the search of \<^verbatim>\<open>src/protocols/http_libs.c\<close> and the
  receive buffer of \<^verbatim>\<open>src/protocols/lws_http_client.c\<close> (case \<^verbatim>\<open>RECEIVE_CLIENT_HTTP_READ\<close>).
  The receive buffer is a list of \<open>SSE_BUFFER_SIZE\<close> bytes, pointers into it are offsets, and an
  access outside an array is \<open>Inl OutOfBounds\<close>. An argument \<open>alloc\<close> says of each text whether
  the allocation of its copy succeeds.
\<close>

section \<open>State\<close>

definition SSE_BUFFER_SIZE :: nat where "SSE_BUFFER_SIZE = 15360"
definition SSE_KEY_SIZE :: nat where "SSE_KEY_SIZE = 128"

text \<open>
  The structure \<^verbatim>\<open>sse_context_t\<close>: the fields of the last message, which the parser sets, and
  the receive buffer with its fill level.
\<close>

record sse_fields =
  sse_data :: "string option"
  sse_data_len :: nat
  sse_event :: "string option"
  sse_event_len :: nat
  sse_id :: "string option"
  sse_id_len :: nat

record sse_context =
  sse_buffer :: "char list"
  used_len :: nat
  sse_msg :: sse_fields

section \<open>Searching\<close>

text \<open>\<^verbatim>\<open>onesdk_memmem\<close>: null pointers are \<open>None\<close>; the result is an offset.\<close>

function memmem_from :: "nat \<Rightarrow> char list \<Rightarrow> char list \<Rightarrow> nat option" where
  "memmem_from i hay ndl =
     (if i \<le> length hay - length ndl then
        (if take (length ndl) (drop i hay) = ndl then Some i else memmem_from (i + 1) hay ndl)
      else None)"
  by pat_completeness auto
termination
  by (relation "measure (\<lambda>(i, hay, ndl). Suc (length hay - length ndl) - i)") auto

declare memmem_from.simps [simp del]

definition onesdk_memmem :: "char list option \<Rightarrow> char list option \<Rightarrow> nat option" where
  "onesdk_memmem haystack needle =
     (case (haystack, needle) of
        (Some hay, Some ndl) \<Rightarrow>
          if length ndl = 0 \<or> length hay < length ndl then None else memmem_from 0 hay ndl
      | _ \<Rightarrow> None)"

section \<open>Parsing a message\<close>

definition isspace :: "char \<Rightarrow> bool" where
  "isspace c \<longleftrightarrow> c \<in> {CHR '' '', CHR 0x09, CHR 0x0A, CHR 0x0B, CHR 0x0C, CHR 0x0D}"

definition LF :: char where "LF = CHR 0x0A"
definition CR :: char where "CR = CHR 0x0D"

text \<open>\<^verbatim>\<open>strchr(mem + i, c)\<close>: the scan ends at a terminator; without one it leaves the memory.\<close>

fun strchr_in :: "char \<Rightarrow> char list \<Rightarrow> nat \<Rightarrow> nat option c_result" where
  "strchr_in c [] i = Inl OutOfBounds"
| "strchr_in c (x # xs) i =
     (if x = c then Inr (Some i) else if x = NUL then Inr None else strchr_in c xs (i + 1))"

text \<open>\<^verbatim>\<open>while (*p && isspace(*p)) p++\<close> from offset \<open>i\<close>.\<close>

fun skip_spaces :: "char list \<Rightarrow> nat \<Rightarrow> nat c_result" where
  "skip_spaces [] i = Inl OutOfBounds"
| "skip_spaces (x # xs) i =
     (if x \<noteq> NUL \<and> isspace x then skip_spaces xs (i + 1) else Inr i)"

text \<open>\<^verbatim>\<open>while (key_len > 0 && isspace(line[key_len-1])) key_len--\<close>.\<close>

fun trim_key_len :: "char list \<Rightarrow> nat \<Rightarrow> nat" where
  "trim_key_len line 0 = 0"
| "trim_key_len line (Suc n) = (if isspace (line ! n) then trim_key_len line n else Suc n)"

text \<open>
  The key and the value of one line of \<open>line_len\<close> bytes at the start of \<open>mem\<close>. The arrays
  \<^verbatim>\<open>key\<close> and \<^verbatim>\<open>value\<close> hold their strings; a terminator written outside them is an error. The
  length of the value is a difference of pointers converted to \<^verbatim>\<open>size_t\<close>: when the scan for
  its start has left the line, it is far beyond the array.
\<close>

definition parse_kv :: "char list \<Rightarrow> nat \<Rightarrow> string \<times> string \<Rightarrow> (string \<times> string) c_result" where
  "parse_kv mem line_len kv =
     c_bind (strchr_in CHR '':'' mem 0) (\<lambda>colon.
       case colon of
         None \<Rightarrow> Inr kv
       | Some c \<Rightarrow>
           if c < line_len then
             let key_len = trim_key_len mem c in
             if key_len \<ge> SSE_KEY_SIZE then Inl OutOfBounds
             else c_bind (skip_spaces (drop (c + 1) mem) (c + 1)) (\<lambda>val_start.
               if val_start > line_len \<or> line_len - val_start \<ge> SSE_BUFFER_SIZE then Inl OutOfBounds
               else Inr (cstr (take key_len mem), cstr (take (line_len - val_start) (drop val_start mem))))
           else Inr kv)"

definition store_field :: "(string \<Rightarrow> bool) \<Rightarrow> string \<times> string \<Rightarrow> sse_fields \<Rightarrow> sse_fields" where
  "store_field alloc kv fs =
     (if fst kv = ''event'' then
        if alloc (snd kv) then fs\<lparr>sse_event := Some (snd kv), sse_event_len := length (snd kv)\<rparr>
        else fs\<lparr>sse_event := None,
                 sse_event_len := (if sse_event fs \<noteq> None then 0 else sse_event_len fs)\<rparr>
      else if fst kv = ''data'' then
        if alloc (snd kv) then fs\<lparr>sse_data := Some (snd kv), sse_data_len := length (snd kv)\<rparr>
        else fs\<lparr>sse_data := None,
                 sse_data_len := (if sse_data fs \<noteq> None then 0 else sse_data_len fs)\<rparr>
      else fs)"

text \<open>The loop over the lines of a message of \<open>len\<close> bytes at the start of \<open>mem\<close>.\<close>

function parse_lines ::
  "(string \<Rightarrow> bool) \<Rightarrow> char list \<Rightarrow> nat \<Rightarrow> nat \<Rightarrow> string \<times> string \<Rightarrow> sse_fields \<Rightarrow> sse_fields c_result" where
  "parse_lines alloc mem len line kv fs =
     (if line < len then
        let stop = line + length (takeWhile (\<lambda>c. c \<noteq> LF) (take (len - line) (drop line mem)));
            line_len0 = stop - line;
            line_len = (if line_len0 > 0 \<and> mem ! (stop - 1) = CR then line_len0 - 1 else line_len0)
        in c_bind (if line_len > 0
                   then c_bind (parse_kv (drop line mem) line_len kv) (\<lambda>kv'.
                          Inr (kv', store_field alloc kv' fs))
                   else Inr (kv, fs)) (\<lambda>(kv', fs').
             let next = (if stop < len then stop + 1 else stop) in
             if next \<ge> len \<or> mem ! next = NUL then Inr fs'
             else parse_lines alloc mem len next kv' fs')
      else Inr fs)"
  by pat_completeness auto
termination
  by (relation "measure (\<lambda>(alloc, mem, len, line, kv, fs). len - line)") auto

declare parse_lines.simps [simp del]

definition parse_sse_message :: "(string \<Rightarrow> bool) \<Rightarrow> sse_fields \<Rightarrow> char list \<Rightarrow> nat \<Rightarrow> sse_fields c_result" where
  "parse_sse_message alloc fs mem len = parse_lines alloc mem len 0 ([], []) fs"

section \<open>Receiving\<close>

text \<open>What a callback sees: the event name and the data.\<close>

type_synonym sse_seen = "string option \<times> string option"

definition sse_free_fields :: "sse_fields \<Rightarrow> sse_fields" where
  "sse_free_fields fs = fs\<lparr>sse_event := None, sse_id := None, sse_data := None\<rparr>"

text \<open>
  The length of the next complete event in the unread bytes: a search for CR LF CR LF first,
  for LF LF only when there is none.
\<close>

definition next_event :: "char list \<Rightarrow> nat option" where
  "next_event unread =
     (case onesdk_memmem (Some unread) (Some [CR, LF, CR, LF]) of
        Some i \<Rightarrow> Some (i + 4)
      | None \<Rightarrow> map_option (\<lambda>i. i + 2) (onesdk_memmem (Some unread) (Some [LF, LF])))"

lemma memmem_from_bound:
  "memmem_from i hay ndl = Some k \<Longrightarrow> k \<le> length hay - length ndl \<and> take (length ndl) (drop k hay) = ndl"
  by (induction i hay ndl rule: memmem_from.induct) (subst (asm) memmem_from.simps, auto split: if_splits)

lemma onesdk_memmem_bound:
  "onesdk_memmem (Some hay) (Some ndl) = Some k \<Longrightarrow> k + length ndl \<le> length hay"
  by (auto simp: onesdk_memmem_def dest!: memmem_from_bound split: if_splits)

lemma next_event_bounds: "next_event u = Some n \<Longrightarrow> 0 < n \<and> n \<le> length u"
  by (auto simp: next_event_def dest!: onesdk_memmem_bound split: option.splits)

text \<open>The loop over the complete events; \<open>cb\<close> is whether a callback is registered.\<close>

function sse_loop ::
  "(string \<Rightarrow> bool) \<Rightarrow> bool \<Rightarrow> nat \<Rightarrow> sse_context \<Rightarrow> sse_seen list
    \<Rightarrow> (nat \<times> sse_context \<times> sse_seen list) c_result" where
  "sse_loop alloc cb cur ctx seen =
     (if cur < used_len ctx then
        let fs = sse_free_fields (sse_msg ctx) in
        case next_event (take (used_len ctx - cur) (drop cur (sse_buffer ctx))) of
          None \<Rightarrow> Inr (cur, ctx\<lparr>sse_msg := fs\<rparr>, seen)
        | Some n \<Rightarrow>
            c_bind (parse_sse_message alloc fs (drop cur (sse_buffer ctx)) n) (\<lambda>fs'.
              sse_loop alloc cb (cur + n) (ctx\<lparr>sse_msg := fs'\<rparr>)
                (seen @ (if cb then [(sse_event fs', sse_data fs')] else [])))
      else Inr (cur, ctx, seen))"
  by pat_completeness auto
termination
  by (relation "measure (\<lambda>(alloc, cb, cur, ctx, seen). used_len ctx - cur)")
     (auto dest!: next_event_bounds)

declare sse_loop.simps [simp del]

definition sse_receive ::
  "(string \<Rightarrow> bool) \<Rightarrow> bool \<Rightarrow> sse_context \<Rightarrow> char list \<Rightarrow> (sse_context \<times> sse_seen list) c_result" where
  "sse_receive alloc cb ctx chunk =
     (let available = SSE_BUFFER_SIZE - used_len ctx - 1;
          len = (if length chunk > available then available else length chunk);
          ctx1 = ctx\<lparr>sse_buffer := memcpy_at (used_len ctx) (take len chunk) (sse_buffer ctx),
                     used_len := used_len ctx + len\<rparr>;
          ctx2 = ctx1\<lparr>sse_buffer := (sse_buffer ctx1)[used_len ctx1 := NUL]\<rparr>
      in c_bind (sse_loop alloc cb 0 ctx2 []) (\<lambda>(cur, ctx3, seen).
           let remaining = used_len ctx3 - cur;
               buf = (if remaining > 0 then memmove_in 0 cur remaining (sse_buffer ctx3)
                      else sse_buffer ctx3)
           in Inr (ctx3\<lparr>used_len := remaining, sse_buffer := buf[remaining := NUL]\<rparr>, seen)))"

definition sse_initial :: sse_context where
  "sse_initial = \<lparr>sse_buffer = replicate SSE_BUFFER_SIZE NUL, used_len = 0,
     sse_msg = \<lparr>sse_data = None, sse_data_len = 0, sse_event = None, sse_event_len = 0,
                sse_id = None, sse_id_len = 0\<rparr>\<rparr>"

end
