(* ===== verification/SseProps.thy ===== *)
theory SseProps
  imports Sse
begin

text \<open>
  The parser and the receive buffer of the event stream against a description on lists: lines
  and their fields, messages, and the cutting of a byte stream into messages. The buffer with
  its offsets computes the list description, and for streams that separate lines by LF alone
  the events do not depend on how the network cuts the stream.
\<close>

section \<open>Lines\<close>

definition rstrip :: "string \<Rightarrow> string" where
  "rstrip s = rev (dropWhile isspace (rev s))"

definition line_kv :: "string \<Rightarrow> string \<times> string \<Rightarrow> (string \<times> string) c_result" where
  "line_kv ln kv =
     (let k = takeWhile (\<lambda>c. c \<noteq> CHR '':'' \<and> c \<noteq> NUL) ln in
      if length k < length ln \<and> ln ! length k = CHR '':'' then
        let key = rstrip k; v = dropWhile isspace (drop (length k + 1) ln) in
        if length key \<ge> SSE_KEY_SIZE \<or> v = [] \<or> length v \<ge> SSE_BUFFER_SIZE then Inl OutOfBounds
        else Inr (key, cstr v)
      else Inr kv)"

lemma isspace_simps [simp]: "LF \<noteq> NUL" "CR \<noteq> NUL" "CR \<noteq> LF" "\<not> isspace NUL" "isspace LF" "isspace CR" "NUL \<noteq> LF" "NUL \<noteq> CR" "LF \<noteq> CR"
  "CHR '':'' \<noteq> NUL" "CHR '':'' \<noteq> LF"
  by (simp_all add: isspace_def NUL_def LF_def CR_def)

lemma strchr_in_spec:
  assumes "NUL \<in> set mem" "c \<noteq> NUL"
  shows "strchr_in c mem i =
    (let k = length (takeWhile (\<lambda>x. x \<noteq> c \<and> x \<noteq> NUL) mem)
     in Inr (if mem ! k = c then Some (i + k) else None))"
  using assms by (induction mem arbitrary: i) (auto simp: Let_def)

lemma skip_spaces_spec:
  "NUL \<in> set mem \<Longrightarrow> skip_spaces mem i = Inr (i + length (takeWhile isspace mem))"
  by (induction mem arbitrary: i) auto

lemma take_trim_key_len: "n \<le> length line \<Longrightarrow> take (trim_key_len line n) line = rstrip (take n line)"
  by (induction n) (auto simp: rstrip_def take_Suc_conv_app_nth)

lemma trim_key_len_le: "trim_key_len line n \<le> n"
  by (induction n) (auto intro: le_SucI)

lemma length_trim_key_len: "n \<le> length line \<Longrightarrow> trim_key_len line n = length (rstrip (take n line))"
  using trim_key_len_le [of line n] by (subst take_trim_key_len [symmetric]) simp_all

lemma rstrip_NUL: "NUL \<notin> set k \<Longrightarrow> NUL \<notin> set (rstrip k)"
  by (auto simp: rstrip_def dest: set_dropWhileD)

text \<open>The line is followed by a space character and somewhere later by a terminator.\<close>

lemma parse_kv_line:
  assumes t: "isspace t" and post: "NUL \<in> set post"
  shows "parse_kv (ln @ t # post) (length ln) kv = line_kv ln kv"
proof -
  let ?P = "\<lambda>c. c \<noteq> CHR '':'' \<and> c \<noteq> NUL"
  define k where "k = takeWhile ?P ln"
  define mem where "mem = ln @ t # post"
  have nul: "NUL \<in> set mem" "NUL \<in> set (t # post)" using post by (auto simp: mem_def)
  define K where "K = length (takeWhile ?P mem)"
  have st: "strchr_in CHR '':'' mem 0 = Inr (if mem ! K = CHR '':'' then Some K else None)"
    using strchr_in_spec [OF nul(1), of "CHR '':''" 0] by (simp add: K_def)
  show ?thesis
  proof (cases "length k < length ln \<and> ln ! length k = CHR '':''")
    case True
    have ex: "\<exists>x\<in>set ln. \<not> ?P x" using True by (metis nth_mem)
    then have K: "K = length k"
      by (auto simp: K_def mem_def k_def takeWhile_append1)
    have tk: "take (length k) mem = k" "take (length k) ln = k"
      using True by (simp_all add: mem_def k_def takeWhile_eq_take [symmetric])
    have kn: "NUL \<notin> set k" by (auto simp: k_def dest: set_takeWhileD)
    define d where "d = drop (Suc (length k)) ln"
    define vs where "vs = Suc (length k) + length (takeWhile isspace (d @ t # post))"
    have dm: "drop (Suc (length k)) mem = d @ t # post" using True by (simp add: mem_def d_def)
    have len: "length d = length ln - Suc (length k)" by (simp add: d_def)
    have sk: "skip_spaces (d @ t # post) (Suc (length k)) = Inr vs"
      unfolding vs_def by (rule skip_spaces_spec) (use nul in auto)
    have memk: "mem ! length k = CHR '':''" using True by (simp add: mem_def nth_append)
    have kl: "trim_key_len mem (length k) = length (rstrip k)" "take (length (rstrip k)) mem = rstrip k"
      using length_trim_key_len [of "length k" mem] take_trim_key_len [of "length k" mem] True tk
      by (simp_all add: mem_def)
    have L: "parse_kv mem (length ln) kv =
       (if SSE_KEY_SIZE \<le> length (rstrip k) \<or> vs > length ln \<or> length ln - vs \<ge> SSE_BUFFER_SIZE then Inl OutOfBounds
        else Inr (rstrip k, cstr (take (length ln - vs) (drop vs mem))))"
      using True kn by (simp add: parse_kv_def st K memk dm sk kl rstrip_NUL Let_def)
    have R: "line_kv ln kv =
       (if SSE_KEY_SIZE \<le> length (rstrip k) \<or> dropWhile isspace d = [] \<or>
           length (dropWhile isspace d) \<ge> SSE_BUFFER_SIZE then Inl OutOfBounds
        else Inr (rstrip k, cstr (dropWhile isspace d)))"
      using True by (simp add: line_kv_def d_def Let_def flip: k_def)
    show ?thesis
    proof (cases "dropWhile isspace d = []")
      case blank: True
      then have "length (takeWhile isspace (d @ t # post)) > length d"
        using t by (simp add: takeWhile_append2 dropWhile_eq_Nil_conv)
      then have "vs > length ln" using len True unfolding vs_def by linarith
      then show ?thesis using L R blank by (simp add: mem_def)
    next
      case False
      then obtain x where x: "x \<in> set d" "\<not> isspace x" by (auto simp: dropWhile_eq_Nil_conv)
      define w where "w = takeWhile isspace d"
      have w: "vs = Suc (length k) + length w"
        using x by (simp add: w_def vs_def takeWhile_append1)
      have wl: "length w \<le> length d" by (simp add: w_def length_takeWhile_le)
      have dw: "drop (length w) d = dropWhile isspace d" by (simp add: w_def dropWhile_eq_drop)
      have "drop vs mem = drop (length w) (drop (Suc (length k)) mem)" by (simp add: w add.commute)
      then have dv: "drop vs mem = dropWhile isspace d @ t # post" using wl by (simp add: dm dw)
      have "length d - length w = length (dropWhile isspace d)" by (simp flip: dw)
      then have vl: "length ln - vs = length (dropWhile isspace d)" "vs \<le> length ln"
        using len True wl by (auto simp: w)
      show ?thesis using L R False vl dv by (simp add: mem_def)
    qed
  next
    case False
    have "\<not> (mem ! K = CHR '':'' \<and> K < length ln)"
    proof
      assume a: "mem ! K = CHR '':'' \<and> K < length ln"
      have "K = length k"
      proof (cases "\<exists>x\<in>set ln. \<not> ?P x")
        case True
        then show ?thesis by (auto simp: K_def mem_def k_def takeWhile_append1)
      next
        case False
        then have "K \<ge> length ln" by (simp add: K_def mem_def takeWhile_append2)
        with a show ?thesis by simp
      qed
      with a False show False by (auto simp: mem_def nth_append split: if_splits)
    qed
    then show ?thesis
      using False unfolding parse_kv_def mem_def [symmetric] st line_kv_def k_def [symmetric] Let_def
      by auto
  qed
qed

section \<open>Messages\<close>

text \<open>The lines of a message that ends in LF: up to the first empty rest or terminator.\<close>

definition strip_cr :: "string \<Rightarrow> string" where
  "strip_cr ln = (if ln \<noteq> [] \<and> last ln = CR then butlast ln else ln)"

function message_fields ::
  "(string \<Rightarrow> bool) \<Rightarrow> char list \<Rightarrow> string \<times> string \<Rightarrow> sse_fields \<Rightarrow> sse_fields c_result" where
  "message_fields alloc msg kv fs =
     (if msg = [] then Inr fs
      else let ln = takeWhile (\<lambda>c. c \<noteq> LF) msg; rest = drop (Suc (length ln)) msg in
        c_bind (if strip_cr ln = [] then Inr (kv, fs)
                else c_bind (line_kv (strip_cr ln) kv) (\<lambda>kv'. Inr (kv', store_field alloc kv' fs)))
          (\<lambda>(kv', fs'). if rest = [] \<or> hd rest = NUL then Inr fs' else message_fields alloc rest kv' fs'))"
  by pat_completeness auto
termination
  by (relation "measure (\<lambda>(alloc, msg, kv, fs). length msg)") auto

declare message_fields.simps [simp del]

lemma takeWhile_LF_split:
  assumes "msg \<noteq> []" "last msg = LF"
  shows "\<exists>rest. msg = takeWhile (\<lambda>c. c \<noteq> LF) msg @ LF # rest"
proof -
  have "LF \<in> set msg" using assms last_in_set [of msg] by simp
  then have "dropWhile (\<lambda>c. c \<noteq> LF) msg \<noteq> []" by (auto simp: dropWhile_eq_Nil_conv)
  then obtain x rest where d: "dropWhile (\<lambda>c. c \<noteq> LF) msg = x # rest" by (cases "dropWhile (\<lambda>c. c \<noteq> LF) msg") auto
  then have "x = LF" using hd_dropWhile [of "\<lambda>c. c \<noteq> LF" msg] by simp
  with d show ?thesis by (metis takeWhile_dropWhile_id)
qed

lemma parse_lines_spec:
  assumes "line \<le> length msg" "drop line msg = [] \<or> last msg = LF" "NUL \<in> set post"
  shows "parse_lines alloc (msg @ post) (length msg) line kv fs = message_fields alloc (drop line msg) kv fs"
  using assms(1,2)
proof (induction "length msg - line" arbitrary: line kv fs rule: less_induct)
  case less
  show ?case
  proof (cases "line < length msg")
    case False
    then show ?thesis by (subst parse_lines.simps, subst message_fields.simps) simp
  next
    case True
    define m where "m = drop line msg"
    have m: "m \<noteq> []" "last m = LF" "take (length msg - line) (drop line (msg @ post)) = m"
      using True less.prems(2) by (simp_all add: m_def)
    define ln where "ln = takeWhile (\<lambda>c. c \<noteq> LF) m"
    obtain rest where sp: "m = ln @ LF # rest" using takeWhile_LF_split [OF m(1,2)] by (auto simp: ln_def)
    define stop where "stop = line + length ln"
    have mem: "drop line (msg @ post) = ln @ LF # rest @ post" using True sp by (simp flip: m_def)
    have lm: "length m = length msg - line" by (simp add: m_def)
    have stop: "stop < length msg" using sp lm by (simp add: stop_def)
    have nx: "drop (Suc stop) msg = rest"
    proof -
      have "drop (Suc stop) msg = drop (Suc (length ln)) m" by (simp add: m_def stop_def add.commute)
      then show ?thesis by (simp add: sp)
    qed
    have cr: "(if ln \<noteq> [] \<and> (msg @ post) ! (line + length ln - Suc 0) = CR then length ln - Suc 0 else length ln)
       = length (strip_cr ln)"
    proof (cases "ln = []")
      case False
      then have "(msg @ post) ! (line + length ln - Suc 0) = drop line (msg @ post) ! (length ln - Suc 0)"
        using True by (cases ln) (simp_all del: drop_append)
      then have "(msg @ post) ! (line + length ln - Suc 0) = last ln"
        using False by (simp add: mem nth_append last_conv_nth del: drop_append)
      then show ?thesis using False by (simp add: strip_cr_def)
    qed (simp add: strip_cr_def)
    have kv: "parse_kv (drop line (msg @ post)) (length (strip_cr ln)) kv' = line_kv (strip_cr ln) kv'" for kv'
    proof (cases "ln \<noteq> [] \<and> last ln = CR")
      case True
      then have e: "drop line (msg @ post) = butlast ln @ CR # (LF # rest @ post)"
        by (metis append_butlast_last_id append_Cons append_Nil append_assoc mem)
      from parse_kv_line [of CR "LF # rest @ post" "butlast ln" kv'] assms(3) True show ?thesis
        unfolding e strip_cr_def by auto
    next
      case False
      then have "strip_cr ln = ln" by (auto simp: strip_cr_def)
      then show ?thesis unfolding mem using parse_kv_line [of LF "rest @ post" ln kv'] assms(3) by auto
    qed
    have nxt: "Suc stop \<ge> length msg \<longleftrightarrow> rest = []"
      "Suc stop < length msg \<Longrightarrow> (msg @ post) ! Suc stop = hd rest"
      using nx stop by (auto simp: nth_append hd_drop_conv_nth)
    have IH: "parse_lines alloc (msg @ post) (length msg) (Suc stop) kv' fs' = message_fields alloc rest kv' fs'" for kv' fs'
      using less.hyps [of "Suc stop" kv' fs'] stop True less.prems(2) nx by (auto simp: stop_def)
    have E: "(if stop - line > 0 \<and> (msg @ post) ! (stop - 1) = CR then stop - line - 1 else stop - line)
       = length (strip_cr ln)"
    proof -
      have "stop - line = length ln" by (simp add: stop_def)
      then show ?thesis using cr by (simp only: One_nat_def stop_def length_greater_0_conv)
    qed
    have L: "parse_lines alloc (msg @ post) (length msg) line kv fs =
       c_bind (if strip_cr ln = [] then Inr (kv, fs)
               else c_bind (line_kv (strip_cr ln) kv) (\<lambda>kv'. Inr (kv', store_field alloc kv' fs)))
         (\<lambda>(kv', fs'). if rest = [] \<or> hd rest = NUL then Inr fs'
            else parse_lines alloc (msg @ post) (length msg) (Suc stop) kv' fs')"
      apply (subst parse_lines.simps)
      apply (simp only: True if_True Let_def m(3) E flip: ln_def stop_def)
      apply (simp only: kv stop if_True nxt(1) length_greater_0_conv Suc_eq_plus1 [symmetric])
      using nxt by (auto simp: not_le intro!: arg_cong2 [where f = c_bind])
    have R: "message_fields alloc m kv fs =
       c_bind (if strip_cr ln = [] then Inr (kv, fs)
               else c_bind (line_kv (strip_cr ln) kv) (\<lambda>kv'. Inr (kv', store_field alloc kv' fs)))
         (\<lambda>(kv', fs'). if rest = [] \<or> hd rest = NUL then Inr fs' else message_fields alloc rest kv' fs')"
    proof -
      have dr: "drop (Suc (length ln)) m = rest" by (simp add: sp)
      show ?thesis
        by (subst message_fields.simps) (simp only: Let_def m(1) if_False dr ln_def [symmetric] simp_thms)
    qed
    show ?thesis unfolding L IH by (simp only: R flip: m_def)
  qed
qed

lemma parse_sse_message_spec:
  "msg \<noteq> [] \<Longrightarrow> last msg = LF \<Longrightarrow> NUL \<in> set post \<Longrightarrow>
     parse_sse_message alloc fs (msg @ post) (length msg) = message_fields alloc msg ([], []) fs"
  using parse_lines_spec [of 0 msg post alloc "([], [])" fs] by (simp add: parse_sse_message_def)

section \<open>The search\<close>

definition occurs_at :: "char list \<Rightarrow> char list \<Rightarrow> nat \<Rightarrow> bool" where
  "occurs_at ndl hay k \<longleftrightarrow> take (length ndl) (drop k hay) = ndl"

lemma occurs_at_bound: "ndl \<noteq> [] \<Longrightarrow> occurs_at ndl hay k \<Longrightarrow> k + length ndl \<le> length hay"
proof -
  assume n: "ndl \<noteq> []" and o: "occurs_at ndl hay k"
  then have l: "length ndl = min (length ndl) (length hay - k)"
    by (metis length_drop length_take min.commute occurs_at_def)
  moreover have "0 < length ndl" using n by simp
  ultimately show ?thesis by linarith
qed

lemma memmem_from_Some:
  "memmem_from i hay ndl = Some k \<Longrightarrow> occurs_at ndl hay k \<and> i \<le> k \<and> (\<forall>j. i \<le> j \<longrightarrow> j < k \<longrightarrow> \<not> occurs_at ndl hay j)"
proof (induction i hay ndl rule: memmem_from.induct)
  case (1 i hay ndl)
  show ?case
  proof (cases "occurs_at ndl hay i")
    case True
    then show ?thesis using 1(2) by (subst (asm) memmem_from.simps) (auto simp: occurs_at_def split: if_splits)
  next
    case False
    then have "i \<le> length hay - length ndl" "memmem_from (i + 1) hay ndl = Some k"
      using 1(2) by (subst (asm) memmem_from.simps, auto simp: occurs_at_def split: if_splits)+
    with 1(1) False have "occurs_at ndl hay k \<and> i + 1 \<le> k \<and> (\<forall>j. i + 1 \<le> j \<longrightarrow> j < k \<longrightarrow> \<not> occurs_at ndl hay j)"
      by (auto simp: occurs_at_def)
    with False show ?thesis by (metis Suc_eq_plus1 Suc_leD Suc_leI le_neq_implies_less)
  qed
qed

lemma memmem_from_None:
  "memmem_from i hay ndl = None \<Longrightarrow> i \<le> j \<Longrightarrow> j \<le> length hay - length ndl \<Longrightarrow> \<not> occurs_at ndl hay j"
proof (induction i hay ndl rule: memmem_from.induct)
  case (1 i hay ndl)
  have n: "\<not> occurs_at ndl hay i" "memmem_from (i + 1) hay ndl = None"
    using 1(2,3,4) by (subst (asm) memmem_from.simps, auto simp: occurs_at_def split: if_splits)+
  show ?case
  proof (cases "i = j")
    case False
    then show ?thesis using 1 n by (auto simp: occurs_at_def)
  qed (use n in auto)
qed

lemma onesdk_memmem_Some_iff:
  assumes "ndl \<noteq> []"
  shows "onesdk_memmem (Some hay) (Some ndl) = Some k \<longleftrightarrow> occurs_at ndl hay k \<and> (\<forall>j<k. \<not> occurs_at ndl hay j)"
proof (cases "length hay < length ndl")
  case True
  then show ?thesis using occurs_at_bound [OF assms, of hay k] by (auto simp: onesdk_memmem_def)
next
  case False
  then have e: "onesdk_memmem (Some hay) (Some ndl) = memmem_from 0 hay ndl"
    using assms by (simp add: onesdk_memmem_def)
  show ?thesis
  proof
    assume o: "occurs_at ndl hay k \<and> (\<forall>j<k. \<not> occurs_at ndl hay j)"
    then have b: "k \<le> length hay - length ndl" using occurs_at_bound [OF assms, of hay k] by simp
    show "onesdk_memmem (Some hay) (Some ndl) = Some k"
    proof (cases "memmem_from 0 hay ndl")
      case None
      then show ?thesis using memmem_from_None [OF None, of k] b o by simp
    next
      case (Some k')
      from memmem_from_Some [OF this] o have "k' = k" by (metis le0 linorder_neqE_nat)
      with Some e show ?thesis by simp
    qed
  qed (use memmem_from_Some [of 0 hay ndl k] e in simp)
qed

lemma onesdk_memmem_None_iff:
  assumes "ndl \<noteq> []"
  shows "onesdk_memmem (Some hay) (Some ndl) = None \<longleftrightarrow> (\<forall>k. \<not> occurs_at ndl hay k)"
proof
  assume n: "onesdk_memmem (Some hay) (Some ndl) = None"
  show "\<forall>k. \<not> occurs_at ndl hay k"
  proof
    fix k
    show "\<not> occurs_at ndl hay k"
    proof
      assume o: "occurs_at ndl hay k"
      then have "k + length ndl \<le> length hay" by (rule occurs_at_bound [OF assms])
      moreover from this have "k \<le> length hay - length ndl" by linarith
      ultimately show False
        using n o assms memmem_from_None [of 0 hay ndl k] by (simp add: onesdk_memmem_def split: if_splits)
    qed
  qed
next
  assume "\<forall>k. \<not> occurs_at ndl hay k"
  then show "onesdk_memmem (Some hay) (Some ndl) = None"
    using onesdk_memmem_Some_iff [OF assms, of hay] by (metis not_None_eq)
qed

lemma occurs_at_append:
  "k + length ndl \<le> length hay \<Longrightarrow> occurs_at ndl (hay @ tl1) k = occurs_at ndl hay k"
  by (simp add: occurs_at_def)

section \<open>Cutting the stream\<close>

lemma last_take_occurs:
  assumes "occurs_at ndl u k" "ndl \<noteq> []"
  shows "last (take (k + length ndl) u) = last ndl \<and> take (k + length ndl) u \<noteq> []"
proof -
  have "take (k + length ndl) u = take k u @ ndl"
    using assms by (simp add: occurs_at_def take_add)
  then show ?thesis using assms(2) by simp
qed

lemma next_event_last: "next_event u = Some n \<Longrightarrow> take n u \<noteq> [] \<and> last (take n u) = LF"
proof -
  assume "next_event u = Some n"
  then consider k where "n = k + 4" "occurs_at [CR, LF, CR, LF] u k" | k where "n = k + 2" "occurs_at [LF, LF] u k"
    by (auto simp: next_event_def onesdk_memmem_Some_iff split: option.splits)
  then show ?thesis
  proof cases
    case 1
    have "length [CR, LF, CR, LF] = 4" by simp
    with 1 last_take_occurs [of "[CR, LF, CR, LF]" u k] show ?thesis
      by (metis last.simps list.distinct(1))
  next
    case 2
    have "length [LF, LF] = 2" by simp
    with 2 last_take_occurs [of "[LF, LF]" u k] show ?thesis
      by (metis last.simps list.distinct(1))
  qed
qed

lemma next_event_no_CR:
  "CR \<notin> set u \<Longrightarrow> next_event u = map_option (\<lambda>i. i + 2) (onesdk_memmem (Some u) (Some [LF, LF]))"
proof -
  assume cr: "CR \<notin> set u"
  have "\<not> occurs_at [CR, LF, CR, LF] u k" for k
  proof
    assume "occurs_at [CR, LF, CR, LF] u k"
    then have "set [CR, LF, CR, LF] \<subseteq> set u"
      unfolding occurs_at_def by (metis set_drop_subset set_take_subset subset_trans)
    with cr show False by simp
  qed
  then have "onesdk_memmem (Some u) (Some [CR, LF, CR, LF]) = None"
    using onesdk_memmem_None_iff [of "[CR, LF, CR, LF]" u] by blast
  then show ?thesis by (simp only: next_event_def option.case)
qed

lemma next_event_append:
  assumes "CR \<notin> set (u @ b)" "next_event u = Some n"
  shows "next_event (u @ b) = Some n"
proof -
  obtain k where k: "n = k + 2" "occurs_at [LF, LF] u k" "\<forall>j<k. \<not> occurs_at [LF, LF] u j"
    using assms by (auto simp: next_event_no_CR onesdk_memmem_Some_iff)
  have "k + 2 \<le> length u" using occurs_at_bound [of "[LF, LF]" u k] k(2) by simp
  then have "occurs_at [LF, LF] (u @ b) k \<and> (\<forall>j<k. \<not> occurs_at [LF, LF] (u @ b) j)"
    using k occurs_at_append [of _ "[LF, LF]" u b] by auto
  then show ?thesis using assms(1) k(1) by (simp add: next_event_no_CR onesdk_memmem_Some_iff del: set_append)
qed

text \<open>The events of a list of bytes, with the rest that is no complete event.\<close>

function cut_events ::
  "(string \<Rightarrow> bool) \<Rightarrow> bool \<Rightarrow> char list \<Rightarrow> sse_fields \<Rightarrow> sse_seen list
    \<Rightarrow> (char list \<times> sse_fields \<times> sse_seen list) c_result" where
  "cut_events alloc cb u fs seen =
     (if u = [] then Inr (u, fs, seen)
      else case next_event u of
        None \<Rightarrow> Inr (u, sse_free_fields fs, seen)
      | Some n \<Rightarrow>
          c_bind (message_fields alloc (take n u) ([], []) (sse_free_fields fs)) (\<lambda>fs'.
            cut_events alloc cb (drop n u) fs' (seen @ (if cb then [(sse_event fs', sse_data fs')] else []))))"
  by pat_completeness auto
termination
  by (relation "measure (\<lambda>(alloc, cb, u, fs, seen). length u)") (auto dest!: next_event_bounds)

declare cut_events.simps [simp del]

lemma sse_free_idem [simp]: "sse_free_fields (sse_free_fields fs) = sse_free_fields fs"
  by (simp add: sse_free_fields_def)

lemma cut_events_free: "u \<noteq> [] \<Longrightarrow> cut_events alloc cb u (sse_free_fields fs) seen = cut_events alloc cb u fs seen"
  by (subst (1 2) cut_events.simps) (simp split: option.splits)

lemma cut_events_append:
  assumes "CR \<notin> set (u @ b)" "b \<noteq> []"
  shows "cut_events alloc cb (u @ b) fs seen =
    c_bind (cut_events alloc cb u fs seen) (\<lambda>(r, fs1, seen1). cut_events alloc cb (r @ b) fs1 seen1)"
  using assms
proof (induction alloc cb u fs seen rule: cut_events.induct)
  case (1 alloc cb u fs seen)
  show ?case
  proof (cases "u = []")
    case True
    then show ?thesis by (subst (2) cut_events.simps) simp
  next
    case False
    show ?thesis
    proof (cases "next_event u")
      case None
      then have "cut_events alloc cb u fs seen = Inr (u, sse_free_fields fs, seen)"
        using False by (subst cut_events.simps) simp
      then show ?thesis using False by (simp add: cut_events_free)
    next
      case (Some n)
      have n: "n \<le> length u" using next_event_bounds [OF Some] by simp
      have s: "next_event (u @ b) = Some n" by (rule next_event_append [OF 1(2) Some])
      have cr: "CR \<notin> set (drop n u @ b)" using 1(2) by (auto dest: in_set_dropD)
      show ?thesis
      proof (cases "message_fields alloc (take n u) ([], []) (sse_free_fields fs)")
        case (Inl e)
        then show ?thesis using False s Some n by (subst (1 2) cut_events.simps) simp
      next
        case (Inr fs')
        have "cut_events alloc cb (drop n u @ b) fs' (seen @ (if cb then [(sse_event fs', sse_data fs')] else []))
          = c_bind (cut_events alloc cb (drop n u) fs' (seen @ (if cb then [(sse_event fs', sse_data fs')] else [])))
              (\<lambda>(r, fs1, seen1). cut_events alloc cb (r @ b) fs1 seen1)"
          using 1(1) [OF False Some Inr] cr 1(3) by blast
        then show ?thesis using False s Some n Inr by (subst (1 2) cut_events.simps) simp
      qed
    qed
  qed
qed

section \<open>The receive buffer\<close>

definition sse_wf :: "sse_context \<Rightarrow> bool" where
  "sse_wf ctx \<longleftrightarrow> length (sse_buffer ctx) = SSE_BUFFER_SIZE \<and> used_len ctx < SSE_BUFFER_SIZE \<and>
     sse_buffer ctx ! used_len ctx = NUL"

definition sse_content :: "sse_context \<Rightarrow> char list" where
  "sse_content ctx = take (used_len ctx) (sse_buffer ctx)"

lemma sse_buffer_split:
  assumes "sse_wf ctx"
  shows "\<exists>post. sse_buffer ctx = sse_content ctx @ post \<and> NUL \<in> set post"
proof -
  have l: "used_len ctx < length (sse_buffer ctx)" using assms by (simp add: sse_wf_def)
  then have "sse_buffer ctx ! used_len ctx = hd (drop (used_len ctx) (sse_buffer ctx))"
    by (simp add: hd_drop_conv_nth)
  then have "NUL \<in> set (drop (used_len ctx) (sse_buffer ctx))"
    using assms l by (metis sse_wf_def drop_eq_Nil2 hd_in_set leD)
  moreover have "sse_buffer ctx = sse_content ctx @ drop (used_len ctx) (sse_buffer ctx)"
    by (simp add: sse_content_def)
  ultimately show ?thesis by blast
qed

lemma length_sse_content: "sse_wf ctx \<Longrightarrow> length (sse_content ctx) = used_len ctx"
  by (simp add: sse_wf_def sse_content_def)

lemma sse_loop_spec:
  assumes "sse_wf ctx" "cur \<le> used_len ctx"
  shows "sse_loop alloc cb cur ctx seen =
    c_bind (cut_events alloc cb (drop cur (sse_content ctx)) (sse_msg ctx) seen)
      (\<lambda>(r, fs, seen'). Inr (used_len ctx - length r, ctx\<lparr>sse_msg := fs\<rparr>, seen'))"
  using assms
proof (induction alloc cb cur ctx seen rule: sse_loop.induct)
  case (1 alloc cb cur ctx seen)
  define u where "u = drop cur (sse_content ctx)"
  define fs where "fs = sse_free_fields (sse_msg ctx)"
  obtain post where post: "sse_buffer ctx = sse_content ctx @ post" "NUL \<in> set post"
    using sse_buffer_split [OF 1(2)] by blast
  have l: "length (sse_content ctx) = used_len ctx" by (rule length_sse_content [OF 1(2)])
  have mem: "drop cur (sse_buffer ctx) = u @ post" using 1(3) l by (simp add: post(1) u_def)
  have tk: "take (used_len ctx - cur) (drop cur (sse_buffer ctx)) = u" using l by (simp add: mem u_def)
  show ?case
  proof (cases "cur < used_len ctx")
    case False
    then have "u = []" using l by (simp add: u_def)
    then show ?thesis using False 1(3) unfolding u_def [symmetric]
      by (subst sse_loop.simps, subst cut_events.simps) simp
  next
    case True
    have u: "u \<noteq> []" "length u = used_len ctx - cur" using True l by (auto simp: u_def)
    show ?thesis
    proof (cases "next_event u")
      case None
      then show ?thesis using True u unfolding u_def [symmetric]
        by (subst sse_loop.simps, subst cut_events.simps) (simp add: tk Let_def)
    next
      case (Some n)
      have n: "0 < n" "n \<le> length u" using next_event_bounds [OF Some] by auto
      have e: "u @ post = take n u @ (drop n u @ post)" by simp
      have ln: "length (take n u) = n" using n by simp
      have p: "parse_sse_message alloc fs (u @ post) n = message_fields alloc (take n u) ([], []) fs"
        using parse_sse_message_spec [of "take n u" "drop n u @ post" alloc fs] next_event_last [OF Some] post(2)
        by (metis Un_iff e ln set_append)
      show ?thesis
      proof (cases "message_fields alloc (take n u) ([], []) fs")
        case (Inl err)
        then show ?thesis using True u Some p unfolding u_def [symmetric]
          by (subst sse_loop.simps, subst cut_events.simps) (simp add: tk mem Let_def flip: fs_def)
      next
        case (Inr fs')
        define seen' where "seen' = seen @ (if cb then [(sse_event fs', sse_data fs')] else [])"
        define ctx' where "ctx' = ctx\<lparr>sse_msg := fs'\<rparr>"
        have d: "drop (cur + n) (sse_content ctx') = drop n u"
          by (simp add: u_def ctx'_def sse_content_def add.commute)
        have wf': "sse_wf ctx'" "cur + n \<le> used_len ctx'"
          using 1(2) n u by (auto simp: ctx'_def sse_wf_def)
        have ne: "next_event (take (used_len ctx - cur) (drop cur (sse_buffer ctx))) = Some n"
          by (simp only: tk Some)
        have pm: "parse_sse_message alloc fs (drop cur (sse_buffer ctx)) n = Inr fs'"
          by (simp only: mem p Inr)
        have "sse_loop alloc cb (cur + n) ctx' seen' =
            c_bind (cut_events alloc cb (drop n u) fs' seen')
              (\<lambda>(r, fs, s). Inr (used_len ctx - length r, ctx\<lparr>sse_msg := fs\<rparr>, s))"
          using 1(1) [OF True fs_def ne pm] wf' d by (simp only: ctx'_def seen'_def) simp
        moreover have "sse_loop alloc cb cur ctx seen = sse_loop alloc cb (cur + n) ctx' seen'"
          by (subst sse_loop.simps)
             (simp only: True if_True Let_def fs_def [symmetric] ne option.case pm c_bind_simps ctx'_def seen'_def)
        moreover have "cut_events alloc cb u (sse_msg ctx) seen = cut_events alloc cb (drop n u) fs' seen'"
          using u Some Inr by (subst cut_events.simps) (simp add: seen'_def flip: fs_def)
        ultimately show ?thesis by (simp flip: u_def)
      qed
    qed
  qed
qed

lemma cut_events_suffix: "cut_events alloc cb u fs seen = Inr (r, fs', seen') \<Longrightarrow> suffix r u"
proof (induction alloc cb u fs seen arbitrary: r fs' seen' rule: cut_events.induct)
  case (1 alloc cb u fs seen)
  show ?case
  proof (cases "u = [] \<or> next_event u = None")
    case True
    then show ?thesis using 1(2) by (subst (asm) cut_events.simps) (auto split: if_splits)
  next
    case False
    then obtain n where n: "u \<noteq> []" "next_event u = Some n" by auto
    then obtain fs2 seen2 where "message_fields alloc (take n u) ([], []) (sse_free_fields fs) = Inr fs2"
      "cut_events alloc cb (drop n u) fs2 (seen @ (if cb then [(sse_event fs2, sse_data fs2)] else [])) = Inr (r, fs', seen')"
      using 1(2) by (subst (asm) cut_events.simps) (auto simp: c_bind_Inr_iff)
    with 1(1) n have "suffix r (drop n u)" by blast
    then show ?thesis using suffix_drop suffix_order.trans by blast
  qed
qed

text \<open>One reception: the bytes that fit are appended, the complete events are cut off.\<close>

definition sse_accepted :: "sse_context \<Rightarrow> char list \<Rightarrow> char list" where
  "sse_accepted ctx chunk = take (SSE_BUFFER_SIZE - used_len ctx - 1) chunk"

lemma sse_receive_spec:
  assumes wf: "sse_wf ctx"
  shows "case cut_events alloc cb (sse_content ctx @ sse_accepted ctx chunk) (sse_msg ctx) [] of
      Inl e \<Rightarrow> sse_receive alloc cb ctx chunk = Inl e
    | Inr (r, fs, seen) \<Rightarrow> (\<exists>ctx'. sse_receive alloc cb ctx chunk = Inr (ctx', seen) \<and>
         sse_wf ctx' \<and> sse_content ctx' = r \<and> sse_msg ctx' = fs)"
proof -
  define len where "len = (if length chunk > SSE_BUFFER_SIZE - used_len ctx - 1 then SSE_BUFFER_SIZE - used_len ctx - 1 else length chunk)"
  define ctx2 where "ctx2 = ctx\<lparr>used_len := used_len ctx + len,
     sse_buffer := (memcpy_at (used_len ctx) (take len chunk) (sse_buffer ctx))[used_len ctx + len := NUL]\<rparr>"
  have acc: "sse_accepted ctx chunk = take len chunk" "length (take len chunk) = len"
    by (auto simp: sse_accepted_def len_def)
  have lb: "length (sse_buffer ctx) = SSE_BUFFER_SIZE" "used_len ctx + len < SSE_BUFFER_SIZE"
    using wf by (auto simp: sse_wf_def len_def)
  have lm: "length (memcpy_at (used_len ctx) (take len chunk) (sse_buffer ctx)) = SSE_BUFFER_SIZE"
    using lb acc(2) by (simp add: array_simps)
  have wf2: "sse_wf ctx2" using lb lm by (simp add: sse_wf_def ctx2_def)
  have c2: "sse_content ctx2 = sse_content ctx @ sse_accepted ctx chunk"
    using take_memcpy_at [of "used_len ctx" "sse_buffer ctx" "take len chunk"] lb acc
    by (simp add: sse_content_def ctx2_def)
  have loop: "sse_loop alloc cb 0 ctx2 [] =
      c_bind (cut_events alloc cb (sse_content ctx @ sse_accepted ctx chunk) (sse_msg ctx) [])
      (\<lambda>(r, fs, seen'). Inr (used_len ctx2 - length r, ctx2\<lparr>sse_msg := fs\<rparr>, seen'))"
    using sse_loop_spec [OF wf2, of 0 alloc cb "[]"] c2 by (simp add: ctx2_def)
  define fin where "fin = (\<lambda>(cur, ctx3, seen :: sse_seen list). let remaining = used_len ctx3 - cur;
               buf = (if remaining > 0 then memmove_in 0 cur remaining (sse_buffer ctx3)
                      else sse_buffer ctx3)
           in (Inr (ctx3\<lparr>used_len := remaining, sse_buffer := buf[remaining := NUL]\<rparr>, seen)
               :: (sse_context \<times> sse_seen list) c_result))"
  have rec: "sse_receive alloc cb ctx chunk = c_bind (sse_loop alloc cb 0 ctx2 []) fin"
    unfolding sse_receive_def Let_def len_def [symmetric] fin_def ctx2_def by simp
  show ?thesis
  proof (cases "cut_events alloc cb (sse_content ctx @ sse_accepted ctx chunk) (sse_msg ctx) []")
    case (Inl e)
    then show ?thesis by (simp add: rec loop)
  next
    case (Inr t)
    obtain r fs seen where t: "t = (r, fs, seen)" by (cases t)
    have suf: "suffix r (sse_content ctx2)" using cut_events_suffix Inr t c2 by metis
    have lc: "length (sse_content ctx2) = used_len ctx2" by (rule length_sse_content [OF wf2])
    have rl: "length r \<le> used_len ctx2" using suffix_length_le [OF suf] lc by simp
    have rd: "r = take (length r) (drop (used_len ctx2 - length r) (sse_buffer ctx2))"
    proof -
      have "r = drop (used_len ctx2 - length r) (sse_content ctx2)"
        using suf lc by (auto simp: suffix_def)
      then show ?thesis using rl by (simp add: sse_content_def drop_take)
    qed
    define buf where "buf = (if length r > 0 then memmove_in 0 (used_len ctx2 - length r) (length r) (sse_buffer ctx2) else sse_buffer ctx2)"
    define ctx' where "ctx' = ctx2\<lparr>sse_msg := fs, used_len := length r, sse_buffer := buf[length r := NUL]\<rparr>"
    have l2: "length (sse_buffer ctx2) = SSE_BUFFER_SIZE" "used_len ctx2 < SSE_BUFFER_SIZE"
      using wf2 by (auto simp: sse_wf_def)
    have bl: "length buf = SSE_BUFFER_SIZE" using l2 rl by (simp add: buf_def array_simps)
    have bt: "take (length r) buf = r"
    proof (cases "r = []")
      case False
      then show ?thesis
        using take_memmove_in [of 0 "used_len ctx2 - length r" "length r" "sse_buffer ctx2"] l2 rl rd
        by (simp add: buf_def)
    qed simp
    have "sse_receive alloc cb ctx chunk = Inr (ctx', seen)"
    proof -
      have lt: "used_len ctx2 - length r < used_len ctx2 \<longleftrightarrow> r \<noteq> []" using rl by (cases r) auto
      show ?thesis using rl by (simp add: rec loop Inr t fin_def Let_def ctx'_def buf_def lt)
    qed
    moreover have "sse_wf ctx'" "sse_content ctx' = r" "sse_msg ctx' = fs"
      using bl bt l2 rl by (simp_all add: ctx'_def sse_wf_def sse_content_def)
    ultimately show ?thesis using Inr t by auto
  qed
qed

section \<open>Independence of the chunks\<close>

fun sse_receive_all ::
  "(string \<Rightarrow> bool) \<Rightarrow> bool \<Rightarrow> sse_context \<Rightarrow> char list list \<Rightarrow> (sse_context \<times> sse_seen list) c_result" where
  "sse_receive_all alloc cb ctx [] = Inr (ctx, [])"
| "sse_receive_all alloc cb ctx (chunk # chunks) =
     c_bind (sse_receive alloc cb ctx chunk) (\<lambda>(ctx1, seen1).
       c_bind (sse_receive_all alloc cb ctx1 chunks) (\<lambda>(ctx2, seen2). Inr (ctx2, seen1 @ seen2)))"

text \<open>What can be observed: the unread bytes and the events delivered.\<close>

definition sse_outcome :: "(sse_context \<times> sse_seen list) c_result \<Rightarrow> (char list \<times> sse_seen list) c_result" where
  "sse_outcome res = c_bind res (\<lambda>(ctx, seen). Inr (sse_content ctx, seen))"

definition cut_out :: "(string \<Rightarrow> bool) \<Rightarrow> bool \<Rightarrow> char list \<Rightarrow> sse_fields \<Rightarrow> (char list \<times> sse_seen list) c_result" where
  "cut_out alloc cb u fs = c_bind (cut_events alloc cb u fs []) (\<lambda>(r, _, seen). Inr (r, seen))"

lemma cut_events_seen:
  "cut_events alloc cb u fs seen = c_bind (cut_events alloc cb u fs []) (\<lambda>(r, fs', s). Inr (r, fs', seen @ s))"
proof (induction "length u" arbitrary: u fs seen rule: less_induct)
  case less
  show ?case
  proof (cases "u = [] \<or> next_event u = None")
    case True
    then show ?thesis by (subst (1 2) cut_events.simps) auto
  next
    case False
    then obtain n where n: "u \<noteq> []" "next_event u = Some n" by auto
    have lt: "length (drop n u) < length u" using next_event_bounds [OF n(2)] by (auto intro: diff_less)
    show ?thesis
    proof (cases "message_fields alloc (take n u) ([], []) (sse_free_fields fs)")
      case (Inl e)
      then show ?thesis using n by (subst (1 2) cut_events.simps) simp
    next
      case (Inr fs2)
      define s2 where "s2 = (if cb then [(sse_event fs2, sse_data fs2)] else [])"
      have step: "cut_events alloc cb u fs s = cut_events alloc cb (drop n u) fs2 (s @ s2)" for s
        using n Inr by (subst cut_events.simps) (simp add: s2_def)
      show ?thesis
        unfolding step less.hyps [OF lt, of fs2 "seen @ s2"] less.hyps [OF lt, of fs2 "[] @ s2"]
        by (cases "cut_events alloc cb (drop n u) fs2 []") auto
    qed
  qed
qed

lemma cut_events_rest: "cut_events alloc cb u fs seen = Inr (r, fs', seen') \<Longrightarrow> r = [] \<or> next_event r = None"
proof (induction alloc cb u fs seen arbitrary: r fs' seen' rule: cut_events.induct)
  case (1 alloc cb u fs seen)
  show ?case
  proof (cases "u = [] \<or> next_event u = None")
    case True
    then show ?thesis using 1(2) by (subst (asm) cut_events.simps) (auto split: if_splits)
  next
    case False
    then obtain n fs2 where "u \<noteq> []" "next_event u = Some n"
      "message_fields alloc (take n u) ([], []) (sse_free_fields fs) = Inr fs2"
      "cut_events alloc cb (drop n u) fs2 (seen @ (if cb then [(sse_event fs2, sse_data fs2)] else [])) = Inr (r, fs', seen')"
      using 1(2) by (subst (asm) cut_events.simps) (auto simp: c_bind_Inr_iff)
    then show ?thesis by (rule 1(1))
  qed
qed

lemma cut_out_append:
  assumes "CR \<notin> set (u @ b)"
  shows "cut_out alloc cb (u @ b) fs =
    c_bind (cut_events alloc cb u fs []) (\<lambda>(r, fs1, s1).
      c_bind (cut_out alloc cb (r @ b) fs1) (\<lambda>(r', s2). Inr (r', s1 @ s2)))"
proof (cases "b = []")
  case True
  have "cut_out alloc cb r fs1 = Inr (r, [])" if "cut_events alloc cb u fs [] = Inr (r, fs1, s1)" for r fs1 s1
    using cut_events_rest [OF that] by (subst cut_out_def, subst cut_events.simps) auto
  then show ?thesis using True
    by (cases "cut_events alloc cb u fs []") (auto simp: cut_out_def)
next
  case False
  show ?thesis
  proof (cases "cut_events alloc cb u fs []")
    case (Inl e)
    then show ?thesis by (simp add: cut_out_def cut_events_append [OF assms False])
  next
    case (Inr t)
    obtain r fs1 s1 where t: "t = (r, fs1, s1)" by (cases t)
    show ?thesis
      using cut_events_seen [of alloc cb "r @ b" fs1 s1]
      by (simp add: cut_out_def cut_events_append [OF assms False] Inr t c_bind_assoc case_prod_beta)
  qed
qed

lemma sse_receive_all_outcome:
  assumes "chunks \<noteq> []" "sse_wf ctx" "CR \<notin> set (sse_content ctx @ concat chunks)"
    and "used_len ctx + length (concat chunks) < SSE_BUFFER_SIZE"
  shows "sse_outcome (sse_receive_all alloc cb ctx chunks) = cut_out alloc cb (sse_content ctx @ concat chunks) (sse_msg ctx)"
  using assms
proof (induction chunks arbitrary: ctx)
  case (Cons c cs)
  have acc: "sse_accepted ctx c = c" using Cons.prems(4) by (simp add: sse_accepted_def)
  note spec = sse_receive_spec [OF Cons.prems(2), of alloc cb c, unfolded acc]
  have split: "cut_out alloc cb (sse_content ctx @ concat (c # cs)) (sse_msg ctx) =
     c_bind (cut_events alloc cb (sse_content ctx @ c) (sse_msg ctx) []) (\<lambda>(r, fs1, s1).
      c_bind (cut_out alloc cb (r @ concat cs) fs1) (\<lambda>(r', s2). Inr (r', s1 @ s2)))"
    using cut_out_append [of "sse_content ctx @ c" "concat cs" alloc cb "sse_msg ctx"] Cons.prems(3) by simp
  show ?case
  proof (cases "cut_events alloc cb (sse_content ctx @ c) (sse_msg ctx) []")
    case (Inl e)
    then show ?thesis using spec split by (simp add: sse_outcome_def)
  next
    case (Inr t)
    obtain r fs1 s1 where t: "t = (r, fs1, s1)" by (cases t)
    obtain ctx1 where c1: "sse_receive alloc cb ctx c = Inr (ctx1, s1)" "sse_wf ctx1" "sse_content ctx1 = r" "sse_msg ctx1 = fs1"
      using spec Inr t by auto
    have suf: "suffix r (sse_content ctx @ c)" using cut_events_suffix Inr t by metis
    have rest: "cut_out alloc cb (r @ concat cs) fs1 = sse_outcome (sse_receive_all alloc cb ctx1 cs)"
    proof (cases "cs = []")
      case True
      have "r = [] \<or> next_event r = None" using cut_events_rest Inr t by metis
      then have "cut_out alloc cb r fs1 = Inr (r, [])"
        by (subst cut_out_def, subst cut_events.simps) auto
      then show ?thesis using True c1 by (simp add: sse_outcome_def)
    next
      case False
      have "set r \<subseteq> set (sse_content ctx @ c)" using suf by (rule set_mono_suffix)
      then have cr: "CR \<notin> set (sse_content ctx1 @ concat cs)" using Cons.prems(3) c1(3) by auto
      have "length r \<le> used_len ctx + length c"
        using suffix_length_le [OF suf] length_sse_content [OF Cons.prems(2)] by simp
      then have "used_len ctx1 + length (concat cs) < SSE_BUFFER_SIZE"
        using Cons.prems(4) length_sse_content [OF c1(2)] c1(3) by simp
      from Cons.IH [OF False c1(2) cr this] c1 show ?thesis by simp
    qed
    have "sse_outcome (sse_receive_all alloc cb ctx (c # cs)) =
        c_bind (sse_outcome (sse_receive_all alloc cb ctx1 cs)) (\<lambda>(r', s2). Inr (r', s1 @ s2))"
      by (simp add: sse_outcome_def c1 c_bind_assoc case_prod_beta)
    then show ?thesis by (simp only: split Inr t c_bind_simps prod.case rest)
  qed
qed simp

end
