(* ===== verification/SseTheorems.thy ===== *)
theory SseTheorems
  imports SseProps
begin

text \<open>
  The properties of the event stream: the buffer arithmetic computes the list description, the
  events do not depend on the network's chunks, data is delivered as it was sent, and a field
  without a value makes the parser write outside its array.
\<close>

lemma sse_initial_wf: "sse_wf sse_initial" "sse_content sse_initial = []" "used_len sse_initial = 0"
  by (simp_all add: sse_wf_def sse_initial_def sse_content_def SSE_BUFFER_SIZE_def)

text \<open>
  C2. One reception, with its offsets, \<^verbatim>\<open>memcpy\<close>, \<^verbatim>\<open>memmove\<close> and terminators, appends the bytes
  that fit to the unread ones, delivers the complete messages parsed line by line and keeps the
  rest; the buffer stays within its size and terminated.
\<close>

theorem sse_receive_refines:
  assumes "sse_wf ctx"
  shows "case cut_events alloc cb (sse_content ctx @ sse_accepted ctx chunk) (sse_msg ctx) [] of
      Inl e \<Rightarrow> sse_receive alloc cb ctx chunk = Inl e
    | Inr (r, fs, seen) \<Rightarrow> (\<exists>ctx'. sse_receive alloc cb ctx chunk = Inr (ctx', seen) \<and>
         sse_wf ctx' \<and> sse_content ctx' = r \<and> sse_msg ctx' = fs)"
  by (rule sse_receive_spec [OF assms])

lemma sse_receive_refines_witness:
  "case cut_events (\<lambda>_. True) True ''data: x'' (sse_msg sse_initial) [] of
      Inl e \<Rightarrow> False
    | Inr (r, fs, seen) \<Rightarrow> (\<exists>ctx'. sse_receive (\<lambda>_. True) True sse_initial ''data: x'' = Inr (ctx', seen) \<and>
         sse_content ctx' = r)"
proof -
  have acc: "sse_accepted sse_initial ''data: x'' = ''data: x''"
    by (simp add: sse_accepted_def sse_initial_def SSE_BUFFER_SIZE_def)
  have "onesdk_memmem (Some ''data: x'') (Some [LF, LF]) = None"
    by (simp add: onesdk_memmem_def memmem_from.simps LF_def)
  then have n: "next_event ''data: x'' = None" by (subst next_event_no_CR) (simp_all add: CR_def)
  have c: "cut_events (\<lambda>_. True) True ''data: x'' (sse_msg sse_initial) [] =
      Inr (''data: x'', sse_free_fields (sse_msg sse_initial), [])"
    by (subst cut_events.simps) (simp add: n)
  from sse_receive_refines [OF sse_initial_wf(1), of "\<lambda>_. True" True "''data: x''"] c
  show ?thesis by (auto simp: acc sse_initial_wf)
qed



text \<open>A message of one line followed by an empty one.\<close>

lemma next_event_one_line:
  assumes "LF \<notin> set ln" "CR \<notin> set ln"
  shows "next_event (ln @ [LF, LF]) = Some (length ln + 2)"
proof -
  have "\<not> occurs_at [LF, LF] (ln @ [LF, LF]) j" if j: "j < length ln" for j
  proof
    assume "occurs_at [LF, LF] (ln @ [LF, LF]) j"
    then have "hd (drop j (ln @ [LF, LF])) = LF" using j
      by (cases "drop j ln") (auto simp: occurs_at_def)
    then have "ln ! j = LF" using j by (simp add: hd_drop_conv_nth nth_append hd_append)
    with assms(1) j show False by (metis nth_mem)
  qed
  then have "onesdk_memmem (Some (ln @ [LF, LF])) (Some [LF, LF]) = Some (length ln)"
    by (subst onesdk_memmem_Some_iff) (auto simp: occurs_at_def)
  then show ?thesis using assms(2) by (subst next_event_no_CR) auto
qed

lemma message_one_line:
  assumes "LF \<notin> set ln" "CR \<notin> set ln" "ln \<noteq> []"
  shows "message_fields alloc (ln @ [LF, LF]) kv fs =
    c_bind (line_kv ln kv) (\<lambda>kv'. Inr (store_field alloc kv' fs))"
proof -
  have tw: "takeWhile (\<lambda>c. c \<noteq> LF) (ln @ [LF, LF]) = ln"
    using assms(1) by (subst takeWhile_append2) (auto intro: takeWhile_eq_all_conv [THEN iffD2])
  have st: "strip_cr ln = ln" using assms(2,3) by (auto simp: strip_cr_def dest: last_in_set)
  have e: "message_fields alloc [LF] kv' fs' = Inr fs'" for kv' fs'
    by (subst message_fields.simps) (simp add: strip_cr_def)
  have d: "drop (Suc (length ln)) (ln @ [LF, LF]) = [LF]" by simp
  show ?thesis
    by (subst message_fields.simps) (use assms(3) in \<open>simp add: tw st e d Let_def c_bind_assoc del: drop_append\<close>)
qed

lemma cut_out_one_line:
  assumes "LF \<notin> set ln" "CR \<notin> set ln" "ln \<noteq> []"
  shows "cut_out alloc True (ln @ [LF, LF]) fs =
    c_bind (line_kv ln ([], [])) (\<lambda>kv'. let fs' = store_field alloc kv' (sse_free_fields fs)
      in Inr ([], [(sse_event fs', sse_data fs')]))"
proof -
  have "cut_events alloc True [] fs' seen = Inr ([], fs', seen)" for fs' seen
    by (subst cut_events.simps) simp
  then have "cut_events alloc True (ln @ [LF, LF]) fs [] =
     c_bind (line_kv ln ([], [])) (\<lambda>kv'. let fs' = store_field alloc kv' (sse_free_fields fs)
       in Inr ([], fs', [(sse_event fs', sse_data fs')]))"
    by (subst cut_events.simps)
       (simp add: next_event_one_line [OF assms(1,2)] message_one_line [OF assms] c_bind_assoc Let_def)
  then show ?thesis by (simp add: cut_out_def c_bind_assoc Let_def)
qed



text \<open>
  A field whose value is empty or blank, which the event stream format allows, makes the
  parser run past the line in search of the value and store a terminator outside its array.
\<close>

theorem sse_blank_value_out_of_bounds:
  assumes "set key \<inter> {CHR '':'', NUL, LF, CR} = {}" "set blank \<subseteq> {CHR '' '', CHR 0x09}"
    and "length key + length blank + 3 < SSE_BUFFER_SIZE"
  shows "sse_receive alloc True sse_initial (key @ CHR '':'' # blank @ [LF, LF]) = Inl OutOfBounds"
proof -
  let ?ln = "key @ CHR '':'' # blank"
  have cl: "LF \<notin> set ?ln" "CR \<notin> set ?ln" "?ln \<noteq> []" using assms(1,2) by (auto simp: LF_def CR_def)
  have len: "length (?ln @ [LF, LF]) < SSE_BUFFER_SIZE" using assms(3) by simp
  have "sse_outcome (sse_receive_all alloc True sse_initial [?ln @ [LF, LF]])
      = cut_out alloc True (?ln @ [LF, LF]) (sse_msg sse_initial)"
    using sse_receive_all_outcome [of "[?ln @ [LF, LF]]" sse_initial alloc True] sse_initial_wf cl len by simp
  also have "\<dots> = Inl OutOfBounds"
  proof -
    have tw: "takeWhile (\<lambda>c. c \<noteq> CHR '':'' \<and> c \<noteq> NUL) ?ln = key" using assms(1) by (subst takeWhile_append2) auto
    have "\<forall>x\<in>set blank. isspace x" using assms(2) by (auto simp: isspace_def)
    then have "dropWhile isspace blank = []" by (simp add: dropWhile_eq_Nil_conv)
    then have "line_kv ?ln ([], []) = Inl OutOfBounds" by (simp add: line_kv_def Let_def tw)
    then show ?thesis by (simp only: cut_out_one_line [OF cl] c_bind_simps)
  qed
  finally show ?thesis
    by (cases "sse_receive alloc True sse_initial (?ln @ [LF, LF])")
       (auto simp: sse_outcome_def)
qed

lemma sse_blank_value_out_of_bounds_witness:
  "sse_receive (\<lambda>_. True) True sse_initial (''data:'' @ [LF, LF]) = Inl OutOfBounds"
  using sse_blank_value_out_of_bounds [of "''data''" "[]" "\<lambda>_. True"]
  by (simp add: LF_def CR_def NUL_def SSE_BUFFER_SIZE_def)

end
