(* ===== verification/Http.thy ===== *)
theory Http
  imports SseProps
begin

text \<open>
  The HTTP request context of \<^verbatim>\<open>src/protocols/http.c\<close> and the libwebsockets callback and wait
  loop of \<^verbatim>\<open>src/protocols/lws_http_client.c\<close>. Calls into libwebsockets and user callbacks are
  recorded in order; results of library calls are arguments. The file-level variables that all
  requests share are a record of their own.
\<close>

section \<open>State\<close>

datatype http_method = HTTP_GET | HTTP_POST | HTTP_PUT | HTTP_DELETE | HTTP_HEAD | HTTP_OTHER

record http_client =
  response_code :: int
  auth_user :: "string option"
  auth_password :: "string option"
  bearer_token :: "string option"

record http_client_data =
  is_chunked :: bool
  is_sse :: bool
  sse_ctx :: sse_context
  post_buf :: "string option"
  post_buf_len :: int
  post_content_type :: "string option"

record http_response =
  body_size :: nat
  response_body :: "char list option"
  error_code :: int
  inner_error_code :: int

text \<open>Which user callbacks are registered; a download context has three of its own.\<close>

record http_request_ctx =
  hc_client :: http_client
  hc_data :: http_client_data
  hc_url :: "string option"
  hc_port :: int
  hc_host :: "string option"
  hc_path :: "string option"
  hc_ca_crt :: "string option"
  hc_headers :: "string option"
  hc_is_ssl :: bool
  hc_verify_ssl :: bool
  hc_method :: http_method
  connect_timeout_ms :: int
  timeout_ms :: int
  is_async_request :: bool
  hc_closed :: bool
  on_get_body_cb :: bool
  on_get_sse_cb :: bool
  on_complete_cb :: bool
  on_error_cb :: bool
  hc_response :: "http_response option"
  is_connection_completed :: bool
  has_download_ctx :: bool
  hc_network_ctx :: bool

text \<open>The \<^verbatim>\<open>static\<close> variables of the file, common to all requests of the process.\<close>

record http_globals =
  interrupted :: bool
  bad :: int
  http_status :: int
  ba_user :: "string option"
  ba_password :: "string option"

datatype connect_flag = USE_SSL_H | ALLOW_SELFSIGNED_H | ALLOW_EXPIRED_H | ALLOW_INSECURE_H

record connect_info =
  ci_address :: "string option"
  ci_port :: int
  ci_path :: "string option"
  ci_method :: string
  ci_flags :: "connect_flag list"

datatype http_call =
    CancelServiceH
  | ClientConnectH connect_info
  | OnError int "string option"
  | OnDownloadError int
  | OnDownloadData "char list"
  | OnDownloadComplete
  | OnBody "char list"
  | OnSse sse_seen
  | OnComplete
  | AddToken string string
  | AddContentLength int
  | AddByName string string
  | BodyPending bool
  | CallbackOnWritableH
  | WriteBody string

definition MAX_BODY_SIZE :: nat where "MAX_BODY_SIZE = 10 * 1024"

definition HTTP_PREFIX :: string where "HTTP_PREFIX = ''http://''"
definition HTTPS_PREFIX :: string where "HTTPS_PREFIX = ''https://''"

section \<open>The request context\<close>

text \<open>
  \<^verbatim>\<open>new_http_ctx\<close>: only the first of the five allocations is checked; \<open>ok i\<close> is the result of
  the \<open>i\<close>-th.
\<close>

definition fresh_ctx :: http_request_ctx where
  "fresh_ctx = \<lparr>hc_client = \<lparr>response_code = 0, auth_user = None, auth_password = None, bearer_token = None\<rparr>,
     hc_data = \<lparr>is_chunked = False, is_sse = False, sse_ctx = sse_initial, post_buf = None,
                post_buf_len = 0, post_content_type = None\<rparr>,
     hc_url = None, hc_port = 0, hc_host = None, hc_path = None, hc_ca_crt = None, hc_headers = None,
     hc_is_ssl = False, hc_verify_ssl = False, hc_method = HTTP_GET,
     connect_timeout_ms = 30 * 1000, timeout_ms = 3 * 60 * 1000,
     is_async_request = False, hc_closed = False, on_get_body_cb = False, on_get_sse_cb = False,
     on_complete_cb = False, on_error_cb = False,
     hc_response = Some \<lparr>body_size = 0, response_body = None, error_code = 0, inner_error_code = 0\<rparr>,
     is_connection_completed = False, has_download_ctx = False, hc_network_ctx = False\<rparr>"

definition new_http_ctx :: "(nat \<Rightarrow> bool) \<Rightarrow> http_request_ctx option c_result" where
  "new_http_ctx ok =
     (if \<not> ok 0 then Inr None
      else if \<not> ok 1 \<or> \<not> ok 2 \<or> \<not> ok 3 \<or> \<not> ok 4 then Inl NullDeref
      else Inr (Some fresh_ctx))"

text \<open>
  \<^verbatim>\<open>http_ctx_set_url\<close>. \<open>parse\<close> is \<^verbatim>\<open>lws_parse_uri\<close>: \<open>None\<close> on failure, else the protocol,
  host, port and path it finds. The URL is first copied into an array of 1024 bytes.
\<close>

type_synonym uri_parser = "string \<Rightarrow> (string \<times> string \<times> int \<times> string) option"

definition http_ctx_set_url ::
  "uri_parser \<Rightarrow> http_request_ctx \<Rightarrow> string option \<Rightarrow> http_request_ctx c_result" where
  "http_ctx_set_url parse ctx purl =
     (case purl of
        None \<Rightarrow> Inr ctx
      | Some url \<Rightarrow>
          if url = [] then Inr ctx
          else if length url + 1 > 1024 then Inl OutOfBounds
          else
            let ctx1 = ctx\<lparr>hc_url := Some url\<rparr> in
            case parse url of
              None \<Rightarrow> Inr ctx1
            | Some (protocol, host, port, path) \<Rightarrow>
                let ctx2 = ctx1\<lparr>hc_port := port, hc_host := Some host, hc_path := Some path\<rparr>;
                    ctx3 = (if protocol = HTTPS_PREFIX
                            then ctx2\<lparr>hc_is_ssl := True, hc_port := (if hc_port ctx2 = 0 then 443 else hc_port ctx2)\<rparr>
                            else ctx2);
                    ctx4 = (if protocol = HTTP_PREFIX
                            then ctx3\<lparr>hc_is_ssl := False, hc_port := (if hc_port ctx3 = 0 then 80 else hc_port ctx3)\<rparr>
                            else ctx3)
                in Inr (if protocol = [] then ctx4\<lparr>hc_is_ssl := False\<rparr> else ctx4))"

text \<open>\<^verbatim>\<open>http_ctx_add_header\<close>: \<open>alloc\<close> is the result of the second allocation; the first is unchecked.\<close>

definition http_ctx_add_header :: "bool \<Rightarrow> http_request_ctx \<Rightarrow> string \<Rightarrow> string \<Rightarrow> http_request_ctx" where
  "http_ctx_add_header alloc ctx key val =
     (let hs = (case hc_headers ctx of None \<Rightarrow> [] | Some hs \<Rightarrow> hs) in
      if \<not> alloc then ctx\<lparr>hc_headers := Some hs\<rparr>
      else ctx\<lparr>hc_headers := Some (hs @ key @ '': '' @ val @ [CR, LF])\<rparr>)"

definition http_ctx_set_method :: "http_request_ctx \<Rightarrow> http_method \<Rightarrow> http_request_ctx" where
  "http_ctx_set_method ctx m = ctx\<lparr>hc_method := m\<rparr>"

definition http_ctx_set_json_body :: "bool \<Rightarrow> http_request_ctx \<Rightarrow> string option \<Rightarrow> http_request_ctx" where
  "http_ctx_set_json_body alloc ctx json_body =
     (case json_body of
        None \<Rightarrow> ctx
      | Some body \<Rightarrow>
          let d = (hc_data ctx)\<lparr>post_buf := None\<rparr> in
          if \<not> alloc then ctx\<lparr>hc_data := d\<rparr>
          else ctx\<lparr>hc_data := d\<lparr>post_buf := Some body, post_buf_len := int (length body),
                 post_content_type := Some ''application/json''\<rparr>\<rparr>)"

definition http_ctx_set_bearer_token :: "bool \<Rightarrow> http_request_ctx \<Rightarrow> string option \<Rightarrow> http_request_ctx c_result" where
  "http_ctx_set_bearer_token alloc ctx token =
     (case token of
        None \<Rightarrow> Inr ctx
      | Some t \<Rightarrow> if \<not> alloc then Inl NullDeref
                  else Inr (ctx\<lparr>hc_client := (hc_client ctx)\<lparr>bearer_token := Some t\<rparr>\<rparr>))"

definition http_ctx_set_auth :: "http_request_ctx \<Rightarrow> string option \<Rightarrow> string option \<Rightarrow> http_request_ctx" where
  "http_ctx_set_auth ctx user password =
     ctx\<lparr>hc_client := (hc_client ctx)\<lparr>auth_user := user, auth_password := password\<rparr>\<rparr>"

definition http_ctx_set_ca_crt :: "bool \<Rightarrow> http_request_ctx \<Rightarrow> string option \<Rightarrow> http_request_ctx c_result" where
  "http_ctx_set_ca_crt alloc ctx crt =
     (case crt of
        None \<Rightarrow> Inr ctx
      | Some c \<Rightarrow> if \<not> alloc then Inl NullDeref else Inr (ctx\<lparr>hc_is_ssl := True, hc_ca_crt := Some c\<rparr>))"

fun http_ctx_get_method_s :: "http_method \<Rightarrow> string" where
  "http_ctx_get_method_s HTTP_GET = ''GET''"
| "http_ctx_get_method_s HTTP_POST = ''POST''"
| "http_ctx_get_method_s HTTP_PUT = ''PUT''"
| "http_ctx_get_method_s HTTP_DELETE = ''DELETE''"
| "http_ctx_get_method_s HTTP_HEAD = ''HEAD''"
| "http_ctx_get_method_s HTTP_OTHER = []"

section \<open>The callback\<close>

text \<open>What one case of the callback returns: pass on to the default handler, or a value.\<close>

datatype cb_return = Pass | Return int

type_synonym http_result = "http_globals \<times> http_request_ctx \<times> http_call list \<times> cb_return"

definition map_response :: "(http_response \<Rightarrow> http_response) \<Rightarrow> http_request_ctx \<Rightarrow> http_request_ctx" where
  "map_response f ctx = ctx\<lparr>hc_response := map_option f (hc_response ctx)\<rparr>"

text \<open>\<^verbatim>\<open>CLIENT_CONNECTION_ERROR\<close>.\<close>

definition on_connection_error :: "http_globals \<Rightarrow> http_request_ctx \<Rightarrow> string option \<Rightarrow> http_result" where
  "on_connection_error g ctx msg =
     (g\<lparr>interrupted := True, bad := 3\<rparr>,
      (map_response (\<lambda>r. r\<lparr>inner_error_code := VOLC_ERR_HTTP_CONN_FAILED\<rparr>) ctx)\<lparr>is_connection_completed := True\<rparr>,
      [CancelServiceH] @
      (if has_download_ctx ctx then [OnDownloadError VOLC_ERR_HTTP_CONN_FAILED] else []) @
      (if on_error_cb ctx
       then [OnError VOLC_ERR_HTTP_CONN_FAILED (Some (case msg of None \<Rightarrow> ''(null)'' | Some m \<Rightarrow> m))] else []),
      Pass)"

text \<open>\<^verbatim>\<open>ESTABLISHED_CLIENT_HTTP\<close> with the status of the response.\<close>

definition on_established :: "http_globals \<Rightarrow> http_request_ctx \<Rightarrow> int \<Rightarrow> http_result c_result" where
  "on_established g ctx st =
     (case hc_response ctx of
        None \<Rightarrow> Inl NullDeref
      | Some r \<Rightarrow>
          Inr (g\<lparr>http_status := st\<rparr>,
               ctx\<lparr>hc_client := (hc_client ctx)\<lparr>response_code := st\<rparr>, hc_response := Some (r\<lparr>error_code := st\<rparr>)\<rparr>,
               [], Pass))"

text \<open>\<^verbatim>\<open>strtok_r\<close> with the delimiters CR and LF: the tokens of a string.\<close>

definition is_crlf :: "char \<Rightarrow> bool" where "is_crlf c \<longleftrightarrow> c = CR \<or> c = LF"

function strtok_all :: "string \<Rightarrow> string list" where
  "strtok_all s =
     (let s1 = dropWhile is_crlf s in
      if s1 = [] then []
      else takeWhile (\<lambda>c. \<not> is_crlf c) s1 # strtok_all (dropWhile (\<lambda>c. \<not> is_crlf c) s1))"
  by pat_completeness auto
termination
proof (relation "measure length")
  fix s s1 :: string
  assume s1: "s1 = dropWhile is_crlf s" "s1 \<noteq> []"
  then have "\<not> is_crlf (hd s1)" using hd_dropWhile by blast
  then have "length (dropWhile (\<lambda>c. \<not> is_crlf c) s1) < length s1"
    using s1(2) by (cases s1) (auto simp: le_imp_less_Suc length_dropWhile_le)
  also have "\<dots> \<le> length s" by (simp add: s1(1) length_dropWhile_le)
  finally show "(dropWhile (\<lambda>c. \<not> is_crlf c) s1, s) \<in> measure length" by simp
qed simp

declare strtok_all.simps [simp del]

text \<open>The header lines become name and value pairs; a line without a colon is skipped.\<close>

definition header_of :: "string \<Rightarrow> (string \<times> string) list" where
  "header_of tok =
     (let name = takeWhile (\<lambda>c. c \<noteq> CHR '':'') tok in
      if CHR '':'' \<in> set tok
      then [(name, dropWhile (\<lambda>c. c = CHR '' '') (drop (length name + 1) tok))] else [])"

definition custom_headers :: "string \<Rightarrow> (string \<times> string) list" where
  "custom_headers hs = concat (map header_of (strtok_all hs))"

text \<open>
  The scan overwrites delimiters with terminators, the first colon included: what is left of
  the string is its start up to the first of them.
\<close>

definition headers_left :: "string \<Rightarrow> string" where
  "headers_left hs =
     takeWhile is_crlf hs @ takeWhile (\<lambda>c. \<not> is_crlf c \<and> c \<noteq> CHR '':'') (dropWhile is_crlf hs)"

text \<open>The additions to the handshake, in order; the \<open>i\<close>-th may fail, which ends the callback.\<close>

fun add_all :: "(nat \<Rightarrow> bool) \<Rightarrow> nat \<Rightarrow> http_call list \<Rightarrow> http_call list \<times> bool" where
  "add_all fails i [] = ([], True)"
| "add_all fails i (c # cs) =
     (if fails i then ([c], False)
      else case add_all fails (i + 1) cs of (cs', ok) \<Rightarrow> (c # cs', ok))"

definition UA :: string where
  "UA = ''Mozilla/5.0 (X11; Linux x86_64) AppleWebKit/537.36 (KHTML, like Gecko) Chrome/51.0.2704.103 Safari/537.36''"

text \<open>
  \<^verbatim>\<open>CLIENT_APPEND_HANDSHAKE_HEADER\<close>. \<open>gen\<close> is \<^verbatim>\<open>lws_http_basic_auth_gen\<close>, \<open>None\<close> when the
  credentials do not fit its buffer, which ends the case without announcing a body.
\<close>

definition on_append_handshake ::
  "(string \<Rightarrow> string \<Rightarrow> string option) \<Rightarrow> (nat \<Rightarrow> bool) \<Rightarrow> bool \<Rightarrow> http_globals \<Rightarrow> http_request_ctx \<Rightarrow> http_result" where
  "on_append_handshake gen fails redirected g ctx =
     (if redirected then (g, ctx, [], Pass)
      else
        let standard =
              (case bearer_token (hc_client ctx) of None \<Rightarrow> [] | Some t \<Rightarrow> [AddToken ''authorization:'' t]) @
              (case post_content_type (hc_data ctx) of None \<Rightarrow> [] | Some t \<Rightarrow> [AddToken ''content-type:'' t]) @
              [AddContentLength (post_buf_len (hc_data ctx))];
            custom = (case hc_headers ctx of None \<Rightarrow> [] | Some hs \<Rightarrow> map (\<lambda>(n, v). AddByName n v) (custom_headers hs))
              @ [AddToken ''user-agent:'' UA, AddToken ''accept:'' ''*/*''];
            ctx1 = ctx\<lparr>hc_headers := map_option headers_left (hc_headers ctx)\<rparr>
        in case add_all fails 0 standard of
             (calls, False) \<Rightarrow> (g, ctx, calls, Return (-1))
           | (calls, True) \<Rightarrow>
               (case add_all fails (length standard) custom of
                  (calls2, False) \<Rightarrow> (g, ctx1, calls @ calls2, Return (-1))
                | (calls2, True) \<Rightarrow>
                    (case (ba_user g, ba_password g) of
                       (Some u, Some p) \<Rightarrow>
                         (case gen u p of
                            None \<Rightarrow> (g, ctx1, calls @ calls2, Pass)
                          | Some b \<Rightarrow>
                              if fails (length standard + length custom)
                              then (g, ctx1, calls @ calls2 @ [AddToken ''authorization:'' b], Return (-1))
                              else (g, ctx1, calls @ calls2 @ [AddToken ''authorization:'' b, BodyPending True,
                                     CallbackOnWritableH], Pass))
                     | _ \<Rightarrow> (g, ctx1, calls @ calls2 @ [BodyPending True, CallbackOnWritableH], Pass))))"

text \<open>\<^verbatim>\<open>CLIENT_HTTP_WRITEABLE\<close>.\<close>

definition on_http_writeable :: "bool \<Rightarrow> bool \<Rightarrow> http_globals \<Rightarrow> http_request_ctx \<Rightarrow> http_result" where
  "on_http_writeable alloc redirected g ctx =
     (if redirected then (g, ctx, [], Pass)
      else case post_buf (hc_data ctx) of
        None \<Rightarrow> (g, ctx, [BodyPending False], Return 0)
      | Some body \<Rightarrow>
          if \<not> alloc then (g, ctx, [], Return (-1))
          else (g, ctx, [WriteBody body, BodyPending False], Pass))"

text \<open>
  \<^verbatim>\<open>CLIENT_FILTER_PRE_ESTABLISH\<close>: the response headers the code reads, \<open>None\<close> when absent. Each
  one present is copied into a new allocation, \<open>alloc i\<close> for the \<open>i\<close>-th header; a failure ends
  the callback.
\<close>

record pre_establish =
  pe_content_type :: "string option"
  pe_content_length :: "string option"
  pe_transfer_encoding :: "string option"
  pe_range :: "string option"

definition on_filter_pre_establish ::
  "(nat \<Rightarrow> bool) \<Rightarrow> pre_establish \<Rightarrow> http_globals \<Rightarrow> http_request_ctx \<Rightarrow> http_result" where
  "on_filter_pre_establish alloc h g ctx =
     (if pe_content_type h \<noteq> None \<and> \<not> alloc 0 then (g, ctx, [], Return (-1))
      else
        let ctx1 = (case pe_content_type h of
              None \<Rightarrow> ctx
            | Some t \<Rightarrow> if strncmp_eq t ''text/event-stream'' (length ''text/event-stream'')
                        then ctx\<lparr>hc_data := (hc_data ctx)\<lparr>is_sse := True\<rparr>\<rparr> else ctx) in
        if pe_content_length h \<noteq> None \<and> \<not> alloc 1 then (g, ctx1, [], Return (-1))
        else if pe_transfer_encoding h \<noteq> None \<and> \<not> alloc 2 then (g, ctx1, [], Return (-1))
        else
          let ctx2 = (if pe_transfer_encoding h = Some ''chunked''
                then ctx1\<lparr>hc_data := (hc_data ctx1)\<lparr>is_chunked := True\<rparr>\<rparr> else ctx1) in
          if pe_range h \<noteq> None \<and> \<not> alloc 3 then (g, ctx2, [], Return (-1))
          else (g, ctx2, [], Pass))"

text \<open>The response body grows with each chunk; only chunks after the first are checked.\<close>

definition add_body :: "bool \<Rightarrow> char list \<Rightarrow> http_response \<Rightarrow> http_response \<times> int" where
  "add_body alloc chunk r =
     (if response_body r = None \<and> body_size r = 0 then
        (if \<not> alloc then (r, VOLC_ERR_HTTP_MALLOC_FAILED)
         else (r\<lparr>response_body := Some chunk, body_size := length chunk\<rparr>, 0))
      else
        let new_len = body_size r + length chunk in
        if new_len > MAX_BODY_SIZE then (r, VOLC_ERR_HTTP_RECV_TOO_LARGE)
        else if \<not> alloc then (r, VOLC_ERR_HTTP_MALLOC_FAILED)
        else (r\<lparr>response_body := Some ((case response_body r of None \<Rightarrow> [] | Some b \<Rightarrow> b) @ chunk),
                body_size := new_len\<rparr>, 0))"

text \<open>
  \<^verbatim>\<open>RECEIVE_CLIENT_HTTP_READ\<close>. In a stream of events the bytes that did not fit the event buffer
  are also cut from what the other callbacks get.
\<close>

definition read_sse ::
  "(string \<Rightarrow> bool) \<Rightarrow> http_request_ctx \<Rightarrow> char list \<Rightarrow> (http_request_ctx \<times> http_call list \<times> char list) c_result" where
  "read_sse alloc_sse ctx input =
     (if is_sse (hc_data ctx)
      then c_bind (sse_receive alloc_sse (on_get_sse_cb ctx) (sse_ctx (hc_data ctx)) input) (\<lambda>(sse, seen).
             Inr (ctx\<lparr>hc_data := (hc_data ctx)\<lparr>sse_ctx := sse\<rparr>\<rparr>, map OnSse seen,
                  sse_accepted (sse_ctx (hc_data ctx)) input))
      else Inr (ctx, [], input))"

definition read_body :: "bool \<Rightarrow> http_request_ctx \<Rightarrow> char list \<Rightarrow> http_request_ctx \<times> http_call list \<times> int" where
  "read_body alloc ctx bytes =
     (let calls = (if on_get_body_cb ctx then [OnBody bytes] else []) @
                  (if has_download_ctx ctx then [OnDownloadData bytes] else []) in
      case hc_response ctx of
        None \<Rightarrow> (ctx, calls, 0)
      | Some r \<Rightarrow>
          if is_async_request ctx \<and> \<not> error_code r > 300 then (ctx, calls, 0)
          else case add_body alloc bytes r of (r', ret) \<Rightarrow> (ctx\<lparr>hc_response := Some r'\<rparr>, calls, ret))"

definition on_http_read ::
  "bool \<Rightarrow> (string \<Rightarrow> bool) \<Rightarrow> http_globals \<Rightarrow> http_request_ctx \<Rightarrow> char list \<Rightarrow> http_result c_result" where
  "on_http_read alloc alloc_sse g ctx input =
     c_bind (read_sse alloc_sse ctx input) (\<lambda>(ctx1, calls1, bytes).
       case read_body alloc ctx1 bytes of (ctx2, calls2, ret) \<Rightarrow> Inr (g, ctx2, calls1 @ calls2, Return ret))"

text \<open>\<^verbatim>\<open>COMPLETED_CLIENT_HTTP\<close>: a status above 300 is reported and the case left early.\<close>

definition on_completed :: "http_globals \<Rightarrow> http_request_ctx \<Rightarrow> http_result" where
  "on_completed g ctx =
     (let g1 = g\<lparr>bad := (if http_status g \<noteq> 200 then 1 else 0)\<rparr>;
          err = (case hc_response ctx of Some r \<Rightarrow> error_code r > 300 | None \<Rightarrow> False) in
      if err then
        (g1, ctx, [CancelServiceH] @
           (case hc_response ctx of
              None \<Rightarrow> []
            | Some r \<Rightarrow> (if has_download_ctx ctx then [OnDownloadError (error_code r)] else []) @
                        (if on_error_cb ctx then [OnError (error_code r) (response_body r)] else [])), Pass)
      else
        (g1, ctx\<lparr>is_connection_completed := True\<rparr>, [CancelServiceH] @
           (if has_download_ctx ctx then [OnDownloadComplete] else []) @
           (if on_complete_cb ctx then [OnComplete] else []), Pass))"

text \<open>\<^verbatim>\<open>CLOSED_CLIENT_HTTP\<close> with the status read again.\<close>

definition on_closed :: "http_globals \<Rightarrow> http_request_ctx \<Rightarrow> int \<Rightarrow> http_result" where
  "on_closed g ctx st =
     (g\<lparr>http_status := st, bad := (if st \<noteq> 200 then 1 else 0)\<rparr>,
      ctx\<lparr>is_connection_completed := True\<rparr>, [CancelServiceH], Pass)"

datatype http_event =
    HConnectionError "string option"
  | HEstablished int
  | HAppendHandshake "string \<Rightarrow> string \<Rightarrow> string option" "nat \<Rightarrow> bool" bool
  | HWriteable bool bool
  | HFilterPreEstablish "nat \<Rightarrow> bool" pre_establish
  | HRead bool "string \<Rightarrow> bool" "char list"
  | HCompleted
  | HClosed int

fun callback_onesdk_http :: "http_event \<Rightarrow> http_globals \<Rightarrow> http_request_ctx \<Rightarrow> http_result c_result" where
  "callback_onesdk_http (HConnectionError msg) g ctx = Inr (on_connection_error g ctx msg)"
| "callback_onesdk_http (HEstablished st) g ctx = on_established g ctx st"
| "callback_onesdk_http (HAppendHandshake gen fails red) g ctx = Inr (on_append_handshake gen fails red g ctx)"
| "callback_onesdk_http (HWriteable alloc red) g ctx = Inr (on_http_writeable alloc red g ctx)"
| "callback_onesdk_http (HFilterPreEstablish ok h) g ctx = Inr (on_filter_pre_establish ok h g ctx)"
| "callback_onesdk_http (HRead alloc as input) g ctx = on_http_read alloc as g ctx input"
| "callback_onesdk_http HCompleted g ctx = Inr (on_completed g ctx)"
| "callback_onesdk_http (HClosed st) g ctx = Inr (on_closed g ctx st)"

text \<open>The callbacks one call of \<^verbatim>\<open>lws_service\<close> makes, in order.\<close>

fun run_events :: "http_event list \<Rightarrow> http_globals \<Rightarrow> http_request_ctx \<Rightarrow>
    (http_globals \<times> http_request_ctx \<times> http_call list) c_result" where
  "run_events [] g ctx = Inr (g, ctx, [])"
| "run_events (e # es) g ctx =
     c_bind (callback_onesdk_http e g ctx) (\<lambda>(g1, ctx1, calls, _).
       c_bind (run_events es g1 ctx1) (\<lambda>(g2, ctx2, calls2). Inr (g2, ctx2, calls @ calls2)))"

section \<open>Requests\<close>

text \<open>
  The wait loop of \<^verbatim>\<open>lws_http_client_send_request\<close>. Each element of the script is what one
  call of \<^verbatim>\<open>lws_service\<close> does: its callbacks and its result. The number counts the calls made;
  \<open>None\<close> for the last component means that the loop is still waiting when the script ends.
\<close>

fun wait_loop :: "int \<Rightarrow> (http_event list \<times> int) list \<Rightarrow> http_globals \<Rightarrow> http_request_ctx \<Rightarrow>
    (http_globals \<times> http_request_ctx \<times> http_call list \<times> nat option) c_result" where
  "wait_loop n script g ctx =
     (if n \<ge> 0 \<and> \<not> is_connection_completed ctx \<and> \<not> interrupted g then
        (case script of
           [] \<Rightarrow> Inr (g, ctx, [], None)
         | (es, n') # script' \<Rightarrow>
             c_bind (run_events es g ctx) (\<lambda>(g1, ctx1, calls).
               c_bind (wait_loop n' script' g1 ctx1) (\<lambda>(g2, ctx2, calls2, k).
                 Inr (g2, ctx2, calls @ calls2, map_option Suc k))))
      else Inr (g, ctx, [], Some 0))"

declare wait_loop.simps [simp del]

text \<open>
  What \<^verbatim>\<open>lws_http_client_init\<close> and \<^verbatim>\<open>lws_http_client_connect\<close> meet: whether the context is
  created and whether the connection can be started.
\<close>

definition lws_http_client_init :: "bool \<Rightarrow> http_request_ctx \<Rightarrow> (http_request_ctx \<times> int) c_result" where
  "lws_http_client_init created ctx =
     (if hc_ca_crt ctx = None \<and> hc_is_ssl ctx then Inl NullDeref
      else if \<not> created then
        (case hc_response ctx of
           None \<Rightarrow> Inl NullDeref
         | Some _ \<Rightarrow> Inr (map_response (\<lambda>r. r\<lparr>inner_error_code := VOLC_ERR_INVALID_HTTP_CONTEXT\<rparr>) ctx,
                          VOLC_ERR_INVALID_HTTP_CONTEXT))
      else Inr (ctx\<lparr>hc_network_ctx := True\<rparr>, VOLC_OK))"

text \<open>
  \<^verbatim>\<open>lws_http_client_init_client_connect_info\<close>: what the connection is asked for. Credentials for
  basic authentication go to the shared variables, and are only ever replaced by others.
\<close>

definition connect_flags :: "http_request_ctx \<Rightarrow> connect_flag list" where
  "connect_flags ctx =
     (if hc_ca_crt ctx \<noteq> None \<or> hc_port ctx = 443 \<or> hc_is_ssl ctx then [USE_SSL_H] else []) @
     (if \<not> hc_verify_ssl ctx then [ALLOW_SELFSIGNED_H, ALLOW_EXPIRED_H, ALLOW_INSECURE_H] else [])"

definition init_client_connect_info :: "http_globals \<Rightarrow> http_request_ctx \<Rightarrow> http_globals \<times> connect_info" where
  "init_client_connect_info g ctx =
     (let g1 = (case auth_user (hc_client ctx) of None \<Rightarrow> g | Some u \<Rightarrow> g\<lparr>ba_user := Some u\<rparr>);
          g2 = (case auth_password (hc_client ctx) of None \<Rightarrow> g1 | Some p \<Rightarrow> g1\<lparr>ba_password := Some p\<rparr>)
      in (g2, \<lparr>ci_address = hc_host ctx, ci_port = hc_port ctx, ci_path = hc_path ctx,
               ci_method = http_ctx_get_method_s (hc_method ctx), ci_flags = connect_flags ctx\<rparr>))"

definition lws_http_client_connect :: "bool \<Rightarrow> http_globals \<Rightarrow> http_request_ctx
    \<Rightarrow> (http_globals \<times> http_request_ctx \<times> http_call list \<times> int) c_result" where
  "lws_http_client_connect connected g ctx =
     (case init_client_connect_info g ctx of (g1, info) \<Rightarrow>
        if connected then Inr (g1, ctx, [ClientConnectH info], 0)
        else case hc_response ctx of
          None \<Rightarrow> Inl NullDeref
        | Some _ \<Rightarrow> Inr (g1\<lparr>bad := 2\<rparr>, map_response (\<lambda>r. r\<lparr>inner_error_code := VOLC_ERR_HTTP_CONN_FAILED\<rparr>) ctx,
                         [ClientConnectH info, CancelServiceH], VOLC_ERR_HTTP_CONN_FAILED))"

text \<open>\<^verbatim>\<open>http_request\<close>: the response pointer it returns (\<open>None\<close> is null) is that of the context.\<close>

definition http_request ::
  "bool \<Rightarrow> bool \<Rightarrow> (http_event list \<times> int) list \<Rightarrow> http_globals \<Rightarrow> http_request_ctx
    \<Rightarrow> (http_globals \<times> http_request_ctx \<times> http_call list \<times> nat option \<times> http_response option) c_result" where
  "http_request created connected script g ctx =
     c_bind (lws_http_client_init created (ctx\<lparr>is_async_request := False\<rparr>)) (\<lambda>(ctx1, ret).
       if ret \<noteq> 0 then Inr (g, ctx1, [], Some 0, None)
       else c_bind (lws_http_client_connect connected g ctx1) (\<lambda>(g2, ctx2, calls2, ret2).
         if ret2 \<noteq> 0 then Inr (g2, map_response (\<lambda>r. r\<lparr>error_code := ret2\<rparr>) ctx2, calls2, Some 0, None)
         else c_bind (wait_loop 0 script g2 ctx2) (\<lambda>(g3, ctx3, calls3, k).
           Inr (g3, ctx3, calls2 @ calls3, k, hc_response ctx3))))"

definition http_request_async ::
  "bool \<Rightarrow> bool \<Rightarrow> http_globals \<Rightarrow> http_request_ctx \<Rightarrow> (http_globals \<times> http_request_ctx \<times> http_call list \<times> int) c_result" where
  "http_request_async created connected g ctx =
     c_bind (lws_http_client_init created (ctx\<lparr>is_async_request := True\<rparr>)) (\<lambda>(ctx1, ret).
       if ret \<noteq> 0 then Inr (g, map_response (\<lambda>r. r\<lparr>inner_error_code := ret\<rparr>) ctx1, [], VOLC_ERR_HTTP_CONN_INIT_FAILED)
       else c_bind (lws_http_client_connect connected g ctx1) (\<lambda>(g2, ctx2, calls2, ret2).
         if ret2 \<noteq> 0 then Inr (g2, map_response (\<lambda>r. r\<lparr>error_code := ret2\<rparr>) ctx2, calls2, ret2)
         else Inr (g2, ctx2, calls2,
           case hc_response ctx2 of
             None \<Rightarrow> VOLC_OK
           | Some r \<Rightarrow> if error_code r \<noteq> 0 then error_code r
                       else if inner_error_code r \<noteq> 0 then inner_error_code r else VOLC_OK)))"

text \<open>\<^verbatim>\<open>http_close\<close> on an existing context.\<close>

definition http_close :: "http_request_ctx \<Rightarrow> http_request_ctx \<times> http_call list" where
  "http_close ctx =
     (if hc_closed ctx then (ctx, [])
      else let ctx1 = ctx\<lparr>hc_closed := True\<rparr> in
           if hc_network_ctx ctx1 then (ctx1\<lparr>is_connection_completed := True\<rparr>, [CancelServiceH]) else (ctx1, []))"

end
