(* ===== verification/HttpProps.thy ===== *)
theory HttpProps
  imports Http
begin

text \<open>
  What an HTTP request guarantees: its headers reach the handshake, its body is collected, the
  wait loop ends when the connection does, and what a failed connection does to later requests.
\<close>

section \<open>Headers\<close>

definition header_ok :: "string \<times> string \<Rightarrow> bool" where
  "header_ok h \<longleftrightarrow> set (fst h) \<inter> {CHR '':'', CR, LF} = {} \<and> CR \<notin> set (snd h) \<and> LF \<notin> set (snd h) \<and>
     (snd h = [] \<or> hd (snd h) \<noteq> CHR '' '')"

definition header_line :: "string \<times> string \<Rightarrow> string" where
  "header_line h = fst h @ '': '' @ snd h @ [CR, LF]"

definition add_headers :: "http_request_ctx \<Rightarrow> (string \<times> string) list \<Rightarrow> http_request_ctx" where
  "add_headers = foldl (\<lambda>ctx h. http_ctx_add_header True ctx (fst h) (snd h))"

lemma add_headers_text:
  "hc_headers (add_headers ctx (h # hs)) =
     Some ((case hc_headers ctx of None \<Rightarrow> [] | Some s \<Rightarrow> s) @ concat (map header_line (h # hs)))"
proof (induction hs arbitrary: ctx h)
  case Nil
  then show ?case by (simp add: add_headers_def http_ctx_add_header_def header_line_def)
next
  case (Cons h2 hs)
  have "add_headers ctx (h # h2 # hs) = add_headers (http_ctx_add_header True ctx (fst h) (snd h)) (h2 # hs)"
    by (simp add: add_headers_def)
  then show ?case
    using Cons [of "http_ctx_add_header True ctx (fst h) (snd h)" h2]
    by (simp add: http_ctx_add_header_def header_line_def)
qed

lemma add_headers_frame:
  "hc_client (add_headers ctx hs) = hc_client ctx \<and> hc_data (add_headers ctx hs) = hc_data ctx"
  unfolding add_headers_def by (induction hs arbitrary: ctx) (auto simp: http_ctx_add_header_def Let_def)

lemma strtok_all_line:
  assumes tok: "tok \<noteq> []" "\<forall>c\<in>set tok. \<not> is_crlf c"
  shows "strtok_all (tok @ [CR, LF] @ rest) = tok # strtok_all rest"
proof -
  have d: "dropWhile is_crlf (tok @ [CR, LF] @ rest) = tok @ [CR, LF] @ rest"
    using tok by (cases tok) auto
  have t: "takeWhile (\<lambda>c. \<not> is_crlf c) (tok @ [CR, LF] @ rest) = tok"
    "dropWhile (\<lambda>c. \<not> is_crlf c) (tok @ [CR, LF] @ rest) = [CR, LF] @ rest"
    using tok(2) by (simp_all add: takeWhile_append2 dropWhile_append2 is_crlf_def)
  have ne: "(tok @ [CR, LF] @ rest = []) = False" by simp
  have r: "strtok_all ([CR, LF] @ rest) = strtok_all rest"
    by (subst (1 2) strtok_all.simps) (simp add: is_crlf_def)
  show ?thesis
    by (subst strtok_all.simps) (simp only: Let_def d t r ne if_False)
qed

lemma header_of_line:
  assumes "header_ok h"
  shows "header_of (fst h @ '': '' @ snd h) = [h]"
proof -
  have t: "takeWhile (\<lambda>c. c \<noteq> CHR '':'') (fst h @ '': '' @ snd h) = fst h"
    using assms by (subst takeWhile_append2) (auto simp: header_ok_def)
  have d: "dropWhile (\<lambda>c. c = CHR '' '') (snd h) = snd h"
    using assms by (cases "snd h") (auto simp: header_ok_def)
  show ?thesis by (simp add: header_of_def t [simplified] d Let_def)
qed

lemma custom_headers_lines:
  "\<forall>h\<in>set hs. header_ok h \<Longrightarrow> custom_headers (concat (map header_line hs)) = hs"
proof (induction hs)
  case Nil
  then show ?case by (simp add: custom_headers_def strtok_all.simps)
next
  case (Cons h hs)
  let ?tok = "fst h @ '': '' @ snd h"
  have "strtok_all (?tok @ [CR, LF] @ concat (map header_line hs)) = ?tok # strtok_all (concat (map header_line hs))"
    by (rule strtok_all_line) (use Cons.prems in \<open>auto simp: header_ok_def is_crlf_def CR_def LF_def\<close>)
  then have "custom_headers (concat (map header_line (h # hs))) = header_of ?tok @ custom_headers (concat (map header_line hs))"
    by (simp add: custom_headers_def header_line_def)
  then show ?case using Cons header_of_line [of h] by simp
qed

lemma add_all_ok: "add_all (\<lambda>_. False) i cs = (cs, True)"
  by (induction cs arbitrary: i) auto

definition is_by_name :: "http_call \<Rightarrow> bool" where
  "is_by_name c \<longleftrightarrow> (\<exists>n v. c = AddByName n v)"

text \<open>
  The headers the caller adds are the headers of the handshake: same names, same values,
  same order, through the concatenation into one text and its scan by \<^verbatim>\<open>strtok_r\<close>.
\<close>

theorem http_headers_roundtrip:
  assumes "hc_headers ctx = None" "\<forall>h\<in>set hs. header_ok h"
  shows "filter is_by_name (fst (snd (snd (on_append_handshake gen (\<lambda>_. False) False g (add_headers ctx hs))))) =
    map (\<lambda>(n, v). AddByName n v) hs"
proof -
  have "(case hc_headers (add_headers ctx hs) of None \<Rightarrow> [] | Some s \<Rightarrow> custom_headers s) = hs"
  proof (cases hs)
    case Nil
    then show ?thesis using assms(1) by (simp add: add_headers_def)
  next
    case (Cons h hs')
    then show ?thesis
      using custom_headers_lines [OF assms(2)] add_headers_text [of ctx h hs'] assms(1) by simp
  qed
  then have c: "(case hc_headers (add_headers ctx hs) of None \<Rightarrow> []
      | Some s \<Rightarrow> map (\<lambda>(n, v). AddByName n v) (custom_headers s)) = map (\<lambda>(n, v). AddByName n v) hs"
    by (cases "hc_headers (add_headers ctx hs)") auto
  have f: "filter is_by_name (map (\<lambda>(n, v). AddByName n v) hs) = map (\<lambda>(n, v). AddByName n v) hs"
    by (induction hs) (auto simp: is_by_name_def)
  show ?thesis
    by (simp add: on_append_handshake_def Let_def c add_all_ok f)
       (auto simp: is_by_name_def f split: option.splits)
qed

definition globals0 :: http_globals where "globals0 = \<lparr>interrupted = False, bad = 1, http_status = 0, ba_user = None, ba_password = None\<rparr>"

lemma http_headers_roundtrip_witness:
  "filter is_by_name (fst (snd (snd (on_append_handshake (\<lambda>_ _. None) (\<lambda>_. False) False globals0
     (add_headers fresh_ctx [(''X-Id'', ''7''), (''Accept-Language'', ''en'')]))))) =
   [AddByName ''X-Id'' ''7'', AddByName ''Accept-Language'' ''en'']"
  using http_headers_roundtrip [of fresh_ctx "[(''X-Id'', ''7''), (''Accept-Language'', ''en'')]" "\<lambda>_ _. None" globals0]
  by (simp add: fresh_ctx_def header_ok_def CR_def LF_def)

section \<open>The body\<close>

definition body_of :: "http_request_ctx \<Rightarrow> char list option" where
  "body_of ctx = (case hc_response ctx of None \<Rightarrow> None | Some r \<Rightarrow> response_body r)"

text \<open>A request whose response is collected: synchronous, no event stream, sizes agree.\<close>

definition collecting :: "http_request_ctx \<Rightarrow> bool" where
  "collecting ctx \<longleftrightarrow> \<not> is_async_request ctx \<and> \<not> is_sse (hc_data ctx) \<and>
     (\<exists>r. hc_response ctx = Some r \<and> body_size r = (case response_body r of None \<Rightarrow> 0 | Some b \<Rightarrow> length b))"

lemma on_http_read_collects:
  assumes c: "collecting ctx"
    and fit: "body_of ctx = None \<or> length (the (body_of ctx)) + length chunk \<le> MAX_BODY_SIZE"
  shows "\<exists>ctx' calls. callback_onesdk_http (HRead True as chunk) g ctx = Inr (g, ctx', calls, Return 0) \<and>
    collecting ctx' \<and> body_of ctx' = Some ((case body_of ctx of None \<Rightarrow> [] | Some b \<Rightarrow> b) @ chunk)"
  using assms
  by (auto simp: collecting_def on_http_read_def read_sse_def read_body_def add_body_def body_of_def Let_def split: option.splits)

lemma run_reads:
  assumes "collecting ctx" "body_of ctx = Some b" "length b + length (concat chunks) \<le> MAX_BODY_SIZE"
  shows "\<exists>ctx' calls. run_events (map (HRead True as) chunks) g ctx = Inr (g, ctx', calls) \<and>
    body_of ctx' = Some (b @ concat chunks) \<and> collecting ctx'"
  using assms
proof (induction chunks arbitrary: ctx b)
  case (Cons c cs)
  obtain ctx1 calls1 where s: "callback_onesdk_http (HRead True as c) g ctx = Inr (g, ctx1, calls1, Return 0)"
    "collecting ctx1" "body_of ctx1 = Some (b @ c)"
    using on_http_read_collects [OF Cons.prems(1), of c as g] Cons.prems(2,3) by auto
  obtain ctx2 calls2 where "run_events (map (HRead True as) cs) g ctx1 = Inr (g, ctx2, calls2)"
    "body_of ctx2 = Some ((b @ c) @ concat cs)" "collecting ctx2"
    using Cons.IH [OF s(2,3)] Cons.prems(3) by auto
  with s show ?case by simp
qed simp

text \<open>
  The body of a synchronous request is the concatenation of the chunks received, in order,
  whatever their sizes, as long as the total fits the limit.
\<close>

theorem http_body_collected:
  assumes "collecting ctx" "body_of ctx = None" "length (concat (c # chunks)) \<le> MAX_BODY_SIZE"
  shows "\<exists>ctx' calls. run_events (map (HRead True as) (c # chunks)) g ctx = Inr (g, ctx', calls) \<and>
    body_of ctx' = Some (concat (c # chunks)) \<and> collecting ctx'"
proof -
  obtain ctx1 calls1 where s: "callback_onesdk_http (HRead True as c) g ctx = Inr (g, ctx1, calls1, Return 0)"
    "collecting ctx1" "body_of ctx1 = Some c"
    using on_http_read_collects [OF assms(1), of c as g] assms(2) by auto
  from run_reads [OF s(2,3), of chunks as g] assms(3) s show ?thesis by auto
qed

lemma collecting_fresh: "collecting fresh_ctx" "body_of fresh_ctx = None"
  by (simp_all add: collecting_def body_of_def fresh_ctx_def)

lemma http_body_collected_witness:
  "\<exists>ctx' calls. run_events (map (HRead True (\<lambda>_. True)) [''ab'', [], ''c'']) globals0 fresh_ctx = Inr (globals0, ctx', calls) \<and>
     body_of ctx' = Some ''abc''"
  using http_body_collected [OF collecting_fresh, of "''ab''" "[[], ''c'']" "\<lambda>_. True" globals0]
  by (auto simp: MAX_BODY_SIZE_def)

section \<open>The wait loop\<close>

definition ends_connection :: "http_event \<Rightarrow> bool" where
  "ends_connection e \<longleftrightarrow> (\<exists>st. e = HClosed st) \<or> (\<exists>m. e = HConnectionError m)"

lemma read_frames:
  "read_sse as ctx input = Inr (ctx1, calls, bytes) \<Longrightarrow> is_connection_completed ctx1 = is_connection_completed ctx"
  "is_connection_completed (fst (read_body alloc ctx bytes)) = is_connection_completed ctx"
  by (auto simp: read_sse_def read_body_def c_bind_Inr_iff Let_def split: if_splits option.splits prod.splits)

lemma on_http_read_frame:
  "on_http_read alloc as g ctx input = Inr (g', ctx', calls, r) \<Longrightarrow>
     g' = g \<and> is_connection_completed ctx' = is_connection_completed ctx"
  by (auto simp: on_http_read_def c_bind_Inr_iff case_prod_beta read_frames(2) dest: read_frames(1))

lemma completed_kept:
  "callback_onesdk_http e g ctx = Inr (g', ctx', calls, r) \<Longrightarrow> is_connection_completed ctx \<Longrightarrow> is_connection_completed ctx'"
  by (cases e) (auto dest!: on_http_read_frame simp: on_connection_error_def on_established_def on_append_handshake_def on_http_writeable_def
      on_filter_pre_establish_def on_completed_def on_closed_def map_response_def Let_def c_bind_Inr_iff
      split: option.splits if_splits prod.splits bool.splits)

lemma run_events_completed:
  "run_events es g ctx = Inr (g', ctx', calls) \<Longrightarrow>
     is_connection_completed ctx \<or> (\<exists>e\<in>set es. ends_connection e) \<Longrightarrow> is_connection_completed ctx'"
proof (induction es arbitrary: g ctx calls)
  case (Cons e es)
  then obtain g1 ctx1 k1 r1 k2 where s: "callback_onesdk_http e g ctx = Inr (g1, ctx1, k1, r1)"
    "run_events es g1 ctx1 = Inr (g', ctx', k2)"
    by (auto simp: c_bind_Inr_iff)
  have "is_connection_completed ctx1 \<or> (\<exists>e\<in>set es. ends_connection e)"
  proof (cases "ends_connection e")
    case True
    then have "is_connection_completed ctx1"
      using s(1) by (auto simp: ends_connection_def on_closed_def on_connection_error_def)
    then show ?thesis ..
  next
    case False
    then show ?thesis using Cons.prems(2) completed_kept [OF s(1)] by auto
  qed
  then show ?case using Cons.IH [OF s(2)] by blast
qed simp

text \<open>
  C32. A synchronous request returns: when the \<open>j\<close>-th call of \<^verbatim>\<open>lws_service\<close> is one that reports
  the end of the connection or a connection error, the wait loop has ended after at most that
  many calls.
\<close>

theorem http_wait_loop_returns:
  assumes "wait_loop n script g ctx = Inr (g', ctx', calls, k)"
    and "j < length script" "\<exists>e\<in>set (fst (script ! j)). ends_connection e"
  shows "\<exists>m. k = Some m \<and> m \<le> Suc j"
  using assms
proof (induction script arbitrary: n g ctx j calls k)
  case (Cons s script)
  obtain es n' where s: "s = (es, n')" by (cases s)
  show ?case
  proof (cases "n \<ge> 0 \<and> \<not> is_connection_completed ctx \<and> \<not> interrupted g")
    case False
    then show ?thesis using Cons.prems(1) by (subst (asm) wait_loop.simps) auto
  next
    case True
    then obtain g1 ctx1 k1 k2 m where r: "run_events es g ctx = Inr (g1, ctx1, k1)"
      "wait_loop n' script g1 ctx1 = Inr (g', ctx', k2, m)" "k = map_option Suc m"
      using Cons.prems(1) s by (subst (asm) wait_loop.simps) (auto simp: c_bind_Inr_iff)
    show ?thesis
    proof (cases j)
      case 0
      then have "is_connection_completed ctx1" using run_events_completed [OF r(1)] Cons.prems(3) s by simp
      then have "m = Some 0" using r(2) by (subst (asm) wait_loop.simps) auto
      then show ?thesis using r(3) 0 by simp
    next
      case (Suc i)
      then obtain m' where "m = Some m'" "m' \<le> Suc i"
        using Cons.IH [OF r(2), of i] Cons.prems(2,3) by auto
      then show ?thesis using r(3) Suc by simp
    qed
  qed
qed simp

lemma http_wait_loop_returns_witness:
  "\<exists>g' ctx' calls m. wait_loop 0 [([HRead True (\<lambda>_. True) ''a''], 0), ([HClosed 200], 0)] globals0 fresh_ctx =
     Inr (g', ctx', calls, Some m) \<and> m \<le> 2"
proof -
  obtain g' ctx' calls k where
    r: "wait_loop 0 [([HRead True (\<lambda>_. True) ''a''], 0), ([HClosed 200], 0)] globals0 fresh_ctx = Inr (g', ctx', calls, k)"
    by (auto simp: wait_loop.simps fresh_ctx_def globals0_def on_http_read_def read_sse_def read_body_def add_body_def on_closed_def Let_def)
  from http_wait_loop_returns [OF r, of 1] r show ?thesis by (auto simp: ends_connection_def)
qed

section \<open>After a failed connection\<close>

lemma interrupted_kept:
  "callback_onesdk_http e g ctx = Inr (g', ctx', calls, r) \<Longrightarrow> interrupted g \<Longrightarrow> interrupted g'"
  by (cases e) (auto dest!: on_http_read_frame simp: on_connection_error_def on_established_def on_append_handshake_def on_http_writeable_def
      on_filter_pre_establish_def on_completed_def on_closed_def Let_def c_bind_Inr_iff
      split: option.splits if_splits prod.splits bool.splits)

lemma run_events_interrupted:
  "run_events es g ctx = Inr (g', ctx', calls) \<Longrightarrow> interrupted g \<or> (\<exists>m. HConnectionError m \<in> set es) \<Longrightarrow> interrupted g'"
proof (induction es arbitrary: g ctx calls)
  case (Cons e es)
  then obtain g1 ctx1 k1 r1 k2 where s: "callback_onesdk_http e g ctx = Inr (g1, ctx1, k1, r1)"
    "run_events es g1 ctx1 = Inr (g', ctx', k2)"
    by (auto simp: c_bind_Inr_iff)
  have "interrupted g1 \<or> (\<exists>m. HConnectionError m \<in> set es)"
    using Cons.prems(2) interrupted_kept [OF s(1)] s(1) by (auto simp: on_connection_error_def)
  then show ?case using Cons.IH [OF s(2)] by blast
qed simp

text \<open>
  Once any connection of the process has failed, every later synchronous request, on a new
  context and with a connection that works, returns at once without a single service call,
  with its response still empty and its error code still zero.
\<close>

theorem http_requests_dead_after_connection_error:
  assumes "run_events es g ctx = Inr (g', ctx', calls)" "HConnectionError m \<in> set es"
  shows "http_request True True script g' fresh_ctx =
    Inr (g', fresh_ctx\<lparr>hc_network_ctx := True\<rparr>,
         [ClientConnectH (snd (init_client_connect_info g' fresh_ctx))], Some 0, hc_response fresh_ctx)"
proof -
  have "interrupted g'" using run_events_interrupted [OF assms(1)] assms(2) by blast
  then have "wait_loop 0 script g' c = Inr (g', c, [], Some 0)" for c
    by (subst wait_loop.simps) simp
  then show ?thesis
    by (simp add: http_request_def lws_http_client_init_def lws_http_client_connect_def
        init_client_connect_info_def connect_flags_def fresh_ctx_def VOLC_OK_def)
qed

lemma http_requests_dead_after_connection_error_witness:
  "\<exists>g'. http_request True True [([HEstablished 200, HRead True (\<lambda>_. True) ''ok'', HCompleted], 0)] g' fresh_ctx =
     Inr (g', fresh_ctx\<lparr>hc_network_ctx := True\<rparr>,
          [ClientConnectH (snd (init_client_connect_info g' fresh_ctx))], Some 0, hc_response fresh_ctx) \<and> interrupted g'"
proof -
  obtain g' ctx' calls where r: "run_events [HConnectionError None] globals0 fresh_ctx = Inr (g', ctx', calls)"
    and i: "interrupted g'" by (auto simp: on_connection_error_def)
  from http_requests_dead_after_connection_error [OF r, of None] i show ?thesis by auto
qed

section \<open>URLs\<close>

text \<open>
  With a parser that returns the protocol without its separator, as libwebsockets does, an
  URL never turns on TLS: the protocol is compared with a text that includes the separator.
\<close>

theorem http_url_never_enables_ssl:
  assumes "\<And>u p h port path. parse u = Some (p, h, port, path) \<Longrightarrow> CHR ''/'' \<notin> set p"
    and "http_ctx_set_url parse ctx url = Inr ctx'" "\<not> hc_is_ssl ctx"
  shows "\<not> hc_is_ssl ctx'"
proof -
  have "p \<noteq> HTTPS_PREFIX" if "parse u = Some (p, h, port, path)" for u p h port path
    using assms(1) [OF that] by (auto simp: HTTPS_PREFIX_def)
  then show ?thesis
    using assms(2,3) by (auto simp: http_ctx_set_url_def Let_def split: option.splits if_splits)
qed

lemma http_url_never_enables_ssl_witness:
  "\<exists>ctx'. http_ctx_set_url (\<lambda>_. Some (''https'', ''h'', 443, ''p'')) fresh_ctx (Some ''https://h/p'') = Inr ctx' \<and>
     \<not> hc_is_ssl ctx'"
proof -
  obtain ctx' where r: "http_ctx_set_url (\<lambda>_. Some (''https'', ''h'', 443, ''p'')) fresh_ctx (Some ''https://h/p'') = Inr ctx'"
    by (auto simp: http_ctx_set_url_def Let_def)
  have "\<not> hc_is_ssl fresh_ctx" by (simp add: fresh_ctx_def)
  from http_url_never_enables_ssl [OF _ r this] r show ?thesis by auto
qed

section \<open>Credentials\<close>

text \<open>
  The credentials of one request are used for the following ones: after a request with a
  user and a password, the handshake of a request on another context, to any host and with no
  credentials of its own, carries an authorization header with them.
\<close>

theorem http_credentials_leak:
  assumes "auth_user (hc_client ctx1) = Some u" "auth_password (hc_client ctx1) = Some p"
    and "lws_http_client_connect connected g ctx1 = Inr (g1, ctx1', calls1, ret)" "gen u p = Some b"
    and "auth_user (hc_client ctx2) = None" "auth_password (hc_client ctx2) = None"
    and "lws_http_client_connect True g1 ctx2 = Inr (g2, ctx2', calls2, ret2)"
  shows "AddToken ''authorization:'' b \<in> set (fst (snd (snd (on_append_handshake gen (\<lambda>_. False) False g2 ctx2'))))"
proof -
  have "ba_user g1 = Some u \<and> ba_password g1 = Some p"
    using assms(1-3) by (auto simp: lws_http_client_connect_def init_client_connect_info_def Let_def
        split: if_splits option.splits)
  then have "ba_user g2 = Some u \<and> ba_password g2 = Some p"
    using assms(5-7) by (auto simp: lws_http_client_connect_def init_client_connect_info_def Let_def)
  then show ?thesis using assms(4) by (simp add: on_append_handshake_def Let_def add_all_ok)
qed

lemma http_credentials_leak_witness:
  "\<exists>g1 ctx1' calls1 g2 ctx2' calls2.
     lws_http_client_connect True globals0 (http_ctx_set_auth fresh_ctx (Some ''u'') (Some ''p'')) = Inr (g1, ctx1', calls1, 0) \<and>
     lws_http_client_connect True g1 fresh_ctx = Inr (g2, ctx2', calls2, 0) \<and>
     AddToken ''authorization:'' ''u:p'' \<in>
       set (fst (snd (snd (on_append_handshake (\<lambda>u p. Some (u @ '':'' @ p)) (\<lambda>_. False) False g2 ctx2'))))"
proof -
  let ?c = "http_ctx_set_auth fresh_ctx (Some ''u'') (Some ''p'')"
  obtain g1 ctx1' calls1 where a: "lws_http_client_connect True globals0 ?c = Inr (g1, ctx1', calls1, 0)"
    by (simp add: lws_http_client_connect_def case_prod_beta)
  obtain g2 ctx2' calls2 where b: "lws_http_client_connect True g1 fresh_ctx = Inr (g2, ctx2', calls2, 0)"
    by (simp add: lws_http_client_connect_def case_prod_beta)
  have "AddToken ''authorization:'' ''u:p'' \<in>
       set (fst (snd (snd (on_append_handshake (\<lambda>u p. Some (u @ '':'' @ p)) (\<lambda>_. False) False g2 ctx2'))))"
    by (rule http_credentials_leak [OF _ _ a _ _ _ b, of "''u''" "''p''"])
       (simp_all add: http_ctx_set_auth_def fresh_ctx_def)
  with a b show ?thesis by blast
qed

end
