(* ===== verification/Sha256.thy ===== *)
theory Sha256
  imports Prelude
begin

text \<open>
  The streaming SHA-256 of \<^verbatim>\<open>src/util/sha256.c\<close> and the HMAC of \<^verbatim>\<open>src/util/hmac_sha256.c\<close>:
  32-bit words, the block buffer with its fill level, the 64-bit length counter.
\<close>

unbundle bit_operations_syntax

type_synonym byte = "8 word"
type_synonym word32 = "32 word"

section \<open>Byte order\<close>

text \<open>The macros \<^verbatim>\<open>LOAD32H\<close>, \<^verbatim>\<open>STORE32H\<close> and \<^verbatim>\<open>STORE64H\<close>.\<close>

definition load32h :: "byte list \<Rightarrow> nat \<Rightarrow> word32" where
  "load32h y i =
     push_bit 24 (ucast (y ! i AND 255)) OR push_bit 16 (ucast (y ! (i + 1) AND 255)) OR
     push_bit 8 (ucast (y ! (i + 2) AND 255)) OR ucast (y ! (i + 3) AND 255)"

definition store32h :: "word32 \<Rightarrow> byte list" where
  "store32h x = map (\<lambda>s. ucast (drop_bit s x AND 255)) [24, 16, 8, 0]"

definition store64h :: "64 word \<Rightarrow> byte list" where
  "store64h x = map (\<lambda>s. ucast (drop_bit s x AND 255)) [56, 48, 40, 32, 24, 16, 8, 0]"

section \<open>The compression function\<close>

definition sha_K :: "word32 list" where
  "sha_K = [
    0x428a2f98, 0x71374491, 0xb5c0fbcf, 0xe9b5dba5, 0x3956c25b,
    0x59f111f1, 0x923f82a4, 0xab1c5ed5, 0xd807aa98, 0x12835b01,
    0x243185be, 0x550c7dc3, 0x72be5d74, 0x80deb1fe, 0x9bdc06a7,
    0xc19bf174, 0xe49b69c1, 0xefbe4786, 0x0fc19dc6, 0x240ca1cc,
    0x2de92c6f, 0x4a7484aa, 0x5cb0a9dc, 0x76f988da, 0x983e5152,
    0xa831c66d, 0xb00327c8, 0xbf597fc7, 0xc6e00bf3, 0xd5a79147,
    0x06ca6351, 0x14292967, 0x27b70a85, 0x2e1b2138, 0x4d2c6dfc,
    0x53380d13, 0x650a7354, 0x766a0abb, 0x81c2c92e, 0x92722c85,
    0xa2bfe8a1, 0xa81a664b, 0xc24b8b70, 0xc76c51a3, 0xd192e819,
    0xd6990624, 0xf40e3585, 0x106aa070, 0x19a4c116, 0x1e376c08,
    0x2748774c, 0x34b0bcb5, 0x391c0cb3, 0x4ed8aa4a, 0x5b9cca4f,
    0x682e6ff3, 0x748f82ee, 0x78a5636f, 0x84c87814, 0x8cc70208,
    0x90befffa, 0xa4506ceb, 0xbef9a3f7, 0xc67178f2]"

definition ror :: "word32 \<Rightarrow> nat \<Rightarrow> word32" where
  "ror x n = (drop_bit n x OR push_bit (32 - n) x)"

definition Ch :: "word32 \<Rightarrow> word32 \<Rightarrow> word32 \<Rightarrow> word32" where
  "Ch x y z = z XOR (x AND (y XOR z))"

definition Maj :: "word32 \<Rightarrow> word32 \<Rightarrow> word32 \<Rightarrow> word32" where
  "Maj x y z = ((x OR y) AND z) OR (x AND y)"

definition Sigma0 :: "word32 \<Rightarrow> word32" where "Sigma0 x = (ror x 2 XOR ror x 13 XOR ror x 22)"
definition Sigma1 :: "word32 \<Rightarrow> word32" where "Sigma1 x = (ror x 6 XOR ror x 11 XOR ror x 25)"
definition Gamma0 :: "word32 \<Rightarrow> word32" where "Gamma0 x = (ror x 7 XOR ror x 18 XOR drop_bit 3 x)"
definition Gamma1 :: "word32 \<Rightarrow> word32" where "Gamma1 x = (ror x 17 XOR ror x 19 XOR drop_bit 10 x)"

text \<open>The array \<^verbatim>\<open>W\<close>: sixteen words of the block, then filled up by index.\<close>

definition fill_W :: "byte list \<Rightarrow> word32 list" where
  "fill_W buf =
     foldl (\<lambda>W i. W[i := Gamma1 (W ! (i - 2)) + W ! (i - 7) + Gamma0 (W ! (i - 15)) + W ! (i - 16)])
       (map (\<lambda>i. load32h buf (4 * i)) [0..<16] @ replicate 48 0) [16..<64]"

text \<open>One round: \<^verbatim>\<open>Sha256Round\<close> on the eight working words, then the shift of the array.\<close>

definition sha_round :: "word32 list \<Rightarrow> word32 list \<Rightarrow> nat \<Rightarrow> word32 list" where
  "sha_round W S i =
     (let t0 = S ! 7 + Sigma1 (S ! 4) + Ch (S ! 4) (S ! 5) (S ! 6) + sha_K ! i + W ! i;
          t1 = Sigma0 (S ! 0) + Maj (S ! 0) (S ! 1) (S ! 2);
          S1 = S[3 := S ! 3 + t0, 7 := t0 + t1];
          t = S1 ! 7
      in t # take 7 S1)"

text \<open>\<^verbatim>\<open>TransformFunction\<close>: from the state of the context and a block to the next state.\<close>

definition TransformFunction :: "word32 list \<Rightarrow> byte list \<Rightarrow> word32 list" where
  "TransformFunction state buf =
     (let S = foldl (sha_round (fill_W buf)) state [0..<64] in map2 (+) state S)"

section \<open>The context\<close>

record sha256_ctx =
  sha_length :: "64 word"
  sha_state :: "word32 list"
  sha_curlen :: nat
  sha_buf :: "byte list"

definition sha256_H0 :: "word32 list" where
  "sha256_H0 = [0x6A09E667, 0xBB67AE85, 0x3C6EF372, 0xA54FF53A, 0x510E527F, 0x9B05688C, 0x1F83D9AB, 0x5BE0CD19]"

text \<open>The buffer of a new context is whatever the memory held: \<open>junk\<close>, of 64 bytes.\<close>

definition Sha256Initialise :: "byte list \<Rightarrow> sha256_ctx" where
  "Sha256Initialise junk = \<lparr>sha_length = 0, sha_state = sha256_H0, sha_curlen = 0, sha_buf = junk\<rparr>"

function sha256_update_loop :: "sha256_ctx \<Rightarrow> byte list \<Rightarrow> sha256_ctx" where
  "sha256_update_loop ctx data =
     (if data = [] then ctx
      else if sha_curlen ctx = 0 \<and> length data \<ge> 64 then
        sha256_update_loop (ctx\<lparr>sha_state := TransformFunction (sha_state ctx) (take 64 data),
          sha_length := sha_length ctx + 64 * 8\<rparr>) (drop 64 data)
      else if sha_curlen ctx > 64 then ctx
      else
        let n = min (length data) (64 - sha_curlen ctx);
            buf = memcpy_at (sha_curlen ctx) (take n data) (sha_buf ctx);
            cur = sha_curlen ctx + n
        in sha256_update_loop
             (if cur = 64
              then ctx\<lparr>sha_buf := buf, sha_state := TransformFunction (sha_state ctx) buf,
                       sha_length := sha_length ctx + 8 * 64, sha_curlen := 0\<rparr>
              else ctx\<lparr>sha_buf := buf, sha_curlen := cur\<rparr>) (drop n data))"
  by pat_completeness auto
termination
  by (relation "measures [\<lambda>(ctx, data). length data, \<lambda>(ctx, data). sha_curlen ctx]") auto

declare sha256_update_loop.simps [simp del]

text \<open>The size of the data is a 32-bit number.\<close>

definition Sha256Update :: "sha256_ctx \<Rightarrow> byte list \<Rightarrow> word32 \<Rightarrow> sha256_ctx" where
  "Sha256Update ctx buffer n =
     (if sha_curlen ctx > 64 then ctx else sha256_update_loop ctx (take (unat n) buffer))"

text \<open>The loops that store zeros from the fill level up to \<open>n\<close>.\<close>

definition zero_fill :: "nat \<Rightarrow> sha256_ctx \<Rightarrow> sha256_ctx" where
  "zero_fill n ctx =
     (if sha_curlen ctx < n
      then ctx\<lparr>sha_buf := memcpy_at (sha_curlen ctx) (replicate (n - sha_curlen ctx) 0) (sha_buf ctx), sha_curlen := n\<rparr>
      else ctx)"

text \<open>\<open>None\<close>: the digest is not written.\<close>

definition Sha256Finalise :: "sha256_ctx \<Rightarrow> sha256_ctx \<times> byte list option" where
  "Sha256Finalise ctx =
     (if sha_curlen ctx \<ge> 64 then (ctx, None)
      else
        let ctx1 = ctx\<lparr>sha_length := sha_length ctx + word_of_nat (sha_curlen ctx * 8)\<rparr>;
            ctx2 = ctx1\<lparr>sha_buf := (sha_buf ctx1)[sha_curlen ctx1 := 0x80], sha_curlen := sha_curlen ctx1 + 1\<rparr>;
            ctx3 = (if sha_curlen ctx2 > 56
                    then let c = zero_fill 64 ctx2 in
                         c\<lparr>sha_state := TransformFunction (sha_state c) (sha_buf c), sha_curlen := 0\<rparr>
                    else ctx2);
            ctx4 = zero_fill 56 ctx3;
            ctx5 = ctx4\<lparr>sha_buf := memcpy_at 56 (store64h (sha_length ctx4)) (sha_buf ctx4)\<rparr>;
            ctx6 = ctx5\<lparr>sha_state := TransformFunction (sha_state ctx5) (sha_buf ctx5)\<rparr>
        in (ctx6, Some (concat (map store32h (sha_state ctx6)))))"

definition Sha256Calculate :: "byte list \<Rightarrow> byte list \<Rightarrow> word32 \<Rightarrow> byte list option" where
  "Sha256Calculate junk buffer n = snd (Sha256Finalise (Sha256Update (Sha256Initialise junk) buffer n))"

section \<open>HMAC\<close>

definition SHA256_BLOCK_SIZE :: nat where "SHA256_BLOCK_SIZE = 64"
definition SHA256_HASH_SIZE :: nat where "SHA256_HASH_SIZE = 32"

text \<open>
  The wrapper \<^verbatim>\<open>sha256\<close> returns the bytes it copies to its output; the length of the data
  is converted to 32 bits by the call.
\<close>

definition sha256_wrap :: "byte list \<Rightarrow> byte list \<Rightarrow> nat \<Rightarrow> byte list option" where
  "sha256_wrap junk data outlen =
     map_option (\<lambda>h. take (if outlen > SHA256_HASH_SIZE then SHA256_HASH_SIZE else outlen) h)
       (Sha256Calculate junk data (word_of_nat (length data)))"

text \<open>\<^verbatim>\<open>H\<close>: hash of a concatenation.\<close>

definition hmac_H :: "byte list \<Rightarrow> byte list \<Rightarrow> byte list \<Rightarrow> nat \<Rightarrow> byte list option" where
  "hmac_H junk x y outlen = sha256_wrap junk (x @ y) outlen"

definition onesdk_hmac_sha256 :: "byte list \<Rightarrow> byte list \<Rightarrow> byte list \<Rightarrow> nat \<Rightarrow> byte list option" where
  "onesdk_hmac_sha256 junk key data outlen =
     (case (if length key > SHA256_BLOCK_SIZE then sha256_wrap junk key SHA256_BLOCK_SIZE else Some key) of
        None \<Rightarrow> None
      | Some k0 \<Rightarrow>
          let k = memcpy_at 0 k0 (replicate SHA256_BLOCK_SIZE 0);
              k_ipad = map2 (XOR) (replicate SHA256_BLOCK_SIZE 0x36) k;
              k_opad = map2 (XOR) (replicate SHA256_BLOCK_SIZE 0x5c) k
          in case hmac_H junk k_ipad data SHA256_HASH_SIZE of
               None \<Rightarrow> None
             | Some ihash \<Rightarrow>
                 (let sz = (if outlen > SHA256_HASH_SIZE then SHA256_HASH_SIZE else outlen)
                  in map_option (take sz) (hmac_H junk k_opad ihash SHA256_HASH_SIZE)))"

end
