(* ===== verification/StreamHash.thy ===== *)
theory StreamHash
  imports Prelude
begin

text \<open>
  The interface of a streaming hash: a context is initialised, fed with data piece by piece and
  finalised. Its law: the digest is a function of the concatenation of the pieces. A user of a
  hash (HMAC, a file checksum) relies on the lemmas of the locale only.
\<close>

locale streaming_hash =
  fixes init :: 's
    and update :: "'s \<Rightarrow> 'b list \<Rightarrow> 's"
    and final :: "'s \<Rightarrow> 'd"
    and represents :: "'s \<Rightarrow> 'b list \<Rightarrow> bool"
    and hash :: "'b list \<Rightarrow> 'd"
    and small :: "'b list \<Rightarrow> bool"
  assumes init_represents: "represents init []"
    and update_represents: "represents s m \<Longrightarrow> small d \<Longrightarrow> represents (update s d) (m @ d)"
    and final_hash: "represents s m \<Longrightarrow> final s = hash m"
begin

lemma fold_represents:
  "represents s m \<Longrightarrow> \<forall>d\<in>set ds. small d \<Longrightarrow> represents (foldl update s ds) (m @ concat ds)"
proof (induction ds arbitrary: s m)
  case (Cons d ds)
  then have "represents (update s d) (m @ d)" by (intro update_represents) auto
  with Cons.IH [OF this] Cons.prems show ?case by simp
qed simp

lemma digest_of_pieces:
  "\<forall>d\<in>set ds. small d \<Longrightarrow> final (foldl update init ds) = hash (concat ds)"
  using final_hash [OF fold_represents [OF init_represents, of ds]] by simp

lemma pieces_do_not_matter:
  "\<forall>d\<in>set ds. small d \<Longrightarrow> \<forall>d\<in>set es. small d \<Longrightarrow> concat ds = concat es \<Longrightarrow>
     final (foldl update init ds) = final (foldl update init es)"
  by (simp add: digest_of_pieces)

end

section \<open>Blocks\<close>

text \<open>A state folded over the complete blocks of a byte string; the rest is ignored.\<close>

function fold_blocks :: "nat \<Rightarrow> ('s \<Rightarrow> 'b list \<Rightarrow> 's) \<Rightarrow> 's \<Rightarrow> 'b list \<Rightarrow> 's" where
  "fold_blocks n f s m = (if n > 0 \<and> length m \<ge> n then fold_blocks n f (f s (take n m)) (drop n m) else s)"
  by pat_completeness auto
termination
  by (relation "measure (\<lambda>(n, f, s, m). length m)") auto

declare fold_blocks.simps [simp del]

lemma fold_blocks_short [simp]: "length m < n \<Longrightarrow> fold_blocks n f s m = s"
  by (subst fold_blocks.simps) simp

lemma fold_blocks_append:
  "n > 0 \<Longrightarrow> n dvd length m \<Longrightarrow> fold_blocks n f s (m @ d) = fold_blocks n f (fold_blocks n f s m) d"
proof (induction n f s m rule: fold_blocks.induct)
  case (1 n f s m)
  show ?case
  proof (cases "m = []")
    case True
    then show ?thesis using 1(2) by simp
  next
    case False
    then have le: "n \<le> length m" using 1(3) by (simp add: dvd_imp_le)
    then have dv: "n dvd length (drop n m)" using 1(3) by simp
    have "fold_blocks n f s (m @ d) = fold_blocks n f (f s (take n m)) (drop n m @ d)"
      using 1(2) le by (subst fold_blocks.simps) simp
    moreover have "fold_blocks n f s m = fold_blocks n f (f s (take n m)) (drop n m)"
      using 1(2) le by (subst fold_blocks.simps) simp
    ultimately show ?thesis using 1(1) [OF _ 1(2) dv] 1(2) le by simp
  qed
qed

lemma fold_blocks_one: "n > 0 \<Longrightarrow> length d = n \<Longrightarrow> fold_blocks n f s d = f s d"
  by (subst fold_blocks.simps) simp

text \<open>The part of a message that fills no block, and the part before it.\<close>

definition whole_part :: "nat \<Rightarrow> 'b list \<Rightarrow> 'b list" where
  "whole_part n m = take (length m - length m mod n) m"

definition rest_part :: "nat \<Rightarrow> 'b list \<Rightarrow> 'b list" where
  "rest_part n m = drop (length m - length m mod n) m"

lemma whole_rest: "whole_part n m @ rest_part n m = m"
  by (simp add: whole_part_def rest_part_def)

lemma length_rest [simp]: "length (rest_part n m) = length m mod n"
  by (simp add: rest_part_def)

lemma length_whole: "length (whole_part n m) = length m - length m mod n" "n dvd length (whole_part n m)"
  by (simp_all add: whole_part_def minus_mod_eq_mult_div)

lemma fold_blocks_whole: "n > 0 \<Longrightarrow> fold_blocks n f s (whole_part n m) = fold_blocks n f s m"
  using fold_blocks_append [of n "whole_part n m" f s "rest_part n m"]
  by (simp add: length_whole whole_rest)

lemma parts_append_whole:
  assumes "n dvd length m"
  shows "rest_part n (m @ d) = rest_part n d" "whole_part n (m @ d) = m @ whole_part n d"
proof -
  have e: "(length m + length d) mod n = length d mod n" using assms by (auto elim: dvdE)
  have le: "length d mod n \<le> length d" by simp
  then have s: "length m + length d - length d mod n = length m + (length d - length d mod n)"
    by (rule add_diff_assoc [symmetric])
  define b where "b = length d - length d mod n"
  have L: "length (m @ d) - length (m @ d) mod n = length m + b"
    by (simp only: length_append e s b_def)
  show "rest_part n (m @ d) = rest_part n d" "whole_part n (m @ d) = m @ whole_part n d"
    unfolding rest_part_def whole_part_def L b_def [symmetric] by simp_all
qed

lemma parts_short: "length m < n \<Longrightarrow> rest_part n m = m" "length m < n \<Longrightarrow> whole_part n m = []"
  by (simp_all add: rest_part_def whole_part_def)

lemma rest_part_append: "length (rest_part n m) + length x < n \<Longrightarrow> rest_part n (m @ x) = rest_part n m @ x"
  using parts_append_whole(1) [OF length_whole(2), of n m "rest_part n m @ x"] parts_short(1) [of "rest_part n m @ x" n]
  by (simp add: whole_rest flip: append_assoc)

lemma fold_blocks_append_rest:
  "n > 0 \<Longrightarrow> fold_blocks n f s (m @ x) = fold_blocks n f (fold_blocks n f s m) (rest_part n m @ x)"
  using fold_blocks_append [OF _ length_whole(2), of n f s m "rest_part n m @ x"]
  by (simp add: whole_rest fold_blocks_whole flip: append_assoc)

end
