(* ===== verification/Sha256Props.thy ===== *)
theory Sha256Props
  imports Sha256 StreamHash
begin

text \<open>
  The streaming SHA-256 against the description of FIPS 180-4: padding of the whole message,
  a schedule of 64 words per block given by a recurrence, rounds on eight variables; and the
  HMAC against RFC 2104.
\<close>

section \<open>The standard\<close>

definition fips_Ch :: "word32 \<Rightarrow> word32 \<Rightarrow> word32 \<Rightarrow> word32" where
  "fips_Ch x y z = ((x AND y) XOR (NOT x AND z))"

definition fips_Maj :: "word32 \<Rightarrow> word32 \<Rightarrow> word32 \<Rightarrow> word32" where
  "fips_Maj x y z = ((x AND y) XOR (x AND z) XOR (y AND z))"

definition fips_S0 :: "word32 \<Rightarrow> word32" where
  "fips_S0 x = (word_rotr 2 x XOR word_rotr 13 x XOR word_rotr 22 x)"
definition fips_S1 :: "word32 \<Rightarrow> word32" where
  "fips_S1 x = (word_rotr 6 x XOR word_rotr 11 x XOR word_rotr 25 x)"
definition fips_s0 :: "word32 \<Rightarrow> word32" where
  "fips_s0 x = (word_rotr 7 x XOR word_rotr 18 x XOR drop_bit 3 x)"
definition fips_s1 :: "word32 \<Rightarrow> word32" where
  "fips_s1 x = (word_rotr 17 x XOR word_rotr 19 x XOR drop_bit 10 x)"

text \<open>The message schedule.\<close>

fun fips_W :: "byte list \<Rightarrow> nat \<Rightarrow> word32" where
  "fips_W M t =
     (if t < 16 then load32h M (4 * t)
      else fips_s1 (fips_W M (t - 2)) + fips_W M (t - 7) + fips_s0 (fips_W M (t - 15)) + fips_W M (t - 16))"

declare fips_W.simps [simp del]

type_synonym fips_vars = "word32 \<times> word32 \<times> word32 \<times> word32 \<times> word32 \<times> word32 \<times> word32 \<times> word32"

fun fips_round :: "byte list \<Rightarrow> fips_vars \<Rightarrow> nat \<Rightarrow> fips_vars" where
  "fips_round M (a, b, c, d, e, f, g, h) t =
     (let T1 = h + fips_S1 e + fips_Ch e f g + sha_K ! t + fips_W M t;
          T2 = fips_S0 a + fips_Maj a b c
      in (T1 + T2, a, b, c, d + T1, e, f, g))"

fun fips_list :: "fips_vars \<Rightarrow> word32 list" where
  "fips_list (a, b, c, d, e, f, g, h) = [a, b, c, d, e, f, g, h]"

definition fips_compress :: "word32 list \<Rightarrow> byte list \<Rightarrow> word32 list" where
  "fips_compress H M =
     map2 (+) H (fips_list (foldl (fips_round M)
       (H ! 0, H ! 1, H ! 2, H ! 3, H ! 4, H ! 5, H ! 6, H ! 7) [0..<64]))"

text \<open>One bit, zeros up to 56 bytes of the last block, the length of the message in bits.\<close>

definition fips_pad :: "byte list \<Rightarrow> byte list" where
  "fips_pad m = m @ [0x80] @ replicate ((119 - length m mod 64) mod 64) 0 @ store64h (word_of_nat (8 * length m))"

definition sha256_spec :: "byte list \<Rightarrow> byte list" where
  "sha256_spec m = concat (map store32h (fold_blocks 64 fips_compress sha256_H0 (fips_pad m)))"

section \<open>The compression function\<close>

lemma ror_rotr: "0 < n \<Longrightarrow> n < 32 \<Longrightarrow> ror x n = word_rotr n x"
proof (rule bit_word_eqI)
  fix k assume n: "0 < n" "n < 32" and k: "k < LENGTH(32)"
  have long: "\<not> bit x i" if "32 \<le> i" for i using that bit_imp_le_length [of x i] by auto
  have m: "(k + n) mod 32 = (if k + n < 32 then k + n else k + n - 32)"
    using n k by (simp add: mod_if)
  show "bit (ror x n) k = bit (word_rotr n x) k"
    using n k long [of "n + k"] by (auto simp: ror_def bit_simps m add.commute)
qed

lemma macros_fips:
  "Ch x y z = fips_Ch x y z" "Maj x y z = fips_Maj x y z"
  "Sigma0 x = fips_S0 x" "Sigma1 x = fips_S1 x" "Gamma0 x = fips_s0 x" "Gamma1 x = fips_s1 x"
  by (simp_all add: Sigma0_def Sigma1_def Gamma0_def Gamma1_def fips_S0_def fips_S1_def fips_s0_def fips_s1_def ror_rotr)
     (rule bit_word_eqI, auto simp: Ch_def Maj_def fips_Ch_def fips_Maj_def bit_simps)+


lemma length_sha_K: "length sha_K = 64" by (simp add: sha_K_def)

lemma fill_W_partial:
  assumes "k \<le> 48"
  shows "length (foldl (\<lambda>W i. W[i := Gamma1 (W ! (i - 2)) + W ! (i - 7) + Gamma0 (W ! (i - 15)) + W ! (i - 16)])
       (map (\<lambda>i. load32h M (4 * i)) [0..<16] @ replicate 48 0) [16..<16 + k]) = 64 \<and>
    (\<forall>t<16 + k. foldl (\<lambda>W i. W[i := Gamma1 (W ! (i - 2)) + W ! (i - 7) + Gamma0 (W ! (i - 15)) + W ! (i - 16)])
       (map (\<lambda>i. load32h M (4 * i)) [0..<16] @ replicate 48 0) [16..<16 + k] ! t = fips_W M t)"
  using assms
proof (induction k)
  case 0
  then show ?case by (auto simp: fips_W.simps nth_append)
next
  case (Suc k)
  let ?f = "\<lambda>W i. W[i := Gamma1 (W ! (i - 2)) + W ! (i - 7) + Gamma0 (W ! (i - 15)) + W ! (i - 16)]"
  define W where "W = foldl ?f (map (\<lambda>i. load32h M (4 * i)) [0..<16] @ replicate 48 0) [16..<16 + k]"
  have W: "length W = 64" "\<forall>t<16 + k. W ! t = fips_W M t" using Suc by (simp_all add: W_def)
  have e: "foldl ?f (map (\<lambda>i. load32h M (4 * i)) [0..<16] @ replicate 48 0) [16..<16 + Suc k] = ?f W (16 + k)"
  proof -
    have "[16..<16 + Suc k] = [16..<16 + k] @ [16 + k]"
      by (simp only: add_Suc_right upt_Suc_append le_add1)
    then show ?thesis unfolding W_def by (simp only: foldl_append foldl.simps)
  qed
  have new: "?f W (16 + k) ! (16 + k) = fips_W M (16 + k)"
    using W Suc.prems by (subst fips_W.simps) (simp add: macros_fips)
  have "?f W (16 + k) ! t = fips_W M t" if "t < 16 + Suc k" for t
  proof (cases "t = 16 + k")
    case True then show ?thesis using new by simp
  next
    case False then show ?thesis using W that by simp
  qed
  then show ?case unfolding e using W(1) by simp
qed

lemma fill_W_spec: "length (fill_W M) = 64" "t < 64 \<Longrightarrow> fill_W M ! t = fips_W M t"
proof -
  have n: "16 + 48 = (64::nat)" by simp
  from fill_W_partial [OF order_refl, of M, unfolded n]
  show "length (fill_W M) = 64" "t < 64 \<Longrightarrow> fill_W M ! t = fips_W M t"
    unfolding fill_W_def by blast+
qed

lemma sha_round_list:
  "sha_round W [a, b, c, d, e, f, g, h] i =
     (let t0 = h + Sigma1 e + Ch e f g + sha_K ! i + W ! i; t1 = Sigma0 a + Maj a b c
      in [t0 + t1, a, b, c, d + t0, e, f, g])"
proof -
  have n: "[a, b, c, d, e, f, g, h] ! 0 = a" "[a, b, c, d, e, f, g, h] ! 1 = b" "[a, b, c, d, e, f, g, h] ! 2 = c"
    "[a, b, c, d, e, f, g, h] ! 3 = d" "[a, b, c, d, e, f, g, h] ! 4 = e" "[a, b, c, d, e, f, g, h] ! 5 = f"
    "[a, b, c, d, e, f, g, h] ! 6 = g" "[a, b, c, d, e, f, g, h] ! 7 = h"
    by simp_all
  have u: "[a, b, c, d, e, f, g, h][3 := x, 7 := y] = [a, b, c, x, e, f, g, y]" for x y
    by (simp add: eval_nat_numeral)
  have v: "[a, b, c, x, e, f, g, y] ! 7 = y" "take 7 [a, b, c, x, e, f, g, y] = [a, b, c, x, e, f, g]" for x y
    by simp_all
  show ?thesis unfolding sha_round_def Let_def n u v ..
qed

lemma sha_round_fips: "t < 64 \<Longrightarrow> sha_round (fill_W M) (fips_list v) t = fips_list (fips_round M v t)"
  by (cases v rule: fips_list.cases)
     (simp only: fips_list.simps fips_round.simps sha_round_list Let_def macros_fips fill_W_spec(2))

lemma rounds_fips:
  "\<forall>t\<in>set ts. t < 64 \<Longrightarrow> foldl (sha_round (fill_W M)) (fips_list v) ts = fips_list (foldl (fips_round M) v ts)"
  by (induction ts arbitrary: v) (auto simp: sha_round_fips)

lemma list8: "length H = 8 \<Longrightarrow> fips_list (H ! 0, H ! 1, H ! 2, H ! 3, H ! 4, H ! 5, H ! 6, H ! 7) = H"
  by (auto simp: numeral_eq_Suc length_Suc_conv)

lemma TransformFunction_fips:
  assumes "length H = 8"
  shows "TransformFunction H M = fips_compress H M"
proof -
  have "foldl (sha_round (fill_W M)) H [0..<64] = fips_list (foldl (fips_round M)
      (H ! 0, H ! 1, H ! 2, H ! 3, H ! 4, H ! 5, H ! 6, H ! 7) [0..<64])"
    by (subst (1) list8 [OF assms, symmetric], rule rounds_fips) simp
  then show ?thesis by (simp only: TransformFunction_def fips_compress_def Let_def)
qed

lemma length_fips_compress [simp]: "length H = 8 \<Longrightarrow> length (fips_compress H M) = 8"
  by (cases "foldl (fips_round M) (H ! 0, H ! 1, H ! 2, H ! 3, H ! 4, H ! 5, H ! 6, H ! 7) [0..<64]" rule: fips_list.cases)
     (simp add: fips_compress_def)

lemma length_fold_compress: "length H = 8 \<Longrightarrow> length (fold_blocks 64 fips_compress H m) = 8"
  by (induction "64::nat" fips_compress H m rule: fold_blocks.induct) (subst fold_blocks.simps, simp)

section \<open>The streaming context\<close>

definition sha_rep :: "sha256_ctx \<Rightarrow> byte list \<Rightarrow> bool" where
  "sha_rep ctx m \<longleftrightarrow> length (sha_buf ctx) = 64 \<and> sha_curlen ctx = length m mod 64 \<and>
     take (length m mod 64) (sha_buf ctx) = rest_part 64 m \<and>
     sha_state ctx = fold_blocks 64 fips_compress sha256_H0 m \<and>
     sha_length ctx = word_of_nat (8 * (length m - length m mod 64))"

lemma length_state: "length (fold_blocks 64 fips_compress sha256_H0 m) = 8"
  by (rule length_fold_compress) (simp add: sha256_H0_def)

lemma sha_transform: "TransformFunction (fold_blocks 64 fips_compress sha256_H0 m) b
    = fips_compress (fold_blocks 64 fips_compress sha256_H0 m) b"
  by (rule TransformFunction_fips [OF length_state])

lemma mod_add_64: "length m mod 64 + n = 64 \<Longrightarrow> (length m + n) mod 64 = (0::nat)"
  by (metis mod_add_left_eq mod_self)

lemma sub_mod_add_64:
  "length m mod 64 + n = 64 \<Longrightarrow> length m + n - (length m + n) mod 64 = (length m - length m mod 64) + (64::nat)"
  using mod_less_eq_dividend [of "length m" 64] by (simp add: mod_add_64)

lemma sha_rep_block:
  assumes rep: "sha_rep ctx m" and n: "length m mod 64 + length x = 64" "n = length m mod 64"
    and b: "length b = 64" "b' = rest_part 64 m @ x"
  shows "sha_rep (ctx\<lparr>sha_buf := b, sha_state := TransformFunction (sha_state ctx) b',
      sha_length := sha_length ctx + 8 * 64, sha_curlen := 0\<rparr>) (m @ x)"
proof -
  have "fold_blocks 64 fips_compress sha256_H0 (m @ x) =
      fips_compress (fold_blocks 64 fips_compress sha256_H0 m) (rest_part 64 m @ x)"
    using n by (simp add: fold_blocks_append_rest fold_blocks_one)
  moreover have "rest_part 64 (m @ x) = []"
    using length_rest [of 64 "m @ x"] mod_add_64 [OF n(1)] by (simp del: length_rest)
  moreover have "(word_of_nat (8 * (length (m @ x) - length (m @ x) mod 64)) :: 64 word)
      = word_of_nat (8 * (length m - length m mod 64)) + 8 * 64"
    using sub_mod_add_64 [OF n(1)] by (simp add: distrib_left)
  ultimately show ?thesis
    using rep b mod_add_64 [OF n(1)] by (simp add: sha_rep_def sha_transform)
qed

lemma sha256_update_loop_rep: "sha_rep ctx m \<Longrightarrow> sha_rep (sha256_update_loop ctx d) (m @ d)"
proof (induction "length d" arbitrary: ctx m d rule: less_induct)
  case less
  note rep = less.prems
  have cur: "sha_curlen ctx = length m mod 64" "length (sha_buf ctx) = 64"
    "take (length m mod 64) (sha_buf ctx) = rest_part 64 m" using rep by (simp_all add: sha_rep_def)
  show ?case
  proof (cases "d = []")
    case True
    then show ?thesis using rep by (subst sha256_update_loop.simps) simp
  next
    case False
    show ?thesis
    proof (cases "sha_curlen ctx = 0 \<and> length d \<ge> 64")
      case True
      define ctx' where "ctx' = ctx\<lparr>sha_state := TransformFunction (sha_state ctx) (take 64 d), sha_length := sha_length ctx + 64 * 8\<rparr>"
      have r0: "rest_part 64 m = []" using True cur(1) length_rest [of 64 m] by (simp del: length_rest)
      have "sha_rep (ctx\<lparr>sha_buf := sha_buf ctx, sha_state := TransformFunction (sha_state ctx) (take 64 d),
          sha_length := sha_length ctx + 8 * 64, sha_curlen := 0\<rparr>) (m @ take 64 d)"
        by (rule sha_rep_block [OF rep _ refl]) (use True cur r0 in auto)
      moreover have "ctx' = ctx\<lparr>sha_buf := sha_buf ctx, sha_state := TransformFunction (sha_state ctx) (take 64 d),
          sha_length := sha_length ctx + 8 * 64, sha_curlen := 0\<rparr>"
        using True by (simp add: ctx'_def)
      ultimately have "sha_rep ctx' (m @ take 64 d)" by simp
      from less.hyps [OF _ this, of "drop 64 d"] True False
      have "sha_rep (sha256_update_loop ctx' (drop 64 d)) (m @ d)" by simp
      then show ?thesis using True False by (subst sha256_update_loop.simps) (simp add: ctx'_def)
    next
      case part: False
      define n where "n = min (length d) (64 - sha_curlen ctx)"
      define buf where "buf = memcpy_at (sha_curlen ctx) (take n d) (sha_buf ctx)"
      define ctx' where "ctx' = (if sha_curlen ctx + n = 64
              then ctx\<lparr>sha_buf := buf, sha_state := TransformFunction (sha_state ctx) buf,
                       sha_length := sha_length ctx + 8 * 64, sha_curlen := 0\<rparr>
              else ctx\<lparr>sha_buf := buf, sha_curlen := sha_curlen ctx + n\<rparr>)"
      have lt: "sha_curlen ctx < 64" by (simp add: cur(1))
      have n: "0 < n" "n \<le> length d" "sha_curlen ctx + n \<le> 64" using False lt by (auto simp: n_def)
      have ln: "length (take n d) = n" using n by simp
      have lb: "length buf = 64" using n cur by (simp add: buf_def array_simps)
      have tb: "take (sha_curlen ctx + n) buf = rest_part 64 m @ take n d"
        using take_memcpy_at [of "sha_curlen ctx" "sha_buf ctx" "take n d"] n cur by (simp add: buf_def)
      have "sha_rep ctx' (m @ take n d)"
      proof (cases "sha_curlen ctx + n = 64")
        case True
        then have "buf = rest_part 64 m @ take n d" using tb lb by simp
        from sha_rep_block [OF rep _ refl lb this] True cur ln show ?thesis by (simp add: ctx'_def)
      next
        case False
        then have lt: "length m mod 64 + n < 64" using n cur(1) by simp
        have md: "(length m + n) mod 64 = length m mod 64 + n"
          using lt by (metis mod_add_left_eq mod_less)
        have rp: "rest_part 64 (m @ take n d) = rest_part 64 m @ take n d"
          by (rule rest_part_append) (use lt ln in simp)
        have fb: "fold_blocks 64 fips_compress sha256_H0 (m @ take n d) = fold_blocks 64 fips_compress sha256_H0 m"
          using lt ln by (simp add: fold_blocks_append_rest)
        have "sha_length ctx = word_of_nat (8 * (length m + n - (length m mod 64 + n)))" "sha_state ctx = fold_blocks 64 fips_compress sha256_H0 m"
          using rep by (simp_all add: sha_rep_def)
        then show ?thesis using False lb tb cur rp fb ln
          by (simp add: ctx'_def sha_rep_def md)
      qed
      from less.hyps [OF _ this, of "drop n d"] n
      have "sha_rep (sha256_update_loop ctx' (drop n d)) (m @ d)" by simp
      moreover have "sha256_update_loop ctx d = sha256_update_loop ctx' (drop n d)"
      proof -
        have "\<not> 64 < sha_curlen ctx" using lt by simp
        then show ?thesis
          using False part by (subst sha256_update_loop.simps) (simp only: Let_def n_def buf_def ctx'_def if_False)
      qed
      ultimately show ?thesis by simp
    qed
  qed
qed

section \<open>Finalisation\<close>

lemma length_store64h [simp]: "length (store64h x) = 8" by (simp add: store64h_def)

lemma take_update_app: "c < length xs \<Longrightarrow> take (Suc c) (xs[c := x]) = take c xs @ [x]"
  by (simp add: take_Suc_conv_app_nth)

lemma zero_fill_spec:
  assumes "length (sha_buf ctx) = 64" "sha_curlen ctx \<le> n" "n \<le> 64"
  shows "length (sha_buf (zero_fill n ctx)) = 64"
    "take n (sha_buf (zero_fill n ctx)) = take (sha_curlen ctx) (sha_buf ctx) @ replicate (n - sha_curlen ctx) 0"
    "sha_curlen (zero_fill n ctx) = n" "sha_state (zero_fill n ctx) = sha_state ctx"
    "sha_length (zero_fill n ctx) = sha_length ctx"
  using assms take_memcpy_at [of "sha_curlen ctx" "sha_buf ctx" "replicate (n - sha_curlen ctx) 0"]
  by (auto simp: zero_fill_def array_simps)

lemma memcpy_tail: "length b = 64 \<Longrightarrow> length x = 8 \<Longrightarrow> memcpy_at 56 x b = take 56 b @ x"
  by (simp add: memcpy_at_def)

text \<open>The last one or two blocks of the padded message.\<close>

lemma fips_tail:
  assumes "c = length m mod 64"
  shows "fold_blocks 64 f s (fips_pad m) =
    (if c + 1 > 56
     then f (f (fold_blocks 64 f s m) (rest_part 64 m @ [0x80] @ replicate (63 - c) 0))
            (replicate 56 0 @ store64h (word_of_nat (8 * length m)))
     else f (fold_blocks 64 f s m) (rest_part 64 m @ [0x80] @ replicate (55 - c) 0 @ store64h (word_of_nat (8 * length m))))"
proof -
  let ?L = "store64h (word_of_nat (8 * length m))"
  have c: "c < 64" using assms by simp
  have e: "fold_blocks 64 f s (fips_pad m) =
      fold_blocks 64 f (fold_blocks 64 f s m) (rest_part 64 m @ [0x80] @ replicate ((119 - c) mod 64) 0 @ ?L)"
    by (simp only: fips_pad_def fold_blocks_append_rest [of 64 f s m] assms zero_less_numeral)
  show ?thesis
  proof (cases "c + 1 > 56")
    case True
    have z: "(119 - c) mod 64 = (63 - c) + 56"
    proof -
      have "(119 - c) mod 64 = 119 - c" using True by (intro mod_less) simp
      then show ?thesis using c by linarith
    qed
    define b where "b = rest_part 64 m @ [0x80] @ replicate (63 - c) 0"
    have lb: "length b = 64" using c assms by (simp add: b_def)
    have "rest_part 64 m @ [0x80] @ replicate ((119 - c) mod 64) 0 @ ?L = b @ replicate 56 0 @ ?L"
      by (simp only: z replicate_add b_def append_assoc)
    moreover have "fold_blocks 64 f S (b @ replicate 56 0 @ ?L) = f (f S b) (replicate 56 0 @ ?L)" for S
      using fold_blocks_append [of 64 b f S "replicate 56 0 @ ?L"] lb
      by (simp add: fold_blocks_one)
    ultimately show ?thesis using True e by (simp add: b_def)
  next
    case False
    have z: "(119 - c) mod 64 = 55 - c"
    proof -
      have "119 - c = 55 - c + 64" using False by simp
      moreover have "(55 - c + 64) mod 64 = 55 - c" by (simp only: mod_add_self2) simp
      ultimately show ?thesis by metis
    qed
    define b where "b = rest_part 64 m @ [0x80] @ replicate (55 - c) 0 @ ?L"
    have "length b = 64" using False assms by (simp add: b_def)
    then have "fold_blocks 64 f S b = f S b" for S by (simp add: fold_blocks_one)
    then show ?thesis using False by (simp only: e z if_False b_def [symmetric])
  qed
qed

lemma Sha256Finalise_rep:
  assumes rep: "sha_rep ctx m"
  shows "snd (Sha256Finalise ctx) = Some (sha256_spec m)"
proof -
  define c where "c = length m mod 64"
  have r: "sha_curlen ctx = c" "length (sha_buf ctx) = 64" "take c (sha_buf ctx) = rest_part 64 m"
    "sha_state ctx = fold_blocks 64 fips_compress sha256_H0 m"
    "sha_length ctx = word_of_nat (8 * (length m - c))"
    using rep by (simp_all add: sha_rep_def c_def)
  have c: "c < 64" "c \<le> length m" by (simp_all add: c_def)
  define S where "S = fold_blocks 64 fips_compress sha256_H0 m"
  have lS: "length S = 8" by (simp add: S_def length_state)
  define ctx1 where "ctx1 = ctx\<lparr>sha_length := sha_length ctx + word_of_nat (sha_curlen ctx * 8)\<rparr>"
  define ctx2 where "ctx2 = ctx1\<lparr>sha_buf := (sha_buf ctx1)[sha_curlen ctx1 := 0x80], sha_curlen := sha_curlen ctx1 + 1\<rparr>"
  have len: "sha_length ctx + word_of_nat (c * 8) = word_of_nat (8 * length m)"
  proof -
    have "8 * (length m - c) + c * 8 = 8 * length m" using c(2) by simp
    then show ?thesis by (simp only: r(5) flip: of_nat_add)
  qed
  have ctx2: "length (sha_buf ctx2) = 64" "take (sha_curlen ctx2) (sha_buf ctx2) = rest_part 64 m @ [0x80]"
    "sha_curlen ctx2 = c + 1" "sha_state ctx2 = S" "sha_length ctx2 = word_of_nat (8 * length m)"
    using c(1) r(1-4) len take_update_app [of c "sha_buf ctx" "0x80"]
    by (simp_all only: ctx2_def ctx1_def S_def) simp_all
  define ctx3 where "ctx3 = (if sha_curlen ctx2 > 56
     then (zero_fill 64 ctx2)\<lparr>sha_state := TransformFunction (sha_state (zero_fill 64 ctx2)) (sha_buf (zero_fill 64 ctx2)), sha_curlen := 0\<rparr>
     else ctx2)"
  define buf where "buf = take 56 (sha_buf (zero_fill 56 ctx3)) @ store64h (word_of_nat (8 * length m))"
  have c3: "length (sha_buf ctx3) = 64" "sha_curlen ctx3 \<le> 56" "sha_length ctx3 = word_of_nat (8 * length m)"
    using ctx2 c zero_fill_spec [of ctx2 64] by (auto simp: ctx3_def)
  note z3 = zero_fill_spec [OF c3(1,2), simplified]
  define ctx4 where "ctx4 = zero_fill 56 ctx3"
  have buf: "memcpy_at 56 (store64h (sha_length ctx4)) (sha_buf ctx4) = buf" "sha_state ctx4 = sha_state ctx3"
    by (simp_all only: ctx4_def z3 c3 buf_def memcpy_tail length_store64h)
  have nl: "(64 \<le> sha_curlen ctx) = False" using c r(1) by simp
  have fin: "snd (Sha256Finalise ctx) = Some (concat (map store32h (TransformFunction (sha_state ctx3) buf)))"
    by (simp only: Sha256Finalise_def Let_def nl if_False flip: ctx1_def)
       (simp only: buf(1) snd_conv flip: ctx2_def ctx3_def ctx4_def, simp add: buf(2))
  have "TransformFunction (sha_state ctx3) buf = fold_blocks 64 fips_compress sha256_H0 (fips_pad m)"
  proof (cases "c + 1 > 56")
    case True
    have zf: "sha_buf (zero_fill 64 ctx2) = rest_part 64 m @ [0x80] @ replicate (63 - c) 0"
      using zero_fill_spec(1,2) [of ctx2 64] ctx2 c(1) by simp
    have s3: "sha_state ctx3 = fips_compress S (rest_part 64 m @ [0x80] @ replicate (63 - c) 0)" "sha_curlen ctx3 = 0"
      using True ctx2 c(1) zero_fill_spec(4) [of ctx2 64] by (simp_all add: ctx3_def zf TransformFunction_fips lS)
    have b: "buf = replicate 56 0 @ store64h (word_of_nat (8 * length m))"
      using z3(2) s3(2) by (simp add: buf_def)
    have "length (fips_compress S (rest_part 64 m @ [0x80] @ replicate (63 - c) 0)) = 8" by (simp add: lS)
    then show ?thesis
      by (simp only: s3 b TransformFunction_fips fips_tail [OF c_def] True if_True S_def)
  next
    case False
    have "buf = rest_part 64 m @ [0x80] @ replicate (55 - c) 0 @ store64h (word_of_nat (8 * length m))"
      using z3(2) False ctx2 by (simp add: buf_def ctx3_def)
    then show ?thesis using False ctx2
      by (simp only: ctx3_def if_False ctx2 S_def sha_transform fips_tail [OF c_def])
  qed
  then show ?thesis by (simp only: fin sha256_spec_def)
qed

section \<open>The interface\<close>

lemma Sha256Initialise_rep: "length junk = 64 \<Longrightarrow> sha_rep (Sha256Initialise junk) []"
  by (simp add: sha_rep_def Sha256Initialise_def rest_part_def)

definition sha_update :: "sha256_ctx \<Rightarrow> byte list \<Rightarrow> sha256_ctx" where
  "sha_update ctx d = Sha256Update ctx d (word_of_nat (length d))"

lemma sha_update_rep:
  assumes "sha_rep ctx m" "length d < 2 ^ 32"
  shows "sha_rep (sha_update ctx d) (m @ d)"
proof -
  have "unat (word_of_nat (length d) :: word32) = length d"
    using assms(2) by (simp add: unat_of_nat)
  moreover have "\<not> sha_curlen ctx > 64" using assms(1) by (simp add: sha_rep_def not_less less_imp_le)
  ultimately show ?thesis using sha256_update_loop_rep [OF assms(1), of d]
    by (simp add: sha_update_def Sha256Update_def)
qed

text \<open>The buffer of a new context holds zeros here; it may hold anything.\<close>

interpretation sha256: streaming_hash "Sha256Initialise (replicate 64 0)" sha_update
    "\<lambda>ctx. snd (Sha256Finalise ctx)" sha_rep "\<lambda>m. Some (sha256_spec m)" "\<lambda>d. length d < 2 ^ 32"
  by unfold_locales (simp_all add: Sha256Initialise_rep sha_update_rep Sha256Finalise_rep)

lemma Sha256Calculate_spec:
  assumes "length junk = 64" "length m < 2 ^ 32"
  shows "Sha256Calculate junk m (word_of_nat (length m)) = Some (sha256_spec m)"
proof -
  have "sha_rep (sha_update (Sha256Initialise junk) m) ([] @ m)"
    by (rule sha_update_rep [OF Sha256Initialise_rep [OF assms(1)] assms(2)])
  then have "sha_rep (Sha256Update (Sha256Initialise junk) m (word_of_nat (length m))) m"
    by (simp add: sha_update_def)
  from Sha256Finalise_rep [OF this] show ?thesis by (simp add: Sha256Calculate_def)
qed

lemma length_sha256_spec [simp]: "length (sha256_spec m) = 32"
proof -
  have "length (concat (map store32h xs)) = 4 * length xs" for xs
    by (induction xs) (auto simp: store32h_def)
  moreover have "length (fold_blocks 64 fips_compress sha256_H0 (fips_pad m)) = 8" by (rule length_state)
  ultimately show ?thesis by (simp add: sha256_spec_def)
qed

text \<open>
  However a message is cut into pieces for the streaming interface, the digest is the
  SHA-256 of the whole message as the standard describes it: padding, schedule and rounds.
\<close>

theorem sha256_streaming_correct:
  assumes "\<forall>d\<in>set ds. length d < 2 ^ 32"
  shows "snd (Sha256Finalise (foldl sha_update (Sha256Initialise (replicate 64 0)) ds)) = Some (sha256_spec (concat ds))"
  by (rule sha256.digest_of_pieces [OF assms])

lemma sha256_streaming_correct_witness:
  "snd (Sha256Finalise (foldl sha_update (Sha256Initialise (replicate 64 0)) [[0x61], [], [0x62, 0x63]])) =
     Some (sha256_spec [0x61, 0x62, 0x63])"
  using sha256_streaming_correct [of "[[0x61], [], [0x62, 0x63]]"] by simp

section \<open>HMAC\<close>

text \<open>RFC 2104 with SHA-256: the key is hashed when it is longer than a block, then padded.\<close>

definition rfc_key :: "byte list \<Rightarrow> byte list" where
  "rfc_key key = (let k = (if length key > 64 then sha256_spec key else key) in k @ replicate (64 - length k) 0)"

definition hmac_spec :: "byte list \<Rightarrow> byte list \<Rightarrow> byte list" where
  "hmac_spec key m =
     sha256_spec (map ((XOR) 0x5c) (rfc_key key) @ sha256_spec (map ((XOR) 0x36) (rfc_key key) @ m))"

lemma map2_replicate: "length k = n \<Longrightarrow> map2 f (replicate n a) k = map (f a) k"
  by (induction k arbitrary: n) auto

lemma sha256_wrap_spec:
  "length junk = 64 \<Longrightarrow> length m < 2 ^ 32 \<Longrightarrow> 32 \<le> n \<Longrightarrow> sha256_wrap junk m n = Some (sha256_spec m)"
  by (simp add: sha256_wrap_def Sha256Calculate_spec SHA256_HASH_SIZE_def)

lemma length_rfc_key [simp]: "length (rfc_key key) = 64"
  by (auto simp: rfc_key_def Let_def)

lemma hmac_correct:
  assumes "length junk = 64" "length key < 2 ^ 32" "length m + 64 < 2 ^ 32"
  shows "onesdk_hmac_sha256 junk key m outlen = Some (take outlen (hmac_spec key m))"
proof -
  let ?k0 = "if length key > 64 then sha256_spec key else key"
  have k0: "(if length key > SHA256_BLOCK_SIZE then sha256_wrap junk key SHA256_BLOCK_SIZE else Some key) = Some ?k0"
    using assms by (simp add: SHA256_BLOCK_SIZE_def sha256_wrap_spec)
  have pad: "memcpy_at 0 ?k0 (replicate SHA256_BLOCK_SIZE 0) = rfc_key key"
    by (auto simp: memcpy_at_def SHA256_BLOCK_SIZE_def rfc_key_def)
  have x: "map2 (XOR) (replicate SHA256_BLOCK_SIZE a) (rfc_key key) = map ((XOR) a) (rfc_key key)" for a
    by (rule map2_replicate) (simp add: SHA256_BLOCK_SIZE_def)
  have h1: "hmac_H junk (map ((XOR) 0x36) (rfc_key key)) m SHA256_HASH_SIZE
      = Some (sha256_spec (map ((XOR) 0x36) (rfc_key key) @ m))"
    unfolding hmac_H_def by (rule sha256_wrap_spec) (use assms in \<open>simp_all add: SHA256_HASH_SIZE_def\<close>)
  have h2: "hmac_H junk (map ((XOR) 0x5c) (rfc_key key)) (sha256_spec x) SHA256_HASH_SIZE
      = Some (sha256_spec (map ((XOR) 0x5c) (rfc_key key) @ sha256_spec x))" for x
    unfolding hmac_H_def by (rule sha256_wrap_spec) (use assms in \<open>simp_all add: SHA256_HASH_SIZE_def\<close>)
  have t: "take (if outlen > SHA256_HASH_SIZE then SHA256_HASH_SIZE else outlen) (hmac_spec key m) = take outlen (hmac_spec key m)"
    by (simp add: SHA256_HASH_SIZE_def hmac_spec_def)
  show ?thesis
    by (simp only: onesdk_hmac_sha256_def k0 option.case Let_def pad x h1 h2 option.map hmac_spec_def [symmetric] t)
qed



end
