(* ===== verification/Md5.thy ===== *)
theory Md5
  imports Prelude
begin

text \<open>
  The streaming MD5 of \<^verbatim>\<open>src/util/md5.c\<close>, with its two-word counter and the partial block, and the
  checksum of a file, \<^verbatim>\<open>md5File\<close> of \<^verbatim>\<open>src/iot/iot_utils.c\<close>.
\<close>

unbundle bit_operations_syntax

text \<open>Little-endian words in memory.\<close>

definition md5_get_le :: "8 word list \<Rightarrow> nat \<Rightarrow> 32 word" where
  "md5_get_le b i =
     (ucast (b ! i) OR push_bit 8 (ucast (b ! (i + 1))) OR push_bit 16 (ucast (b ! (i + 2))) OR push_bit 24 (ucast (b ! (i + 3))))"

definition md5_put_le :: "32 word \<Rightarrow> 8 word list" where
  "md5_put_le n = [ucast (n AND 0xFF), ucast (drop_bit 8 n AND 0xFF), ucast (drop_bit 16 n AND 0xFF), ucast (drop_bit 24 n AND 0xFF)]"

section \<open>The block function\<close>

definition md5_S :: "32 word \<Rightarrow> nat \<Rightarrow> 32 word" where
  "md5_S x n = (push_bit n x OR drop_bit (32 - n) (x AND 0xFFFFFFFF))"

type_synonym md5_state = "32 word \<times> 32 word \<times> 32 word \<times> 32 word"
type_synonym md5_fun = "32 word \<Rightarrow> 32 word \<Rightarrow> 32 word \<Rightarrow> 32 word"

text \<open>One use of the macro \<^verbatim>\<open>P\<close>: the new value of its first argument.\<close>

definition md5_P :: "md5_fun \<Rightarrow> 32 word list \<Rightarrow> 32 word \<Rightarrow> 32 word \<Rightarrow> 32 word \<Rightarrow> 32 word \<Rightarrow> nat \<times> nat \<times> 32 word \<Rightarrow> 32 word" where
  "md5_P F X a b c d = (\<lambda>(k, s, t). md5_S (a + (F b c d + X ! k + t)) s + b)"

text \<open>Four uses in a row, with the roles of the variables rotated.\<close>

fun md5_four :: "md5_fun \<Rightarrow> 32 word list \<Rightarrow> (nat \<times> nat \<times> 32 word) list \<Rightarrow> md5_state \<Rightarrow> md5_state" where
  "md5_four F X (p0 # p1 # p2 # p3 # ps) (A, B, C, D) =
     (let A = md5_P F X A B C D p0;
          D = md5_P F X D A B C p1;
          C = md5_P F X C D A B p2;
          B = md5_P F X B C D A p3
      in md5_four F X ps (A, B, C, D))"
| "md5_four F X _ st = st"

definition md5_F1 :: md5_fun where "md5_F1 x y z = z XOR (x AND (y XOR z))"
definition md5_F2 :: md5_fun where "md5_F2 x y z = y XOR (z AND (x XOR y))"
definition md5_F3 :: md5_fun where "md5_F3 x y z = x XOR y XOR z"
definition md5_F4 :: md5_fun where "md5_F4 x y z = y XOR (x OR NOT z)"

text \<open>Index of the message word, shift and constant of the sixteen steps of each round.\<close>

definition md5_round1 :: "(nat \<times> nat \<times> 32 word) list" where
  "md5_round1 =
     [(0, 7, 0xD76AA478), (1, 12, 0xE8C7B756), (2, 17, 0x242070DB), (3, 22, 0xC1BDCEEE),
      (4, 7, 0xF57C0FAF), (5, 12, 0x4787C62A), (6, 17, 0xA8304613), (7, 22, 0xFD469501),
      (8, 7, 0x698098D8), (9, 12, 0x8B44F7AF), (10, 17, 0xFFFF5BB1), (11, 22, 0x895CD7BE),
      (12, 7, 0x6B901122), (13, 12, 0xFD987193), (14, 17, 0xA679438E), (15, 22, 0x49B40821)]"

definition md5_round2 :: "(nat \<times> nat \<times> 32 word) list" where
  "md5_round2 =
     [(1, 5, 0xF61E2562), (6, 9, 0xC040B340), (11, 14, 0x265E5A51), (0, 20, 0xE9B6C7AA),
      (5, 5, 0xD62F105D), (10, 9, 0x02441453), (15, 14, 0xD8A1E681), (4, 20, 0xE7D3FBC8),
      (9, 5, 0x21E1CDE6), (14, 9, 0xC33707D6), (3, 14, 0xF4D50D87), (8, 20, 0x455A14ED),
      (13, 5, 0xA9E3E905), (2, 9, 0xFCEFA3F8), (7, 14, 0x676F02D9), (12, 20, 0x8D2A4C8A)]"

definition md5_round3 :: "(nat \<times> nat \<times> 32 word) list" where
  "md5_round3 =
     [(5, 4, 0xFFFA3942), (8, 11, 0x8771F681), (11, 16, 0x6D9D6122), (14, 23, 0xFDE5380C),
      (1, 4, 0xA4BEEA44), (4, 11, 0x4BDECFA9), (7, 16, 0xF6BB4B60), (10, 23, 0xBEBFBC70),
      (13, 4, 0x289B7EC6), (0, 11, 0xEAA127FA), (3, 16, 0xD4EF3085), (6, 23, 0x04881D05),
      (9, 4, 0xD9D4D039), (12, 11, 0xE6DB99E5), (15, 16, 0x1FA27CF8), (2, 23, 0xC4AC5665)]"

definition md5_round4 :: "(nat \<times> nat \<times> 32 word) list" where
  "md5_round4 =
     [(0, 6, 0xF4292244), (7, 10, 0x432AFF97), (14, 15, 0xAB9423A7), (5, 21, 0xFC93A039),
      (12, 6, 0x655B59C3), (3, 10, 0x8F0CCC92), (10, 15, 0xFFEFF47D), (1, 21, 0x85845DD1),
      (8, 6, 0x6FA87E4F), (15, 10, 0xFE2CE6E0), (6, 15, 0xA3014314), (13, 21, 0x4E0811A1),
      (4, 6, 0xF7537E82), (11, 10, 0xBD3AF235), (2, 15, 0x2AD7D2BB), (9, 21, 0xEB86D391)]"

definition md5_words :: "8 word list \<Rightarrow> 32 word list" where
  "md5_words data = map (\<lambda>i. md5_get_le data (4 * i)) [0..<16]"

definition utils_md5_process :: "md5_state \<Rightarrow> 8 word list \<Rightarrow> md5_state" where
  "utils_md5_process st data =
     (let X = md5_words data;
          (A, B, C, D) = md5_four md5_F4 X md5_round4 (md5_four md5_F3 X md5_round3
            (md5_four md5_F2 X md5_round2 (md5_four md5_F1 X md5_round1 st)));
          (a, b, c, d) = st
      in (a + A, b + B, c + C, d + D))"

section \<open>The context\<close>

record md5_ctx =
  md5_total0 :: "32 word"
  md5_total1 :: "32 word"
  md5_state :: md5_state
  md5_buffer :: "8 word list"

definition utils_md5_init :: md5_ctx where
  "utils_md5_init = \<lparr>md5_total0 = 0, md5_total1 = 0, md5_state = (0, 0, 0, 0), md5_buffer = replicate 64 0\<rparr>"

definition md5_H0 :: md5_state where
  "md5_H0 = (0x67452301, 0xEFCDAB89, 0x98BADCFE, 0x10325476)"

definition utils_md5_starts :: "md5_ctx \<Rightarrow> md5_ctx" where
  "utils_md5_starts ctx = ctx\<lparr>md5_total0 := 0, md5_total1 := 0, md5_state := md5_H0\<rparr>"

text \<open>The loop over whole blocks of the input; the rest is returned.\<close>

function md5_blocks :: "md5_state \<Rightarrow> 8 word list \<Rightarrow> md5_state \<times> 8 word list" where
  "md5_blocks st input =
     (if length input \<ge> 64 then md5_blocks (utils_md5_process st (take 64 input)) (drop 64 input) else (st, input))"
  by pat_completeness auto
termination
  by (relation "measure (\<lambda>(st, input). length input)") auto

declare md5_blocks.simps [simp del]

definition utils_md5_update :: "md5_ctx \<Rightarrow> 8 word list \<Rightarrow> md5_ctx" where
  "utils_md5_update ctx input =
     (if length input = 0 then ctx
      else
        let left = unat (md5_total0 ctx AND 0x3F);
            fill = 64 - left;
            n = (word_of_nat (length input) :: 32 word);
            t0 = (md5_total0 ctx + n) AND 0xFFFFFFFF;
            t1 = (if t0 < n then md5_total1 ctx + 1 else md5_total1 ctx);
            (st, buf, inp, left) =
              (if left \<noteq> 0 \<and> length input \<ge> fill then
                 let buf = memcpy_at left (take fill input) (md5_buffer ctx)
                 in (utils_md5_process (md5_state ctx) buf, buf, drop fill input, 0)
               else (md5_state ctx, md5_buffer ctx, input, left));
            (st, inp) = md5_blocks st inp
        in \<lparr>md5_total0 = t0, md5_total1 = t1, md5_state = st,
            md5_buffer = (if length inp > 0 then memcpy_at left inp buf else buf)\<rparr>)"

definition md5_padding :: "8 word list" where
  "md5_padding = 0x80 # replicate 63 0"

definition utils_md5_finish :: "md5_ctx \<Rightarrow> md5_ctx \<times> 8 word list" where
  "utils_md5_finish ctx =
     (let high = drop_bit 29 (md5_total0 ctx) OR push_bit 3 (md5_total1 ctx);
          low = push_bit 3 (md5_total0 ctx);
          msglen = md5_put_le low @ md5_put_le high;
          last = unat (md5_total0 ctx AND 0x3F);
          padn = (if last < 56 then 56 - last else 120 - last);
          ctx = utils_md5_update ctx (take padn md5_padding);
          ctx = utils_md5_update ctx msglen;
          (a, b, c, d) = md5_state ctx
      in (ctx, md5_put_le a @ md5_put_le b @ md5_put_le c @ md5_put_le d))"

definition utils_md5 :: "8 word list \<Rightarrow> 8 word list" where
  "utils_md5 input = snd (utils_md5_finish (utils_md5_update (utils_md5_starts utils_md5_init) input))"

section \<open>Hexadecimal text\<close>

definition utils_hb2hex :: "8 word \<Rightarrow> char" where
  "utils_hb2hex hb = (let h = unat (hb AND 0xF) in char_of (if h < 10 then 48 + h else h - 10 + 97))"

definition md5_hex :: "8 word list \<Rightarrow> string" where
  "md5_hex bytes = concat (map (\<lambda>b. [utils_hb2hex (drop_bit 4 b), utils_hb2hex b]) bytes)"

definition utils_md5_str :: "8 word list \<Rightarrow> string" where
  "utils_md5_str input = md5_hex (utils_md5 input)"

text \<open>
  The checksum of a file: \<open>reads\<close> are the results of the successive calls of \<^verbatim>\<open>fread\<close> up to the
  one that returns nothing. The format \<^verbatim>\<open>%02x\<close> prints the two digits of a byte.
\<close>

definition md5File :: "8 word list list \<Rightarrow> string" where
  "md5File reads = md5_hex (snd (utils_md5_finish (foldl utils_md5_update (utils_md5_starts utils_md5_init) reads)))"

end
