(* ===== verification/Md5Props.thy ===== *)
theory Md5Props
  imports Md5 StreamHash
begin

text \<open>
  The streaming MD5 against RFC 1321: padding of the whole message, sixteen steps per round given by
  formulas for the index and the shift, on four words that rotate. The checksum of a file is the MD5
  of its content.
\<close>

section \<open>The standard\<close>

definition rfc_K :: "32 word list" where
  "rfc_K =
     [0xD76AA478, 0xE8C7B756, 0x242070DB, 0xC1BDCEEE, 0xF57C0FAF, 0x4787C62A, 0xA8304613, 0xFD469501,
      0x698098D8, 0x8B44F7AF, 0xFFFF5BB1, 0x895CD7BE, 0x6B901122, 0xFD987193, 0xA679438E, 0x49B40821,
      0xF61E2562, 0xC040B340, 0x265E5A51, 0xE9B6C7AA, 0xD62F105D, 0x02441453, 0xD8A1E681, 0xE7D3FBC8,
      0x21E1CDE6, 0xC33707D6, 0xF4D50D87, 0x455A14ED, 0xA9E3E905, 0xFCEFA3F8, 0x676F02D9, 0x8D2A4C8A,
      0xFFFA3942, 0x8771F681, 0x6D9D6122, 0xFDE5380C, 0xA4BEEA44, 0x4BDECFA9, 0xF6BB4B60, 0xBEBFBC70,
      0x289B7EC6, 0xEAA127FA, 0xD4EF3085, 0x04881D05, 0xD9D4D039, 0xE6DB99E5, 0x1FA27CF8, 0xC4AC5665,
      0xF4292244, 0x432AFF97, 0xAB9423A7, 0xFC93A039, 0x655B59C3, 0x8F0CCC92, 0xFFEFF47D, 0x85845DD1,
      0x6FA87E4F, 0xFE2CE6E0, 0xA3014314, 0x4E0811A1, 0xF7537E82, 0xBD3AF235, 0x2AD7D2BB, 0xEB86D391]"

fun rfc_fun :: "nat \<Rightarrow> md5_fun" where
  "rfc_fun r x y z =
     (if r = 0 then (x AND y) OR (NOT x AND z)
      else if r = 1 then (x AND z) OR (y AND NOT z)
      else if r = 2 then x XOR y XOR z
      else y XOR (x OR NOT z))"

definition rfc_index :: "nat \<Rightarrow> nat" where
  "rfc_index i = [i, (5 * i + 1) mod 16, (3 * i + 5) mod 16, (7 * i) mod 16] ! (i div 16)"

definition rfc_shift :: "nat \<Rightarrow> nat" where
  "rfc_shift i = [[7, 12, 17, 22], [5, 9, 14, 20], [4, 11, 16, 23], [6, 10, 15, 21]] ! (i div 16) ! (i mod 4)"

definition rfc_step :: "32 word list \<Rightarrow> md5_state \<Rightarrow> nat \<Rightarrow> md5_state" where
  "rfc_step M = (\<lambda>(a, b, c, d) i.
     (d, b + word_rotl (rfc_shift i) (a + rfc_fun (i div 16) b c d + M ! rfc_index i + rfc_K ! i), b, c))"

definition rfc_compress :: "md5_state \<Rightarrow> 8 word list \<Rightarrow> md5_state" where
  "rfc_compress st block =
     (let (a, b, c, d) = st; (A, B, C, D) = foldl (rfc_step (md5_words block)) st [0..<64]
      in (a + A, b + B, c + C, d + D))"

text \<open>The padding, with the length in bits as 64 bits, the low word first.\<close>

definition rfc_pad :: "8 word list \<Rightarrow> 8 word list" where
  "rfc_pad m = m @ [0x80] @ replicate ((119 - length m mod 64) mod 64) 0 @
     md5_put_le (word_of_nat (8 * length m)) @ md5_put_le (word_of_nat (8 * length m div 2 ^ 32))"

fun rfc_bytes :: "md5_state \<Rightarrow> 8 word list" where
  "rfc_bytes (a, b, c, d) = md5_put_le a @ md5_put_le b @ md5_put_le c @ md5_put_le d"

definition md5_spec :: "8 word list \<Rightarrow> 8 word list" where
  "md5_spec m = rfc_bytes (fold_blocks 64 rfc_compress md5_H0 (rfc_pad m))"

section \<open>Blocks\<close>

lemma md5_S_rotl:
  assumes "0 < n" "n < 32"
  shows "md5_S x n = word_rotl n x"
proof (rule bit_word_eqI)
  fix i assume "i < LENGTH(32)"
  then have i: "i < 32" by simp
  have m: "(i + (32 - n)) mod 32 = (if i < n then 32 + i - n else i - n)"
    using i assms by (auto simp: mod_if)
  have a: "x AND 0xFFFFFFFF = x"
  proof -
    have "(0xFFFFFFFF :: 32 word) = -1" by simp
    then show ?thesis by (simp only: and.right_neutral)
  qed
  show "bit (md5_S x n) i = bit (word_rotl n x) i"
    unfolding md5_S_def a using i assms m
    by (auto simp: bit_or_iff bit_push_bit_iff bit_drop_bit_eq bit_word_rotl_iff dest: bit_imp_le_length)
qed

lemma md5_funs:
  "md5_F1 = rfc_fun 0" "md5_F2 = rfc_fun 1" "md5_F3 = rfc_fun 2" "md5_F4 = rfc_fun 3"
  by (intro ext bit_word_eqI; auto simp: md5_F1_def md5_F2_def md5_F3_def md5_F4_def bit_or_iff bit_and_iff bit_xor_iff bit_not_iff)+

lemma md5_round_tables:
  "md5_round1 = map (\<lambda>i. (rfc_index i, rfc_shift i, rfc_K ! i)) [0..<16]"
  "md5_round2 = map (\<lambda>i. (rfc_index i, rfc_shift i, rfc_K ! i)) [16..<32]"
  "md5_round3 = map (\<lambda>i. (rfc_index i, rfc_shift i, rfc_K ! i)) [32..<48]"
  "md5_round4 = map (\<lambda>i. (rfc_index i, rfc_shift i, rfc_K ! i)) [48..<64]"
  by code_simp+

definition md5_step :: "md5_fun \<Rightarrow> 32 word list \<Rightarrow> md5_state \<Rightarrow> nat \<times> nat \<times> 32 word \<Rightarrow> md5_state" where
  "md5_step F X = (\<lambda>(a, b, c, d) p. (d, md5_P F X a b c d p, b, c))"

lemma md5_four_steps: "length ps mod 4 = 0 \<Longrightarrow> md5_four F X ps st = foldl (md5_step F X) st ps"
proof (induction F X ps st rule: md5_four.induct)
  case (1 F X p0 p1 p2 p3 ps A B C D)
  have "length ps mod 4 = 0" using 1(2) by simp
  then show ?case using 1(1) by (simp add: md5_step_def Let_def)
qed simp_all

lemma md5_round_rfc:
  assumes "F = rfc_fun r" "\<forall>i\<in>set js. i div 16 = r \<and> 0 < rfc_shift i \<and> rfc_shift i < 32" "length js mod 4 = 0"
  shows "md5_four F X (map (\<lambda>i. (rfc_index i, rfc_shift i, rfc_K ! i)) js) st = foldl (rfc_step X) st js"
proof -
  have "foldl (md5_step F X) st (map (\<lambda>i. (rfc_index i, rfc_shift i, rfc_K ! i)) js) = foldl (rfc_step X) st js"
    using assms(2)
  proof (induction js arbitrary: st)
    case (Cons i js)
    have "md5_step F X st (rfc_index i, rfc_shift i, rfc_K ! i) = rfc_step X st i"
      using Cons.prems
      by (cases st) (simp add: md5_step_def rfc_step_def md5_P_def md5_S_rotl assms(1) ac_simps del: rfc_fun.simps)
    then show ?case using Cons by simp
  qed simp
  then show ?thesis using assms(3) by (simp add: md5_four_steps)
qed

lemma md5_process_rfc: "utils_md5_process st data = rfc_compress st data"
proof -
  have r: "\<forall>i\<in>set [16 * r..<16 * r + 16]. i div 16 = r \<and> 0 < rfc_shift i \<and> rfc_shift i < 32" if "r < 4" for r
  proof -
    have "r \<in> {0, 1, 2, 3}" using that by auto
    then show ?thesis by (elim insertE emptyE; hypsubst; code_simp)
  qed
  have "foldl (rfc_step X) st [0..<64] =
      foldl (rfc_step X) (foldl (rfc_step X) (foldl (rfc_step X) (foldl (rfc_step X) st [0..<16]) [16..<32]) [32..<48]) [48..<64]" for X
  proof -
    have "[0..<64] = [0..<16] @ [16..<32] @ [32..<48] @ [48..<64]" by code_simp
    then show ?thesis by (simp only: foldl_append)
  qed
  moreover have "length [0..<16] mod 4 = 0" "length [16..<32] mod 4 = 0" "length [32..<48] mod 4 = 0" "length [48..<64] mod 4 = 0"
    by simp_all
  ultimately show ?thesis
    unfolding utils_md5_process_def rfc_compress_def Let_def md5_round_tables
    using md5_round_rfc [OF md5_funs(1), of "[0..<16]"] md5_round_rfc [OF md5_funs(2), of "[16..<32]"]
      md5_round_rfc [OF md5_funs(3), of "[32..<48]"] md5_round_rfc [OF md5_funs(4), of "[48..<64]"]
      r [of 0] r [of 1] r [of 2] r [of 3]
    by (simp split: prod.splits del: upt_rec_numeral rfc_fun.simps)
qed

section \<open>The context\<close>

lemma md5_blocks_fold: "md5_blocks st input = (fold_blocks 64 rfc_compress st input, rest_part 64 input)"
proof (induction st input rule: md5_blocks.induct)
  case (1 st input)
  show ?case
  proof (cases "length input \<ge> 64")
    case True
    have "fold_blocks 64 rfc_compress st input = fold_blocks 64 rfc_compress (rfc_compress st (take 64 input)) (drop 64 input)"
      using True by (subst fold_blocks.simps) simp
    moreover have "rest_part 64 input = rest_part 64 (drop 64 input)"
      using parts_append_whole(1) [of 64 "take 64 input" "drop 64 input"] True by simp
    ultimately show ?thesis
      using 1 True by (subst md5_blocks.simps) (simp add: md5_process_rfc)
  next
    case False
    then show ?thesis by (subst md5_blocks.simps) (simp add: parts_short)
  qed
qed

definition md5_rep :: "md5_ctx \<Rightarrow> 8 word list \<Rightarrow> bool" where
  "md5_rep ctx m \<longleftrightarrow>
     md5_total0 ctx = word_of_nat (length m) \<and> md5_total1 ctx = word_of_nat (length m div 2 ^ 32) \<and>
     md5_state ctx = fold_blocks 64 rfc_compress md5_H0 m \<and> length (md5_buffer ctx) = 64 \<and>
     take (length m mod 64) (md5_buffer ctx) = rest_part 64 m"

lemma md5_left: "unat ((word_of_nat n :: 32 word) AND 0x3F) = n mod 64"
proof -
  have "(0x3F :: 32 word) = mask 6" by (simp add: mask_eq_exp_minus_1)
  then have "(word_of_nat n :: 32 word) AND 0x3F = take_bit 6 (word_of_nat n)" by (simp only: take_bit_eq_mask)
  then have "unat ((word_of_nat n :: 32 word) AND 0x3F) = n mod 2 ^ 32 mod 2 ^ 6"
    by (simp only: unsigned_take_bit_eq unat_of_nat len_of_numeral_defs) (simp only: take_bit_eq_mod, simp)
  also have "\<dots> = n mod 64" by (simp add: mod_mod_cancel)
  finally show ?thesis .
qed

text \<open>The counter of 64 bits in two words.\<close>

lemma carry_add:
  fixes l n M :: nat
  assumes "n < M"
  shows "(l + n) mod M < n \<longleftrightarrow> M \<le> l mod M + n"
    and "(l + n) div M = l div M + (if M \<le> l mod M + n then 1 else 0)"
proof -
  have r: "l mod M < M" using assms by simp
  have e: "l + n = l div M * M + (l mod M + n)" by simp
  have m: "(l + n) mod M = (l mod M + n) mod M" by (simp add: mod_add_left_eq)
  have d: "(l + n) div M = l div M + (l mod M + n) div M"
    by (subst e, subst div_mult_self3) (use assms in auto)
  show "(l + n) mod M < n \<longleftrightarrow> M \<le> l mod M + n"
  proof (cases "M \<le> l mod M + n")
    case True
    then have "(l mod M + n - M) mod M = l mod M + n - M" using r assms by (intro mod_less) linarith
    then have "(l mod M + n) mod M = l mod M + n - M" using True by (simp add: le_mod_geq)
    then show ?thesis using True m r by linarith
  next
    case False
    then show ?thesis using m by simp
  qed
  show "(l + n) div M = l div M + (if M \<le> l mod M + n then 1 else 0)"
  proof (cases "M \<le> l mod M + n")
    case True
    then have "l mod M + n - M < M" using r assms by linarith
    then have "(l mod M + n) div M = 1" using True assms by (simp add: le_div_geq)
    then show ?thesis using True d by simp
  next
    case False
    then show ?thesis using d by simp
  qed
qed

lemma md5_counter:
  fixes l :: nat
  assumes "n < 2 ^ 32"
  shows "word_of_nat l + word_of_nat n = (word_of_nat (l + n) :: 32 word)"
    and "(if (word_of_nat (l + n) :: 32 word) < word_of_nat n then word_of_nat (l div 2 ^ 32) + 1 else word_of_nat (l div 2 ^ 32)) =
      (word_of_nat ((l + n) div 2 ^ 32) :: 32 word)"
proof -
  show "word_of_nat l + word_of_nat n = (word_of_nat (l + n) :: 32 word)" by simp
  have u: "unat (word_of_nat k :: 32 word) = k mod 2 ^ 32" for k
    by (simp only: unat_of_nat len_of_numeral_defs) simp
  have "(word_of_nat (l + n) :: 32 word) < word_of_nat n \<longleftrightarrow> 2 ^ 32 \<le> l mod 2 ^ 32 + n"
    unfolding word_less_nat_alt u using carry_add(1) [OF assms, of l] mod_less [OF assms] by (simp only:)
  then show "(if (word_of_nat (l + n) :: 32 word) < word_of_nat n then word_of_nat (l div 2 ^ 32) + 1 else word_of_nat (l div 2 ^ 32)) =
      (word_of_nat ((l + n) div 2 ^ 32) :: 32 word)"
    unfolding carry_add(2) [OF assms, of l] by (simp only: of_nat_add of_nat_1 if_distrib) simp
qed

lemma md5_update_rep:
  assumes rep: "md5_rep ctx m" and n: "length d < 2 ^ 32"
  shows "md5_rep (utils_md5_update ctx d) (m @ d)"
proof (cases "d = []")
  case True
  then show ?thesis using rep by (simp add: utils_md5_update_def)
next
  case ne: False
  define left where "left = length m mod 64"
  define buf where "buf = memcpy_at left (take (64 - left) d) (md5_buffer ctx)"
  define full where "full \<longleftrightarrow> left \<noteq> 0 \<and> 64 - left \<le> length d"
  define inp where "inp = (if full then drop (64 - left) d else d)"
  define b where "b = (if full then buf else md5_buffer ctx)"
  define lf where "lf = (if full then 0 else left)"
  have r: "unat (md5_total0 ctx AND 0x3F) = left" "length (md5_buffer ctx) = 64" "take left (md5_buffer ctx) = rest_part 64 m"
    "md5_state ctx = fold_blocks 64 rfc_compress md5_H0 m"
    using rep by (simp_all only: md5_rep_def md5_left left_def)
  have lt: "left < 64" by (simp add: left_def)
  have ff: "x AND 0xFFFFFFFF = x" for x :: "32 word"
  proof -
    have "(0xFFFFFFFF :: 32 word) = -1" by simp
    then show ?thesis by (simp only: and.right_neutral)
  qed
  have st: "fold_blocks 64 rfc_compress (if full then rfc_compress (md5_state ctx) b else md5_state ctx) inp =
      fold_blocks 64 rfc_compress md5_H0 (m @ d) \<and> length b = 64 \<and> take lf b @ rest_part 64 inp = rest_part 64 (m @ d) \<and>
      lf + length (rest_part 64 inp) = length (m @ d) mod 64"
  proof (cases full)
    case True
    then have le: "64 - left \<le> length d" by (simp add: full_def)
    have bb: "b = rest_part 64 m @ take (64 - left) d"
      using True le lt r by (simp add: b_def buf_def memcpy_at_def)
    have lb: "length b = 64" using bb le lt by (simp add: left_def)
    have e: "rest_part 64 m @ d = b @ inp" using True by (simp add: bb inp_def)
    have f: "fold_blocks 64 rfc_compress md5_H0 (m @ d) = fold_blocks 64 rfc_compress (rfc_compress (md5_state ctx) b) inp"
      unfolding fold_blocks_append_rest [of 64 _ _ m d, OF zero_less_numeral] e r(4)
      by (subst fold_blocks_append) (simp_all add: lb fold_blocks_one)
    have "rest_part 64 (m @ d) = rest_part 64 (whole_part 64 m @ b @ inp)"
      by (metis append.assoc e whole_rest)
    also have "\<dots> = rest_part 64 inp"
      using parts_append_whole(1) [of 64 "whole_part 64 m @ b" inp] length_whole(2) [of 64 m] lb by simp
    finally have p: "rest_part 64 (m @ d) = rest_part 64 inp" .
    then have "length inp mod 64 = length (m @ d) mod 64" by (metis length_rest)
    then show ?thesis using True f p lb by (simp add: lf_def)
  next
    case False
    then have f: "fold_blocks 64 rfc_compress md5_H0 (m @ d) = fold_blocks 64 rfc_compress (md5_state ctx) d \<and>
        rest_part 64 (m @ d) = rest_part 64 m @ rest_part 64 d \<and> left + length d mod 64 = (length m + length d) mod 64"
    proof (cases "left = 0")
      case True
      then have "64 dvd length m" by (simp add: left_def dvd_eq_mod_eq_0)
      moreover have "rest_part 64 m = []" using True length_rest [of 64 m] by (simp only: left_def length_0_conv)
      moreover have "(length m + length d) mod 64 = length d mod 64"
        using True unfolding left_def by (metis add_0 mod_add_left_eq)
      ultimately show ?thesis using True r(4) by (simp add: fold_blocks_append parts_append_whole)
    next
      case nz: False
      then have s: "left + length d < 64" using False by (simp add: full_def)
      have "rest_part 64 (m @ d) = rest_part 64 m @ d" by (rule rest_part_append) (use s in \<open>simp add: left_def\<close>)
      moreover have "fold_blocks 64 rfc_compress md5_H0 (m @ d) = md5_state ctx"
        unfolding fold_blocks_append_rest [of 64 _ _ m d, OF zero_less_numeral] r(4)
        using s by (simp add: left_def)
      moreover have "(length m + length d) mod 64 = left + length d"
        using s unfolding left_def by (metis mod_add_left_eq mod_less)
      ultimately show ?thesis using s by (simp add: parts_short)
    qed
    then show ?thesis using False r by (simp add: inp_def b_def lf_def)
  qed
  have u: "utils_md5_update ctx d =
      \<lparr>md5_total0 = word_of_nat (length (m @ d)), md5_total1 = word_of_nat (length (m @ d) div 2 ^ 32),
       md5_state = fold_blocks 64 rfc_compress md5_H0 (m @ d),
       md5_buffer = (if length (rest_part 64 inp) > 0 then memcpy_at lf (rest_part 64 inp) b else b)\<rparr>"
  proof -
    have "md5_total0 ctx = word_of_nat (length m)" "md5_total1 ctx = word_of_nat (length m div 2 ^ 32)"
      using rep by (simp_all add: md5_rep_def)
    then have t: "(md5_total0 ctx + word_of_nat (length d)) AND 0xFFFFFFFF = word_of_nat (length (m @ d))"
      "(if word_of_nat (length (m @ d)) < (word_of_nat (length d) :: 32 word) then md5_total1 ctx + 1 else md5_total1 ctx) =
        word_of_nat (length (m @ d) div 2 ^ 32)"
      using md5_counter [OF n, of "length m"] by (simp_all only: ff length_append)
    have p: "(if left \<noteq> 0 \<and> length d \<ge> 64 - left
        then let buf = memcpy_at left (take (64 - left) d) (md5_buffer ctx)
             in (utils_md5_process (md5_state ctx) buf, buf, drop (64 - left) d, 0)
        else (md5_state ctx, md5_buffer ctx, d, left)) =
      ((if full then rfc_compress (md5_state ctx) b else md5_state ctx), b, inp, lf)"
      using full_def by (cases full) (auto simp: Let_def b_def inp_def lf_def buf_def md5_process_rfc)
    have s: "fold_blocks 64 rfc_compress (if full then rfc_compress (md5_state ctx) b else md5_state ctx) inp =
        fold_blocks 64 rfc_compress md5_H0 (m @ d)" using st by blast
    have z: "length d \<noteq> 0" using ne by simp
    show ?thesis
      unfolding utils_md5_update_def r(1) Let_def if_not_P [OF z] t
      by (simp only: p [unfolded Let_def] prod.case md5_blocks_fold s)
  qed
  have "take (length (m @ d) mod 64) (md5_buffer (utils_md5_update ctx d)) = rest_part 64 (m @ d)"
    "length (md5_buffer (utils_md5_update ctx d)) = 64"
  proof -
    have l: "lf + length (rest_part 64 inp) < 64" using st by simp
    show "length (md5_buffer (utils_md5_update ctx d)) = 64" using st l by (simp add: u array_simps del: length_rest)
    show "take (length (m @ d) mod 64) (md5_buffer (utils_md5_update ctx d)) = rest_part 64 (m @ d)"
      using st l take_memcpy_at [of lf b "rest_part 64 inp"] by (auto simp: u simp del: length_rest)
  qed
  then show ?thesis by (simp add: md5_rep_def u)
qed

section \<open>The digest\<close>

lemma md5_bit_length:
  "push_bit 3 (word_of_nat l) = (word_of_nat (8 * l) :: 32 word)"
  "drop_bit 29 (word_of_nat l) OR push_bit 3 (word_of_nat (l div 2 ^ 32)) = (word_of_nat (8 * l div 2 ^ 32) :: 32 word)"
proof -
  show "push_bit 3 (word_of_nat l) = (word_of_nat (8 * l) :: 32 word)"
    by (simp add: push_bit_eq_mult)
  have e: "8 * l = push_bit 3 l" by (simp add: push_bit_eq_mult)
  have d: "k div 2 ^ 32 = drop_bit 32 k" for k :: nat by (simp add: drop_bit_eq_div)
  show "drop_bit 29 (word_of_nat l) OR push_bit 3 (word_of_nat (l div 2 ^ 32)) = (word_of_nat (8 * l div 2 ^ 32) :: 32 word)"
    unfolding d e
  proof (rule bit_word_eqI)
    fix i assume "i < LENGTH(32)"
    then have i: "i < 32" by simp
    have "bit (drop_bit 29 (word_of_nat l) OR push_bit 3 (word_of_nat (drop_bit 32 l)) :: 32 word) i = bit l (29 + i)"
    proof (cases "i < 3")
      case True
      then show ?thesis using i by (simp add: bit_or_iff bit_drop_bit_eq bit_push_bit_iff bit_of_nat_iff)
    next
      case False
      then have "32 + (i - 3) = 29 + i" "i - 3 < 32" using i by simp_all
      then show ?thesis using i False by (simp add: bit_or_iff bit_drop_bit_eq bit_push_bit_iff bit_of_nat_iff)
    qed
    also have "\<dots> = bit (word_of_nat (drop_bit 32 (push_bit 3 l)) :: 32 word) i"
    proof -
      have "32 + i - 3 = 29 + i" by simp
      then show ?thesis using i by (simp add: bit_drop_bit_eq bit_push_bit_iff bit_of_nat_iff)
    qed
    finally show "bit (drop_bit 29 (word_of_nat l) OR push_bit 3 (word_of_nat (drop_bit 32 l)) :: 32 word) i =
      bit (word_of_nat (drop_bit 32 (push_bit 3 l)) :: 32 word) i" .
  qed
qed

lemma md5_padding_take:
  assumes "left < 64"
  shows "take (if left < 56 then 56 - left else 120 - left) md5_padding = 0x80 # replicate ((119 - left) mod 64) 0"
proof -
  have "take (Suc k) md5_padding = 0x80 # replicate k 0" if "k < 64" for k
    using that by (simp only: md5_padding_def take_Suc_Cons take_replicate) (simp add: min_def)
  moreover have "(if left < 56 then 56 - left else 120 - left) = Suc ((119 - left) mod 64)"
    using assms by (auto simp: mod_if)
  ultimately show ?thesis by simp
qed

lemma md5_finish_spec:
  assumes rep: "md5_rep ctx m"
  shows "snd (utils_md5_finish ctx) = md5_spec m"
proof -
  define padn where "padn = (if length m mod 64 < 56 then 56 - length m mod 64 else 120 - length m mod 64)"
  define len where "len = md5_put_le (word_of_nat (8 * length m)) @ md5_put_le (word_of_nat (8 * length m div 2 ^ 32))"
  have t: "md5_total0 ctx = word_of_nat (length m)" "md5_total1 ctx = word_of_nat (length m div 2 ^ 32)"
    using rep by (simp_all only: md5_rep_def)
  have "length (take padn md5_padding) < 2 ^ 32" by (simp add: md5_padding_def)
  from md5_update_rep [OF rep this] have r1: "md5_rep (utils_md5_update ctx (take padn md5_padding)) (m @ take padn md5_padding)" .
  have "length len < 2 ^ 32" by (simp add: len_def md5_put_le_def)
  from md5_update_rep [OF r1 this]
  have r2: "md5_rep (utils_md5_update (utils_md5_update ctx (take padn md5_padding)) len) ((m @ take padn md5_padding) @ len)" .
  have p: "(m @ take padn md5_padding) @ len = rfc_pad m"
    by (simp only: padn_def md5_padding_take [OF mod_less_divisor [OF zero_less_numeral]] rfc_pad_def len_def append_assoc append_Cons append_Nil)
  from r2 have s: "md5_state (utils_md5_update (utils_md5_update ctx (take padn md5_padding)) len) = fold_blocks 64 rfc_compress md5_H0 (rfc_pad m)"
    by (simp only: p md5_rep_def)
  have "snd (utils_md5_finish ctx) =
      rfc_bytes (md5_state (utils_md5_update (utils_md5_update ctx (take padn md5_padding)) len))"
    unfolding utils_md5_finish_def Let_def t md5_left md5_bit_length(2) unfolding md5_bit_length(1) padn_def [symmetric] len_def [symmetric]
    by (simp only: rfc_bytes.simps split: prod.splits) simp
  then show ?thesis by (simp only: s md5_spec_def)
qed

lemma md5_init_rep: "md5_rep (utils_md5_starts utils_md5_init) []"
  by (simp add: md5_rep_def utils_md5_starts_def utils_md5_init_def parts_short)

interpretation md5: streaming_hash "utils_md5_starts utils_md5_init" utils_md5_update "\<lambda>ctx. snd (utils_md5_finish ctx)"
  md5_rep md5_spec "\<lambda>d. length d < 2 ^ 32"
  by unfold_locales (rule md5_init_rep md5_update_rep md5_finish_spec; assumption?)+

section \<open>The checksum of a file\<close>

lemma md5File_digest:
  "\<forall>r\<in>set reads. length r < 2 ^ 32 \<Longrightarrow> md5File reads = md5_hex (md5_spec (concat reads))"
  unfolding md5File_def using md5.digest_of_pieces [of reads] by simp

text \<open>
  The checksum that the firmware update computes over a file, read in pieces of any size, is the
  hexadecimal text of the MD5 of RFC 1321 of the whole content: the streaming context with its partial
  block and its two-word counter computes the function of the standard.
\<close>

theorem md5File_correct:
  assumes "\<forall>r\<in>set reads. length r < 2 ^ 32"
  shows "md5File reads = md5_hex (md5_spec (concat reads))"
  using assms by (rule md5File_digest)

lemma md5File_correct_witness:
  "md5File [[0x61], [0x62, 0x63]] = md5_hex (md5_spec [0x61, 0x62, 0x63])"
  using md5File_correct [of "[[0x61], [0x62, 0x63]]"] by simp

end
