(* ===== verification/Base64.thy ===== *)
theory Base64
  imports Prelude
begin

text \<open>
  Base64 of \<^verbatim>\<open>src/aws/common/encoding.c\<close>: the length computations on 64-bit numbers, and the
  encoder and decoder that write into a byte buffer of a given capacity.
\<close>

unbundle bit_operations_syntax

type_synonym octet = "8 word"

text \<open>\<^verbatim>\<open>struct aws_byte_buf\<close>: the memory, whose size is the capacity, and the bytes in use.\<close>

record byte_buf =
  bb_buffer :: "octet list"
  bb_len :: nat

definition BASE64_SENTINEL_VALUE :: octet where "BASE64_SENTINEL_VALUE = 0xff"
definition PAD :: octet where "PAD = 0x3D"

definition encoding_table :: "octet list" where
  "encoding_table = map of_char
     (''ABCDEFGHIJKLMNOPQRSTUVWXYZabcdefghijklmnopqrstuvwxyz0123456789+/'' :: string)"

text \<open>
  \<^verbatim>\<open>BASE64_DECODING_TABLE\<close> by its runs: 64 for the byte 0, the digits, \<open>255\<close> for the padding
  sign, \<open>0xDD\<close> elsewhere.
\<close>

definition decoding_table :: "nat \<Rightarrow> octet" where
  "decoding_table i =
     (if i = 0 then 64
      else if i = 43 then 62 else if i = 47 then 63
      else if 48 \<le> i \<and> i \<le> 57 then word_of_nat (i + 4)
      else if i = 61 then 255
      else if 65 \<le> i \<and> i \<le> 90 then word_of_nat (i - 65)
      else if 97 \<le> i \<and> i \<le> 122 then word_of_nat (i - 71)
      else 0xDD)"

text \<open>Lengths. \<open>None\<close> is an error raised.\<close>

definition aws_base64_compute_encoded_len :: "64 word \<Rightarrow> 64 word option" where
  "aws_base64_compute_encoded_len to_encode_len =
     (let tmp = to_encode_len + 2 in
      if tmp < to_encode_len then None
      else
        let tmp = tmp div 3; overflow_check = tmp; tmp = 4 * tmp + 1 in
        if tmp < overflow_check then None else Some tmp)"

definition aws_base64_compute_decoded_len :: "octet list \<Rightarrow> nat option" where
  "aws_base64_compute_decoded_len input =
     (let len = length input in
      if len = 0 then Some 0
      else if len mod 4 \<noteq> 0 then None
      else if len * 3 \<ge> 2 ^ 64 then None
      else
        let padding = (if len \<ge> 2 \<and> input ! (len - 1) = PAD \<and> input ! (len - 2) = PAD then 2
                       else if input ! (len - 1) = PAD then 1 else 0)
        in Some (len * 3 div 4 - padding))"

text \<open>The 24 bits of the block at \<open>i\<close>, zeros beyond the end.\<close>

definition enc_block :: "octet list \<Rightarrow> nat \<Rightarrow> 32 word" where
  "enc_block input i =
     (let b0 = ucast (input ! i) :: 32 word;
          b1 = push_bit 8 b0;
          b2 = (if i + 1 < length input then b1 OR ucast (input ! (i + 1)) else b1);
          b3 = push_bit 8 b2
      in if i + 2 < length input then b3 OR ucast (input ! (i + 2)) else b3)"

definition enc_char :: "32 word \<Rightarrow> nat \<Rightarrow> octet" where
  "enc_char block s = encoding_table ! unat (drop_bit s block AND 0x3F)"

text \<open>The loop: four characters per block of three bytes, written at consecutive indices.\<close>

function enc_loop :: "octet list \<Rightarrow> nat \<Rightarrow> nat \<Rightarrow> octet list \<Rightarrow> octet list" where
  "enc_loop input i idx mem =
     (if i < length input then
        let block = enc_block input i in
        enc_loop input (i + 3) (idx + 4)
          (mem[idx := enc_char block 18, idx + 1 := enc_char block 12,
               idx + 2 := enc_char block 6, idx + 3 := enc_char block 0])
      else mem)"
  by pat_completeness auto
termination
  by (relation "measure (\<lambda>(input, i, idx, mem). length input - i)") auto

declare enc_loop.simps [simp del]

text \<open>\<^verbatim>\<open>aws_base64_encode\<close>: \<open>None\<close> when the output is too short.\<close>

definition aws_base64_encode :: "octet list \<Rightarrow> byte_buf \<Rightarrow> byte_buf option" where
  "aws_base64_encode input out =
     (case aws_base64_compute_encoded_len (word_of_nat (length input)) of
        None \<Rightarrow> None
      | Some terminated \<Rightarrow>
          let terminated_length = unat terminated; needed_capacity = bb_len out + terminated_length in
          if needed_capacity \<ge> 2 ^ 64 then None
          else if length (bb_buffer out) < needed_capacity then None
          else
            let encoded_length = terminated_length - 1;
                block_count = (length input + 2) div 3;
                remainder_count = length input mod 3;
                mem1 = enc_loop input 0 (bb_len out) (bb_buffer out);
                mem2 = (if remainder_count > 0
                        then let m = mem1[bb_len out + block_count * 4 - 1 := PAD] in
                             if remainder_count = 1 then m[bb_len out + block_count * 4 - 2 := PAD] else m
                        else mem1);
                mem3 = mem2[bb_len out + encoded_length := 0]
            in Some \<lparr>bb_buffer = mem3, bb_len = bb_len out + encoded_length\<rparr>)"

definition get_decoded_value :: "octet \<Rightarrow> bool \<Rightarrow> octet option" where
  "get_decoded_value to_decode allow_sentinel =
     (let decode_value = decoding_table (unat to_decode) in
      if decode_value \<noteq> 0xDD \<and> (decode_value \<noteq> BASE64_SENTINEL_VALUE \<or> allow_sentinel)
      then Some decode_value else None)"

definition dec1 :: "octet \<Rightarrow> octet \<Rightarrow> octet" where
  "dec1 v1 v2 = (push_bit 2 v1 OR (drop_bit 4 v2 AND 0x03))"
definition dec2 :: "octet \<Rightarrow> octet \<Rightarrow> octet" where
  "dec2 v2 v3 = ((push_bit 4 v2 AND 0xF0) OR (drop_bit 2 v3 AND 0x0F))"
definition dec3 :: "octet \<Rightarrow> octet \<Rightarrow> octet" where
  "dec3 v3 v4 = (push_bit 6 (v3 AND 0x03) OR v4)"

text \<open>The four values at \<open>k\<close>; the padding sign only where it is allowed.\<close>

definition dec_values :: "octet list \<Rightarrow> nat \<Rightarrow> bool \<Rightarrow> (octet \<times> octet \<times> octet \<times> octet) option" where
  "dec_values input k sentinel =
     (case get_decoded_value (input ! k) False of None \<Rightarrow> None | Some v1 \<Rightarrow>
      case get_decoded_value (input ! (k + 1)) False of None \<Rightarrow> None | Some v2 \<Rightarrow>
      case get_decoded_value (input ! (k + 2)) sentinel of None \<Rightarrow> None | Some v3 \<Rightarrow>
      case get_decoded_value (input ! (k + 3)) sentinel of None \<Rightarrow> None | Some v4 \<Rightarrow>
      Some (v1, v2, v3, v4))"

text \<open>The loop over all blocks but the last.\<close>

function dec_loop :: "octet list \<Rightarrow> nat \<Rightarrow> nat \<Rightarrow> octet list \<Rightarrow> octet list option" where
  "dec_loop input i n mem =
     (if i < n then
        (case dec_values input (4 * i) False of
           None \<Rightarrow> None
         | Some (v1, v2, v3, v4) \<Rightarrow>
             dec_loop input (i + 1) n
               (mem[i * 3 := dec1 v1 v2, i * 3 + 1 := dec2 v2 v3, i * 3 + 2 := dec3 v3 v4]))
      else Some mem)"
  by pat_completeness auto
termination
  by (relation "measure (\<lambda>(input, i, n, mem). n - i)") auto

declare dec_loop.simps [simp del]

text \<open>\<^verbatim>\<open>aws_base64_decode\<close>: the output is overwritten from its start.\<close>

definition aws_base64_decode :: "octet list \<Rightarrow> byte_buf \<Rightarrow> byte_buf option" where
  "aws_base64_decode input out =
     (case aws_base64_compute_decoded_len input of
        None \<Rightarrow> None
      | Some decoded_length \<Rightarrow>
          if length (bb_buffer out) < decoded_length then None
          else
            let block_count = length input div 4 in
            (case dec_loop input 0 (block_count - 1) (bb_buffer out) of
               None \<Rightarrow> None
             | Some mem \<Rightarrow>
                 if block_count = 0 then Some \<lparr>bb_buffer = mem, bb_len = decoded_length\<rparr>
                 else
                   (case dec_values input (4 * (block_count - 1)) True of
                      None \<Rightarrow> None
                    | Some (v1, v2, v3, v4) \<Rightarrow>
                        let b = (block_count - 1) * 3;
                            m1 = mem[b := dec1 v1 v2];
                            m2 = (if v3 \<noteq> BASE64_SENTINEL_VALUE
                                  then let m = m1[b + 1 := dec2 v2 v3] in
                                       if v4 \<noteq> BASE64_SENTINEL_VALUE then m[b + 2 := dec3 v3 v4] else m
                                  else m1)
                        in Some \<lparr>bb_buffer = m2, bb_len = decoded_length\<rparr>)))"

end
