(* ===== verification/Aes.thy ===== *)
theory Aes
  imports Base64
begin

text \<open>
  The AES of \<^verbatim>\<open>src/util/aes.c\<close> in the configuration the library is built with: tables computed
  at the first key set-up, four tables of 32-bit words per direction, key schedules for 128, 192 and
  256 bits, the block functions and the CBC mode; and \<^verbatim>\<open>aes_decode\<close> of \<^verbatim>\<open>src/util/aes_decode.c\<close>.
\<close>

section \<open>Tables\<close>

definition XTIME :: "octet \<Rightarrow> octet" where
  "XTIME x = (push_bit 1 x XOR (if x AND 0x80 \<noteq> 0 then 0x1B else 0))"

text \<open>The loop over the powers of 3: the tables \<^verbatim>\<open>pow\<close> and \<^verbatim>\<open>log\<close>.\<close>

definition pow_log_step :: "nat \<Rightarrow> octet \<times> octet list \<times> nat list \<Rightarrow> octet \<times> octet list \<times> nat list" where
  "pow_log_step i = (\<lambda>(x, pow, log). (x XOR XTIME x, pow[i := x], log[unat x := i]))"

definition pow_log :: "octet \<times> octet list \<times> nat list" where
  "pow_log = fold pow_log_step [0..<256] (1, replicate 256 0, replicate 256 0)"

definition pow_tab :: "octet list" where "pow_tab = fst (snd pow_log)"
definition log_tab :: "nat list" where "log_tab = snd (snd pow_log)"

definition MUL :: "octet \<Rightarrow> octet \<Rightarrow> octet" where
  "MUL x y = (if x \<noteq> 0 \<and> y \<noteq> 0 then pow_tab ! ((log_tab ! unat x + log_tab ! unat y) mod 255) else 0)"

definition RCON :: "32 word list" where
  "RCON = map ucast (fst (fold (\<lambda>i (r, x). (r[i := x], XTIME x)) [0..<10] (replicate 10 0, 1)))"

definition rotl1 :: "octet \<Rightarrow> octet" where
  "rotl1 y = (push_bit 1 y OR drop_bit 7 y)"

text \<open>The affine map of the S-box, four rotations and the constant.\<close>

definition sbox_affine :: "octet \<Rightarrow> octet" where
  "sbox_affine x0 =
     (let y1 = rotl1 x0; x1 = x0 XOR y1; y2 = rotl1 y1; x2 = x1 XOR y2;
          y3 = rotl1 y2; x3 = x2 XOR y3; y4 = rotl1 y3
      in x3 XOR (y4 XOR 0x63))"

definition sbox_step :: "nat \<Rightarrow> octet list \<times> octet list \<Rightarrow> octet list \<times> octet list" where
  "sbox_step i = (\<lambda>(f, r).
     let x = sbox_affine (pow_tab ! (255 - log_tab ! i)) in (f[i := x], r[unat x := word_of_nat i]))"

definition sboxes :: "octet list \<times> octet list" where
  "sboxes = fold sbox_step [1..<256] ((replicate 256 0)[0 := 0x63], (replicate 256 0)[0x63 := 0])"

definition FSb :: "octet list" where "FSb = fst sboxes"
definition RSb :: "octet list" where "RSb = snd sboxes"

definition ROTL8 :: "32 word \<Rightarrow> 32 word" where
  "ROTL8 x = (push_bit 8 x OR drop_bit 24 x)"

definition pack4 :: "octet \<Rightarrow> octet \<Rightarrow> octet \<Rightarrow> octet \<Rightarrow> 32 word" where
  "pack4 a b c d = (ucast a XOR push_bit 8 (ucast b) XOR push_bit 16 (ucast c) XOR push_bit 24 (ucast d))"

definition FT0 :: "32 word list" where
  "FT0 = map (\<lambda>i. let x = FSb ! i; y = XTIME x; z = y XOR x in pack4 y x x z) [0..<256]"
definition FT1 :: "32 word list" where "FT1 = map ROTL8 FT0"
definition FT2 :: "32 word list" where "FT2 = map ROTL8 FT1"
definition FT3 :: "32 word list" where "FT3 = map ROTL8 FT2"

definition RT0 :: "32 word list" where
  "RT0 = map (\<lambda>i. let x = RSb ! i in pack4 (MUL 0x0E x) (MUL 0x09 x) (MUL 0x0D x) (MUL 0x0B x)) [0..<256]"
definition RT1 :: "32 word list" where "RT1 = map ROTL8 RT0"
definition RT2 :: "32 word list" where "RT2 = map ROTL8 RT1"
definition RT3 :: "32 word list" where "RT3 = map ROTL8 RT2"

section \<open>Key schedules\<close>

text \<open>Byte \<open>j\<close> of a word, as a table index.\<close>

definition byte_at :: "32 word \<Rightarrow> nat \<Rightarrow> nat" where
  "byte_at w j = unat (drop_bit (8 * j) w AND 0xFF)"

definition get_uint32_le :: "octet list \<Rightarrow> nat \<Rightarrow> 32 word" where
  "get_uint32_le b i =
     (ucast (b ! i) OR push_bit 8 (ucast (b ! (i + 1))) OR push_bit 16 (ucast (b ! (i + 2)))
      OR push_bit 24 (ucast (b ! (i + 3))))"

definition put_uint32_le :: "32 word \<Rightarrow> octet list" where
  "put_uint32_le n = [ucast (n AND 0xFF), ucast (drop_bit 8 n AND 0xFF), ucast (drop_bit 16 n AND 0xFF),
     ucast (drop_bit 24 n AND 0xFF)]"

definition sub_bytes4 :: "nat \<Rightarrow> nat \<Rightarrow> nat \<Rightarrow> nat \<Rightarrow> 32 word" where
  "sub_bytes4 a b c d = pack4 (FSb ! a) (FSb ! b) (FSb ! c) (FSb ! d)"

text \<open>The word before a new group is rotated by a byte and substituted.\<close>

definition key_core :: "nat \<Rightarrow> 32 word \<Rightarrow> 32 word" where
  "key_core i w = (RCON ! i XOR sub_bytes4 (byte_at w 1) (byte_at w 2) (byte_at w 3) (byte_at w 0))"

text \<open>The three unrolled steps, at the offset \<^verbatim>\<open>RK\<close> has in iteration \<open>i\<close>.\<close>

definition step10 :: "nat \<Rightarrow> 32 word list \<Rightarrow> 32 word list" where
  "step10 i b =
     (let p = 4 * i;
          b = b[p + 4 := b ! p XOR key_core i (b ! (p + 3))];
          b = b[p + 5 := b ! (p + 1) XOR b ! (p + 4)];
          b = b[p + 6 := b ! (p + 2) XOR b ! (p + 5)]
      in b[p + 7 := b ! (p + 3) XOR b ! (p + 6)])"

definition step12 :: "nat \<Rightarrow> 32 word list \<Rightarrow> 32 word list" where
  "step12 i b =
     (let p = 6 * i;
          b = b[p + 6 := b ! p XOR key_core i (b ! (p + 5))];
          b = b[p + 7 := b ! (p + 1) XOR b ! (p + 6)];
          b = b[p + 8 := b ! (p + 2) XOR b ! (p + 7)];
          b = b[p + 9 := b ! (p + 3) XOR b ! (p + 8)];
          b = b[p + 10 := b ! (p + 4) XOR b ! (p + 9)]
      in b[p + 11 := b ! (p + 5) XOR b ! (p + 10)])"

definition step14 :: "nat \<Rightarrow> 32 word list \<Rightarrow> 32 word list" where
  "step14 i b =
     (let p = 8 * i;
          b = b[p + 8 := b ! p XOR key_core i (b ! (p + 7))];
          b = b[p + 9 := b ! (p + 1) XOR b ! (p + 8)];
          b = b[p + 10 := b ! (p + 2) XOR b ! (p + 9)];
          b = b[p + 11 := b ! (p + 3) XOR b ! (p + 10)];
          w = b ! (p + 11);
          b = b[p + 12 := b ! (p + 4) XOR sub_bytes4 (byte_at w 0) (byte_at w 1) (byte_at w 2) (byte_at w 3)];
          b = b[p + 13 := b ! (p + 5) XOR b ! (p + 12)];
          b = b[p + 14 := b ! (p + 6) XOR b ! (p + 13)]
      in b[p + 15 := b ! (p + 7) XOR b ! (p + 14)])"

record aes_ctx =
  aes_nr :: nat
  aes_rk :: "32 word list"

text \<open>
  \<^verbatim>\<open>utils_aes_setkey_enc\<close> on a fresh context, whose buffer has 68 words. \<open>None\<close> is
  \<^verbatim>\<open>UTILS_ERR_AES_INVALID_KEY_LENGTH\<close>.
\<close>

definition utils_aes_setkey_enc :: "octet list \<Rightarrow> nat \<Rightarrow> aes_ctx option" where
  "utils_aes_setkey_enc key keybits =
     (if keybits \<noteq> 128 \<and> keybits \<noteq> 192 \<and> keybits \<noteq> 256 then None
      else
        let nr = (if keybits = 128 then 10 else if keybits = 192 then 12 else 14);
            buf = fold (\<lambda>i b. b[i := get_uint32_le key (4 * i)]) [0..<keybits div 32] (replicate 68 0);
            buf = (if nr = 10 then fold step10 [0..<10] buf
                   else if nr = 12 then fold step12 [0..<8] buf
                   else fold step14 [0..<7] buf)
        in Some \<lparr>aes_nr = nr, aes_rk = buf\<rparr>)"

definition inv_mix_word :: "32 word \<Rightarrow> 32 word" where
  "inv_mix_word w =
     (RT0 ! unat (FSb ! byte_at w 0) XOR RT1 ! unat (FSb ! byte_at w 1) XOR
      RT2 ! unat (FSb ! byte_at w 2) XOR RT3 ! unat (FSb ! byte_at w 3))"

text \<open>The loop of \<^verbatim>\<open>utils_aes_setkey_dec\<close>; \<open>p\<close> is where \<^verbatim>\<open>SK\<close> points.\<close>

fun dec_keys :: "32 word list \<Rightarrow> nat \<Rightarrow> nat \<Rightarrow> 32 word list" where
  "dec_keys sk p 0 = take 4 (drop p sk)"
| "dec_keys sk p (Suc i) = map inv_mix_word (take 4 (drop p sk)) @ dec_keys sk (p + 4 - 8) i"

definition utils_aes_setkey_dec :: "octet list \<Rightarrow> nat \<Rightarrow> aes_ctx option" where
  "utils_aes_setkey_dec key keybits =
     (case utils_aes_setkey_enc key keybits of
        None \<Rightarrow> None
      | Some cty \<Rightarrow>
          let sk = aes_rk cty; nr = aes_nr cty;
              keys = take 4 (drop (nr * 4) sk) @ dec_keys sk (nr * 4 + 4 - 8) (nr - 1)
          in Some \<lparr>aes_nr = nr, aes_rk = memcpy_at 0 keys (replicate 68 0)\<rparr>)"

section \<open>Blocks\<close>

type_synonym quad = "32 word \<times> 32 word \<times> 32 word \<times> 32 word"

definition AES_FROUND :: "32 word list \<Rightarrow> nat \<Rightarrow> quad \<Rightarrow> quad" where
  "AES_FROUND rk k = (\<lambda>(y0, y1, y2, y3).
     (rk ! k XOR FT0 ! byte_at y0 0 XOR FT1 ! byte_at y1 1 XOR FT2 ! byte_at y2 2 XOR FT3 ! byte_at y3 3,
      rk ! (k + 1) XOR FT0 ! byte_at y1 0 XOR FT1 ! byte_at y2 1 XOR FT2 ! byte_at y3 2 XOR FT3 ! byte_at y0 3,
      rk ! (k + 2) XOR FT0 ! byte_at y2 0 XOR FT1 ! byte_at y3 1 XOR FT2 ! byte_at y0 2 XOR FT3 ! byte_at y1 3,
      rk ! (k + 3) XOR FT0 ! byte_at y3 0 XOR FT1 ! byte_at y0 1 XOR FT2 ! byte_at y1 2 XOR FT3 ! byte_at y2 3))"

definition AES_RROUND :: "32 word list \<Rightarrow> nat \<Rightarrow> quad \<Rightarrow> quad" where
  "AES_RROUND rk k = (\<lambda>(y0, y1, y2, y3).
     (rk ! k XOR RT0 ! byte_at y0 0 XOR RT1 ! byte_at y3 1 XOR RT2 ! byte_at y2 2 XOR RT3 ! byte_at y1 3,
      rk ! (k + 1) XOR RT0 ! byte_at y1 0 XOR RT1 ! byte_at y0 1 XOR RT2 ! byte_at y3 2 XOR RT3 ! byte_at y2 3,
      rk ! (k + 2) XOR RT0 ! byte_at y2 0 XOR RT1 ! byte_at y1 1 XOR RT2 ! byte_at y0 2 XOR RT3 ! byte_at y3 3,
      rk ! (k + 3) XOR RT0 ! byte_at y3 0 XOR RT1 ! byte_at y2 1 XOR RT2 ! byte_at y1 2 XOR RT3 ! byte_at y0 3))"

text \<open>Two rounds per iteration; the result has the position of \<^verbatim>\<open>RK\<close>.\<close>

fun round_pairs :: "(nat \<Rightarrow> quad \<Rightarrow> quad) \<Rightarrow> nat \<Rightarrow> nat \<Rightarrow> quad \<Rightarrow> nat \<times> quad" where
  "round_pairs rnd 0 k x = (k, x)"
| "round_pairs rnd (Suc i) k x = round_pairs rnd i (k + 8) (rnd (k + 4) (rnd k x))"

definition get_quad :: "32 word list \<Rightarrow> octet list \<Rightarrow> quad" where
  "get_quad rk input =
     (get_uint32_le input 0 XOR rk ! 0, get_uint32_le input 4 XOR rk ! 1,
      get_uint32_le input 8 XOR rk ! 2, get_uint32_le input 12 XOR rk ! 3)"

definition put_quad :: "quad \<Rightarrow> octet list" where
  "put_quad = (\<lambda>(x0, x1, x2, x3). put_uint32_le x0 @ put_uint32_le x1 @ put_uint32_le x2 @ put_uint32_le x3)"

definition enc_last :: "32 word list \<Rightarrow> nat \<Rightarrow> quad \<Rightarrow> quad" where
  "enc_last rk k = (\<lambda>(y0, y1, y2, y3).
     (rk ! k XOR sub_bytes4 (byte_at y0 0) (byte_at y1 1) (byte_at y2 2) (byte_at y3 3),
      rk ! (k + 1) XOR sub_bytes4 (byte_at y1 0) (byte_at y2 1) (byte_at y3 2) (byte_at y0 3),
      rk ! (k + 2) XOR sub_bytes4 (byte_at y2 0) (byte_at y3 1) (byte_at y0 2) (byte_at y1 3),
      rk ! (k + 3) XOR sub_bytes4 (byte_at y3 0) (byte_at y0 1) (byte_at y1 2) (byte_at y2 3)))"

definition inv_sub_bytes4 :: "nat \<Rightarrow> nat \<Rightarrow> nat \<Rightarrow> nat \<Rightarrow> 32 word" where
  "inv_sub_bytes4 a b c d = pack4 (RSb ! a) (RSb ! b) (RSb ! c) (RSb ! d)"

definition dec_last :: "32 word list \<Rightarrow> nat \<Rightarrow> quad \<Rightarrow> quad" where
  "dec_last rk k = (\<lambda>(y0, y1, y2, y3).
     (rk ! k XOR inv_sub_bytes4 (byte_at y0 0) (byte_at y3 1) (byte_at y2 2) (byte_at y1 3),
      rk ! (k + 1) XOR inv_sub_bytes4 (byte_at y1 0) (byte_at y0 1) (byte_at y3 2) (byte_at y2 3),
      rk ! (k + 2) XOR inv_sub_bytes4 (byte_at y2 0) (byte_at y1 1) (byte_at y0 2) (byte_at y3 3),
      rk ! (k + 3) XOR inv_sub_bytes4 (byte_at y3 0) (byte_at y2 1) (byte_at y1 2) (byte_at y0 3)))"

definition utils_internal_aes_encrypt :: "aes_ctx \<Rightarrow> octet list \<Rightarrow> octet list" where
  "utils_internal_aes_encrypt ctx input =
     (let rk = aes_rk ctx;
          (k, x) = round_pairs (AES_FROUND rk) (aes_nr ctx div 2 - 1) 4 (get_quad rk input);
          y = AES_FROUND rk k x
      in put_quad (enc_last rk (k + 4) y))"

definition utils_internal_aes_decrypt :: "aes_ctx \<Rightarrow> octet list \<Rightarrow> octet list" where
  "utils_internal_aes_decrypt ctx input =
     (let rk = aes_rk ctx;
          (k, x) = round_pairs (AES_RROUND rk) (aes_nr ctx div 2 - 1) 4 (get_quad rk input);
          y = AES_RROUND rk k x
      in put_quad (dec_last rk (k + 4) y))"

datatype aes_mode = UTILS_AES_ENCRYPT | UTILS_AES_DECRYPT

definition utils_aes_crypt_ecb :: "aes_ctx \<Rightarrow> aes_mode \<Rightarrow> octet list \<Rightarrow> octet list" where
  "utils_aes_crypt_ecb ctx mode input =
     (if mode = UTILS_AES_ENCRYPT then utils_internal_aes_encrypt ctx input
      else utils_internal_aes_decrypt ctx input)"

section \<open>CBC\<close>

definition UTILS_ERR_AES_INVALID_INPUT_LENGTH :: int where "UTILS_ERR_AES_INVALID_INPUT_LENGTH = -0x22"

text \<open>
  The loop, on separate input and output memories: block \<open>i\<close> is read and written at
  \<open>16 * i\<close>. An access beyond either memory is out of bounds. \<open>n\<close> blocks are left.
\<close>

fun cbc_loop :: "aes_ctx \<Rightarrow> aes_mode \<Rightarrow> nat \<Rightarrow> nat \<Rightarrow> octet list \<Rightarrow> octet list \<Rightarrow> octet list \<Rightarrow> (octet list \<times> octet list) c_result" where
  "cbc_loop ctx mode 0 p iv input output = Inr (iv, output)"
| "cbc_loop ctx mode (Suc n) p iv input output =
     (if length input < p + 16 \<or> length output < p + 16 then Inl OutOfBounds
      else
        let block = take 16 (drop p input) in
        if mode = UTILS_AES_DECRYPT then
          let o1 = utils_aes_crypt_ecb ctx mode block;
              o2 = map2 (XOR) o1 iv
          in cbc_loop ctx mode n (p + 16) block input (memcpy_at p o2 output)
        else
          let o1 = map2 (XOR) block iv;
              o2 = utils_aes_crypt_ecb ctx mode o1
          in cbc_loop ctx mode n (p + 16) o2 input (memcpy_at p o2 output))"

definition utils_aes_crypt_cbc ::
  "aes_ctx \<Rightarrow> aes_mode \<Rightarrow> nat \<Rightarrow> octet list \<Rightarrow> octet list \<Rightarrow> octet list \<Rightarrow> (octet list \<times> octet list \<times> int) c_result" where
  "utils_aes_crypt_cbc ctx mode len iv input output =
     (if len mod 16 \<noteq> 0 then Inr (iv, output, UTILS_ERR_AES_INVALID_INPUT_LENGTH)
      else c_bind (cbc_loop ctx mode (len div 16) 0 iv input output) (\<lambda>(iv', out'). Inr (iv', out', 0)))"

text \<open>
  \<^verbatim>\<open>utils_aes_cbc\<close>. The key is read before anything else; when encrypting, the data is copied to
  the output and padded there, but the cipher still reads the input.
\<close>

definition utils_aes_cbc ::
  "octet list \<Rightarrow> nat \<Rightarrow> octet list \<Rightarrow> nat \<Rightarrow> aes_mode \<Rightarrow> octet list \<Rightarrow> nat \<Rightarrow> octet list \<Rightarrow> (octet list \<times> int) c_result" where
  "utils_aes_cbc pIn datalen pOut outBuffLen mode pKey keybits iv =
     (if keybits \<in> {128, 192, 256} \<and> length pKey < keybits div 8 then Inl OutOfBounds
      else if mode = UTILS_AES_ENCRYPT then
        (case utils_aes_setkey_enc pKey keybits of
           None \<Rightarrow> Inr (pOut, -1)
         | Some ctx \<Rightarrow>
             if outBuffLen < datalen + 16 then Inr (pOut, -1)
             else
               let padlen = 16 - datalen mod 16 in
               if length pIn < datalen \<or> length pOut < datalen + padlen then Inl OutOfBounds
               else
                 let out1 = memcpy_at 0 (take datalen pIn @ replicate padlen 0) pOut in
                 c_bind (utils_aes_crypt_cbc ctx mode (datalen + padlen) iv pIn out1)
                   (\<lambda>(iv', out', ret). Inr (out', if ret \<noteq> 0 then -1 else 0)))
      else
        (case utils_aes_setkey_dec pKey keybits of
           None \<Rightarrow> Inr (pOut, -1)
         | Some ctx \<Rightarrow>
             c_bind (utils_aes_crypt_cbc ctx mode datalen iv pIn pOut)
               (\<lambda>(iv', out', ret). Inr (out', if ret \<noteq> 0 then -1 else 0))))"

section \<open>Decoding a secret\<close>

definition bytes_of :: "string \<Rightarrow> octet list" where
  "bytes_of s = map of_char s"

definition string_of :: "octet list \<Rightarrow> string" where
  "string_of bs = map (\<lambda>b. char_of (unat b)) bs"

text \<open>\<^verbatim>\<open>url_trim\<close> and \<^verbatim>\<open>aws_byte_cursor_right_trim_pred\<close>.\<close>

definition url_trim :: "octet \<Rightarrow> bool" where
  "url_trim ch = (if ch < 32 then True
     else ch = 0x20 \<or> ch = 0x09 \<or> ch = 0x0A \<or> ch = 0x0B \<or> ch = 0x0C \<or> ch = 0x0D \<or> ch = 0x07)"

definition right_trim :: "('a \<Rightarrow> bool) \<Rightarrow> 'a list \<Rightarrow> 'a list" where
  "right_trim P s = rev (dropWhile P (rev s))"

definition DECODE_BUFF_LEN :: nat where "DECODE_BUFF_LEN = 512"

text \<open>
  \<^verbatim>\<open>aes_decode\<close>. The results of the two Base64 operations are not checked: on an error the length
  is 0. The secret is read with its terminator, 16 bytes for the initial vector. The text is the
  output up to its first zero; without one the read goes beyond the array.
\<close>

definition aes_decode :: "string \<Rightarrow> string \<Rightarrow> bool \<Rightarrow> string option c_result" where
  "aes_decode device_secret encrypt_data partial_secret =
     (let encoded = bytes_of encrypt_data;
          decoded_length = (case aws_base64_compute_decoded_len encoded of None \<Rightarrow> 0 | Some n \<Rightarrow> n);
          empty = \<lparr>bb_buffer = replicate (decoded_length + 1) 0, bb_len = 0\<rparr>;
          out = (case aws_base64_decode encoded empty of None \<Rightarrow> empty | Some b \<Rightarrow> b);
          secret = bytes_of device_secret @ [0]
      in if length secret < 16 then Inl OutOfBounds
         else
           let key = (if partial_secret then take 16 secret else secret);
               key_bits = (if partial_secret then 128 else 192);
               aes_iv = take 16 secret
           in c_bind (utils_aes_cbc (bb_buffer out) (bb_len out mod 2 ^ 32) (replicate DECODE_BUFF_LEN 0) DECODE_BUFF_LEN
                UTILS_AES_DECRYPT key key_bits aes_iv)
              (\<lambda>(decoded, ret).
                 if ret \<noteq> 0 then Inr None
                 else if 0 \<notin> set decoded then Inl OutOfBounds
                 else Inr (Some (string_of (right_trim url_trim (takeWhile (\<lambda>b. b \<noteq> 0) decoded))))))"

end
