(* ===== verification/Decimal.thy ===== *)
theory Decimal
  imports Prelude
begin

text \<open>
  Decimal numbers as \<^verbatim>\<open>printf\<close> writes them (\<^verbatim>\<open>%d\<close>, \<^verbatim>\<open>%llu\<close>): the digits determine the
  number, contain no character a format of the library uses as a separator, and their number is
  bounded by the size of the argument.
\<close>

definition digit :: "nat \<Rightarrow> char" where
  "digit n = char_of (48 + n)"

fun dec_nat :: "nat \<Rightarrow> string" where
  "dec_nat n = (if n < 10 then [digit n] else dec_nat (n div 10) @ [digit (n mod 10)])"

declare dec_nat.simps [simp del]

definition dec_int :: "int \<Rightarrow> string" where
  "dec_int i = (if i < 0 then CHR ''-'' # dec_nat (nat (- i)) else dec_nat (nat i))"

text \<open>Reading the digits back.\<close>

definition undigit :: "char \<Rightarrow> nat" where
  "undigit c = of_char c - 48"

definition undec :: "string \<Rightarrow> nat" where
  "undec s = foldl (\<lambda>n c. 10 * n + undigit c) 0 s"

lemma undigit_digit: "n < 10 \<Longrightarrow> undigit (digit n) = n"
  by (simp add: undigit_def digit_def)

lemma undec_dec_nat: "undec (dec_nat n) = n"
proof (induction n rule: dec_nat.induct)
  case (1 n)
  show ?case
  proof (cases "n < 10")
    case True
    then show ?thesis by (subst dec_nat.simps) (simp add: undec_def undigit_digit)
  next
    case False
    have "undec (dec_nat n) = 10 * undec (dec_nat (n div 10)) + n mod 10"
      using False by (subst dec_nat.simps) (simp add: undec_def undigit_digit)
    then show ?thesis using 1 False by simp
  qed
qed

lemma dec_nat_inject [simp]: "dec_nat m = dec_nat n \<longleftrightarrow> m = n"
  by (metis undec_dec_nat)

lemma digit_code: "n < 10 \<Longrightarrow> of_char (digit n) \<in> {48..<58 :: nat}"
  by (simp add: digit_def)

lemma dec_nat_digits: "c \<in> set (dec_nat n) \<Longrightarrow> of_char c \<in> {48..<58 :: nat}"
proof (induction n rule: dec_nat.induct)
  case (1 n)
  then show ?case
    using dec_nat.simps [of n] digit_code [of n] digit_code [of "n mod 10"] by (auto split: if_splits)
qed

lemma dec_nat_not_Nil [simp]: "dec_nat n \<noteq> []"
  by (subst dec_nat.simps) simp

lemma not_in_dec_nat: "of_char c \<notin> {48..<58 :: nat} \<Longrightarrow> c \<notin> set (dec_nat n)"
  using dec_nat_digits by blast

lemma dec_int_inject [simp]: "dec_int i = dec_int j \<longleftrightarrow> i = j"
proof
  assume e: "dec_int i = dec_int j"
  have m: "CHR ''-'' \<notin> set (dec_nat n)" for n by (rule not_in_dec_nat) simp
  have h: "dec_nat n \<noteq> CHR ''-'' # s" for n s using m [of n] by (metis list.set_intros(1))
  show "i = j"
    using e h by (auto simp: dec_int_def split: if_splits) (metis h)+
qed simp

lemma dec_int_chars: "c \<in> set (dec_int i) \<Longrightarrow> c = CHR ''-'' \<or> of_char c \<in> {48..<58 :: nat}"
  using dec_nat_digits by (auto simp: dec_int_def split: if_splits)

lemma length_dec_nat: "n < 10 ^ k \<Longrightarrow> 0 < k \<Longrightarrow> length (dec_nat n) \<le> k"
proof (induction k arbitrary: n)
  case (Suc k)
  show ?case
  proof (cases "n < 10")
    case True
    then show ?thesis by (subst dec_nat.simps) simp
  next
    case False
    then have "0 < k" using Suc.prems(1) by (cases k) auto
    moreover have "n div 10 < 10 ^ k" using Suc.prems(1) by (simp add: div_less_iff_less_mult mult.commute)
    ultimately have "length (dec_nat (n div 10)) \<le> k" by (intro Suc.IH)
    then show ?thesis using False by (subst dec_nat.simps) simp
  qed
qed simp

lemma length_dec_nat_ge: "10 ^ k \<le> n \<Longrightarrow> k < length (dec_nat n)"
proof (induction k arbitrary: n)
  case (Suc k)
  have "10 \<le> n"
  proof -
    have "(10 :: nat) \<le> 10 ^ Suc k" by simp
    then show ?thesis using Suc.prems by linarith
  qed
  moreover have "10 ^ k \<le> n div 10" using Suc.prems by (simp add: less_eq_div_iff_mult_less_eq mult.commute)
  ultimately show ?case using Suc.IH [of "n div 10"] by (subst dec_nat.simps) simp
qed simp

text \<open>A field ends at the first separator: two texts with the same fields agree field by field.\<close>

lemma field_split:
  assumes "a @ c # x = b @ c # y" "c \<notin> set a" "c \<notin> set b"
  shows "a = b \<and> x = y"
  using assms
proof (induction a arbitrary: b)
  case Nil
  then show ?case by (cases b) auto
next
  case (Cons h a)
  then show ?case by (cases b) auto
qed

end
