(* ===== verification/Json.thy ===== *)
theory Json
  imports Complex_Main Prelude "HOL-Library.Log_Nat"
begin

text \<open>
  JSON values as the library uses them through \<^verbatim>\<open>src/aws/common/json.c\<close> and
  \<^verbatim>\<open>src/util/aws_json.c\<close>. The tree and its text belong to cJSON: a value is a datatype, and the
  comparison of keys, the parser and the printer are arguments of the definitions that use them.
  A number is the rational a \<^verbatim>\<open>double\<close> holds.
\<close>

datatype json = JNull | JBool bool | JNum rat | JStr string | JArr "json list"
  | JObj "(string \<times> json) list"

type_synonym key_eq = "string \<Rightarrow> string \<Rightarrow> bool"

text \<open>The conversion of an integer to \<^verbatim>\<open>double\<close>: exact up to 53 bits, then to nearest, ties to even.\<close>

definition double_of_nat :: "nat \<Rightarrow> nat" where
  "double_of_nat n =
     (if n < 2 ^ 53 then n
      else
        let e = floorlog 2 n - 53; q = n div 2 ^ e; r = n mod 2 ^ e; half = 2 ^ (e - 1)
        in (if r > half \<or> (r = half \<and> odd q) then q + 1 else q) * 2 ^ e)"

definition json_find :: "key_eq \<Rightarrow> (string \<times> json) list \<Rightarrow> string \<Rightarrow> json option" where
  "json_find keq kvs key = map_option snd (find (\<lambda>(k, v). keq k key) kvs)"

text \<open>A key that is present is not added again, and the error is ignored by the callers.\<close>

definition aws_json_value_add_to_object :: "key_eq \<Rightarrow> json \<Rightarrow> string \<Rightarrow> json \<Rightarrow> json" where
  "aws_json_value_add_to_object keq obj key val =
     (case obj of
        JObj kvs \<Rightarrow> if json_find keq kvs key \<noteq> None then obj else JObj (kvs @ [(key, val)])
      | _ \<Rightarrow> obj)"

text \<open>Reading from a null pointer or a value that is no object gives a null pointer.\<close>

definition aws_json_value_get_from_object :: "key_eq \<Rightarrow> json option \<Rightarrow> string \<Rightarrow> json option" where
  "aws_json_value_get_from_object keq obj key =
     (case obj of Some (JObj kvs) \<Rightarrow> json_find keq kvs key | _ \<Rightarrow> None)"

definition aws_json_value_has_key :: "key_eq \<Rightarrow> json option \<Rightarrow> string \<Rightarrow> bool" where
  "aws_json_value_has_key keq obj key =
     (case obj of Some (JObj kvs) \<Rightarrow> json_find keq kvs key \<noteq> None | _ \<Rightarrow> False)"

text \<open>\<^verbatim>\<open>aws_json_get_str\<close>: a fresh string, empty when there is none.\<close>

definition aws_json_get_str :: "key_eq \<Rightarrow> json option \<Rightarrow> string \<Rightarrow> string" where
  "aws_json_get_str keq obj key =
     (case aws_json_value_get_from_object keq obj key of Some (JStr s) \<Rightarrow> s | _ \<Rightarrow> [])"

text \<open>\<^verbatim>\<open>aws_json_get_num_val\<close>: without a number the result is a variable never written.\<close>

definition aws_json_get_num_val :: "key_eq \<Rightarrow> json option \<Rightarrow> string \<Rightarrow> rat c_result" where
  "aws_json_get_num_val keq obj key =
     (case aws_json_value_get_from_object keq obj key of Some (JNum x) \<Rightarrow> Inr x | _ \<Rightarrow> Inl Uninit)"

definition aws_json_add_aws_string_val1 :: "key_eq \<Rightarrow> string \<Rightarrow> string \<Rightarrow> json \<Rightarrow> json" where
  "aws_json_add_aws_string_val1 keq key val obj = aws_json_value_add_to_object keq obj key (JStr val)"

definition aws_json_add_num_val1 :: "key_eq \<Rightarrow> string \<Rightarrow> rat \<Rightarrow> json \<Rightarrow> json" where
  "aws_json_add_num_val1 keq key val obj = aws_json_value_add_to_object keq obj key (JNum val)"

text \<open>
  Trees that are built member by member: \<^verbatim>\<open>cJSON_AddStringToObject\<close> with a null string and
  \<^verbatim>\<open>cJSON_AddItemToObject\<close> with a null item add nothing, a repeated key is added again.
\<close>

definition item_member :: "string \<Rightarrow> json option \<Rightarrow> (string \<times> json) list" where
  "item_member key item = (case item of None \<Rightarrow> [] | Some j \<Rightarrow> [(key, j)])"

definition str_member :: "string \<Rightarrow> string option \<Rightarrow> (string \<times> json) list" where
  "str_member key s = item_member key (map_option JStr s)"

text \<open>\<^verbatim>\<open>cJSON_GetObjectItem\<close> on a tree that may be null or no object.\<close>

definition get_item :: "key_eq \<Rightarrow> json option \<Rightarrow> string \<Rightarrow> json option" where
  "get_item keq obj key = (case obj of Some (JObj kvs) \<Rightarrow> json_find keq kvs key | _ \<Rightarrow> None)"

definition string_item :: "json option \<Rightarrow> string option" where
  "string_item item = (case item of Some (JStr s) \<Rightarrow> Some s | _ \<Rightarrow> None)"

text \<open>The cast of a \<^verbatim>\<open>double\<close> to \<^verbatim>\<open>int32_t\<close> drops the fraction; out of range it is undefined.\<close>

definition to_int32 :: "rat \<Rightarrow> int c_result" where
  "to_int32 x =
     (let i = (if x < 0 then \<lceil>x\<rceil> else \<lfloor>x\<rfloor>) in
      if - (2 ^ 31) \<le> i \<and> i < 2 ^ 31 then Inr i else Inl SignedOverflow)"

text \<open>The cast to \<^verbatim>\<open>uint64_t\<close> likewise.\<close>

definition to_uint64 :: "rat \<Rightarrow> nat c_result" where
  "to_uint64 x =
     (let i = (if x < 0 then \<lceil>x\<rceil> else \<lfloor>x\<rfloor>) in
      if 0 \<le> i \<and> i < 2 ^ 64 then Inr (nat i) else Inl SignedOverflow)"

definition to_int64 :: "rat \<Rightarrow> int c_result" where
  "to_int64 x =
     (let i = (if x < 0 then \<lceil>x\<rceil> else \<lfloor>x\<rfloor>) in
      if - (2 ^ 63) \<le> i \<and> i < 2 ^ 63 then Inr i else Inl SignedOverflow)"

lemma json_find_app:
  "json_find keq (kvs @ [(key, v)]) k =
     (case json_find keq kvs k of Some w \<Rightarrow> Some w | None \<Rightarrow> if keq key k then Some v else None)"
  by (induction kvs) (auto simp: json_find_def split: option.splits)

end
