(* ===== verification/DeviceAuth.thy ===== *)
theory DeviceAuth
  imports Basic Http Sha256 Aes Decimal Json
begin

text \<open>
  How a device proves itself to the cloud: the signature of \<^verbatim>\<open>src/iot/dynreg.c\<close>, the dynamic
  registration that fetches the device secret, the signed headers of \<^verbatim>\<open>src/aigw/auth.c\<close>, the
  gateway configuration of \<^verbatim>\<open>src/aigw/llm.c\<close> and the credentials of \<^verbatim>\<open>src/iot/iot_mqtt.c\<close>.
\<close>

section \<open>The signature\<close>

record register_param =
  rp_product_key :: "string option"
  rp_device_name :: "string option"
  rp_random_num :: "32 word"
  rp_timestamp :: "64 word"
  rp_auth_type :: auth_type

text \<open>The text of the \<^verbatim>\<open>sprintf\<close>.\<close>

definition sign_text :: "int \<Rightarrow> string \<Rightarrow> int \<Rightarrow> string \<Rightarrow> nat \<Rightarrow> string" where
  "sign_text auth device_name random_num product_key timestamp =
     ''auth_type='' @ dec_int auth @ ''&device_name='' @ device_name @ ''&random_num='' @ dec_int random_num @
     ''&product_key='' @ product_key @ ''&timestamp='' @ dec_nat timestamp"

text \<open>
  \<^verbatim>\<open>iot_hmac_sha256_encrypt\<close>: the text is printed into 256 bytes without a check. A null secret is
  an empty key. \<open>junk\<close> is what the buffer of the hash holds at first.
\<close>

definition iot_hmac_sha256_encrypt :: "octet list \<Rightarrow> register_param \<Rightarrow> string option \<Rightarrow> string c_result" where
  "iot_hmac_sha256_encrypt junk param secret =
     (case (rp_device_name param, rp_product_key param) of
        (Some dn, Some pk) \<Rightarrow>
          let inputStr = sign_text (auth_code (rp_auth_type param)) dn (sint (rp_random_num param)) pk (unat (rp_timestamp param));
              key = (case secret of None \<Rightarrow> [] | Some s \<Rightarrow> bytes_of s)
          in if length inputStr + 1 > 256 then Inl OutOfBounds
             else
               (case onesdk_hmac_sha256 junk key (bytes_of inputStr) 32 of
                  None \<Rightarrow> Inl Uninit
                | Some mac \<Rightarrow>
                    let terminated = (case aws_base64_compute_encoded_len (word_of_nat (length mac)) of None \<Rightarrow> 0 | Some n \<Rightarrow> unat n);
                        buf = \<lparr>bb_buffer = replicate (terminated + 2) 0, bb_len = 0\<rparr>;
                        out = (case aws_base64_encode mac buf of None \<Rightarrow> buf | Some b \<Rightarrow> b)
                    in Inr (string_of (take (bb_len out) (bb_buffer out))))
      | _ \<Rightarrow> Inl NullDeref)"

section \<open>Requests to the cloud\<close>

text \<open>
  What the operations take from outside: the random number and the clock, the functions of cJSON,
  the URL parser of libwebsockets, the outcome of the HTTP request and of the allocations.
\<close>

record cloud_env =
  ce_random :: "32 word"
  ce_timestamp :: "64 word"
  ce_key_eq :: key_eq
  ce_print :: "json \<Rightarrow> string"
  ce_parse :: "string \<Rightarrow> json option"
  ce_uri :: uri_parser
  ce_http :: "http_request_ctx \<Rightarrow> http_response option"
  ce_alloc :: "nat \<Rightarrow> bool"
  ce_junk :: "octet list"

text \<open>A piece that does not fit into the array of 1024 bytes is left out.\<close>

definition write_whole :: "nat \<Rightarrow> string \<Rightarrow> string \<Rightarrow> string" where
  "write_whole capacity s buf = (if length buf + length s > capacity then buf else buf @ s)"

definition cloud_url :: "string option \<Rightarrow> string \<Rightarrow> string \<Rightarrow> string c_result" where
  "cloud_url http_host path action =
     (let url = fold (write_whole 1024)
            [case http_host of None \<Rightarrow> [] | Some h \<Rightarrow> h, path, ''?'', action, ''&'', ''Version=2021-12-14''] []
      in if length url = 1024 then Inl OutOfBounds else Inr url)"

definition cloud_request :: "cloud_env \<Rightarrow> string \<Rightarrow> json \<Rightarrow> http_request_ctx c_result" where
  "cloud_request env url body =
     c_bind (new_http_ctx (ce_alloc env)) (\<lambda>ctxp. case ctxp of
       None \<Rightarrow> Inl NullDeref
     | Some ctx \<Rightarrow> c_bind (http_ctx_set_url (ce_uri env) ctx (Some url)) (\<lambda>ctx.
         let ctx = http_ctx_set_method ctx HTTP_POST;
             ctx = http_ctx_add_header (ce_alloc env 5) ctx ''Content-Type'' ''application/json''
         in Inr (http_ctx_set_json_body (ce_alloc env 6) ctx (Some (ce_print env body)))))"

section \<open>Dynamic registration\<close>

record dyn_result =
  dr_len :: int
  dr_payload :: string
  dr_action :: string
  dr_version :: string
  dr_code :: string
  dr_code_n :: int
  dr_message :: string

text \<open>
  \<^verbatim>\<open>parse_dynamic_register\<close>. The error fields are those of the HTTP result, replaced by the ones in
  the response.
\<close>

definition parse_dynamic_register :: "cloud_env \<Rightarrow> http_response \<Rightarrow> dyn_result c_result" where
  "parse_dynamic_register env response =
     (let keq = ce_key_eq env;
          doc = ce_parse env (case response_body response of None \<Rightarrow> [] | Some b \<Rightarrow> b);
          result = aws_json_value_get_from_object keq doc ''Result'';
          meta = aws_json_value_get_from_object keq doc ''ResponseMetadata'';
          r0 = \<lparr>dr_len = 0, dr_payload = [], dr_action = aws_json_get_str keq meta ''Action'',
                dr_version = aws_json_get_str keq meta ''Version'', dr_code = [],
                dr_code_n = (if error_code response \<noteq> 0 then error_code response else 0),
                dr_message = (if error_code response \<noteq> 0 then ''http request failed'' else [])\<rparr>;
          err = aws_json_value_get_from_object keq meta ''Error''
      in c_bind (case err of
             None \<Rightarrow> Inr r0
           | Some e \<Rightarrow> c_bind (aws_json_get_num_val keq err ''CodeN'') (\<lambda>x. c_bind (to_int32 x) (\<lambda>n.
               Inr (r0\<lparr>dr_code := aws_json_get_str keq err ''Code'', dr_code_n := n,
                       dr_message := aws_json_get_str keq err ''Message''\<rparr>))))
           (\<lambda>r1. c_bind (aws_json_get_num_val keq result ''len'') (\<lambda>x. c_bind (to_int32 x) (\<lambda>n.
             Inr (r1\<lparr>dr_len := n, dr_payload := aws_json_get_str keq result ''payload''\<rparr>)))))"

definition register_param_of :: "cloud_env \<Rightarrow> basic_config \<Rightarrow> auth_type \<Rightarrow> register_param" where
  "register_param_of env cfg auth =
     \<lparr>rp_product_key = bc_product_key cfg, rp_device_name = bc_device_name cfg,
      rp_random_num = ce_random env, rp_timestamp = ce_timestamp env, rp_auth_type = auth\<rparr>"

definition register_body :: "cloud_env \<Rightarrow> string \<Rightarrow> string \<Rightarrow> string \<Rightarrow> auth_type \<Rightarrow> string \<Rightarrow> json" where
  "register_body env iid pk dn auth sign =
     (let keq = ce_key_eq env in
      (aws_json_add_aws_string_val1 keq ''signature'' sign
       (aws_json_add_num_val1 keq ''auth_type'' (of_int (auth_code auth))
        (aws_json_add_num_val1 keq ''timestamp'' (of_nat (double_of_nat (unat (ce_timestamp env))))
         (aws_json_add_num_val1 keq ''random_num'' (of_int (sint (ce_random env)))
          (aws_json_add_aws_string_val1 keq ''device_name'' dn
           (aws_json_add_aws_string_val1 keq ''product_key'' pk
            (aws_json_add_aws_string_val1 keq ''InstanceID'' iid (JObj [])))))))))"

text \<open>
  \<^verbatim>\<open>dynamic_register\<close>: the context with its configuration, and the result code. Nothing is sent
  when there is a secret already. The outcome of the decoding is stored unchecked.
\<close>

definition dynamic_register :: "cloud_env \<Rightarrow> basic_config option option \<Rightarrow> (basic_config option option \<times> int) c_result" where
  "dynamic_register env ctx =
     (case ctx of
        None \<Rightarrow> Inr (ctx, -1)
      | Some None \<Rightarrow> Inl NullDeref
      | Some (Some cfg) \<Rightarrow>
          if bc_device_secret cfg \<noteq> None \<and> bc_device_secret cfg \<noteq> Some [] then Inr (ctx, 0)
          else
            c_bind (iot_hmac_sha256_encrypt (ce_junk env) (register_param_of env cfg (bc_auth_type cfg)) (bc_product_secret cfg)) (\<lambda>sign.
            case (bc_instance_id cfg, bc_product_key cfg, bc_device_name cfg) of
              (Some iid, Some pk, Some dn) \<Rightarrow>
                c_bind (cloud_url (bc_http_host cfg) ''/2021-12-14/DynamicRegister'' ''Action=DynamicRegister'') (\<lambda>url.
                c_bind (cloud_request env url (register_body env iid pk dn (bc_auth_type cfg) sign)) (\<lambda>http_ctx.
                case ce_http env http_ctx of
                  None \<Rightarrow> Inr (ctx, VOLC_ERR_HTTP_CONN_FAILED)
                | Some response \<Rightarrow>
                    if error_code response = 200 then
                      c_bind (parse_dynamic_register env response) (\<lambda>result.
                      if dr_len result > 0 then
                        (case bc_product_secret cfg of
                           None \<Rightarrow> Inl NullDeref
                         | Some ps \<Rightarrow> c_bind (aes_decode ps (dr_payload result) True) (\<lambda>decoded.
                             Inr (Some (Some (cfg\<lparr>bc_device_secret := decoded\<rparr>)), VOLC_OK)))
                      else Inr (ctx, -1))
                    else Inr (ctx,
                      if error_code response \<noteq> 0 then error_code response
                      else if inner_error_code response \<noteq> 0 then inner_error_code response
                      else VOLC_ERR_HTTP_CONN_FAILED)))
            | _ \<Rightarrow> Inl NullDeref))"

section \<open>Signed headers\<close>

definition MAX_TIMESTAMP_LEN :: nat where "MAX_TIMESTAMP_LEN = 20"

text \<open>A number printed into the array of 20 bytes.\<close>

definition print_number :: "string \<Rightarrow> string c_result" where
  "print_number s = (if length s + 1 > MAX_TIMESTAMP_LEN then Inl OutOfBounds else Inr s)"

text \<open>
  \<^verbatim>\<open>device_auth_client\<close>: random number and time are taken before a registration, which takes its
  own. \<open>alloc\<close> are the allocations of the headers, \<open>hw\<close> the hardware id of the platform.
\<close>

definition device_auth_client ::
  "32 word \<Rightarrow> 64 word \<Rightarrow> cloud_env \<Rightarrow> (nat \<Rightarrow> bool) \<Rightarrow> string option \<Rightarrow> http_request_ctx option \<Rightarrow> basic_config
     \<Rightarrow> (http_request_ctx option \<times> basic_config) c_result" where
  "device_auth_client rnd ts env alloc hw http_ctx cfg0 =
     c_bind (case http_ctx of Some c \<Rightarrow> Inr (Some c) | None \<Rightarrow> new_http_ctx alloc) (\<lambda>ctxp.
     c_bind (if bc_device_secret cfg0 = None then dynamic_register env (Some (Some cfg0))
             else Inr (Some (Some cfg0), 0)) (\<lambda>(regctx, ret).
     case regctx of Some (Some cfg) \<Rightarrow>
       if ret \<noteq> 0 then Inr (None, cfg)
       else
         let param = \<lparr>rp_product_key = bc_product_key cfg, rp_device_name = bc_device_name cfg,
               rp_random_num = rnd, rp_timestamp = ts, rp_auth_type = bc_auth_type cfg\<rparr>
         in c_bind (iot_hmac_sha256_encrypt (ce_junk env) param (bc_device_secret cfg)) (\<lambda>signature.
            case (ctxp, bc_device_name cfg, bc_product_key cfg, hw) of
              (Some ctx, Some dn, Some pk, Some hw_id) \<Rightarrow>
                let ctx = http_ctx_add_header (alloc 5) ctx ''X-Signature'' signature;
                    ctx = http_ctx_add_header (alloc 6) ctx ''X-Auth-Type'' (iot_auth_type_c_str (bc_auth_type cfg));
                    ctx = http_ctx_add_header (alloc 7) ctx ''X-Device-Name'' dn;
                    ctx = http_ctx_add_header (alloc 8) ctx ''X-Product-Key'' pk
                in c_bind (print_number (dec_int (sint rnd))) (\<lambda>s1.
                   let ctx = http_ctx_add_header (alloc 9) ctx ''X-Random-Num'' s1 in
                   c_bind (print_number (dec_nat (unat ts))) (\<lambda>s2.
                   let ctx = http_ctx_add_header (alloc 10) ctx ''X-Timestamp'' s2;
                       ctx = http_ctx_add_header (alloc 11) ctx ''X-Hardware-Id'' hw_id
                   in Inr (Some ctx, cfg)))
            | _ \<Rightarrow> Inl NullDeref)
     | _ \<Rightarrow> Inl NullDeref))"

record auth_header =
  ah_signature :: string
  ah_auth_type :: string
  ah_device_name :: string
  ah_product_key :: string
  ah_random_num :: string
  ah_timestamp :: string

definition aigw_auth_header_new :: "octet list \<Rightarrow> register_param \<Rightarrow> string option \<Rightarrow> auth_header c_result" where
  "aigw_auth_header_new junk param device_secret =
     c_bind (iot_hmac_sha256_encrypt junk param device_secret) (\<lambda>signature.
     case (rp_device_name param, rp_product_key param) of
       (Some dn, Some pk) \<Rightarrow>
         c_bind (print_number (dec_int (sint (rp_random_num param)))) (\<lambda>s1.
         c_bind (print_number (dec_nat (unat (rp_timestamp param)))) (\<lambda>s2.
         Inr \<lparr>ah_signature = signature, ah_auth_type = iot_auth_type_c_str (rp_auth_type param),
              ah_device_name = dn, ah_product_key = pk, ah_random_num = s1, ah_timestamp = s2\<rparr>))
     | _ \<Rightarrow> Inl NullDeref)"

section \<open>MQTT credentials\<close>

definition mqtt_username :: "basic_config \<Rightarrow> bool \<Rightarrow> string option c_result" where
  "mqtt_username cfg alloc =
     (case (bc_product_key cfg, bc_device_name cfg) of
        (Some pk, Some dn) \<Rightarrow> Inr (if alloc then Some (pk @ ''|'' @ dn) else None)
      | _ \<Rightarrow> Inl NullDeref)"

text \<open>The password has the type that is signed: a device secret is reported as pre-registered.\<close>

definition mqtt_password :: "octet list \<Rightarrow> 32 word \<Rightarrow> 64 word \<Rightarrow> basic_config \<Rightarrow> string c_result" where
  "mqtt_password junk rnd ts cfg =
     (let auth = (if bc_auth_type cfg = AUTH_DEVICE_SECRET then AUTH_PRE_REGISTERED else bc_auth_type cfg) in
      c_bind (iot_hmac_sha256_encrypt junk \<lparr>rp_product_key = bc_product_key cfg, rp_device_name = bc_device_name cfg,
          rp_random_num = rnd, rp_timestamp = ts, rp_auth_type = auth\<rparr> (bc_device_secret cfg)) (\<lambda>sign.
      let values = dec_int (auth_code auth) @ ''|'' @ dec_int (sint rnd) @ ''|'' @ dec_nat (unat ts) @ ''|'' @ sign
      in if length values + 1 > 500 then Inl OutOfBounds else Inr values))"

section \<open>The gateway configuration\<close>

definition LLM_OK :: int where "LLM_OK = 0"
definition LLM_ERR_ALLOC_FAILED :: int where "LLM_ERR_ALLOC_FAILED = -99"
definition LLM_ERR_DEV_REG_FAILED :: int where "LLM_ERR_DEV_REG_FAILED = -98"
definition LLM_ERR_NETWORK_FAIL :: int where "LLM_ERR_NETWORK_FAIL = -95"
definition LLM_ERR_PARSE_FAILED :: int where "LLM_ERR_PARSE_FAILED = -94"

record llm_config =
  lc_err_code :: int
  lc_url :: "string option"
  lc_api_key :: "string option"

definition parse_llm_config ::
  "cloud_env \<Rightarrow> string option \<Rightarrow> http_response \<Rightarrow> llm_config option \<Rightarrow> (llm_config option \<times> int) c_result" where
  "parse_llm_config env device_secret response out =
     (case out of
        None \<Rightarrow> Inr (out, LLM_ERR_ALLOC_FAILED)
      | Some cfg \<Rightarrow>
          let keq = ce_key_eq env;
              doc = ce_parse env (case response_body response of None \<Rightarrow> [] | Some b \<Rightarrow> b);
              result = aws_json_value_get_from_object keq doc ''Result''
          in if doc = None \<or> result = None then Inr (out, LLM_ERR_PARSE_FAILED)
             else
               (case device_secret of
                  None \<Rightarrow> Inl NullDeref
                | Some secret \<Rightarrow>
                    c_bind (aes_decode secret (aws_json_get_str keq result ''APIKey'') False) (\<lambda>api_key.
                    if api_key = None then Inr (out, LLM_ERR_PARSE_FAILED)
                    else Inr (Some (cfg\<lparr>lc_api_key := api_key, lc_url := Some (aws_json_get_str keq result ''URL'')\<rparr>), LLM_OK))))"

definition llm_body :: "cloud_env \<Rightarrow> 32 word \<Rightarrow> 64 word \<Rightarrow> string \<Rightarrow> string \<Rightarrow> string \<Rightarrow> string \<Rightarrow> json" where
  "llm_body env rnd ts iid pk dn sign =
     (let keq = ce_key_eq env in
      (aws_json_add_aws_string_val1 keq ''signature'' sign
        (aws_json_add_num_val1 keq ''timestamp'' (of_nat (double_of_nat (unat ts)))
         (aws_json_add_num_val1 keq ''random_num'' (of_int (sint rnd))
          (aws_json_add_aws_string_val1 keq ''device_name'' dn
           (aws_json_add_aws_string_val1 keq ''product_key'' pk
            (aws_json_add_aws_string_val1 keq ''InstanceID'' iid (JObj []))))))))"

text \<open>\<open>reg\<close> is the world as the registration finds it, \<open>env\<close> as the request does.\<close>

definition get_llm_config ::
  "cloud_env \<Rightarrow> cloud_env \<Rightarrow> basic_config \<Rightarrow> llm_config option \<Rightarrow> (basic_config \<times> llm_config option \<times> int) c_result" where
  "get_llm_config reg env cfg0 out =
     c_bind (if bc_device_secret cfg0 = None then dynamic_register reg (Some (Some cfg0))
             else Inr (Some (Some cfg0), 0)) (\<lambda>(regctx, ret).
     case regctx of Some (Some cfg) \<Rightarrow>
       if ret \<noteq> 0 then Inr (cfg, out, LLM_ERR_DEV_REG_FAILED)
       else
         c_bind (iot_hmac_sha256_encrypt (ce_junk env) (register_param_of env cfg AUTH_PRE_REGISTERED) (bc_device_secret cfg)) (\<lambda>sign.
         case (bc_instance_id cfg, bc_product_key cfg, bc_device_name cfg) of
           (Some iid, Some pk, Some dn) \<Rightarrow>
             c_bind (cloud_url (bc_http_host cfg) ''/2021-12-14/GetLLMConfig'' ''Action=GetLLMConfig'') (\<lambda>url.
             c_bind (cloud_request env url (llm_body env (ce_random env) (ce_timestamp env) iid pk dn sign)) (\<lambda>http_ctx.
             case ce_http env http_ctx of
               None \<Rightarrow> Inr (cfg, out, LLM_ERR_NETWORK_FAIL)
             | Some response \<Rightarrow> c_bind (parse_llm_config env (bc_device_secret cfg) response out) (\<lambda>(out', ret).
                 Inr (cfg, out', ret))))
         | _ \<Rightarrow> Inl NullDeref)
     | _ \<Rightarrow> Inl NullDeref)"

end
