(* ===== verification/AesTables.thy ===== *)
theory AesTables
  imports Aes
begin

text \<open>
  The tables of the AES against FIPS 197: the powers of 3 reach every non-zero byte, the
  multiplication by table is multiplication in the field, the computed S-box is the one of the
  standard and the inverse S-box inverts it, and each table holds a column of the mixing matrix.
\<close>

section \<open>The powers of three\<close>

definition mul3 :: "octet \<Rightarrow> octet" where
  "mul3 x = x XOR XTIME x"

text \<open>The bytes in the order the generator visits them.\<close>

definition powers :: "octet list" where
  "powers =
    [0x01, 0x03, 0x05, 0x0F, 0x11, 0x33, 0x55, 0xFF, 0x1A, 0x2E, 0x72, 0x96, 0xA1, 0xF8, 0x13,
     0x35, 0x5F, 0xE1, 0x38, 0x48, 0xD8, 0x73, 0x95, 0xA4, 0xF7, 0x02, 0x06, 0x0A, 0x1E, 0x22,
     0x66, 0xAA, 0xE5, 0x34, 0x5C, 0xE4, 0x37, 0x59, 0xEB, 0x26, 0x6A, 0xBE, 0xD9, 0x70, 0x90,
     0xAB, 0xE6, 0x31, 0x53, 0xF5, 0x04, 0x0C, 0x14, 0x3C, 0x44, 0xCC, 0x4F, 0xD1, 0x68, 0xB8,
     0xD3, 0x6E, 0xB2, 0xCD, 0x4C, 0xD4, 0x67, 0xA9, 0xE0, 0x3B, 0x4D, 0xD7, 0x62, 0xA6, 0xF1,
     0x08, 0x18, 0x28, 0x78, 0x88, 0x83, 0x9E, 0xB9, 0xD0, 0x6B, 0xBD, 0xDC, 0x7F, 0x81, 0x98,
     0xB3, 0xCE, 0x49, 0xDB, 0x76, 0x9A, 0xB5, 0xC4, 0x57, 0xF9, 0x10, 0x30, 0x50, 0xF0, 0x0B,
     0x1D, 0x27, 0x69, 0xBB, 0xD6, 0x61, 0xA3, 0xFE, 0x19, 0x2B, 0x7D, 0x87, 0x92, 0xAD, 0xEC,
     0x2F, 0x71, 0x93, 0xAE, 0xE9, 0x20, 0x60, 0xA0, 0xFB, 0x16, 0x3A, 0x4E, 0xD2, 0x6D, 0xB7,
     0xC2, 0x5D, 0xE7, 0x32, 0x56, 0xFA, 0x15, 0x3F, 0x41, 0xC3, 0x5E, 0xE2, 0x3D, 0x47, 0xC9,
     0x40, 0xC0, 0x5B, 0xED, 0x2C, 0x74, 0x9C, 0xBF, 0xDA, 0x75, 0x9F, 0xBA, 0xD5, 0x64, 0xAC,
     0xEF, 0x2A, 0x7E, 0x82, 0x9D, 0xBC, 0xDF, 0x7A, 0x8E, 0x89, 0x80, 0x9B, 0xB6, 0xC1, 0x58,
     0xE8, 0x23, 0x65, 0xAF, 0xEA, 0x25, 0x6F, 0xB1, 0xC8, 0x43, 0xC5, 0x54, 0xFC, 0x1F, 0x21,
     0x63, 0xA5, 0xF4, 0x07, 0x09, 0x1B, 0x2D, 0x77, 0x99, 0xB0, 0xCB, 0x46, 0xCA, 0x45, 0xCF,
     0x4A, 0xDE, 0x79, 0x8B, 0x86, 0x91, 0xA8, 0xE3, 0x3E, 0x42, 0xC6, 0x51, 0xF3, 0x0E, 0x12,
     0x36, 0x5A, 0xEE, 0x29, 0x7B, 0x8D, 0x8C, 0x8F, 0x8A, 0x85, 0x94, 0xA7, 0xF2, 0x0D, 0x17,
     0x39, 0x4B, 0xDD, 0x7C, 0x84, 0x97, 0xA2, 0xFD, 0x1C, 0x24, 0x6C, 0xB4, 0xC7, 0x52, 0xF6]"

lemma length_powers [simp]: "length powers = 255" by (simp add: powers_def)

lemma distinct_powers: "distinct powers"
proof -
  have "distinct (map unat powers)" by (simp add: powers_def)
  then show ?thesis by (simp add: distinct_map)
qed

lemma zero_not_power: "0 \<notin> set powers" by (simp add: powers_def)

lemma mul3_values:
  "mul3 1 = 0x3" "mul3 0x3 = 0x5" "mul3 0x5 = 0xF" "mul3 0xF = 0x11" "mul3 0x11 = 0x33"
  "mul3 0x33 = 0x55" "mul3 0x55 = 0xFF" "mul3 0xFF = 0x1A" "mul3 0x1A = 0x2E" "mul3 0x2E = 0x72"
  "mul3 0x72 = 0x96" "mul3 0x96 = 0xA1" "mul3 0xA1 = 0xF8" "mul3 0xF8 = 0x13" "mul3 0x13 = 0x35"
  "mul3 0x35 = 0x5F" "mul3 0x5F = 0xE1" "mul3 0xE1 = 0x38" "mul3 0x38 = 0x48" "mul3 0x48 = 0xD8"
  "mul3 0xD8 = 0x73" "mul3 0x73 = 0x95" "mul3 0x95 = 0xA4" "mul3 0xA4 = 0xF7" "mul3 0xF7 = 0x2"
  "mul3 0x2 = 0x6" "mul3 0x6 = 0xA" "mul3 0xA = 0x1E" "mul3 0x1E = 0x22" "mul3 0x22 = 0x66"
  "mul3 0x66 = 0xAA" "mul3 0xAA = 0xE5" "mul3 0xE5 = 0x34" "mul3 0x34 = 0x5C" "mul3 0x5C = 0xE4"
  "mul3 0xE4 = 0x37" "mul3 0x37 = 0x59" "mul3 0x59 = 0xEB" "mul3 0xEB = 0x26" "mul3 0x26 = 0x6A"
  "mul3 0x6A = 0xBE" "mul3 0xBE = 0xD9" "mul3 0xD9 = 0x70" "mul3 0x70 = 0x90" "mul3 0x90 = 0xAB"
  "mul3 0xAB = 0xE6" "mul3 0xE6 = 0x31" "mul3 0x31 = 0x53" "mul3 0x53 = 0xF5" "mul3 0xF5 = 0x4"
  "mul3 0x4 = 0xC" "mul3 0xC = 0x14" "mul3 0x14 = 0x3C" "mul3 0x3C = 0x44" "mul3 0x44 = 0xCC"
  "mul3 0xCC = 0x4F" "mul3 0x4F = 0xD1" "mul3 0xD1 = 0x68" "mul3 0x68 = 0xB8" "mul3 0xB8 = 0xD3"
  "mul3 0xD3 = 0x6E" "mul3 0x6E = 0xB2" "mul3 0xB2 = 0xCD" "mul3 0xCD = 0x4C" "mul3 0x4C = 0xD4"
  "mul3 0xD4 = 0x67" "mul3 0x67 = 0xA9" "mul3 0xA9 = 0xE0" "mul3 0xE0 = 0x3B" "mul3 0x3B = 0x4D"
  "mul3 0x4D = 0xD7" "mul3 0xD7 = 0x62" "mul3 0x62 = 0xA6" "mul3 0xA6 = 0xF1" "mul3 0xF1 = 0x8"
  "mul3 0x8 = 0x18" "mul3 0x18 = 0x28" "mul3 0x28 = 0x78" "mul3 0x78 = 0x88" "mul3 0x88 = 0x83"
  "mul3 0x83 = 0x9E" "mul3 0x9E = 0xB9" "mul3 0xB9 = 0xD0" "mul3 0xD0 = 0x6B" "mul3 0x6B = 0xBD"
  "mul3 0xBD = 0xDC" "mul3 0xDC = 0x7F" "mul3 0x7F = 0x81" "mul3 0x81 = 0x98" "mul3 0x98 = 0xB3"
  "mul3 0xB3 = 0xCE" "mul3 0xCE = 0x49" "mul3 0x49 = 0xDB" "mul3 0xDB = 0x76" "mul3 0x76 = 0x9A"
  "mul3 0x9A = 0xB5" "mul3 0xB5 = 0xC4" "mul3 0xC4 = 0x57" "mul3 0x57 = 0xF9" "mul3 0xF9 = 0x10"
  "mul3 0x10 = 0x30" "mul3 0x30 = 0x50" "mul3 0x50 = 0xF0" "mul3 0xF0 = 0xB" "mul3 0xB = 0x1D"
  "mul3 0x1D = 0x27" "mul3 0x27 = 0x69" "mul3 0x69 = 0xBB" "mul3 0xBB = 0xD6" "mul3 0xD6 = 0x61"
  "mul3 0x61 = 0xA3" "mul3 0xA3 = 0xFE" "mul3 0xFE = 0x19" "mul3 0x19 = 0x2B" "mul3 0x2B = 0x7D"
  "mul3 0x7D = 0x87" "mul3 0x87 = 0x92" "mul3 0x92 = 0xAD" "mul3 0xAD = 0xEC" "mul3 0xEC = 0x2F"
  "mul3 0x2F = 0x71" "mul3 0x71 = 0x93" "mul3 0x93 = 0xAE" "mul3 0xAE = 0xE9" "mul3 0xE9 = 0x20"
  "mul3 0x20 = 0x60" "mul3 0x60 = 0xA0" "mul3 0xA0 = 0xFB" "mul3 0xFB = 0x16" "mul3 0x16 = 0x3A"
  "mul3 0x3A = 0x4E" "mul3 0x4E = 0xD2" "mul3 0xD2 = 0x6D" "mul3 0x6D = 0xB7" "mul3 0xB7 = 0xC2"
  "mul3 0xC2 = 0x5D" "mul3 0x5D = 0xE7" "mul3 0xE7 = 0x32" "mul3 0x32 = 0x56" "mul3 0x56 = 0xFA"
  "mul3 0xFA = 0x15" "mul3 0x15 = 0x3F" "mul3 0x3F = 0x41" "mul3 0x41 = 0xC3" "mul3 0xC3 = 0x5E"
  "mul3 0x5E = 0xE2" "mul3 0xE2 = 0x3D" "mul3 0x3D = 0x47" "mul3 0x47 = 0xC9" "mul3 0xC9 = 0x40"
  "mul3 0x40 = 0xC0" "mul3 0xC0 = 0x5B" "mul3 0x5B = 0xED" "mul3 0xED = 0x2C" "mul3 0x2C = 0x74"
  "mul3 0x74 = 0x9C" "mul3 0x9C = 0xBF" "mul3 0xBF = 0xDA" "mul3 0xDA = 0x75" "mul3 0x75 = 0x9F"
  "mul3 0x9F = 0xBA" "mul3 0xBA = 0xD5" "mul3 0xD5 = 0x64" "mul3 0x64 = 0xAC" "mul3 0xAC = 0xEF"
  "mul3 0xEF = 0x2A" "mul3 0x2A = 0x7E" "mul3 0x7E = 0x82" "mul3 0x82 = 0x9D" "mul3 0x9D = 0xBC"
  "mul3 0xBC = 0xDF" "mul3 0xDF = 0x7A" "mul3 0x7A = 0x8E" "mul3 0x8E = 0x89" "mul3 0x89 = 0x80"
  "mul3 0x80 = 0x9B" "mul3 0x9B = 0xB6" "mul3 0xB6 = 0xC1" "mul3 0xC1 = 0x58" "mul3 0x58 = 0xE8"
  "mul3 0xE8 = 0x23" "mul3 0x23 = 0x65" "mul3 0x65 = 0xAF" "mul3 0xAF = 0xEA" "mul3 0xEA = 0x25"
  "mul3 0x25 = 0x6F" "mul3 0x6F = 0xB1" "mul3 0xB1 = 0xC8" "mul3 0xC8 = 0x43" "mul3 0x43 = 0xC5"
  "mul3 0xC5 = 0x54" "mul3 0x54 = 0xFC" "mul3 0xFC = 0x1F" "mul3 0x1F = 0x21" "mul3 0x21 = 0x63"
  "mul3 0x63 = 0xA5" "mul3 0xA5 = 0xF4" "mul3 0xF4 = 0x7" "mul3 0x7 = 0x9" "mul3 0x9 = 0x1B"
  "mul3 0x1B = 0x2D" "mul3 0x2D = 0x77" "mul3 0x77 = 0x99" "mul3 0x99 = 0xB0" "mul3 0xB0 = 0xCB"
  "mul3 0xCB = 0x46" "mul3 0x46 = 0xCA" "mul3 0xCA = 0x45" "mul3 0x45 = 0xCF" "mul3 0xCF = 0x4A"
  "mul3 0x4A = 0xDE" "mul3 0xDE = 0x79" "mul3 0x79 = 0x8B" "mul3 0x8B = 0x86" "mul3 0x86 = 0x91"
  "mul3 0x91 = 0xA8" "mul3 0xA8 = 0xE3" "mul3 0xE3 = 0x3E" "mul3 0x3E = 0x42" "mul3 0x42 = 0xC6"
  "mul3 0xC6 = 0x51" "mul3 0x51 = 0xF3" "mul3 0xF3 = 0xE" "mul3 0xE = 0x12" "mul3 0x12 = 0x36"
  "mul3 0x36 = 0x5A" "mul3 0x5A = 0xEE" "mul3 0xEE = 0x29" "mul3 0x29 = 0x7B" "mul3 0x7B = 0x8D"
  "mul3 0x8D = 0x8C" "mul3 0x8C = 0x8F" "mul3 0x8F = 0x8A" "mul3 0x8A = 0x85" "mul3 0x85 = 0x94"
  "mul3 0x94 = 0xA7" "mul3 0xA7 = 0xF2" "mul3 0xF2 = 0xD" "mul3 0xD = 0x17" "mul3 0x17 = 0x39"
  "mul3 0x39 = 0x4B" "mul3 0x4B = 0xDD" "mul3 0xDD = 0x7C" "mul3 0x7C = 0x84" "mul3 0x84 = 0x97"
  "mul3 0x97 = 0xA2" "mul3 0xA2 = 0xFD" "mul3 0xFD = 0x1C" "mul3 0x1C = 0x24" "mul3 0x24 = 0x6C"
  "mul3 0x6C = 0xB4" "mul3 0xB4 = 0xC7" "mul3 0xC7 = 0x52" "mul3 0x52 = 0xF6" "mul3 0xF6 = 1"
  by (simp_all add: mul3_def XTIME_def)

lemma mul3_powers:
  "map mul3 powers =
    [0x03, 0x05, 0x0F, 0x11, 0x33, 0x55, 0xFF, 0x1A, 0x2E, 0x72, 0x96, 0xA1, 0xF8, 0x13, 0x35,
     0x5F, 0xE1, 0x38, 0x48, 0xD8, 0x73, 0x95, 0xA4, 0xF7, 0x02, 0x06, 0x0A, 0x1E, 0x22, 0x66,
     0xAA, 0xE5, 0x34, 0x5C, 0xE4, 0x37, 0x59, 0xEB, 0x26, 0x6A, 0xBE, 0xD9, 0x70, 0x90, 0xAB,
     0xE6, 0x31, 0x53, 0xF5, 0x04, 0x0C, 0x14, 0x3C, 0x44, 0xCC, 0x4F, 0xD1, 0x68, 0xB8, 0xD3,
     0x6E, 0xB2, 0xCD, 0x4C, 0xD4, 0x67, 0xA9, 0xE0, 0x3B, 0x4D, 0xD7, 0x62, 0xA6, 0xF1, 0x08,
     0x18, 0x28, 0x78, 0x88, 0x83, 0x9E, 0xB9, 0xD0, 0x6B, 0xBD, 0xDC, 0x7F, 0x81, 0x98, 0xB3,
     0xCE, 0x49, 0xDB, 0x76, 0x9A, 0xB5, 0xC4, 0x57, 0xF9, 0x10, 0x30, 0x50, 0xF0, 0x0B, 0x1D,
     0x27, 0x69, 0xBB, 0xD6, 0x61, 0xA3, 0xFE, 0x19, 0x2B, 0x7D, 0x87, 0x92, 0xAD, 0xEC, 0x2F,
     0x71, 0x93, 0xAE, 0xE9, 0x20, 0x60, 0xA0, 0xFB, 0x16, 0x3A, 0x4E, 0xD2, 0x6D, 0xB7, 0xC2,
     0x5D, 0xE7, 0x32, 0x56, 0xFA, 0x15, 0x3F, 0x41, 0xC3, 0x5E, 0xE2, 0x3D, 0x47, 0xC9, 0x40,
     0xC0, 0x5B, 0xED, 0x2C, 0x74, 0x9C, 0xBF, 0xDA, 0x75, 0x9F, 0xBA, 0xD5, 0x64, 0xAC, 0xEF,
     0x2A, 0x7E, 0x82, 0x9D, 0xBC, 0xDF, 0x7A, 0x8E, 0x89, 0x80, 0x9B, 0xB6, 0xC1, 0x58, 0xE8,
     0x23, 0x65, 0xAF, 0xEA, 0x25, 0x6F, 0xB1, 0xC8, 0x43, 0xC5, 0x54, 0xFC, 0x1F, 0x21, 0x63,
     0xA5, 0xF4, 0x07, 0x09, 0x1B, 0x2D, 0x77, 0x99, 0xB0, 0xCB, 0x46, 0xCA, 0x45, 0xCF, 0x4A,
     0xDE, 0x79, 0x8B, 0x86, 0x91, 0xA8, 0xE3, 0x3E, 0x42, 0xC6, 0x51, 0xF3, 0x0E, 0x12, 0x36,
     0x5A, 0xEE, 0x29, 0x7B, 0x8D, 0x8C, 0x8F, 0x8A, 0x85, 0x94, 0xA7, 0xF2, 0x0D, 0x17, 0x39,
     0x4B, 0xDD, 0x7C, 0x84, 0x97, 0xA2, 0xFD, 0x1C, 0x24, 0x6C, 0xB4, 0xC7, 0x52, 0xF6, 0x01]"
  by (simp only: powers_def list.map mul3_values)

lemma powers_next: "i < 254 \<Longrightarrow> mul3 (powers ! i) = powers ! Suc i"
proof -
  assume i: "i < 254"
  have "map mul3 powers = tl powers @ [1]" unfolding mul3_powers by (simp only: powers_def list.sel append.simps)
  then have "map mul3 powers ! i = (tl powers @ [1]) ! i" by simp
  then show ?thesis using i by (simp add: nth_append nth_tl)
qed

lemma powers_last: "mul3 (powers ! 254) = 1"
proof -
  have "map mul3 powers = tl powers @ [1]" unfolding mul3_powers by (simp only: powers_def list.sel append.simps)
  then have "map mul3 powers ! 254 = (tl powers @ [1]) ! 254" by simp
  then show ?thesis by (simp add: nth_append)
qed

lemma powers_first: "powers ! 0 = 1" by (simp add: powers_def)

lemma powers_funpow: "i < 255 \<Longrightarrow> powers ! i = (mul3 ^^ i) 1"
  by (induction i) (simp_all add: powers_first flip: powers_next)

lemma mul3_order: "(mul3 ^^ 255) 1 = 1"
proof -
  have "(mul3 ^^ Suc 254) 1 = mul3 ((mul3 ^^ 254) 1)" by (simp only: funpow.simps o_apply)
  then show ?thesis using powers_funpow [of 254] powers_last by simp
qed

lemma all_powers:
  assumes "x \<noteq> 0"
  shows "\<exists>i < 255. x = (mul3 ^^ i) 1"
proof -
  have c: "card (set powers) = 255" using distinct_card [OF distinct_powers] by simp
  have u: "card (UNIV - {0 :: octet}) = 255" by (simp add: card_word)
  have "set powers \<subseteq> UNIV - {0}" using zero_not_power by auto
  then have "set powers = UNIV - {0}" by (intro card_subset_eq) (simp_all add: c u)
  then have "x \<in> set powers" using assms by auto
  then obtain i where "i < 255" "x = powers ! i" by (auto simp: in_set_conv_nth)
  then show ?thesis using powers_funpow by auto
qed

section \<open>The logarithm table\<close>

lemma pow_log_prefix:
  assumes "n \<le> 256"
  shows "\<exists>log. fold pow_log_step [0..<n] (1, replicate 256 0, replicate 256 0) =
      ((mul3 ^^ n) 1, map (\<lambda>i. if i < n then (mul3 ^^ i) 1 else 0) [0..<256], log) \<and> length log = 256 \<and>
      (\<forall>i < n. log ! unat ((mul3 ^^ i) 1) < n \<and> (mul3 ^^ (log ! unat ((mul3 ^^ i) 1))) 1 = (mul3 ^^ i) 1)"
  using assms
proof (induction n)
  case 0
  then show ?case by (simp add: map_replicate_trivial del: upt_rec_numeral)
next
  case (Suc n)
  then obtain log where IH: "fold pow_log_step [0..<n] (1, replicate 256 0, replicate 256 0) =
      ((mul3 ^^ n) 1, map (\<lambda>i. if i < n then (mul3 ^^ i) 1 else 0) [0..<256], log)" "length log = 256"
      "\<forall>i < n. log ! unat ((mul3 ^^ i) 1) < n \<and> (mul3 ^^ (log ! unat ((mul3 ^^ i) 1))) 1 = (mul3 ^^ i) 1"
    by auto
  let ?x = "(mul3 ^^ n) 1"
  have ux: "unat (x :: octet) < 256" for x using unsigned_less [of x, where 'a = nat] by simp
  have m: "(map (\<lambda>i. if i < n then (mul3 ^^ i) 1 else 0) [0..<256])[n := ?x]
      = map (\<lambda>i. if i < Suc n then (mul3 ^^ i) 1 else 0) [0..<256]"
    using Suc.prems by (intro nth_equalityI) (auto simp: nth_list_update less_Suc_eq simp del: upt_rec_numeral)
  have "fold pow_log_step [0..<Suc n] (1, replicate 256 0, replicate 256 0) =
      ((mul3 ^^ Suc n) 1, map (\<lambda>i. if i < Suc n then (mul3 ^^ i) 1 else 0) [0..<256], log[unat ?x := n])"
    using IH(1) m by (simp add: pow_log_step_def mul3_def del: upt_rec_numeral)
  moreover have "\<forall>i < Suc n. log[unat ?x := n] ! unat ((mul3 ^^ i) 1) < Suc n \<and>
      (mul3 ^^ (log[unat ?x := n] ! unat ((mul3 ^^ i) 1))) 1 = (mul3 ^^ i) 1"
  proof (intro allI impI)
    fix i assume i: "i < Suc n"
    show "log[unat ?x := n] ! unat ((mul3 ^^ i) 1) < Suc n \<and>
      (mul3 ^^ (log[unat ?x := n] ! unat ((mul3 ^^ i) 1))) 1 = (mul3 ^^ i) 1"
    proof (cases "(mul3 ^^ i) 1 = ?x")
      case True
      then show ?thesis using IH(2) ux [of ?x] by simp
    next
      case False
      then have "i < n" "unat ?x \<noteq> unat ((mul3 ^^ i) 1)" using i by (auto simp: less_Suc_eq word_unat_eq_iff)
      then show ?thesis using IH(3) by (simp add: less_SucI)
    qed
  qed
  ultimately show ?case using IH(2) by (intro exI [of _ "log[unat ?x := n]"]) simp
qed

lemma pow_tab_nth: "i < 256 \<Longrightarrow> pow_tab ! i = (mul3 ^^ i) 1"
  and log_tab_mul3: "x \<noteq> 0 \<Longrightarrow> log_tab ! unat x < 256 \<and> (mul3 ^^ (log_tab ! unat x)) 1 = x"
proof -
  obtain log where l: "pow_log = ((mul3 ^^ 256) 1, map (\<lambda>i. if i < 256 then (mul3 ^^ i) 1 else 0) [0..<256], log)"
      "\<forall>i < 256. log ! unat ((mul3 ^^ i) 1) < 256 \<and> (mul3 ^^ (log ! unat ((mul3 ^^ i) 1))) 1 = (mul3 ^^ i) 1"
    using pow_log_prefix [of 256] unfolding pow_log_def by blast
  { assume "i < 256"
    then show "pow_tab ! i = (mul3 ^^ i) 1" by (simp add: pow_tab_def l(1) del: upt_rec_numeral funpow.simps) }
  assume "x \<noteq> 0"
  then obtain i where "i < 255" "x = (mul3 ^^ i) 1" using all_powers by blast
  then show "log_tab ! unat x < 256 \<and> (mul3 ^^ (log_tab ! unat x)) 1 = x"
    using l(2) by (simp add: log_tab_def l(1) del: upt_rec_numeral)
qed

section \<open>Multiplication by table\<close>

lemma XTIME_alt: "XTIME x = (push_bit 1 x XOR (if bit x 7 then 0x1B else 0))"
proof -
  have "x AND 0x80 \<noteq> 0 \<longleftrightarrow> bit x 7"
    using and_exp_eq_0_iff_not_bit [of x 7] by simp
  then show ?thesis by (simp add: XTIME_def)
qed

lemma XTIME_xor: "XTIME (x XOR y) = XTIME x XOR XTIME y"
  by (cases "bit x 7"; cases "bit y 7") (simp_all add: XTIME_alt push_bit_xor bit_xor_iff ac_simps)

lemma XTIME_0 [simp]: "XTIME 0 = 0"
  by (simp add: XTIME_def)

lemma mul3_xor: "mul3 (x XOR y) = mul3 x XOR mul3 y"
  by (simp add: mul3_def XTIME_xor ac_simps)

lemma mul3_XTIME: "mul3 (XTIME x) = XTIME (mul3 x)"
  by (simp add: mul3_def XTIME_xor)

lemma funpow_mul3_commute:
  assumes "\<And>x. A (mul3 x) = mul3 (A x)"
  shows "A ((mul3 ^^ n) x) = (mul3 ^^ n) (A x)"
  by (induction n) (simp_all add: assms)

lemma funpow_mul3_mod: "(mul3 ^^ (n mod 255)) 1 = (mul3 ^^ n) 1"
proof -
  have "(mul3 ^^ (255 * q)) 1 = 1" for q
  proof (induction q)
    case (Suc q)
    have "(mul3 ^^ (255 * Suc q)) 1 = (mul3 ^^ 255) ((mul3 ^^ (255 * q)) 1)"
      by (simp only: mult_Suc_right funpow_add o_apply)
    then show ?case by (simp only: Suc mul3_order)
  qed simp
  from this [of "n div 255"] have "(mul3 ^^ (n mod 255 + 255 * (n div 255))) 1 = (mul3 ^^ (n mod 255)) 1"
    by (simp only: funpow_add o_apply)
  then show ?thesis by simp
qed

text \<open>
  A map that commutes with the generator and takes 1 to \<open>c\<close> is the multiplication by \<open>c\<close>.
\<close>

lemma MUL_eq:
  assumes A: "\<And>x. A (mul3 x) = mul3 (A x)" "A 1 = c" "A 0 = 0" and c: "c \<noteq> 0"
  shows "MUL c y = A y"
proof (cases "y = 0")
  case True
  then show ?thesis using A(3) by (simp add: MUL_def)
next
  case False
  obtain k where k: "log_tab ! unat c = k" "(mul3 ^^ k) 1 = c" using log_tab_mul3 [OF c] by auto
  obtain m where m: "log_tab ! unat y = m" "(mul3 ^^ m) 1 = y" using log_tab_mul3 [OF False] by auto
  have "MUL c y = pow_tab ! ((k + m) mod 255)" using c False by (simp add: MUL_def k(1) m(1))
  also have "\<dots> = (mul3 ^^ (k + m)) 1"
    by (simp add: pow_tab_nth less_imp_le_nat funpow_mul3_mod trans_less_add1 mod_less_divisor [THEN less_trans])
  also have "\<dots> = (mul3 ^^ m) ((mul3 ^^ k) 1)" by (simp only: add.commute [of k] funpow_add o_apply)
  also have "\<dots> = (mul3 ^^ m) (A 1)" by (simp only: k(2) A(2))
  also have "\<dots> = A y" by (simp only: funpow_mul3_commute [of A, OF A(1), symmetric] m(2))
  finally show ?thesis .
qed

lemma MUL_poly:
  "MUL 0x0E y = XTIME (XTIME (XTIME y)) XOR XTIME (XTIME y) XOR XTIME y"
  "MUL 0x0B y = XTIME (XTIME (XTIME y)) XOR XTIME y XOR y"
  "MUL 0x0D y = XTIME (XTIME (XTIME y)) XOR XTIME (XTIME y) XOR y"
  "MUL 0x09 y = XTIME (XTIME (XTIME y)) XOR y"
proof -
  show "MUL 0x0E y = XTIME (XTIME (XTIME y)) XOR XTIME (XTIME y) XOR XTIME y"
    by (rule MUL_eq [where A = "\<lambda>y. XTIME (XTIME (XTIME y)) XOR XTIME (XTIME y) XOR XTIME y"])
      (simp_all add: mul3_xor mul3_XTIME, simp add: XTIME_def)
  show "MUL 0x0B y = XTIME (XTIME (XTIME y)) XOR XTIME y XOR y"
    by (rule MUL_eq [where A = "\<lambda>y. XTIME (XTIME (XTIME y)) XOR XTIME y XOR y"])
      (simp_all add: mul3_xor mul3_XTIME, simp add: XTIME_def)
  show "MUL 0x0D y = XTIME (XTIME (XTIME y)) XOR XTIME (XTIME y) XOR y"
    by (rule MUL_eq [where A = "\<lambda>y. XTIME (XTIME (XTIME y)) XOR XTIME (XTIME y) XOR y"])
      (simp_all add: mul3_xor mul3_XTIME, simp add: XTIME_def)
  show "MUL 0x09 y = XTIME (XTIME (XTIME y)) XOR y"
    by (rule MUL_eq [where A = "\<lambda>y. XTIME (XTIME (XTIME y)) XOR y"])
      (simp_all add: mul3_xor mul3_XTIME, simp add: XTIME_def)
qed

section \<open>The S-box\<close>

text \<open>Figure 7 of FIPS 197.\<close>

definition fips_sbox :: "octet list" where
  "fips_sbox =
    [0x63, 0x7C, 0x77, 0x7B, 0xF2, 0x6B, 0x6F, 0xC5, 0x30, 0x01, 0x67, 0x2B, 0xFE, 0xD7, 0xAB,
     0x76, 0xCA, 0x82, 0xC9, 0x7D, 0xFA, 0x59, 0x47, 0xF0, 0xAD, 0xD4, 0xA2, 0xAF, 0x9C, 0xA4,
     0x72, 0xC0, 0xB7, 0xFD, 0x93, 0x26, 0x36, 0x3F, 0xF7, 0xCC, 0x34, 0xA5, 0xE5, 0xF1, 0x71,
     0xD8, 0x31, 0x15, 0x04, 0xC7, 0x23, 0xC3, 0x18, 0x96, 0x05, 0x9A, 0x07, 0x12, 0x80, 0xE2,
     0xEB, 0x27, 0xB2, 0x75, 0x09, 0x83, 0x2C, 0x1A, 0x1B, 0x6E, 0x5A, 0xA0, 0x52, 0x3B, 0xD6,
     0xB3, 0x29, 0xE3, 0x2F, 0x84, 0x53, 0xD1, 0x00, 0xED, 0x20, 0xFC, 0xB1, 0x5B, 0x6A, 0xCB,
     0xBE, 0x39, 0x4A, 0x4C, 0x58, 0xCF, 0xD0, 0xEF, 0xAA, 0xFB, 0x43, 0x4D, 0x33, 0x85, 0x45,
     0xF9, 0x02, 0x7F, 0x50, 0x3C, 0x9F, 0xA8, 0x51, 0xA3, 0x40, 0x8F, 0x92, 0x9D, 0x38, 0xF5,
     0xBC, 0xB6, 0xDA, 0x21, 0x10, 0xFF, 0xF3, 0xD2, 0xCD, 0x0C, 0x13, 0xEC, 0x5F, 0x97, 0x44,
     0x17, 0xC4, 0xA7, 0x7E, 0x3D, 0x64, 0x5D, 0x19, 0x73, 0x60, 0x81, 0x4F, 0xDC, 0x22, 0x2A,
     0x90, 0x88, 0x46, 0xEE, 0xB8, 0x14, 0xDE, 0x5E, 0x0B, 0xDB, 0xE0, 0x32, 0x3A, 0x0A, 0x49,
     0x06, 0x24, 0x5C, 0xC2, 0xD3, 0xAC, 0x62, 0x91, 0x95, 0xE4, 0x79, 0xE7, 0xC8, 0x37, 0x6D,
     0x8D, 0xD5, 0x4E, 0xA9, 0x6C, 0x56, 0xF4, 0xEA, 0x65, 0x7A, 0xAE, 0x08, 0xBA, 0x78, 0x25,
     0x2E, 0x1C, 0xA6, 0xB4, 0xC6, 0xE8, 0xDD, 0x74, 0x1F, 0x4B, 0xBD, 0x8B, 0x8A, 0x70, 0x3E,
     0xB5, 0x66, 0x48, 0x03, 0xF6, 0x0E, 0x61, 0x35, 0x57, 0xB9, 0x86, 0xC1, 0x1D, 0x9E, 0xE1,
     0xF8, 0x98, 0x11, 0x69, 0xD9, 0x8E, 0x94, 0x9B, 0x1E, 0x87, 0xE9, 0xCE, 0x55, 0x28, 0xDF,
     0x8C, 0xA1, 0x89, 0x0D, 0xBF, 0xE6, 0x42, 0x68, 0x41, 0x99, 0x2D, 0x0F, 0xB0, 0x54, 0xBB,
     0x16]"

lemma length_fips_sbox [simp]: "length fips_sbox = 256" by (simp add: fips_sbox_def)

lemma fips_sbox_0: "fips_sbox ! 0 = 0x63" by (simp add: fips_sbox_def)

lemma distinct_fips_sbox: "distinct fips_sbox"
proof -
  have "distinct (map unat fips_sbox)" by (simp add: fips_sbox_def)
  then show ?thesis by (simp add: distinct_map)
qed

text \<open>Its entries in the order of the powers, and the affine map of the inverses in that order.\<close>

lemma fips_sbox_powers:
  "map (\<lambda>x. fips_sbox ! unat x) powers =
    [0x7C, 0x7B, 0x6B, 0x76, 0x82, 0xC3, 0xFC, 0x16, 0xA2, 0x31, 0x40, 0x90, 0x32, 0x41, 0x7D,
     0x96, 0xCF, 0xF8, 0x07, 0x52, 0x61, 0x8F, 0x2A, 0x49, 0x68, 0x77, 0x6F, 0x67, 0x72, 0x93,
     0x33, 0xAC, 0xD9, 0x18, 0x4A, 0x69, 0x9A, 0xCB, 0xE9, 0xF7, 0x02, 0xAE, 0x35, 0x51, 0x60,
     0x62, 0x8E, 0xC7, 0xED, 0xE6, 0xF2, 0xFE, 0xFA, 0xEB, 0x1B, 0x4B, 0x84, 0x3E, 0x45, 0x6C,
     0x66, 0x9F, 0x37, 0xBD, 0x29, 0x48, 0x85, 0xD3, 0xE1, 0xE2, 0xE3, 0x0E, 0xAA, 0x24, 0xA1,
     0x30, 0xAD, 0x34, 0xBC, 0xC4, 0xEC, 0x0B, 0x56, 0x70, 0x7F, 0x7A, 0x86, 0xD2, 0x0C, 0x46,
     0x6D, 0x8B, 0x3B, 0xB9, 0x38, 0xB8, 0xD5, 0x1C, 0x5B, 0x99, 0xCA, 0x04, 0x53, 0x8C, 0x2B,
     0xA4, 0xCC, 0xF9, 0xEA, 0xF6, 0xEF, 0x0A, 0xBB, 0xD4, 0xF1, 0xFF, 0x17, 0x4F, 0x95, 0xCE,
     0x15, 0xA3, 0xDC, 0xE4, 0x1E, 0xB7, 0xD0, 0xE0, 0x0F, 0x47, 0x80, 0x2F, 0xB5, 0x3C, 0xA9,
     0x25, 0x4C, 0x94, 0x23, 0xB1, 0x2D, 0x59, 0x75, 0x83, 0x2E, 0x58, 0x98, 0x27, 0xA0, 0xDD,
     0x09, 0xBA, 0x39, 0x55, 0x71, 0x92, 0xDE, 0x08, 0x57, 0x9D, 0xDB, 0xF4, 0x03, 0x43, 0x91,
     0xDF, 0xE5, 0xF3, 0x13, 0x5E, 0x65, 0x9E, 0xDA, 0x19, 0xA7, 0xCD, 0x14, 0x4E, 0x78, 0x6A,
     0x9B, 0x26, 0x4D, 0x79, 0x87, 0x3F, 0xA8, 0xC8, 0xE8, 0x1A, 0xA6, 0x20, 0xB0, 0xC0, 0xFD,
     0xFB, 0x06, 0xBF, 0xC5, 0x01, 0xAF, 0xD8, 0xF5, 0xEE, 0xE7, 0x1F, 0x5A, 0x74, 0x6E, 0x8A,
     0xD6, 0x1D, 0xB6, 0x3D, 0x44, 0x81, 0xC2, 0x11, 0xB2, 0x2C, 0xB4, 0xD1, 0x0D, 0xAB, 0xC9,
     0x05, 0xBE, 0x28, 0xA5, 0x21, 0x5D, 0x64, 0x73, 0x7E, 0x97, 0x22, 0x5C, 0x89, 0xD7, 0xF0,
     0x12, 0xB3, 0xC1, 0x10, 0x5F, 0x88, 0x3A, 0x54, 0x9C, 0x36, 0x50, 0x8D, 0xC6, 0x00, 0x42]"
  by (simp add: powers_def fips_sbox_def)

lemma affine_powers:
  "map sbox_affine (1 # rev (tl powers)) = map (\<lambda>x. fips_sbox ! unat x) powers"
  unfolding fips_sbox_powers
  by (simp add: powers_def sbox_affine_def rotl1_def Let_def)

lemma unat_octet: "unat (x :: octet) < 256"
  using unsigned_less [of x, where 'a = nat] by simp

lemma sbox_entry:
  assumes "0 < i" "i < 256"
  shows "sbox_affine (pow_tab ! (255 - log_tab ! i)) = fips_sbox ! i"
proof -
  define x where "x = (word_of_nat i :: octet)"
  have u: "unat x = i" using assms by (simp add: x_def unat_of_nat)
  then have "x \<noteq> 0" using assms by auto
  define m where "m = log_tab ! i"
  have m: "m < 256" "(mul3 ^^ m) 1 = x" using log_tab_mul3 [OF \<open>x \<noteq> 0\<close>] by (simp_all add: u m_def)
  obtain j where j: "j < 255" "x = powers ! j" using all_powers [OF \<open>x \<noteq> 0\<close>] powers_funpow by metis
  have "powers ! (m mod 255) = powers ! j"
    using m(2) j(2) powers_funpow [of "m mod 255"] by (simp add: funpow_mul3_mod)
  then have jm: "j = m mod 255" using j(1) distinct_powers by (simp add: nth_eq_iff_index_eq)
  have inverse: "pow_tab ! (255 - m) = (1 # rev (tl powers)) ! j"
  proof (cases j)
    case 0
    then have "m = 0 \<or> m = 255" using jm m(1) by (cases "m < 255") auto
    then show ?thesis using 0 mul3_order by (auto simp: pow_tab_nth simp del: funpow.simps)
  next
    case (Suc k)
    then have mj: "m = Suc k" using jm m(1) by (cases "m < 255") (auto simp: mod_if split: if_splits)
    have "(1 # rev (tl powers)) ! j = powers ! (255 - m)"
    proof -
      have "Suc (253 - k) = 254 - k" using Suc j(1) by simp
      then show ?thesis using Suc j(1) by (simp add: rev_nth nth_tl mj)
    qed
    then show ?thesis using mj j(1) Suc by (simp add: pow_tab_nth powers_funpow)
  qed
  have "map sbox_affine (1 # rev (tl powers)) ! j = map (\<lambda>x. fips_sbox ! unat x) powers ! j"
    by (simp only: affine_powers)
  moreover have "map sbox_affine (1 # rev (tl powers)) ! j = sbox_affine ((1 # rev (tl powers)) ! j)"
    using j(1) by (intro nth_map) simp
  moreover have "map (\<lambda>x. fips_sbox ! unat x) powers ! j = fips_sbox ! i" using j u by simp
  ultimately show ?thesis using inverse by (simp only: m_def)
qed

lemma sboxes_prefix:
  assumes "1 \<le> n" "n \<le> 256"
  shows "\<exists>r. fold sbox_step [1..<n] ((replicate 256 0)[0 := 0x63], (replicate 256 0)[0x63 := 0]) =
      (map (\<lambda>i. if i < n then fips_sbox ! i else 0) [0..<256], r) \<and> length r = 256 \<and>
      (\<forall>i < n. r ! unat (fips_sbox ! i) = word_of_nat i)"
  using assms
proof (induction n rule: nat_induct_at_least)
  case base
  have "(replicate 256 0)[0 := 0x63] = map (\<lambda>i. if i < 1 then fips_sbox ! i else 0) [0..<256]"
    by (rule nth_equalityI) (auto simp: fips_sbox_0 nth_list_update simp del: upt_rec_numeral)
  then show ?case by (simp add: fips_sbox_0 del: upt_rec_numeral)
next
  case (Suc n)
  then obtain r where IH: "fold sbox_step [1..<n] ((replicate 256 0)[0 := 0x63], (replicate 256 0)[0x63 := 0]) =
      (map (\<lambda>i. if i < n then fips_sbox ! i else 0) [0..<256], r)" "length r = 256"
      "\<forall>i < n. r ! unat (fips_sbox ! i) = word_of_nat i"
    by auto
  have e: "sbox_affine (pow_tab ! (255 - log_tab ! n)) = fips_sbox ! n" using Suc by (intro sbox_entry) auto
  have m: "(map (\<lambda>i. if i < n then fips_sbox ! i else 0) [0..<256])[n := fips_sbox ! n]
      = map (\<lambda>i. if i < Suc n then fips_sbox ! i else 0) [0..<256]"
    using Suc.prems by (intro nth_equalityI) (auto simp: nth_list_update less_Suc_eq simp del: upt_rec_numeral)
  have "fold sbox_step [1..<Suc n] ((replicate 256 0)[0 := 0x63], (replicate 256 0)[0x63 := 0]) =
      (map (\<lambda>i. if i < Suc n then fips_sbox ! i else 0) [0..<256], r[unat (fips_sbox ! n) := word_of_nat n])"
    using IH(1) m Suc.hyps by (simp add: sbox_step_def Let_def e del: upt_rec_numeral)
  moreover have "r[unat (fips_sbox ! n) := word_of_nat n] ! unat (fips_sbox ! i) = word_of_nat i" if "i < Suc n" for i
  proof (cases "i = n")
    case False
    then have "fips_sbox ! i \<noteq> fips_sbox ! n"
      using that Suc.prems distinct_fips_sbox by (simp add: nth_eq_iff_index_eq)
    then have "unat (fips_sbox ! n) \<noteq> unat (fips_sbox ! i)" by (auto simp: word_unat_eq_iff)
    then show ?thesis using IH(3) that False by simp
  qed (simp add: IH(2) unat_octet)
  ultimately show ?case using IH(2) by (intro exI [of _ "r[unat (fips_sbox ! n) := word_of_nat n]"]) simp
qed

lemma FSb_fips: "FSb = fips_sbox"
  and RSb_FSb: "RSb ! unat (FSb ! unat (x :: octet)) = x"
proof -
  obtain r where r: "sboxes = (map (\<lambda>i. if i < 256 then fips_sbox ! i else 0) [0..<256], r)"
      "\<forall>i < 256. r ! unat (fips_sbox ! i) = word_of_nat i"
    using sboxes_prefix [of 256] unfolding sboxes_def by auto
  show F: "FSb = fips_sbox"
    by (rule nth_equalityI) (auto simp: FSb_def r(1) simp del: upt_rec_numeral)
  show "RSb ! unat (FSb ! unat x) = x"
    using r(2) unat_octet [of x] by (simp add: RSb_def F, simp add: r(1))
qed

section \<open>Words as four bytes\<close>

lemma octet_high_bit: "8 \<le> n \<Longrightarrow> \<not> bit (x :: octet) n"
  using bit_imp_le_length [of x n] by auto

lemma quarter_cases:
  assumes "(n :: nat) < 32"
  obtains "n < 8" | m where "n = m + 8" "m < 8" | m where "n = m + 16" "m < 8" | m where "n = m + 24" "m < 8"
  using assms that(1) that(2) [of "n - 8"] that(3) [of "n - 16"] that(4) [of "n - 24"] by fastforce

lemma bit_pack4:
  assumes "m < 8"
  shows "bit (pack4 a b c d) m = bit a m" "bit (pack4 a b c d) (m + 8) = bit b m"
    "bit (pack4 a b c d) (m + 16) = bit c m" "bit (pack4 a b c d) (m + 24) = bit d m"
  using assms by (simp_all add: pack4_def bit_simps octet_high_bit)

lemma word_pack4_eqI:
  assumes "\<And>m. m < 8 \<Longrightarrow> bit w m = bit (a :: octet) m" "\<And>m. m < 8 \<Longrightarrow> bit w (m + 8) = bit (b :: octet) m"
    "\<And>m. m < 8 \<Longrightarrow> bit w (m + 16) = bit (c :: octet) m" "\<And>m. m < 8 \<Longrightarrow> bit w (m + 24) = bit (d :: octet) m"
  shows "w = pack4 a b c d"
proof (rule bit_word_eqI)
  fix n assume "n < LENGTH(32)"
  then have "n < 32" by simp
  then show "bit w n = bit (pack4 a b c d) n"
    by (rule quarter_cases) (simp_all only: assms bit_pack4)
qed

lemma word_pack: "w = pack4 (ucast w) (ucast (drop_bit 8 w)) (ucast (drop_bit 16 w)) (ucast (drop_bit 24 w))"
  by (rule word_pack4_eqI) (simp_all add: bit_simps ac_simps)

lemma pack_cases: obtains a b c d where "w = pack4 a b c d"
  using word_pack by blast

lemma ucast_pack4:
  "ucast (pack4 a b c d) = a" "ucast (drop_bit 8 (pack4 a b c d)) = b"
  "ucast (drop_bit 16 (pack4 a b c d)) = c" "ucast (drop_bit 24 (pack4 a b c d)) = d"
  by (rule bit_word_eqI; simp add: bit_unsigned_iff bit_drop_bit_eq bit_pack4 ac_simps)+

lemma byte_at_pack4:
  "byte_at (pack4 a b c d) 0 = unat a" "byte_at (pack4 a b c d) (Suc 0) = unat b"
  "byte_at (pack4 a b c d) 2 = unat c" "byte_at (pack4 a b c d) 3 = unat d"
proof -
  have m: "unat (w AND 0xFF) = unat (ucast w :: octet)" for w :: "32 word"
  proof -
    have "(0xFF :: 32 word) = mask 8" by (simp add: mask_eq_exp_minus_1)
    then have "w AND 0xFF = take_bit 8 w" by (simp add: take_bit_eq_mask)
    then show ?thesis by (simp add: unsigned_take_bit_eq unsigned_ucast_eq)
  qed
  show "byte_at (pack4 a b c d) 0 = unat a" "byte_at (pack4 a b c d) (Suc 0) = unat b"
    "byte_at (pack4 a b c d) 2 = unat c" "byte_at (pack4 a b c d) 3 = unat d"
    by (simp_all add: byte_at_def m ucast_pack4)
qed

lemma pack4_eq_iff: "pack4 a b c d = pack4 a' b' c' d' \<longleftrightarrow> a = a' \<and> b = b' \<and> c = c' \<and> d = d'"
  using ucast_pack4 [of a b c d] ucast_pack4 [of a' b' c' d'] by metis

lemma pack4_xor: "pack4 a b c d XOR pack4 a' b' c' d' = pack4 (a XOR a') (b XOR b') (c XOR c') (d XOR d')"
  by (rule word_pack4_eqI) (simp_all add: bit_xor_iff bit_pack4)

lemma put_pack4: "put_uint32_le (pack4 a b c d) = [a, b, c, d]"
proof -
  have m: "ucast (w AND 0xFF) = (ucast w :: octet)" for w :: "32 word"
  proof -
    have "(0xFF :: 32 word) = mask 8" by (simp add: mask_eq_exp_minus_1)
    show ?thesis unfolding \<open>0xFF = mask 8\<close> by (rule bit_word_eqI) (auto simp: bit_simps)
  qed
  show ?thesis by (simp add: put_uint32_le_def m ucast_pack4)
qed

lemma get_pack4: "get_uint32_le b i = pack4 (b ! i) (b ! (i + 1)) (b ! (i + 2)) (b ! (i + 3))"
  by (rule word_pack4_eqI) (simp_all add: get_uint32_le_def bit_simps octet_high_bit)

lemma ROTL8_pack4: "ROTL8 (pack4 a b c d) = pack4 d a b c"
proof (rule word_pack4_eqI)
  fix m :: nat assume m: "m < 8"
  show "bit (ROTL8 (pack4 a b c d)) m = bit d m" "bit (ROTL8 (pack4 a b c d)) (m + 8) = bit a m"
    using m bit_pack4 [OF m] bit_imp_le_length [of "pack4 a b c d" "m + 32"]
    by (auto simp: ROTL8_def bit_or_iff bit_push_bit_iff bit_drop_bit_eq ac_simps)
  show "bit (ROTL8 (pack4 a b c d)) (m + 16) = bit b m" "bit (ROTL8 (pack4 a b c d)) (m + 24) = bit c m"
    using m bit_pack4 [OF m] bit_imp_le_length [of "pack4 a b c d" "m + 40"]
      bit_imp_le_length [of "pack4 a b c d" "m + 48"]
    by (auto simp: ROTL8_def bit_or_iff bit_push_bit_iff bit_drop_bit_eq ac_simps)
qed

section \<open>The round tables\<close>

lemma FT_entries:
  "FT0 ! unat (x :: octet) = (let s = FSb ! unat x in pack4 (XTIME s) s s (mul3 s))"
  "FT1 ! unat (x :: octet) = (let s = FSb ! unat x in pack4 (mul3 s) (XTIME s) s s)"
  "FT2 ! unat (x :: octet) = (let s = FSb ! unat x in pack4 s (mul3 s) (XTIME s) s)"
  "FT3 ! unat (x :: octet) = (let s = FSb ! unat x in pack4 s s (mul3 s) (XTIME s))"
  using unat_octet [of x]
  by (simp_all add: FT0_def FT1_def FT2_def FT3_def Let_def ROTL8_pack4 mul3_def ac_simps del: upt_rec_numeral)

lemma RT_entries:
  "RT0 ! unat (x :: octet) = (let s = RSb ! unat x in pack4 (MUL 0x0E s) (MUL 0x09 s) (MUL 0x0D s) (MUL 0x0B s))"
  "RT1 ! unat (x :: octet) = (let s = RSb ! unat x in pack4 (MUL 0x0B s) (MUL 0x0E s) (MUL 0x09 s) (MUL 0x0D s))"
  "RT2 ! unat (x :: octet) = (let s = RSb ! unat x in pack4 (MUL 0x0D s) (MUL 0x0B s) (MUL 0x0E s) (MUL 0x09 s))"
  "RT3 ! unat (x :: octet) = (let s = RSb ! unat x in pack4 (MUL 0x09 s) (MUL 0x0D s) (MUL 0x0B s) (MUL 0x0E s))"
  using unat_octet [of x]
  by (simp_all add: RT0_def RT1_def RT2_def RT3_def Let_def ROTL8_pack4 del: upt_rec_numeral)

end
