(* ===== verification/AesProps.thy ===== *)
theory AesProps
  imports AesTables
begin

text \<open>
  The block functions against FIPS 197 and against each other. A state is four words; a round of the
  code is a key addition after the mixing of columns, which the decryption undoes with the mixed keys
  of its own schedule.
\<close>

section \<open>Rounds on four words\<close>

fun xorq :: "quad \<Rightarrow> quad \<Rightarrow> quad" where
  "xorq (a, b, c, d) (a', b', c', d') = (a XOR a', b XOR b', c XOR c', d XOR d')"

definition keyq :: "32 word list \<Rightarrow> nat \<Rightarrow> quad" where
  "keyq rk k = (rk ! k, rk ! (k + 1), rk ! (k + 2), rk ! (k + 3))"

definition mix_bytes :: "octet \<Rightarrow> octet \<Rightarrow> octet \<Rightarrow> octet \<Rightarrow> 32 word" where
  "mix_bytes a b c d = pack4 (XTIME a XOR mul3 b XOR c XOR d) (a XOR XTIME b XOR mul3 c XOR d)
     (a XOR b XOR XTIME c XOR mul3 d) (mul3 a XOR b XOR c XOR XTIME d)"

definition mix_word :: "32 word \<Rightarrow> 32 word" where
  "mix_word w = mix_bytes (ucast w) (ucast (drop_bit 8 w)) (ucast (drop_bit 16 w)) (ucast (drop_bit 24 w))"

definition mapq :: "(32 word \<Rightarrow> 32 word) \<Rightarrow> quad \<Rightarrow> quad" where
  "mapq f = (\<lambda>(a, b, c, d). (f a, f b, f c, f d))"

definition subshift :: "quad \<Rightarrow> quad" where
  "subshift = (\<lambda>(y0, y1, y2, y3).
     (sub_bytes4 (byte_at y0 0) (byte_at y1 1) (byte_at y2 2) (byte_at y3 3),
      sub_bytes4 (byte_at y1 0) (byte_at y2 1) (byte_at y3 2) (byte_at y0 3),
      sub_bytes4 (byte_at y2 0) (byte_at y3 1) (byte_at y0 2) (byte_at y1 3),
      sub_bytes4 (byte_at y3 0) (byte_at y0 1) (byte_at y1 2) (byte_at y2 3)))"

definition inv_subshift :: "quad \<Rightarrow> quad" where
  "inv_subshift = (\<lambda>(y0, y1, y2, y3).
     (inv_sub_bytes4 (byte_at y0 0) (byte_at y3 1) (byte_at y2 2) (byte_at y1 3),
      inv_sub_bytes4 (byte_at y1 0) (byte_at y0 1) (byte_at y3 2) (byte_at y2 3),
      inv_sub_bytes4 (byte_at y2 0) (byte_at y1 1) (byte_at y0 2) (byte_at y3 3),
      inv_sub_bytes4 (byte_at y3 0) (byte_at y2 1) (byte_at y1 2) (byte_at y0 3)))"

lemma quad_cases:
  obtains a0 a1 a2 a3 b0 b1 b2 b3 c0 c1 c2 c3 d0 d1 d2 d3 where
    "q = (pack4 a0 a1 a2 a3, pack4 b0 b1 b2 b3, pack4 c0 c1 c2 c3, pack4 d0 d1 d2 d3)"
proof -
  obtain w x y z where q: "q = (w, x, y, z)" by (cases q)
  show ?thesis using that q word_pack by metis
qed

lemmas byte_simps = byte_at_pack4 One_nat_def

lemma mix_word_pack4: "mix_word (pack4 a b c d) = mix_bytes a b c d"
  by (simp add: mix_word_def ucast_pack4)

lemma AES_FROUND_eq: "AES_FROUND rk k q = xorq (keyq rk k) (mapq mix_word (subshift q))"
  by (rule quad_cases [of q])
    (simp add: AES_FROUND_def keyq_def mapq_def subshift_def byte_simps FT_entries Let_def sub_bytes4_def
      mix_word_pack4 mix_bytes_def xor.assoc pack4_xor)

lemma enc_last_eq: "enc_last rk k q = xorq (keyq rk k) (subshift q)"
  by (cases q) (simp add: enc_last_def keyq_def subshift_def)

lemma dec_last_eq: "dec_last rk k q = xorq (keyq rk k) (inv_subshift q)"
  by (cases q) (simp add: dec_last_def keyq_def inv_subshift_def)

lemma inv_mix_pack4:
  "inv_mix_word (pack4 a b c d) =
     pack4 (MUL 0x0E a XOR MUL 0x0B b XOR MUL 0x0D c XOR MUL 0x09 d)
       (MUL 0x09 a XOR MUL 0x0E b XOR MUL 0x0B c XOR MUL 0x0D d)
       (MUL 0x0D a XOR MUL 0x09 b XOR MUL 0x0E c XOR MUL 0x0B d)
       (MUL 0x0B a XOR MUL 0x0D b XOR MUL 0x09 c XOR MUL 0x0E d)"
  by (simp add: inv_mix_word_def byte_simps RT_entries Let_def RSb_FSb pack4_xor xor.assoc)

lemma AES_RROUND_eq: "AES_RROUND rk k q = xorq (keyq rk k) (mapq inv_mix_word (inv_subshift q))"
  by (rule quad_cases [of q])
    (simp add: AES_RROUND_def keyq_def mapq_def inv_subshift_def byte_simps RT_entries Let_def inv_sub_bytes4_def
      inv_mix_pack4 xor.assoc pack4_xor)

lemma xor_cancel: "(x :: octet) XOR (x XOR y) = y"
  by (simp flip: xor.assoc)

lemma inv_mix_xor: "inv_mix_word (v XOR w) = inv_mix_word v XOR inv_mix_word w"
proof -
  obtain a b c d a' b' c' d' where "v = pack4 a b c d" "w = pack4 a' b' c' d'" using pack_cases by metis
  then show ?thesis by (simp add: pack4_xor inv_mix_pack4 MUL_poly XTIME_xor ac_simps)
qed

lemma inv_mix_mix: "inv_mix_word (mix_word w) = w"
proof -
  obtain a b c d where w: "w = pack4 a b c d" by (rule pack_cases)
  show ?thesis
    by (simp add: w mix_word_pack4 mix_bytes_def inv_mix_pack4 MUL_poly mul3_def XTIME_xor ac_simps xor_cancel)
qed

lemma inv_subshift_subshift: "inv_subshift (subshift q) = q"
  by (rule quad_cases [of q])
    (simp add: subshift_def inv_subshift_def byte_simps sub_bytes4_def inv_sub_bytes4_def RSb_FSb)

lemma mapq_inv_mix [simp]: "mapq inv_mix_word (mapq mix_word q) = q"
  by (cases q) (simp add: mapq_def inv_mix_mix)

lemma mapq_xor: "mapq inv_mix_word (xorq p q) = xorq (mapq inv_mix_word p) (mapq inv_mix_word q)"
  by (cases p; cases q) (simp add: mapq_def inv_mix_xor)

lemma xorq_cancel [simp]: "xorq p (xorq p q) = q" "xorq (xorq p q) p = q"
  by (cases p; cases q; simp flip: xor.assoc; simp add: ac_simps flip: xor.assoc)+

section \<open>Rounds in sequence\<close>

fun rounds :: "(nat \<Rightarrow> quad \<Rightarrow> quad) \<Rightarrow> nat \<Rightarrow> quad \<Rightarrow> quad" where
  "rounds rnd 0 x = x"
| "rounds rnd (Suc n) x = rnd (4 * Suc n) (rounds rnd n x)"

lemma round_pairs_rounds:
  "round_pairs rnd i (4 * Suc n) (rounds rnd n x) = (4 * Suc (n + 2 * i), rounds rnd (n + 2 * i) x)"
proof (induction i arbitrary: n)
  case (Suc i)
  have "round_pairs rnd (Suc i) (4 * Suc n) (rounds rnd n x)
      = round_pairs rnd i (4 * Suc (Suc (Suc n))) (rounds rnd (Suc (Suc n)) x)"
    by (simp add: algebra_simps)
  then show ?case by (simp only: Suc.IH) simp
qed simp

lemma round_pairs_start:
  "round_pairs rnd i 4 x = (4 * Suc (2 * i), rounds rnd (2 * i) x)"
  using round_pairs_rounds [of rnd i 0 x] by simp

lemma get_quad_eq: "get_quad rk input =
    xorq (get_uint32_le input 0, get_uint32_le input 4, get_uint32_le input 8, get_uint32_le input 12) (keyq rk 0)"
  by (simp add: get_quad_def keyq_def eval_nat_numeral)

lemma encrypt_rounds:
  assumes "aes_nr ctx = 2 * Suc h"
  shows "utils_internal_aes_encrypt ctx input =
    put_quad (enc_last (aes_rk ctx) (4 * aes_nr ctx)
      (rounds (AES_FROUND (aes_rk ctx)) (aes_nr ctx - 1) (get_quad (aes_rk ctx) input)))"
  using assms by (simp add: utils_internal_aes_encrypt_def Let_def round_pairs_start algebra_simps)

lemma decrypt_rounds:
  assumes "aes_nr ctx = 2 * Suc h"
  shows "utils_internal_aes_decrypt ctx input =
    put_quad (dec_last (aes_rk ctx) (4 * aes_nr ctx)
      (rounds (AES_RROUND (aes_rk ctx)) (aes_nr ctx - 1) (get_quad (aes_rk ctx) input)))"
  using assms by (simp add: utils_internal_aes_decrypt_def Let_def round_pairs_start algebra_simps)

section \<open>The schedule of the decryption\<close>

lemma length_dec_keys: "p + 4 \<le> length sk \<Longrightarrow> length (dec_keys sk p i) = 4 * Suc i"
  by (induction sk p i rule: dec_keys.induct) (auto simp: min_def)

lemma dec_keys_nth:
  assumes "4 * i + 4 \<le> length sk" "m \<le> i" "r < 4"
  shows "dec_keys sk (4 * i) i ! (4 * m + r) =
    (if m < i then inv_mix_word (sk ! (4 * (i - m) + r)) else sk ! r)"
  using assms
proof (induction i arbitrary: m)
  case 0
  then show ?case by simp
next
  case (Suc i)
  have p: "4 * Suc i + 4 - 8 = 4 * i" by simp
  have l: "length (take 4 (drop (4 * Suc i) sk)) = 4" using Suc.prems(1) by simp
  show ?case
  proof (cases m)
    case 0
    then show ?thesis using Suc.prems l by (simp add: nth_append)
  next
    case (Suc m')
    have "dec_keys sk (4 * Suc i) (Suc i) ! (4 * m + r) = dec_keys sk (4 * i) i ! (4 * m' + r)"
      unfolding dec_keys.simps p using l Suc by (simp add: nth_append)
    then show ?thesis using Suc.IH [of m'] Suc.prems Suc by simp
  qed
qed

text \<open>
  What the decryption keys are: the encryption keys in reverse, the inner ones mixed.
\<close>

definition dec_schedule :: "nat \<Rightarrow> 32 word list \<Rightarrow> 32 word list \<Rightarrow> bool" where
  "dec_schedule nr rk dk \<longleftrightarrow>
     keyq dk 0 = keyq rk (4 * nr) \<and> keyq dk (4 * nr) = keyq rk 0 \<and>
     (\<forall>i. 0 < i \<and> i < nr \<longrightarrow> keyq dk (4 * i) = mapq inv_mix_word (keyq rk (4 * (nr - i))))"

lemma keyq_dec:
  assumes "1 < nr" "4 * nr + 4 \<le> length sk" "length sk \<le> 68"
  shows "dec_schedule nr sk
    (memcpy_at 0 (take 4 (drop (nr * 4) sk) @ dec_keys sk (nr * 4 + 4 - 8) (nr - 1)) (replicate 68 0))"
proof -
  define i where "i = nr - 1"
  have nr: "nr = Suc i" and p: "nr * 4 + 4 - 8 = 4 * i" using assms(1) by (simp_all add: i_def)
  define ks where "ks = take 4 (drop (nr * 4) sk) @ dec_keys sk (4 * i) i"
  have ld: "length (dec_keys sk (4 * i) i) = 4 * Suc i"
    using assms(2) nr by (intro length_dec_keys) simp
  have l4: "length (take 4 (drop (nr * 4) sk)) = 4" using assms(2) by simp
  have lk: "length ks = 4 * Suc nr" using ld l4 nr by (simp add: ks_def)
  define dk where "dk = memcpy_at 0 ks (replicate 68 0)"
  have at: "dk ! j = ks ! j" if "j < 4 * Suc nr" for j
    using that lk assms by (simp add: dk_def memcpy_at_def nth_append)
  have first: "ks ! r = sk ! (4 * nr + r)" if "r < 4" for r
    using that assms(2) l4 by (simp add: ks_def nth_append ac_simps)
  have rest: "ks ! (4 * Suc m + r) = (if m < i then inv_mix_word (sk ! (4 * (i - m) + r)) else sk ! r)"
    if "r < 4" "m \<le> i" for m r
    using that assms(2) l4 nr dec_keys_nth [of i sk m r] by (simp add: ks_def nth_append)
  have k0: "keyq dk 0 = keyq sk (4 * nr)"
    using first [of 0] first [of 1] first [of 2] first [of 3] by (simp add: keyq_def at numeral_2_eq_2)
  have K: "keyq dk (4 * Suc m) =
      (if m < i then mapq inv_mix_word (keyq sk (4 * (i - m))) else keyq sk 0)" if m: "m \<le> i" for m
  proof -
    have b: "4 * Suc m + r < 4 * Suc nr" if "r < 4" for r using that m nr by simp
    note a = at [OF b] and r = rest [OF _ m]
    show ?thesis
      using a [of 0] a [of 1] a [of 2] a [of 3] r [of 0] r [of 1] r [of 2] r [of 3]
      by (simp add: keyq_def mapq_def numeral_2_eq_2)
  qed
  show ?thesis
    unfolding dec_schedule_def p i_def [symmetric] ks_def [symmetric] dk_def [symmetric]
  proof (intro conjI allI impI)
    show "keyq dk 0 = keyq sk (4 * nr)" by (rule k0)
    show "keyq dk (4 * nr) = keyq sk 0" using K [of i] nr by simp
    fix j assume j: "0 < j \<and> j < nr"
    then obtain m where "j = Suc m" by (cases j) auto
    then show "keyq dk (4 * j) = mapq inv_mix_word (keyq sk (4 * (nr - j)))"
      using K [of m] j nr by simp
  qed
qed

section \<open>Decryption inverts encryption\<close>

lemma put_get_quad:
  "get_uint32_le (put_quad (w, x, y, z)) 0 = w" "get_uint32_le (put_quad (w, x, y, z)) 4 = x"
  "get_uint32_le (put_quad (w, x, y, z)) 8 = y" "get_uint32_le (put_quad (w, x, y, z)) 12 = z"
proof -
  obtain a0 a1 a2 a3 b0 b1 b2 b3 c0 c1 c2 c3 d0 d1 d2 d3 where
    "(w, x, y, z) = (pack4 a0 a1 a2 a3, pack4 b0 b1 b2 b3, pack4 c0 c1 c2 c3, pack4 d0 d1 d2 d3)"
    by (rule quad_cases)
  then show "get_uint32_le (put_quad (w, x, y, z)) 0 = w" "get_uint32_le (put_quad (w, x, y, z)) 4 = x"
    "get_uint32_le (put_quad (w, x, y, z)) 8 = y" "get_uint32_le (put_quad (w, x, y, z)) 12 = z"
    by (simp_all add: get_pack4 put_quad_def put_pack4)
qed

lemma get_quad_put: "get_quad rk (put_quad q) = xorq q (keyq rk 0)"
  by (cases q) (simp add: get_quad_eq put_get_quad)

lemma get_put_block:
  assumes "length b = 16"
  shows "put_quad (get_uint32_le b 0, get_uint32_le b 4, get_uint32_le b 8, get_uint32_le b 12) = b"
proof -
  have "put_quad (get_uint32_le b 0, get_uint32_le b 4, get_uint32_le b 8, get_uint32_le b 12) = map ((!) b) [0..<16]"
    by (simp add: put_quad_def get_pack4 put_pack4 upt_conv_Cons eval_nat_numeral)
  also have "\<dots> = b" using map_nth [of b] by (simp only: assms)
  finally show ?thesis .
qed

lemma xorq_commute: "xorq p q = xorq q p"
  by (cases p; cases q) (simp add: ac_simps)

lemma rounds_back:
  assumes ds: "dec_schedule (Suc n) rk dk" and "i \<le> n"
  shows "rounds (AES_RROUND dk) i (subshift (rounds (AES_FROUND rk) n x)) = subshift (rounds (AES_FROUND rk) (n - i) x)"
  using assms(2)
proof (induction i)
  case (Suc i)
  define j where "j = n - Suc i"
  have j: "n - i = Suc j" "Suc n - Suc i = Suc j" using Suc.prems by (simp_all add: j_def)
  have key: "keyq dk (4 * Suc i) = mapq inv_mix_word (keyq rk (4 * Suc j))"
  proof -
    have "\<forall>i. 0 < i \<and> i < Suc n \<longrightarrow> keyq dk (4 * i) = mapq inv_mix_word (keyq rk (4 * (Suc n - i)))"
      using ds unfolding dec_schedule_def by blast
    from this [rule_format, of "Suc i"] show ?thesis using Suc.prems by (simp only: j(2) less_Suc_eq_le) simp
  qed
  have "rounds (AES_RROUND dk) (Suc i) (subshift (rounds (AES_FROUND rk) n x))
      = AES_RROUND dk (4 * Suc i) (subshift (rounds (AES_FROUND rk) (Suc j) x))"
    using Suc by (simp add: j)
  also have "\<dots> = subshift (rounds (AES_FROUND rk) j x)"
    by (simp only: AES_RROUND_eq inv_subshift_subshift rounds.simps AES_FROUND_eq mapq_xor mapq_inv_mix key xorq_cancel)
  finally show ?case by (simp only: j_def)
qed simp

lemma decrypt_encrypt_schedule:
  assumes nr: "aes_nr e = 2 * Suc h" "aes_nr d = aes_nr e" and ds: "dec_schedule (aes_nr e) (aes_rk e) (aes_rk d)"
    and b: "length b = 16"
  shows "utils_internal_aes_decrypt d (utils_internal_aes_encrypt e b) = b"
proof -
  obtain n where n: "aes_nr e = Suc n" using nr(1) by (cases "aes_nr e") auto
  let ?q = "(get_uint32_le b 0, get_uint32_le b 4, get_uint32_le b 8, get_uint32_le b 12)"
  let ?x = "get_quad (aes_rk e) b" and ?rk = "aes_rk e" and ?dk = "aes_rk d"
  have x: "?x = xorq ?q (keyq ?rk 0)" by (rule get_quad_eq)
  note k = ds [unfolded dec_schedule_def]
  have "get_quad ?dk (utils_internal_aes_encrypt e b) = subshift (rounds (AES_FROUND ?rk) n ?x)"
    using k by (simp add: encrypt_rounds [OF nr(1)] get_quad_put enc_last_eq n)
  moreover have "utils_internal_aes_decrypt d c =
      put_quad (dec_last ?dk (4 * Suc n) (rounds (AES_RROUND ?dk) n (get_quad ?dk c)))" for c
    using decrypt_rounds [of d h c] nr n by simp
  ultimately have "utils_internal_aes_decrypt d (utils_internal_aes_encrypt e b) =
      put_quad (xorq (keyq ?rk 0) ?x)"
    using k rounds_back [of n ?rk ?dk n ?x] ds by (simp add: n dec_last_eq inv_subshift_subshift)
  also have "xorq (keyq ?rk 0) ?x = ?q" by (simp only: x xorq_commute [of ?q] xorq_cancel)
  finally show ?thesis by (simp only: get_put_block [OF b])
qed

lemma length_fold_steps:
  "length (fold step10 is b) = length b" "length (fold step12 is b) = length b" "length (fold step14 is b) = length b"
  "length (fold (\<lambda>i b. b[i := f i]) is b) = length b"
  by (induction "is" arbitrary: b) (simp_all add: step10_def step12_def step14_def Let_def)

lemma setkey_enc_shape:
  assumes "utils_aes_setkey_enc key bits = Some e"
  shows "bits \<in> {128, 192, 256}" "aes_nr e = bits div 32 + 6" "length (aes_rk e) = 68"
  using assms by (auto simp: utils_aes_setkey_enc_def Let_def length_fold_steps split: if_splits)

lemma decrypt_encrypt:
  assumes e: "utils_aes_setkey_enc key bits = Some e" and d: "utils_aes_setkey_dec key bits = Some d"
    and b: "length b = 16"
  shows "utils_internal_aes_decrypt d (utils_internal_aes_encrypt e b) = b"
proof (rule decrypt_encrypt_schedule [OF _ _ _ b, where h = "bits div 64 + 2"])
  note s = setkey_enc_shape [OF e]
  show "aes_nr e = 2 * Suc (bits div 64 + 2)" using s by auto
  have dd: "d = \<lparr>aes_nr = aes_nr e, aes_rk = memcpy_at 0 (take 4 (drop (aes_nr e * 4) (aes_rk e)) @
      dec_keys (aes_rk e) (aes_nr e * 4 + 4 - 8) (aes_nr e - 1)) (replicate 68 0)\<rparr>"
    using d by (simp add: utils_aes_setkey_dec_def e Let_def)
  then show "aes_nr d = aes_nr e" by simp
  show "dec_schedule (aes_nr e) (aes_rk e) (aes_rk d)"
    unfolding dd aes_ctx.simps by (rule keyq_dec) (use s in auto)
qed

end
