(* ===== verification/AesFips.thy ===== *)
theory AesFips
  imports AesProps
begin

text \<open>
  FIPS 197 on bytes, as the standard writes it: the key expansion by words of four bytes and the
  cipher by substitution, row shift, column mixing and key addition on sixteen bytes, and the proof
  that the table-driven encryption computes it for the three key lengths.
\<close>

section \<open>The standard\<close>

definition sub_box :: "octet \<Rightarrow> octet" where
  "sub_box x = fips_sbox ! unat x"

definition fips_sub_bytes :: "octet list \<Rightarrow> octet list" where
  "fips_sub_bytes s = map sub_box s"

text \<open>Byte \<open>r + 4 * c\<close> of the state is in row \<open>r\<close> and column \<open>c\<close>.\<close>

definition fips_shift_rows :: "octet list \<Rightarrow> octet list" where
  "fips_shift_rows s = map (\<lambda>i. s ! ((i + 4 * (i mod 4)) mod 16)) [0..<16]"

definition fips_mix_columns :: "octet list \<Rightarrow> octet list" where
  "fips_mix_columns s = map (\<lambda>i. let at = (\<lambda>k. s ! (4 * (i div 4) + (i + k) mod 4)) in
     XTIME (at 0) XOR (XTIME (at 1) XOR at 1) XOR at 2 XOR at 3) [0..<16]"

definition fips_add_key :: "octet list \<Rightarrow> octet list \<Rightarrow> octet list" where
  "fips_add_key s k = map2 (XOR) s k"

definition fips_round :: "(nat \<Rightarrow> octet list) \<Rightarrow> nat \<Rightarrow> octet list \<Rightarrow> octet list" where
  "fips_round w r s = fips_add_key (fips_mix_columns (fips_shift_rows (fips_sub_bytes s))) (w r)"

definition fips_cipher :: "nat \<Rightarrow> (nat \<Rightarrow> octet list) \<Rightarrow> octet list \<Rightarrow> octet list" where
  "fips_cipher nr w input =
     (let s = fold (fips_round w) [1..<nr] (fips_add_key input (w 0))
      in fips_add_key (fips_shift_rows (fips_sub_bytes s)) (w nr))"

definition fips_rcon :: "nat \<Rightarrow> octet list" where
  "fips_rcon j = [(XTIME ^^ (j - 1)) 1, 0, 0, 0]"

function fips_word :: "octet list \<Rightarrow> nat \<Rightarrow> nat \<Rightarrow> octet list" where
  "fips_word key nk i =
     (if i < nk \<or> nk = 0 then take 4 (drop (4 * i) key)
      else
        let t = fips_word key nk (i - 1);
            t' = (if i mod nk = 0 then map2 (XOR) (fips_rcon (i div nk)) (map sub_box (rotate1 t))
                  else if nk > 6 \<and> i mod nk = 4 then map sub_box t
                  else t)
        in map2 (XOR) (fips_word key nk (i - nk)) t')"
  by pat_completeness auto
termination by (relation "measure (\<lambda>(key, nk, i). i)") auto

declare fips_word.simps [simp del]

definition fips_round_key :: "octet list \<Rightarrow> nat \<Rightarrow> nat \<Rightarrow> octet list" where
  "fips_round_key key nk r = concat (map (\<lambda>j. fips_word key nk (4 * r + j)) [0..<4])"

definition fips_aes :: "octet list \<Rightarrow> nat \<Rightarrow> octet list \<Rightarrow> octet list" where
  "fips_aes key bits input = fips_cipher (bits div 32 + 6) (fips_round_key key (bits div 32)) input"

section \<open>The key expansion\<close>

lemma RCON_prefix:
  "n \<le> 10 \<Longrightarrow> fold (\<lambda>i (r, x). (r[i := x], XTIME x)) [0..<n] (replicate 10 0, 1) =
     (map (\<lambda>i. if i < n then (XTIME ^^ i) 1 else 0) [0..<10], (XTIME ^^ n) 1)"
proof (induction n)
  case 0
  show ?case by (simp add: map_replicate_trivial del: upt_rec_numeral)
next
  case (Suc n)
  then have "(map (\<lambda>i. if i < n then (XTIME ^^ i) 1 else 0) [0..<10])[n := (XTIME ^^ n) 1]
      = map (\<lambda>i. if i < Suc n then (XTIME ^^ i) 1 else 0) [0..<10]"
    by (intro nth_equalityI) (auto simp: nth_list_update less_Suc_eq simp del: upt_rec_numeral)
  then show ?case using Suc by (simp del: upt_rec_numeral)
qed

lemma RCON_nth: "i < 10 \<Longrightarrow> RCON ! i = pack4 ((XTIME ^^ i) 1) 0 0 0"
  unfolding RCON_def RCON_prefix [OF order_refl] by (simp add: pack4_def del: upt_rec_numeral)

lemma put_xor: "put_uint32_le (v XOR w) = map2 (XOR) (put_uint32_le v) (put_uint32_le w)"
proof -
  obtain a b c d a' b' c' d' where "v = pack4 a b c d" "w = pack4 a' b' c' d'" using pack_cases by metis
  then show ?thesis by (simp add: pack4_xor put_pack4)
qed

lemma put_key_core:
  assumes "i < 10"
  shows "put_uint32_le (key_core i w) = map2 (XOR) (fips_rcon (Suc i)) (map sub_box (rotate1 (put_uint32_le w)))"
proof -
  obtain a b c d where "w = pack4 a b c d" by (rule pack_cases)
  then show ?thesis
    using assms by (simp add: key_core_def RCON_nth byte_simps sub_bytes4_def put_xor put_pack4 fips_rcon_def
        sub_box_def FSb_fips)
qed

lemma put_sub_bytes4:
  "put_uint32_le (sub_bytes4 (byte_at w 0) (byte_at w 1) (byte_at w 2) (byte_at w 3)) = map sub_box (put_uint32_le w)"
proof -
  obtain a b c d where "w = pack4 a b c d" by (rule pack_cases)
  then show ?thesis by (simp add: byte_simps sub_bytes4_def put_pack4 sub_box_def FSb_fips)
qed

text \<open>One word of the schedule, and the three unrolled steps as sequences of them.\<close>

definition sched :: "nat \<Rightarrow> nat \<Rightarrow> 32 word list \<Rightarrow> 32 word list" where
  "sched nk n b = b[n := b ! (n - nk) XOR
     (let t = b ! (n - 1) in
      if n mod nk = 0 then key_core (n div nk - 1) t
      else if nk > 6 \<and> n mod nk = 4
        then sub_bytes4 (byte_at t 0) (byte_at t 1) (byte_at t 2) (byte_at t 3)
      else t)]"

lemma step10_sched: "step10 i b = fold (sched 4) [4 * i + 4..<4 * i + 8] b"
proof -
  define p where "p = 4 * i"
  have u: "[p + 4..<p + 8] = [p + 4, p + 5, p + 6, p + 7]"
    by (simp add: upt_conv_Cons)
  have m: "(p + 4) mod 4 = 0 \<longleftrightarrow> True" "(p + 5) mod 4 = 0 \<longleftrightarrow> False" "(p + 6) mod 4 = 0 \<longleftrightarrow> False" "(p + 7) mod 4 = 0 \<longleftrightarrow> False"
    "(p + 4) div 4 - 1 = i"
    unfolding p_def by presburger+
  have n: "p + 4 - 1 = p + 3" "p + 4 - 4 = p" "p + 5 - 1 = p + 4" "p + 5 - 4 = p + 1"
    "p + 6 - 1 = p + 5" "p + 6 - 4 = p + 2" "p + 7 - 1 = p + 6" "p + 7 - 4 = p + 3"
    by simp_all
  have c: "(4 :: nat) > 6 \<longleftrightarrow> False" by simp
  show ?thesis
    by (simp only: step10_def sched_def p_def [symmetric] u m n c Let_def fold_simps if_True if_False simp_thms)
qed

lemma step12_sched: "step12 i b = fold (sched 6) [6 * i + 6..<6 * i + 12] b"
proof -
  define p where "p = 6 * i"
  have u: "[p + 6..<p + 12] = [p + 6, p + 7, p + 8, p + 9, p + 10, p + 11]"
    by (simp add: upt_conv_Cons)
  have m: "(p + 6) mod 6 = 0 \<longleftrightarrow> True" "(p + 7) mod 6 = 0 \<longleftrightarrow> False" "(p + 8) mod 6 = 0 \<longleftrightarrow> False" "(p + 9) mod 6 = 0 \<longleftrightarrow> False"
    "(p + 10) mod 6 = 0 \<longleftrightarrow> False" "(p + 11) mod 6 = 0 \<longleftrightarrow> False"
    "(p + 6) div 6 - 1 = i"
    unfolding p_def by presburger+
  have n: "p + 6 - 1 = p + 5" "p + 6 - 6 = p" "p + 7 - 1 = p + 6" "p + 7 - 6 = p + 1"
    "p + 8 - 1 = p + 7" "p + 8 - 6 = p + 2" "p + 9 - 1 = p + 8" "p + 9 - 6 = p + 3"
    "p + 10 - 1 = p + 9" "p + 10 - 6 = p + 4" "p + 11 - 1 = p + 10" "p + 11 - 6 = p + 5"
    by simp_all
  have c: "(6 :: nat) > 6 \<longleftrightarrow> False" by simp
  show ?thesis
    by (simp only: step12_def sched_def p_def [symmetric] u m n c Let_def fold_simps if_True if_False simp_thms)
qed

lemma step14_sched: "step14 i b = fold (sched 8) [8 * i + 8..<8 * i + 16] b"
proof -
  define p where "p = 8 * i"
  have u: "[p + 8..<p + 16] = [p + 8, p + 9, p + 10, p + 11, p + 12, p + 13, p + 14, p + 15]"
    by (simp add: upt_conv_Cons)
  have m: "(p + 8) mod 8 = 0 \<longleftrightarrow> True" "(p + 9) mod 8 = 0 \<longleftrightarrow> False" "(p + 9) mod 8 = 4 \<longleftrightarrow> False" "(p + 10) mod 8 = 0 \<longleftrightarrow> False"
    "(p + 10) mod 8 = 4 \<longleftrightarrow> False" "(p + 11) mod 8 = 0 \<longleftrightarrow> False" "(p + 11) mod 8 = 4 \<longleftrightarrow> False" "(p + 12) mod 8 = 0 \<longleftrightarrow> False"
    "(p + 12) mod 8 = 4 \<longleftrightarrow> True" "(p + 13) mod 8 = 0 \<longleftrightarrow> False" "(p + 13) mod 8 = 4 \<longleftrightarrow> False" "(p + 14) mod 8 = 0 \<longleftrightarrow> False"
    "(p + 14) mod 8 = 4 \<longleftrightarrow> False" "(p + 15) mod 8 = 0 \<longleftrightarrow> False" "(p + 15) mod 8 = 4 \<longleftrightarrow> False"
    "(p + 8) div 8 - 1 = i"
    unfolding p_def by presburger+
  have n: "p + 8 - 1 = p + 7" "p + 8 - 8 = p" "p + 9 - 1 = p + 8" "p + 9 - 8 = p + 1"
    "p + 10 - 1 = p + 9" "p + 10 - 8 = p + 2" "p + 11 - 1 = p + 10" "p + 11 - 8 = p + 3"
    "p + 12 - 1 = p + 11" "p + 12 - 8 = p + 4" "p + 13 - 1 = p + 12" "p + 13 - 8 = p + 5"
    "p + 14 - 1 = p + 13" "p + 14 - 8 = p + 6" "p + 15 - 1 = p + 14" "p + 15 - 8 = p + 7"
    by simp_all
  have c: "(8 :: nat) > 6 \<longleftrightarrow> True" by simp
  show ?thesis
    by (simp only: step14_def sched_def p_def [symmetric] u m n c Let_def fold_simps if_True if_False simp_thms)
qed

lemma fold_blocks_upt:
  assumes "\<And>i b. step i b = fold f [k * i + k..<k * i + 2 * k] b"
  shows "fold step [0..<n] b = fold f [k..<k * n + k] b"
proof (induction n)
  case (Suc n)
  have "[k..<k * Suc n + k] = [k..<k * n + k] @ [k * n + k..<k * n + 2 * k]"
  proof -
    have "k * n + 2 * k = k * n + k + k" "k * Suc n + k = k * n + k + k" by simp_all
    then show ?thesis using upt_add_eq_append [of k "k * n + k" k] by (simp only: le_add2)
  qed
  then show ?case using Suc by (simp add: assms)
qed simp

definition schedule_ok :: "octet list \<Rightarrow> nat \<Rightarrow> nat \<Rightarrow> 32 word list \<Rightarrow> bool" where
  "schedule_ok key nk n b \<longleftrightarrow> (\<forall>j < n. put_uint32_le (b ! j) = fips_word key nk j)"

lemma sched_ok:
  assumes ok: "schedule_ok key nk n b" and n: "0 < nk" "nk \<le> n" "n div nk \<le> 10" "n < length b"
  shows "schedule_ok key nk (Suc n) (sched nk n b)"
proof -
  have prev: "put_uint32_le (b ! (n - 1)) = fips_word key nk (n - 1)" "put_uint32_le (b ! (n - nk)) = fips_word key nk (n - nk)"
    using ok n by (simp_all add: schedule_ok_def)
  have "0 < n div nk" using n by (simp add: div_greater_zero_iff)
  then have core: "put_uint32_le (key_core (n div nk - 1) (b ! (n - 1))) =
      map2 (XOR) (fips_rcon (n div nk)) (map sub_box (rotate1 (fips_word key nk (n - 1))))"
    using n put_key_core [of "n div nk - 1" "b ! (n - 1)"] prev(1) by simp
  have "put_uint32_le (sched nk n b ! n) = fips_word key nk n"
    using n by (subst fips_word.simps) (simp add: sched_def Let_def put_xor prev prev [unfolded One_nat_def] core
        core [unfolded One_nat_def] put_sub_bytes4 [unfolded One_nat_def])
  moreover have "sched nk n b ! j = b ! j" if "j < n" for j using that by (simp add: sched_def)
  ultimately show ?thesis using ok by (simp add: schedule_ok_def less_Suc_eq)
qed

lemma fold_sched_ok:
  assumes "schedule_ok key nk nk b" "0 < nk" "nk + m \<le> length b" "(nk + m - 1) div nk \<le> 10"
  shows "schedule_ok key nk (nk + m) (fold (sched nk) [nk..<nk + m] b)"
  using assms
proof (induction m)
  case (Suc m)
  have l: "length (fold (sched nk) is c) = length c" for "is" c
    by (induction "is" arbitrary: c) (simp_all add: sched_def)
  have d: "(nk + m) div nk \<le> 10" using Suc.prems(4) by simp
  have "(nk + m - 1) div nk \<le> (nk + m) div nk" by (intro div_le_mono) simp
  then have "(nk + m - 1) div nk \<le> 10" using d by (rule le_trans)
  then have "schedule_ok key nk (nk + m) (fold (sched nk) [nk..<nk + m] b)" using Suc by simp
  then show ?case
    using sched_ok [of key nk "nk + m" "fold (sched nk) [nk..<nk + m] b"] Suc.prems d by (simp add: l)
qed simp

lemma key_loaded:
  assumes "4 * nk \<le> length key" "nk \<le> 68"
  shows "schedule_ok key nk nk (fold (\<lambda>i b. b[i := get_uint32_le key (4 * i)]) [0..<nk] (replicate 68 0))"
proof -
  have "n \<le> nk \<Longrightarrow> length (fold (\<lambda>i b. b[i := get_uint32_le key (4 * i)]) [0..<n] (replicate 68 0)) = 68 \<and>
      (\<forall>j < n. fold (\<lambda>i b. b[i := get_uint32_le key (4 * i)]) [0..<n] (replicate 68 0) ! j = get_uint32_le key (4 * j))" for n
    using assms(2) by (induction n) (auto simp: nth_list_update less_Suc_eq)
  from this [of nk] have at: "fold (\<lambda>i b. b[i := get_uint32_le key (4 * i)]) [0..<nk] (replicate 68 0) ! j =
      get_uint32_le key (4 * j)" if "j < nk" for j
    using that by blast
  have "put_uint32_le (get_uint32_le key (4 * j)) = take 4 (drop (4 * j) key)" if "j < nk" for j
  proof -
    have l: "4 * j + 4 \<le> length key" using that assms(1) by linarith
    have "take 4 (drop (4 * j) key) = map (\<lambda>k. key ! (4 * j + k)) [0..<4]"
      using l by (intro nth_equalityI) auto
    also have "\<dots> = put_uint32_le (get_uint32_le key (4 * j))"
      by (simp add: get_pack4 put_pack4 upt_conv_Cons eval_nat_numeral)
    finally show ?thesis by simp
  qed
  then show ?thesis by (simp add: schedule_ok_def at fips_word.simps)
qed

lemma setkey_enc_schedule:
  assumes e: "utils_aes_setkey_enc key bits = Some e" and l: "length key = bits div 8"
  shows "schedule_ok key (bits div 32) (4 * (aes_nr e + 1)) (aes_rk e)"
proof -
  define b where "b = fold (\<lambda>i b. b[i := get_uint32_le key (4 * i)]) [0..<bits div 32] (replicate 68 0)"
  have lb: "length b = 68" unfolding b_def by (simp only: length_fold_steps length_replicate)
  have bits: "bits \<in> {128, 192, 256}" by (rule setkey_enc_shape(1) [OF e])
  have loaded: "schedule_ok key (bits div 32) (bits div 32) b"
    unfolding b_def using bits l by (intro key_loaded) auto
  have folds: "fold step10 [0..<n] b = fold (sched 4) [4..<4 * n + 4] b"
    "fold step12 [0..<n] b = fold (sched 6) [6..<6 * n + 6] b"
    "fold step14 [0..<n] b = fold (sched 8) [8..<8 * n + 8] b" for n b
    by (rule fold_blocks_upt, simp add: step10_sched step12_sched step14_sched)+
  consider "bits = 128" | "bits = 192" | "bits = 256" using bits by auto
  then show ?thesis
  proof cases
    case 1
    then have "aes_rk e = fold step10 [0..<10] b" "aes_nr e = 10"
      using e by (auto simp: utils_aes_setkey_enc_def Let_def b_def)
    moreover have "schedule_ok key 4 (4 + 40) (fold (sched 4) [4..<4 + 40] b)"
      by (rule fold_sched_ok) (use loaded lb 1 in simp_all)
    ultimately show ?thesis using 1 folds(1) [of 10 b] by simp
  next
    case 2
    then have "aes_rk e = fold step12 [0..<8] b" "aes_nr e = 12"
      using e by (auto simp: utils_aes_setkey_enc_def Let_def b_def)
    moreover have "schedule_ok key 6 (6 + 48) (fold (sched 6) [6..<6 + 48] b)"
      by (rule fold_sched_ok) (use loaded lb 2 in simp_all)
    ultimately show ?thesis using 2 folds(2) [of 8 b] by (simp add: schedule_ok_def)
  next
    case 3
    then have "aes_rk e = fold step14 [0..<7] b" "aes_nr e = 14"
      using e by (auto simp: utils_aes_setkey_enc_def Let_def b_def)
    moreover have "schedule_ok key 8 (8 + 56) (fold (sched 8) [8..<8 + 56] b)"
      by (rule fold_sched_ok) (use loaded lb 3 in simp_all)
    ultimately show ?thesis using 3 folds(3) [of 7 b] by (simp add: schedule_ok_def)
  qed
qed

section \<open>The cipher\<close>

lemma upt_16: "[0..<16] = [0, 1, 2, 3, 4, 5, 6, 7, 8, 9, 10, 11, 12, 13, 14, 15 :: nat]"
  by (simp add: upt_conv_Cons eval_nat_numeral)

lemma put_subshift: "put_quad (subshift q) = fips_shift_rows (fips_sub_bytes (put_quad q))"
  by (rule quad_cases [of q])
    (simp add: subshift_def put_quad_def put_pack4 fips_shift_rows_def fips_sub_bytes_def upt_16 byte_simps
      sub_bytes4_def FSb_fips sub_box_def)

lemma put_mixq: "put_quad (mapq mix_word q) = fips_mix_columns (put_quad q)"
  by (rule quad_cases [of q])
    (simp add: mapq_def put_quad_def put_pack4 fips_mix_columns_def upt_16 mix_word_pack4 mix_bytes_def mul3_def
      ac_simps)

lemma put_xorq: "put_quad (xorq p q) = fips_add_key (put_quad p) (put_quad q)"
proof -
  have l: "length (put_uint32_le w) = 4" for w by (simp add: put_uint32_le_def)
  show ?thesis
    by (cases p; cases q) (simp add: put_quad_def put_xor fips_add_key_def zip_append l)
qed

lemma put_keyq:
  assumes "schedule_ok key nk n rk" "4 * r + 3 < n"
  shows "put_quad (keyq rk (4 * r)) = fips_round_key key nk r"
proof -
  have "put_uint32_le (rk ! (4 * r + j)) = fips_word key nk (4 * r + j)" if "j < 4" for j
    using assms that by (simp add: schedule_ok_def)
  from this [of 0] this [of 1] this [of 2] this [of 3] show ?thesis
    by (simp add: put_quad_def keyq_def fips_round_key_def upt_conv_Cons eval_nat_numeral)
qed

lemma fips_add_key_commute: "fips_add_key a b = fips_add_key b a"
  by (induction a arbitrary: b; case_tac b) (auto simp: fips_add_key_def xor.commute)

lemma put_rounds:
  assumes ok: "schedule_ok key nk (4 * (m + 1)) rk"
  shows "n \<le> m \<Longrightarrow> put_quad (rounds (AES_FROUND rk) n x) =
    fold (fips_round (fips_round_key key nk)) [1..<Suc n] (put_quad x)"
proof (induction n)
  case (Suc n)
  have "put_quad (keyq rk (4 * Suc n)) = fips_round_key key nk (Suc n)"
    using Suc.prems by (intro put_keyq [OF ok]) simp
  then show ?case
    using Suc by (simp add: AES_FROUND_eq put_xorq put_mixq put_subshift fips_round_def
        fips_add_key_commute [of "fips_round_key key nk (Suc n)"])
qed simp

lemma encrypt_fips:
  assumes e: "utils_aes_setkey_enc key bits = Some e" and l: "length key = bits div 8" and b: "length b = 16"
  shows "utils_internal_aes_encrypt e b = fips_aes key bits b"
proof -
  note s = setkey_enc_shape [OF e]
  let ?w = "fips_round_key key (bits div 32)"
  have nr: "aes_nr e = 2 * Suc (bits div 64 + 2)" using s by auto
  obtain n where n: "aes_nr e = Suc n" using nr by (cases "aes_nr e") auto
  have ok: "schedule_ok key (bits div 32) (4 * (aes_nr e + 1)) (aes_rk e)" by (rule setkey_enc_schedule [OF e l])
  have k: "put_quad (keyq (aes_rk e) 0) = ?w 0" "put_quad (keyq (aes_rk e) (4 * aes_nr e)) = ?w (aes_nr e)"
    using put_keyq [OF ok, of 0] put_keyq [OF ok, of "aes_nr e"] by simp_all
  have start: "put_quad (get_quad (aes_rk e) b) = fips_add_key b (?w 0)"
    by (simp add: get_quad_eq put_xorq get_put_block [OF b] k)
  show ?thesis
    unfolding encrypt_rounds [OF nr] enc_last_eq put_xorq put_subshift k put_rounds [OF ok, of "aes_nr e - 1", OF diff_le_self]
      start fips_aes_def fips_cipher_def Let_def s(2) [symmetric]
    using n by (simp add: fips_add_key_commute)
qed

end
