(* ===== verification/Base64Props.thy ===== *)
theory Base64Props
  imports Base64
begin

text \<open>
  The Base64 encoder against a description on lists, and the round trip: decoding what was
  encoded gives the original bytes, for every length.
\<close>

section \<open>Characters and values\<close>

lemma decode_encode_table:
  "map (\<lambda>c. decoding_table (unat c)) encoding_table = map word_of_nat [0..<64]"
  by code_simp

lemma length_encoding_table: "length encoding_table = 64"
  by (simp add: encoding_table_def)

lemma decoding_encoding: "k < 64 \<Longrightarrow> decoding_table (unat (encoding_table ! k)) = word_of_nat k"
proof -
  assume k: "k < 64"
  have "map (\<lambda>c. decoding_table (unat c)) encoding_table ! k = map word_of_nat [0..<64] ! k"
    by (simp only: decode_encode_table)
  moreover have "map word_of_nat [0..<64] ! k = (word_of_nat k :: octet)"
    using k nth_map_upt [of k 64 0 "word_of_nat :: nat \<Rightarrow> octet"] by (simp only: diff_zero add_0)
  moreover have "map (\<lambda>c. decoding_table (unat c)) encoding_table ! k = decoding_table (unat (encoding_table ! k))"
    using k by (simp only: nth_map length_encoding_table)
  ultimately show ?thesis by simp
qed

definition six :: "32 word \<Rightarrow> nat \<Rightarrow> octet" where
  "six block s = ucast (drop_bit s block AND 0x3F)"

lemma unat_six: "unat (drop_bit s (block :: 32 word) AND 0x3F) < 64"
proof -
  have "drop_bit s block AND 0x3F \<le> 0x3F" by (rule word_and_le1)
  then have "unat (drop_bit s block AND 0x3F) \<le> unat (0x3F :: 32 word)" by (simp only: word_le_nat_alt)
  then show ?thesis by simp
qed

lemma get_decoded_enc_char: "get_decoded_value (enc_char block s) sentinel = Some (six block s)"
proof -
  define k where "k = unat (drop_bit s block AND 0x3F)"
  have k: "k < 64" unfolding k_def by (rule unat_six)
  have d: "decoding_table (unat (enc_char block s)) = word_of_nat k"
    unfolding enc_char_def k_def by (rule decoding_encoding [OF unat_six])
  have s: "six block s = word_of_nat k" by (simp add: six_def k_def)
  have "unat (word_of_nat k :: octet) < 64" using k by (simp add: unat_of_nat)
  then have "(word_of_nat k :: octet) \<noteq> 0xDD" "(word_of_nat k :: octet) \<noteq> 0xff" by auto
  then show ?thesis by (simp add: get_decoded_value_def Let_def d s BASE64_SENTINEL_VALUE_def)
qed

lemma six_not_sentinel: "six block s \<noteq> BASE64_SENTINEL_VALUE"
  using get_decoded_enc_char [of block s False]
  by (auto simp: get_decoded_value_def Let_def split: if_splits)

lemma get_decoded_PAD: "get_decoded_value PAD True = Some BASE64_SENTINEL_VALUE" "get_decoded_value PAD False = None"
  by (simp_all add: get_decoded_value_def PAD_def decoding_table_def BASE64_SENTINEL_VALUE_def)

lemma PAD_not_enc_char: "enc_char block s \<noteq> PAD"
  using get_decoded_enc_char [of block s False] get_decoded_PAD(2) by auto

text \<open>The block of three bytes and what the decoder makes of its characters.\<close>

definition blk :: "octet \<Rightarrow> octet \<Rightarrow> octet \<Rightarrow> 32 word" where
  "blk a b c = (push_bit 8 (push_bit 8 (ucast a) OR ucast b) OR ucast c)"

lemma masks: "(0x3F :: 32 word) = mask 6" "(0x03 :: octet) = mask 2" "(0x0F :: octet) = mask 4"
  "(0xF0 :: octet) = push_bit 4 (mask 4)"
  by (simp_all add: mask_eq_exp_minus_1)

lemma octet_bit: "8 \<le> n \<Longrightarrow> \<not> bit (x :: octet) n"
  using bit_imp_le_length [of x n] by auto

lemma octet_eqI:
  assumes "\<And>n. n \<in> {0, 1, 2, 3, 4, 5, 6, 7} \<Longrightarrow> bit (x :: octet) n = bit y n"
  shows "x = y"
proof (rule bit_word_eqI)
  fix n assume "n < LENGTH(8)"
  then have "n \<in> {0, 1, 2, 3, 4, 5, 6, 7}" by auto
  then show "bit x n = bit y n" by (rule assms)
qed

lemma dec_blk:
  "dec1 (six (blk a b c) 18) (six (blk a b c) 12) = a"
  "dec2 (six (blk a b c) 12) (six (blk a b c) 6) = b"
  "dec3 (six (blk a b c) 6) (six (blk a b c) 0) = c"
  unfolding dec1_def dec2_def dec3_def six_def blk_def masks
  by (rule octet_eqI, elim insertE emptyE; simp add: bit_simps octet_bit)+

section \<open>The encoding as a list\<close>

definition chars :: "32 word \<Rightarrow> octet list" where
  "chars block = [enc_char block 18, enc_char block 12, enc_char block 6, enc_char block 0]"

text \<open>The characters before the padding signs are written, and with them.\<close>

fun b64_raw :: "octet list \<Rightarrow> octet list" where
  "b64_raw [] = []"
| "b64_raw [a] = chars (blk a 0 0)"
| "b64_raw [a, b] = chars (blk a b 0)"
| "b64_raw (a # b # c # r) = chars (blk a b c) @ b64_raw r"

fun b64 :: "octet list \<Rightarrow> octet list" where
  "b64 [] = []"
| "b64 [a] = take 2 (chars (blk a 0 0)) @ [PAD, PAD]"
| "b64 [a, b] = take 3 (chars (blk a b 0)) @ [PAD]"
| "b64 (a # b # c # r) = chars (blk a b c) @ b64 r"

lemma length_chars [simp]: "length (chars block) = 4" by (simp add: chars_def)

lemma div3: "(Suc (Suc (Suc n)) + 2) div 3 = Suc ((n + 2) div 3)" "3 dvd Suc (Suc (Suc n)) \<longleftrightarrow> 3 dvd n" for n :: nat
  by presburger+

lemma length_b64: "length (b64 xs) = 4 * ((length xs + 2) div 3)" "length (b64_raw xs) = 4 * ((length xs + 2) div 3)"
  by (induction xs rule: b64.induct) (simp_all only: length_Cons div3 b64.simps b64_raw.simps length_append length_chars, simp_all)

lemma b64_append:
  "3 dvd length xs \<Longrightarrow> b64 (xs @ ys) = b64 xs @ b64 ys"
  "3 dvd length xs \<Longrightarrow> b64_raw (xs @ ys) = b64_raw xs @ b64_raw ys"
  "3 dvd length xs \<Longrightarrow> b64 xs = b64_raw xs"
  by (induction xs rule: b64.induct) (simp_all add: div3 nat_dvd_not_less)

lemma b64_of_raw:
  "b64 xs = (let m = b64_raw xs; n = length m in
     if length xs mod 3 = 1 then m[n - 1 := PAD, n - 2 := PAD]
     else if length xs mod 3 = 2 then m[n - 1 := PAD] else m)"
proof -
  define r where "r = length xs mod 3"
  define ys where "ys = take (length xs - r) xs"
  define zs where "zs = drop (length xs - r) xs"
  have xs: "xs = ys @ zs" by (simp add: ys_def zs_def)
  have ly: "3 dvd length ys" by (simp add: ys_def r_def minus_mod_eq_mult_div)
  have lz: "length zs = r" by (simp add: zs_def r_def)
  note ap = b64_append(1,2) [OF ly, of zs, folded xs] b64_append(3) [OF ly]
  have r3: "r < 3" by (simp add: r_def)
  then consider "zs = []" "r = 0" | a where "zs = [a]" "r = 1" | a b where "zs = [a, b]" "r = 2"
    using lz by (cases zs; cases "tl zs"; cases "tl (tl zs)") auto
  then show ?thesis
  proof cases
    case 1
    then show ?thesis by (simp add: ap Let_def flip: r_def)
  next
    case (2 a)
    then show ?thesis by (simp add: ap Let_def chars_def list_update_append flip: r_def)
  next
    case (3 a b)
    then show ?thesis by (simp add: ap Let_def chars_def list_update_append flip: r_def)
  qed
qed

lemma enc_block_blk:
  assumes "i < length input"
  shows "enc_block input i = blk (input ! i) (if i + 1 < length input then input ! (i + 1) else 0)
     (if i + 2 < length input then input ! (i + 2) else 0)"
  by (simp add: enc_block_def blk_def Let_def)

lemma b64_raw_drop:
  assumes "i < length input"
  shows "b64_raw (drop i input) = chars (enc_block input i) @ b64_raw (drop (i + 3) input)"
proof -
  have d: "drop i input = input ! i # drop (Suc i) input" using assms by (rule Cons_nth_drop_Suc [symmetric])
  show ?thesis
  proof (cases "Suc i < length input")
    case False
    then show ?thesis using assms d by (simp add: enc_block_blk)
  next
    case True
    then have d2: "drop (Suc i) input = input ! Suc i # drop (Suc (Suc i)) input" by (rule Cons_nth_drop_Suc [symmetric])
    show ?thesis
    proof (cases "Suc (Suc i) < length input")
      case False
      then show ?thesis using assms True d d2 by (simp add: enc_block_blk)
    next
      case three: True
      then have "drop (Suc (Suc i)) input = input ! Suc (Suc i) # drop (Suc (Suc (Suc i))) input"
        by (rule Cons_nth_drop_Suc [symmetric])
      then show ?thesis using assms True three d d2 by (simp add: enc_block_blk eval_nat_numeral)
    qed
  qed
qed

lemma memcpy_at_append:
  "d + length xs + length ys \<le> length m \<Longrightarrow>
     memcpy_at (d + length xs) ys (memcpy_at d xs m) = memcpy_at d (xs @ ys) m"
  by (cases xs) (auto simp: memcpy_at_def min_def ac_simps)

lemma update_memcpy: "d < length m \<Longrightarrow> m[d := a] = memcpy_at d [a] m"
  by (simp add: memcpy_at_def upd_conv_take_nth_drop)

lemma update4:
  assumes "d + 4 \<le> length m"
  shows "m[d := a, d + 1 := b, d + 2 := c, d + 3 := e] = memcpy_at d [a, b, c, e] m"
proof -
  have 1: "m[d := a] = memcpy_at d [a] m" using assms by (simp add: update_memcpy)
  have 2: "(memcpy_at d [a] m)[d + 1 := b] = memcpy_at d [a, b] m"
    using memcpy_at_append [of d "[a]" "[b]" m] assms by (simp add: update_memcpy array_simps)
  have 3: "(memcpy_at d [a, b] m)[d + 2 := c] = memcpy_at d [a, b, c] m"
    using memcpy_at_append [of d "[a, b]" "[c]" m] assms by (simp add: update_memcpy array_simps)
  have 4: "(memcpy_at d [a, b, c] m)[d + 3 := e] = memcpy_at d [a, b, c, e] m"
    using memcpy_at_append [of d "[a, b, c]" "[e]" m] assms by (simp add: update_memcpy array_simps eval_nat_numeral)
  show ?thesis by (simp only: 1 2 3 4)
qed

lemma enc_loop_spec:
  "idx + length (b64_raw (drop i input)) \<le> length mem \<Longrightarrow>
     enc_loop input i idx mem = memcpy_at idx (b64_raw (drop i input)) mem"
proof (induction input i idx mem rule: enc_loop.induct)
  case (1 input i idx mem)
  show ?case
  proof (cases "i < length input")
    case False
    then show ?thesis by (subst enc_loop.simps) (simp add: memcpy_at_def)
  next
    case True
    let ?b = "enc_block input i"
    have e: "b64_raw (drop i input) = chars ?b @ b64_raw (drop (i + 3) input)" by (rule b64_raw_drop [OF True])
    have l: "idx + 4 + length (b64_raw (drop (i + 3) input)) \<le> length mem" using 1(2) e by simp
    define m where "m = mem[idx := enc_char ?b 18, idx + 1 := enc_char ?b 12, idx + 2 := enc_char ?b 6, idx + 3 := enc_char ?b 0]"
    have m: "m = memcpy_at idx (chars ?b) mem" unfolding m_def chars_def by (rule update4) (use l in simp)
    have lm: "length m = length mem" by (simp add: m_def)
    have "enc_loop input i idx mem = enc_loop input (i + 3) (idx + 4) m"
      using True by (subst enc_loop.simps) (simp add: m_def Let_def)
    also have "\<dots> = memcpy_at (idx + 4) (b64_raw (drop (i + 3) input)) m"
      using 1(1) [OF True refl] l lm by (simp add: m_def)
    also have "\<dots> = memcpy_at idx (b64_raw (drop i input)) mem"
      using memcpy_at_append [of idx "chars ?b" "b64_raw (drop (i + 3) input)" mem] l by (simp add: m e)
    finally show ?thesis .
  qed
qed

lemma memcpy_at_update:
  "j < length xs \<Longrightarrow> d + length xs \<le> length m \<Longrightarrow> (memcpy_at d xs m)[d + j := x] = memcpy_at d (xs[j := x]) m"
  by (simp add: memcpy_at_def list_update_append)

lemma encoded_len:
  assumes "n < 2 ^ 62"
  shows "\<exists>t. aws_base64_compute_encoded_len (word_of_nat n) = Some t \<and> unat t = 4 * ((n + 2) div 3) + 1"
proof -
  define w where "w = (word_of_nat n :: 64 word)"
  have w: "unat w = n" using assms by (simp add: w_def unat_of_nat)
  have t: "unat (w + 2) = n + 2" using assms by (simp add: unat_word_ariths w)
  then have d: "unat ((w + 2) div 3) = (n + 2) div 3" by (simp add: unat_div)
  have f: "unat (4 * ((w + 2) div 3) + 1) = 4 * ((n + 2) div 3) + 1"
  proof -
    define q where "q = (w + 2) div 3"
    define k where "k = (n + 2) div 3"
    have q: "unat q = k" "k < 2 ^ 61" using d assms by (simp_all add: q_def k_def)
    then have "unat (4 * q + 1) = 4 * k + 1" by (simp add: unat_word_ariths)
    then show ?thesis by (simp only: q_def k_def)
  qed
  have "\<not> w + 2 < w" "\<not> 4 * ((w + 2) div 3) + 1 < (w + 2) div 3"
    by (simp_all add: word_less_nat_alt t f d w)
  then show ?thesis using f by (simp add: aws_base64_compute_encoded_len_def Let_def flip: w_def)
qed

lemma encode_spec:
  assumes n: "length input < 2 ^ 62" and fit: "bb_len out + length (b64 input) < length (bb_buffer out)"
    and cap: "length (bb_buffer out) < 2 ^ 64"
  shows "aws_base64_encode input out =
    Some \<lparr>bb_buffer = memcpy_at (bb_len out) (b64 input @ [0]) (bb_buffer out), bb_len = bb_len out + length (b64 input)\<rparr>"
proof -
  let ?L = "bb_len out" and ?m = "bb_buffer out" and ?n = "4 * ((length input + 2) div 3)"
  obtain t where t: "aws_base64_compute_encoded_len (word_of_nat (length input)) = Some t" "unat t = ?n + 1"
    using encoded_len [OF n] by blast
  have lr: "length (b64_raw input) = ?n" "length (b64 input) = ?n" by (simp_all add: length_b64)
  have m1: "enc_loop input 0 ?L ?m = memcpy_at ?L (b64_raw input) ?m"
    using enc_loop_spec [of ?L 0 input ?m] fit lr by simp
  define c where "c = (length input + 2) div 3"
  have m2: "(if length input mod 3 > 0
      then let m = (memcpy_at ?L (b64_raw input) ?m)[?L + c * 4 - 1 := PAD] in
           if length input mod 3 = 1 then m[?L + c * 4 - 2 := PAD] else m
      else memcpy_at ?L (b64_raw input) ?m) = memcpy_at ?L (b64 input) ?m"
  proof (cases "length input mod 3 = 0")
    case True
    then show ?thesis by (simp add: b64_of_raw Let_def)
  next
    case False
    then have "0 < c" by (cases input) (auto simp: c_def)
    then have i: "?L + c * 4 - 1 = ?L + (4 * c - 1)" "?L + c * 4 - 2 = ?L + (4 * c - 2)" "4 * c - 1 < 4 * c" "4 * c - 2 < 4 * c"
      by simp_all
    have l: "length (b64_raw input) = 4 * c" "?L + 4 * c \<le> length ?m" using lr fit by (simp_all add: c_def)
    have "length input mod 3 = 1 \<or> length input mod 3 = 2" using False by linarith
    then show ?thesis
      using l i by (auto simp only: Let_def i b64_of_raw [of input] memcpy_at_update length_list_update split: if_split) simp_all
  qed
  have m3: "(memcpy_at ?L (b64 input) ?m)[?L + ?n := 0] = memcpy_at ?L (b64 input @ [0]) ?m"
    using memcpy_at_append [of ?L "b64 input" "[0]" ?m] fit lr by (simp add: update_memcpy array_simps)
  have ok: "\<not> ?L + (?n + 1) \<ge> 2 ^ 64" "\<not> length ?m < ?L + (?n + 1)" using fit cap lr by simp_all
  show ?thesis
    unfolding aws_base64_encode_def t(1) option.case Let_def t(2)
    by (simp only: m1 ok if_False add_diff_cancel_right' m2 [unfolded c_def Let_def] m3 lr)
qed

section \<open>Decoding\<close>

lemma chars_nth: "chars block ! 0 = enc_char block 18" "chars block ! 1 = enc_char block 12"
  "chars block ! 2 = enc_char block 6" "chars block ! 3 = enc_char block 0"
  by (simp_all add: chars_def)

lemma b64_at:
  assumes "3 * j \<le> length xs" "k < length (b64 (drop (3 * j) xs))"
  shows "b64 xs ! (4 * j + k) = b64 (drop (3 * j) xs) ! k"
proof -
  have "b64 xs = b64 (take (3 * j) xs) @ b64 (drop (3 * j) xs)"
    using b64_append(1) [of "take (3 * j) xs" "drop (3 * j) xs"] assms(1) by (simp add: min_def)
  moreover have "length (b64 (take (3 * j) xs)) = 4 * j"
    using assms(1) by (simp add: length_b64 min_def)
  ultimately show ?thesis by (simp add: nth_append)
qed

lemma drop_three:
  assumes "3 * j + 3 \<le> length xs"
  shows "\<exists>a b c zs. drop (3 * j) xs = a # b # c # zs"
proof -
  have "length (drop (3 * j) xs) \<ge> 3" using assms by simp
  then show ?thesis by (cases "drop (3 * j) xs"; cases "tl (drop (3 * j) xs)"; cases "tl (tl (drop (3 * j) xs))") auto
qed

lemma dec_values_full:
  assumes "3 * j \<le> length xs" "drop (3 * j) xs = a # b # c # zs"
  shows "dec_values (b64 xs) (4 * j) s =
    Some (six (blk a b c) 18, six (blk a b c) 12, six (blk a b c) 6, six (blk a b c) 0)"
proof -
  have l: "length (b64 (drop (3 * j) xs)) \<ge> 4" by (simp add: assms(2))
  have at: "b64 xs ! (4 * j + k) = chars (blk a b c) ! k" if "k < 4" for k
    using b64_at [OF assms(1), of k] that l by (simp add: assms(2) nth_append)
  have "b64 xs ! (4 * j) = enc_char (blk a b c) 18" "b64 xs ! (4 * j + 1) = enc_char (blk a b c) 12"
    "b64 xs ! (4 * j + 2) = enc_char (blk a b c) 6" "b64 xs ! (4 * j + 3) = enc_char (blk a b c) 0"
    using at [of 0] at [of 1] at [of 2] at [of 3] by (simp_all only: chars_nth) simp_all
  then show ?thesis by (simp only: dec_values_def get_decoded_enc_char option.case)
qed

lemma dec_loop_spec:
  "i \<le> n \<Longrightarrow> 3 * n \<le> length xs \<Longrightarrow> 3 * n \<le> length mem \<Longrightarrow> take (3 * i) mem = take (3 * i) xs \<Longrightarrow>
     \<exists>mem'. dec_loop (b64 xs) i n mem = Some mem' \<and> length mem' = length mem \<and> take (3 * n) mem' = take (3 * n) xs"
proof (induction "n - i" arbitrary: i mem)
  case 0
  then show ?case by (subst dec_loop.simps) simp
next
  case (Suc m)
  then have i: "i < n" by simp
  then obtain a b c zs where d: "drop (3 * i) xs = a # b # c # zs" using drop_three [of i xs] Suc.prems(2) by auto
  define mem2 where "mem2 = mem[i * 3 := a, i * 3 + 1 := b, i * 3 + 2 := c]"
  have step: "dec_loop (b64 xs) i n mem = dec_loop (b64 xs) (i + 1) n mem2"
    using i dec_values_full [of i xs a b c zs False] d Suc.prems(2)
    by (subst dec_loop.simps) (simp add: dec_blk mem2_def)
  have l: "3 * i + 3 \<le> length mem" using i Suc.prems(3) by simp
  have m2: "mem2 = memcpy_at (3 * i) [a, b, c] mem"
  proof -
    have "mem[3 * i := a] = memcpy_at (3 * i) [a] mem" using l by (simp add: update_memcpy)
    moreover have "(memcpy_at (3 * i) [a] mem)[3 * i + 1 := b] = memcpy_at (3 * i) [a, b] mem"
      using memcpy_at_append [of "3 * i" "[a]" "[b]" mem] l by (simp add: update_memcpy array_simps)
    moreover have "(memcpy_at (3 * i) [a, b] mem)[3 * i + 2 := c] = memcpy_at (3 * i) [a, b, c] mem"
      using memcpy_at_append [of "3 * i" "[a, b]" "[c]" mem] l by (simp add: update_memcpy array_simps)
    ultimately show ?thesis by (simp only: mem2_def mult.commute [of i])
  qed
  have t: "take (3 * i + 3) mem2 = take (3 * i + 3) xs"
  proof -
    define k where "k = 3 * i"
    have "take (k + 3) xs = take k xs @ [a, b, c]" using d by (simp only: take_add k_def) simp
    moreover have "take (k + 3) mem2 = take k mem @ [a, b, c]"
      using l by (simp add: m2 k_def [symmetric] memcpy_at_def min_def)
    ultimately show ?thesis using Suc.prems(4) by (simp add: k_def)
  qed
  have "take (3 * (i + 1)) mem2 = take (3 * (i + 1)) xs" using t by (simp add: algebra_simps)
  moreover have "length mem2 = length mem" by (simp add: mem2_def)
  ultimately show ?case using Suc.hyps(1) [of "i + 1" mem2] Suc.hyps(2) Suc.prems i step by simp
qed

lemma last_block:
  assumes "xs \<noteq> []"
  defines "n \<equiv> (length xs + 2) div 3"
  shows "3 * (n - 1) \<le> length xs" "0 < n" "length xs = 3 * (n - 1) + length (drop (3 * (n - 1)) xs)"
    "(\<exists>a. drop (3 * (n - 1)) xs = [a]) \<or> (\<exists>a b. drop (3 * (n - 1)) xs = [a, b]) \<or> (\<exists>a b c. drop (3 * (n - 1)) xs = [a, b, c])"
proof -
  have l: "0 < length xs" using assms(1) by simp
  show n: "0 < n" "3 * (n - 1) \<le> length xs" using l unfolding n_def by presburger+
  then show "length xs = 3 * (n - 1) + length (drop (3 * (n - 1)) xs)" by simp
  have "length (drop (3 * (n - 1)) xs) \<in> {1, 2, 3}" using l unfolding n_def length_drop by (simp, presburger)
  then show "(\<exists>a. drop (3 * (n - 1)) xs = [a]) \<or> (\<exists>a b. drop (3 * (n - 1)) xs = [a, b]) \<or> (\<exists>a b c. drop (3 * (n - 1)) xs = [a, b, c])"
    by (cases "drop (3 * (n - 1)) xs"; cases "tl (drop (3 * (n - 1)) xs)"; cases "tl (tl (drop (3 * (n - 1)) xs))") auto
qed

lemma decoded_len:
  assumes "length xs < 2 ^ 60"
  shows "aws_base64_compute_decoded_len (b64 xs) = Some (length xs)"
proof (cases "xs = []")
  case True
  then show ?thesis by (simp add: aws_base64_compute_decoded_len_def)
next
  case False
  define n where "n = (length xs + 2) div 3"
  note lb = last_block [OF False, folded n_def]
  have len: "length (b64 xs) = 4 * n" by (simp add: length_b64 n_def)
  have at: "b64 xs ! (4 * (n - 1) + k) = b64 (drop (3 * (n - 1)) xs) ! k" if "k < length (b64 (drop (3 * (n - 1)) xs))" for k
    by (rule b64_at [OF lb(1) that])
  have i: "4 * n - 1 = 4 * (n - 1) + 3" "4 * n - 2 = 4 * (n - 1) + 2" using lb(2) by simp_all
  have big: "\<not> 4 * n * 3 \<ge> 2 ^ 64" using assms unfolding n_def by simp
  have red: "aws_base64_compute_decoded_len (b64 xs) = Some (3 * n -
     (if b64 xs ! (4 * n - 1) = PAD \<and> b64 xs ! (4 * n - 2) = PAD then 2 else if b64 xs ! (4 * n - 1) = PAD then 1 else 0))"
    using lb(2) big by (simp add: aws_base64_compute_decoded_len_def Let_def len)
  have total: "3 * n - (3 - length (drop (3 * (n - 1)) xs)) = length xs"
    if "length (drop (3 * (n - 1)) xs) \<le> 3"
    using lb(2,3) that by linarith
  from lb(4) show ?thesis
  proof (elim disjE exE)
    fix a assume d: "drop (3 * (n - 1)) xs = [a]"
    have "b64 xs ! (4 * n - 1) = PAD" "b64 xs ! (4 * n - 2) = PAD"
      using at [of 3] at [of 2] unfolding i d by (simp_all add: chars_def)
    then show ?thesis using total unfolding d by (simp add: red)
  next
    fix a b assume d: "drop (3 * (n - 1)) xs = [a, b]"
    have "b64 xs ! (4 * n - 1) = PAD" "b64 xs ! (4 * n - 2) \<noteq> PAD"
      using at [of 3] at [of 2] unfolding i d by (simp_all add: chars_def PAD_not_enc_char)
    then show ?thesis using total unfolding d by (simp add: red)
  next
    fix a b c assume d: "drop (3 * (n - 1)) xs = [a, b, c]"
    have "b64 xs ! (4 * n - 1) \<noteq> PAD"
      using at [of 3] unfolding i d by (simp add: chars_def PAD_not_enc_char)
    then show ?thesis using total unfolding d by (simp add: red)
  qed
qed

lemma dec_values_last:
  assumes "3 * j \<le> length xs" "drop (3 * j) xs = d"
  shows "d = [a] \<Longrightarrow> dec_values (b64 xs) (4 * j) True =
      Some (six (blk a 0 0) 18, six (blk a 0 0) 12, BASE64_SENTINEL_VALUE, BASE64_SENTINEL_VALUE)"
    and "d = [a, b] \<Longrightarrow> dec_values (b64 xs) (4 * j) True =
      Some (six (blk a b 0) 18, six (blk a b 0) 12, six (blk a b 0) 6, BASE64_SENTINEL_VALUE)"
proof -
  have at: "b64 xs ! (4 * j + k) = b64 d ! k" if "k < 4" "length (b64 d) = 4" for k
    using b64_at [OF assms(1), of k] that by (simp add: assms(2))
  have c: "b64 xs ! (4 * j) = b64 d ! 0" "b64 xs ! (4 * j + 1) = b64 d ! 1" "b64 xs ! (4 * j + 2) = b64 d ! 2"
    "b64 xs ! (4 * j + 3) = b64 d ! 3" if "length (b64 d) = 4"
    using at [OF _ that, of 0] at [OF _ that, of 1] at [OF _ that, of 2] at [OF _ that, of 3] by simp_all
  { assume d: "d = [a]"
    then have l: "length (b64 d) = 4" by simp
    have "b64 d ! 0 = enc_char (blk a 0 0) 18" "b64 d ! 1 = enc_char (blk a 0 0) 12" "b64 d ! 2 = PAD" "b64 d ! 3 = PAD"
      by (simp_all add: d chars_def)
    then show "dec_values (b64 xs) (4 * j) True =
      Some (six (blk a 0 0) 18, six (blk a 0 0) 12, BASE64_SENTINEL_VALUE, BASE64_SENTINEL_VALUE)"
      by (simp only: dec_values_def c [OF l] get_decoded_enc_char get_decoded_PAD option.case) }
  assume d: "d = [a, b]"
  then have l: "length (b64 d) = 4" by simp
  have "b64 d ! 0 = enc_char (blk a b 0) 18" "b64 d ! 1 = enc_char (blk a b 0) 12"
    "b64 d ! 2 = enc_char (blk a b 0) 6" "b64 d ! 3 = PAD"
    by (simp_all add: d chars_def)
  then show "dec_values (b64 xs) (4 * j) True =
      Some (six (blk a b 0) 18, six (blk a b 0) 12, six (blk a b 0) 6, BASE64_SENTINEL_VALUE)"
    by (simp only: dec_values_def c [OF l] get_decoded_enc_char get_decoded_PAD option.case)
qed

lemma take_updates:
  assumes "take k mem = ys"
  shows "k + 1 \<le> length mem \<Longrightarrow> take (k + 1) (mem[k := a]) = ys @ [a]"
    and "k + 2 \<le> length mem \<Longrightarrow> take (k + 2) (mem[k := a, k + 1 := b]) = ys @ [a, b]"
    and "k + 3 \<le> length mem \<Longrightarrow> take (k + 3) (mem[k := a, k + 1 := b, k + 2 := c]) = ys @ [a, b, c]"
  using assms by (simp_all add: take_add take_Suc_conv_app_nth eval_nat_numeral)

lemma decode_b64:
  assumes len: "length xs < 2 ^ 60" and cap: "length xs \<le> length (bb_buffer out)"
  shows "\<exists>out'. aws_base64_decode (b64 xs) out = Some out' \<and> bb_len out' = length xs \<and>
    take (length xs) (bb_buffer out') = xs \<and> length (bb_buffer out') = length (bb_buffer out)"
proof (cases "xs = []")
  case True
  then show ?thesis by (simp add: aws_base64_decode_def decoded_len [OF len, unfolded True] aws_base64_compute_decoded_len_def dec_loop.simps)
next
  case False
  define n where "n = (length xs + 2) div 3"
  have "0 < n" using last_block(2) [OF False] by (simp add: n_def)
  then obtain j where j: "n = Suc j" by (cases n) auto
  have nj: "(length xs + 2) div 3 - 1 = j" using j by (simp add: n_def)
  note lb = last_block [OF False, unfolded nj]
  define k where "k = 3 * j"
  have bc: "length (b64 xs) div 4 = Suc j" using j by (simp add: length_b64 n_def)
  obtain mem where mem: "dec_loop (b64 xs) 0 j (bb_buffer out) = Some mem" "length mem = length (bb_buffer out)"
      "take k mem = take k xs"
    using dec_loop_spec [of 0 j xs "bb_buffer out"] lb(1) cap unfolding k_def by auto
  have xs: "xs = take k xs @ drop k xs" by simp
  have lx: "length xs = k + length (drop k xs)" using lb(3) by (simp add: k_def)
  note red = aws_base64_decode_def decoded_len [OF len] Let_def bc
  have nn: "\<not> length (bb_buffer out) < length xs" using cap by simp
  have k: "j * 3 = k" "Suc j - 1 = j" by (simp_all add: k_def)
  note dv = dec_values_last [OF lb(1) refl] dec_values_full [OF lb(1)]
  from lb(4) show ?thesis
  proof (elim disjE exE)
    fix a assume d: "drop (3 * j) xs = [a]"
    have dk: "drop k xs = [a]" using d by (simp add: k_def)
    have "take (k + 1) (mem[k := a]) = take k xs @ [a]"
      using take_updates(1) [OF mem(3)] lx cap dk mem(2) by (simp add: not_less)
    then have "take (length xs) (mem[k := a]) = xs" using lx xs dk by simp
    then show ?thesis using nn mem(2) by (simp add: red k mem(1) dv(1) [OF d] k dec_blk)
  next
    fix a b assume d: "drop (3 * j) xs = [a, b]"
    have dk: "drop k xs = [a, b]" using d by (simp add: k_def)
    have "take (k + 2) (mem[k := a, k + 1 := b]) = take k xs @ [a, b]"
      using take_updates(2) [OF mem(3)] lx cap dk mem(2) by (simp add: not_less)
    then have "take (length xs) (mem[k := a, k + 1 := b]) = xs" using lx xs dk by simp
    then show ?thesis using nn mem(2) by (simp add: red k mem(1) dv(2) [OF d] k dec_blk six_not_sentinel)
  next
    fix a b c assume d: "drop (3 * j) xs = [a, b, c]"
    have dk: "drop k xs = [a, b, c]" using d by (simp add: k_def)
    have "take (k + 3) (mem[k := a, k + 1 := b, k + 2 := c]) = take k xs @ [a, b, c]"
      using take_updates(3) [OF mem(3)] lx cap dk mem(2) by (simp add: not_less)
    moreover have "length xs = k + 3" using lx dk by simp
    ultimately have "take (length xs) (mem[k := a, k + 1 := b, k + 2 := c]) = xs" using xs dk by (simp only:)
    then show ?thesis using nn mem(2) by (simp add: red k mem(1) dv(3) [OF d] k dec_blk six_not_sentinel)
  qed
qed

section \<open>The round trip\<close>

text \<open>
  How the callers use the two operations: the output has the computed length, and the result is
  the used part of it.
\<close>

definition encode_fresh :: "octet list \<Rightarrow> octet list option" where
  "encode_fresh input =
     (case aws_base64_compute_encoded_len (word_of_nat (length input)) of
        None \<Rightarrow> None
      | Some n \<Rightarrow> map_option (\<lambda>out. take (bb_len out) (bb_buffer out))
          (aws_base64_encode input \<lparr>bb_buffer = replicate (unat n) 0, bb_len = 0\<rparr>))"

definition decode_fresh :: "octet list \<Rightarrow> octet list option" where
  "decode_fresh input =
     (case aws_base64_compute_decoded_len input of
        None \<Rightarrow> None
      | Some n \<Rightarrow> map_option (\<lambda>out. take (bb_len out) (bb_buffer out))
          (aws_base64_decode input \<lparr>bb_buffer = replicate n 0, bb_len = 0\<rparr>))"

lemma encode_fresh_b64:
  assumes "length input < 2 ^ 60"
  shows "encode_fresh input = Some (b64 input)"
proof -
  have n: "length input < 2 ^ 62" using assms by simp
  obtain t where t: "aws_base64_compute_encoded_len (word_of_nat (length input)) = Some t"
    "unat t = 4 * ((length input + 2) div 3) + 1"
    using encoded_len [OF n] by blast
  have l: "length (b64 input) < unat t" by (simp add: t(2) length_b64)
  show ?thesis
    using encode_spec [OF n, of "\<lparr>bb_buffer = replicate (unat t) 0, bb_len = 0\<rparr>"] l unsigned_less [of t, where 'a = nat]
    by (simp add: encode_fresh_def t(1) memcpy_at_def)
qed

lemma decode_fresh_b64:
  assumes "length xs < 2 ^ 60"
  shows "decode_fresh (b64 xs) = Some xs"
  using decode_b64 [OF assms, of "\<lparr>bb_buffer = replicate (length xs) 0, bb_len = 0\<rparr>"]
  by (auto simp: decode_fresh_def decoded_len [OF assms])

interpretation base64: codec encode_fresh decode_fresh "\<lambda>xs. length xs < 2 ^ 60"
  by unfold_locales (simp add: encode_fresh_b64 decode_fresh_b64)

text \<open>C29.
  Bytes appended to a buffer in Base64 leave what the buffer held before, and decoding the
  appended characters into any buffer that is long enough gives the bytes back, for every length,
  with one or two padding characters or none.
\<close>

theorem base64_roundtrip:
  assumes "length input < 2 ^ 60" "length (bb_buffer out) < 2 ^ 64"
    and "bb_len out + 4 * ((length input + 2) div 3) < length (bb_buffer out)"
    and "length input \<le> length (bb_buffer back)"
  shows "\<exists>out' back'.
    aws_base64_encode input out = Some out' \<and>
    bb_len out' = bb_len out + 4 * ((length input + 2) div 3) \<and>
    take (bb_len out) (bb_buffer out') = take (bb_len out) (bb_buffer out) \<and>
    length (bb_buffer out') = length (bb_buffer out) \<and>
    aws_base64_decode (drop (bb_len out) (take (bb_len out') (bb_buffer out'))) back = Some back' \<and>
    take (bb_len back') (bb_buffer back') = input"
proof -
  have e: "aws_base64_encode input out =
    Some \<lparr>bb_buffer = memcpy_at (bb_len out) (b64 input @ [0]) (bb_buffer out), bb_len = bb_len out + length (b64 input)\<rparr>"
    by (rule encode_spec) (use assms in \<open>simp_all add: length_b64\<close>)
  define m where "m = memcpy_at (bb_len out) (b64 input @ [0]) (bb_buffer out)"
  have fit: "bb_len out + length (b64 input) < length (bb_buffer out)" using assms by (simp add: length_b64)
  have m: "drop (bb_len out) (take (bb_len out + length (b64 input)) m) = b64 input"
    "take (bb_len out) m = take (bb_len out) (bb_buffer out)" "length m = length (bb_buffer out)"
    using fit by (simp_all add: m_def memcpy_at_def drop_take)
  obtain back' where d: "aws_base64_decode (b64 input) back = Some back'" "bb_len back' = length input"
    "take (length input) (bb_buffer back') = input"
    using decode_b64 [OF assms(1,4)] by blast
  show ?thesis
    by (rule exI [of _ "\<lparr>bb_buffer = m, bb_len = bb_len out + length (b64 input)\<rparr>"], rule exI [of _ back'])
      (simp only: e m_def [symmetric] byte_buf.simps m d length_b64(1) [symmetric] simp_thms)
qed

lemma base64_roundtrip_witness:
  "\<exists>out' back'.
    aws_base64_encode [0xfb, 0xff, 0x41, 0x7a] \<lparr>bb_buffer = replicate 20 1, bb_len = 3\<rparr> = Some out' \<and>
    aws_base64_decode (drop 3 (take (bb_len out') (bb_buffer out'))) \<lparr>bb_buffer = replicate 4 9, bb_len = 0\<rparr> = Some back' \<and>
    take (bb_len back') (bb_buffer back') = [0xfb, 0xff, 0x41, 0x7a]"
  using base64_roundtrip [of "[0xfb, 0xff, 0x41, 0x7a]" "\<lparr>bb_buffer = replicate 20 1, bb_len = 3\<rparr>"
      "\<lparr>bb_buffer = replicate 4 9, bb_len = 0\<rparr>"]
  by auto

text \<open>The computed length of the encoding, with its terminator, is exact for every 64-bit input length
  whose result fits in 64 bits, and an error is raised for every other one, except for the
  length \<open>2 ^ 64 - 3\<close>: there the wrapped product passes the overflow check.
\<close>

theorem encoded_len_exact:
  "aws_base64_compute_encoded_len n =
     (let exact = 4 * ((unat n + 2) div 3) + 1 in
      if exact < 2 ^ 64 then Some (word_of_nat exact)
      else if n = 0xFFFFFFFFFFFFFFFD then Some 0x5555555555555555 else None)"
proof -
  define k where "k = unat n"
  have k: "k < 2 ^ 64" unfolding k_def using unsigned_less [of n, where 'a = nat] by simp
  have nk: "n = word_of_nat k" by (simp add: k_def)
  have eqn: "n = 0xFFFFFFFFFFFFFFFD \<longleftrightarrow> k = 2 ^ 64 - 3"
    unfolding k_def by (simp add: word_unat_eq_iff)
  show ?thesis
  proof (cases "k + 2 < 2 ^ 64")
    case False
    then have "unat (n + 2) < unat n" using k by (simp add: unat_word_ariths k_def [symmetric] mod_if)
    moreover have "k \<noteq> 2 ^ 64 - 3" "\<not> 4 * ((k + 2) div 3) + 1 < 2 ^ 64" using False by auto
    ultimately show ?thesis
      by (simp add: aws_base64_compute_encoded_len_def Let_def word_less_nat_alt eqn k_def [symmetric])
  next
    case True
    then have t: "unat (n + 2) = k + 2" by (simp add: unat_word_ariths k_def [symmetric])
    define q where "q = (k + 2) div 3"
    define w where "w = (n + 2) div 3"
    have w: "unat w = q" by (simp add: w_def unat_div t q_def)
    have q3: "3 * q \<le> 2 ^ 64 - 1" using True unfolding q_def by simp
    have m: "unat (4 * w + 1) = (4 * q + 1) mod 2 ^ 64"
      by (simp add: unat_word_ariths w mod_simps)
    have red: "aws_base64_compute_encoded_len n = (if (4 * q + 1) mod 2 ^ 64 < q then None else Some (4 * w + 1))"
      using t by (simp add: aws_base64_compute_encoded_len_def Let_def word_less_nat_alt m w k_def [symmetric] flip: w_def)
    show ?thesis
    proof (cases "4 * q + 1 < 2 ^ 64")
      case True
      then have "\<not> (4 * q + 1) mod 2 ^ 64 < q" by simp
      moreover have "4 * w + 1 = word_of_nat (4 * q + 1)"
        unfolding word_unat_eq_iff unat_of_nat m by simp
      ultimately show ?thesis using True by (simp add: red q_def k_def [symmetric])
    next
      case False
      have wrap: "(4 * q + 1) mod 2 ^ 64 = 4 * q + 1 - 2 ^ 64"
        using False q3 by (simp add: mod_if)
      have k3: "k = 2 ^ 64 - 3 \<longleftrightarrow> 3 * q = 2 ^ 64 - 1"
        using True mult_div_mod_eq [of 3 "k + 2", folded q_def] by (auto simp: q_def)
      show ?thesis
      proof (cases "3 * q = 2 ^ 64 - 1")
        case True
        then have "\<not> (4 * q + 1) mod 2 ^ 64 < q" using wrap by simp
        moreover have "4 * w + 1 = 0x5555555555555555"
          using True wrap m by (simp add: word_unat_eq_iff)
        ultimately show ?thesis using True False k3 by (simp add: red q_def eqn k_def [symmetric])
      next
        case other: False
        then have "3 * q < 2 ^ 64 - 1" using q3 by simp
        then have "4 * q + 1 - 2 ^ 64 < q" using False by linarith
        then have "(4 * q + 1) mod 2 ^ 64 < q" by (simp only: wrap)
        then show ?thesis using other False k3 by (simp add: red q_def eqn k_def [symmetric])
      qed
    qed
  qed
qed

end
