(* ===== verification/AesTheorems.thy ===== *)
theory AesTheorems
  imports AesFips Base64Props
begin

text \<open>
  What the library relies on: the block functions are FIPS 197 and its inverse, CBC decryption
  gives the plain text back, and a secret the cloud encrypts with AES-CBC and Base64 is the secret
  \<^verbatim>\<open>aes_decode\<close> returns. Two memory errors of the code are stated as such.
\<close>

section \<open>CBC on lists\<close>

primrec cbc_dec_blocks :: "(octet list \<Rightarrow> octet list) \<Rightarrow> nat \<Rightarrow> octet list \<Rightarrow> octet list \<Rightarrow> octet list" where
  "cbc_dec_blocks D 0 iv data = []"
| "cbc_dec_blocks D (Suc n) iv data =
     map2 (XOR) (D (take 16 data)) iv @ cbc_dec_blocks D n (take 16 data) (drop 16 data)"

primrec cbc_enc_blocks :: "(octet list \<Rightarrow> octet list) \<Rightarrow> nat \<Rightarrow> octet list \<Rightarrow> octet list \<Rightarrow> octet list" where
  "cbc_enc_blocks E 0 iv data = []"
| "cbc_enc_blocks E (Suc n) iv data =
     (let c = E (map2 (XOR) (take 16 data) iv) in c @ cbc_enc_blocks E n c (drop 16 data))"

definition block_fun :: "(octet list \<Rightarrow> octet list) \<Rightarrow> bool" where
  "block_fun E \<longleftrightarrow> (\<forall>b. length b = 16 \<longrightarrow> length (E b) = 16)"

lemma length_put_quad [simp]: "length (put_quad q) = 16"
  by (cases q) (simp add: put_quad_def put_uint32_le_def)

lemma block_funs: "block_fun (utils_internal_aes_encrypt ctx)" "block_fun (utils_internal_aes_decrypt ctx)"
  by (simp_all add: block_fun_def utils_internal_aes_encrypt_def utils_internal_aes_decrypt_def Let_def case_prod_beta)

lemma length_cbc_dec:
  "block_fun D \<Longrightarrow> length iv = 16 \<Longrightarrow> 16 * n \<le> length data \<Longrightarrow> length (cbc_dec_blocks D n iv data) = 16 * n"
  by (induction n arbitrary: iv data) (auto simp: block_fun_def)

lemma length_cbc_enc:
  "block_fun E \<Longrightarrow> length iv = 16 \<Longrightarrow> 16 * n \<le> length data \<Longrightarrow> length (cbc_enc_blocks E n iv data) = 16 * n"
  by (induction n arbitrary: iv data) (auto simp: block_fun_def Let_def)

lemma xor_lists_cancel: "length a = length b \<Longrightarrow> map2 (XOR) (map2 (XOR) a b) b = (a :: octet list)"
proof (induction a b rule: list_induct2)
  case (Cons x xs y ys)
  then show ?case by (simp add: xor.assoc)
qed simp

lemma cbc_roundtrip:
  assumes "block_fun E" "\<And>b. length b = 16 \<Longrightarrow> D (E b) = b"
  shows "length iv = 16 \<Longrightarrow> 16 * n \<le> length data \<Longrightarrow>
    cbc_dec_blocks D n iv (cbc_enc_blocks E n iv data) = take (16 * n) data"
proof (induction n arbitrary: iv data)
  case (Suc n)
  let ?x = "map2 (XOR) (take 16 data) iv"
  have l: "length ?x = 16" using Suc.prems by simp
  then have c: "length (E ?x) = 16" using assms(1) by (simp add: block_fun_def)
  have "map2 (XOR) (D (E ?x)) iv = take 16 data"
    using assms(2) [OF l] xor_lists_cancel [of "take 16 data" iv] Suc.prems by simp
  moreover have "cbc_dec_blocks D n (E ?x) (cbc_enc_blocks E n (E ?x) (drop 16 data)) = take (16 * n) (drop 16 data)"
    by (rule Suc.IH) (use c Suc.prems in simp_all)
  ultimately show ?case using c by (simp add: Let_def take_add [symmetric])
qed simp

lemma cbc_enc_cong:
  assumes "\<And>b. length b = 16 \<Longrightarrow> E b = E' b" "block_fun E"
  shows "length iv = 16 \<Longrightarrow> 16 * n \<le> length data \<Longrightarrow> cbc_enc_blocks E n iv data = cbc_enc_blocks E' n iv data"
proof (induction n arbitrary: iv data)
  case (Suc n)
  let ?x = "map2 (XOR) (take 16 data) iv"
  have x: "length ?x = 16" using Suc.prems by simp
  then have "length (E ?x) = 16" using assms(2) by (simp add: block_fun_def)
  then show ?case using Suc assms(1) [OF x] by (simp add: Let_def)
qed simp

section \<open>The loop of the code\<close>

lemma cbc_loop_dec:
  "p + 16 * n \<le> length input \<Longrightarrow> p + 16 * n \<le> length mem \<Longrightarrow> length iv = 16 \<Longrightarrow>
     \<exists>iv'. cbc_loop ctx UTILS_AES_DECRYPT n p iv input mem =
       Inr (iv', memcpy_at p (cbc_dec_blocks (utils_internal_aes_decrypt ctx) n iv (drop p input)) mem)"
proof (induction n arbitrary: p iv mem)
  case 0
  then show ?case by (simp add: memcpy_at_def)
next
  case (Suc n)
  let ?D = "utils_internal_aes_decrypt ctx" and ?b = "take 16 (drop p input)"
  define o2 where "o2 = map2 (XOR) (?D ?b) iv"
  have b: "length ?b = 16" using Suc.prems by simp
  then have o2: "length o2 = 16" using Suc.prems block_funs(2) [of ctx] by (simp add: o2_def block_fun_def)
  have l: "length (memcpy_at p o2 mem) = length mem" using Suc.prems o2 by (simp add: memcpy_at_def)
  have dd: "drop (p + 16) input = drop 16 (drop p input)" by (simp add: add.commute)
  obtain iv' where "cbc_loop ctx UTILS_AES_DECRYPT n (p + 16) ?b input (memcpy_at p o2 mem) =
      Inr (iv', memcpy_at (p + 16) (cbc_dec_blocks ?D n ?b (drop (p + 16) input)) (memcpy_at p o2 mem))"
    using Suc.IH [of "p + 16" "memcpy_at p o2 mem" ?b] Suc.prems l b by auto
  moreover have "memcpy_at (p + 16) (cbc_dec_blocks ?D n ?b (drop (p + 16) input)) (memcpy_at p o2 mem)
      = memcpy_at p (o2 @ cbc_dec_blocks ?D n ?b (drop (p + 16) input)) mem"
    using memcpy_at_append [of p o2 "cbc_dec_blocks ?D n ?b (drop (p + 16) input)" mem] o2 Suc.prems
      length_cbc_dec [OF block_funs(2), of ?b n "drop (p + 16) input" ctx] b by simp
  ultimately have "cbc_loop ctx UTILS_AES_DECRYPT (Suc n) p iv input mem =
      Inr (iv', memcpy_at p (o2 @ cbc_dec_blocks ?D n ?b (drop (p + 16) input)) mem)"
    using Suc.prems by (simp add: Let_def utils_aes_crypt_ecb_def o2_def)
  then show ?case by (simp add: o2_def dd)
qed

lemma cbc_loop_enc:
  "p + 16 * n \<le> length input \<Longrightarrow> p + 16 * n \<le> length mem \<Longrightarrow> length iv = 16 \<Longrightarrow>
     \<exists>iv'. cbc_loop ctx UTILS_AES_ENCRYPT n p iv input mem =
       Inr (iv', memcpy_at p (cbc_enc_blocks (utils_internal_aes_encrypt ctx) n iv (drop p input)) mem)"
proof (induction n arbitrary: p iv mem)
  case 0
  then show ?case by (simp add: memcpy_at_def)
next
  case (Suc n)
  let ?E = "utils_internal_aes_encrypt ctx" and ?b = "take 16 (drop p input)"
  define c where "c = ?E (map2 (XOR) ?b iv)"
  have "length (map2 (XOR) ?b iv) = 16" using Suc.prems by simp
  then have c: "length c = 16" using block_funs(1) [of ctx] unfolding c_def block_fun_def by blast
  have l: "length (memcpy_at p c mem) = length mem" using Suc.prems c by (simp add: memcpy_at_def)
  have dd: "drop (p + 16) input = drop 16 (drop p input)" by (simp add: add.commute)
  obtain iv' where "cbc_loop ctx UTILS_AES_ENCRYPT n (p + 16) c input (memcpy_at p c mem) =
      Inr (iv', memcpy_at (p + 16) (cbc_enc_blocks ?E n c (drop (p + 16) input)) (memcpy_at p c mem))"
    using Suc.IH [of "p + 16" "memcpy_at p c mem" c] Suc.prems l c by auto
  moreover have "memcpy_at (p + 16) (cbc_enc_blocks ?E n c (drop (p + 16) input)) (memcpy_at p c mem)
      = memcpy_at p (c @ cbc_enc_blocks ?E n c (drop (p + 16) input)) mem"
    using memcpy_at_append [of p c "cbc_enc_blocks ?E n c (drop (p + 16) input)" mem] c Suc.prems
      length_cbc_enc [OF block_funs(1), of c n "drop (p + 16) input" ctx] by simp
  ultimately have "cbc_loop ctx UTILS_AES_ENCRYPT (Suc n) p iv input mem =
      Inr (iv', memcpy_at p (c @ cbc_enc_blocks ?E n c (drop (p + 16) input)) mem)"
    using Suc.prems by (simp add: Let_def utils_aes_crypt_ecb_def c_def)
  then show ?case by (simp add: c_def dd Let_def)
qed

lemma cbc_loop_out_of_bounds:
  "length iv = 16 \<Longrightarrow> length input < p + 16 * n \<or> length mem < p + 16 * n \<Longrightarrow>
     p \<le> length input \<Longrightarrow> p \<le> length mem \<Longrightarrow>
     cbc_loop ctx mode n p iv input mem = Inl OutOfBounds"
proof (induction n arbitrary: p iv mem)
  case (Suc n)
  show ?case
  proof (cases "length input < p + 16 \<or> length mem < p + 16")
    case False
    let ?b = "take 16 (drop p input)"
    have b: "length ?b = 16" using False by (auto simp: min_def)
    have x: "length (map2 (XOR) ?b iv) = 16" using b Suc.prems by simp
    have lm: "length (memcpy_at p (w :: octet list) mem) = length mem" if "length w = 16" for w
      using that False by (simp add: memcpy_at_def)
    have k: "length (utils_internal_aes_decrypt ctx ?b) = 16" "length (utils_internal_aes_encrypt ctx (map2 (XOR) ?b iv)) = 16"
      using block_funs [of ctx] b x unfolding block_fun_def by blast+
    have rest: "length input < (p + 16) + 16 * n \<or> length mem < (p + 16) + 16 * n" using Suc.prems(2) by auto
    have step: "cbc_loop ctx mode n (p + 16) w input (memcpy_at p w' mem) = Inl OutOfBounds"
      if "length w = 16" "length w' = 16" for w w'
      by (rule Suc.IH) (use rest lm [OF that(2)] that False in auto)
    have d: "length (map2 (XOR) (utils_internal_aes_decrypt ctx ?b) iv) = 16" using k(1) Suc.prems by simp
    show ?thesis
      using False step [OF b d] step [OF k(2) k(2)] by (cases mode) (simp_all add: Let_def utils_aes_crypt_ecb_def)
  qed simp
qed simp

section \<open>Keys\<close>

lemma setkey_enc_total: "bits \<in> {128, 192, 256} \<Longrightarrow> \<exists>e. utils_aes_setkey_enc key bits = Some e"
  by (auto simp: utils_aes_setkey_enc_def Let_def)

lemma setkey_dec_total: "bits \<in> {128, 192, 256} \<Longrightarrow> \<exists>d. utils_aes_setkey_dec key bits = Some d"
  using setkey_enc_total [of bits key] by (auto simp: utils_aes_setkey_dec_def Let_def)

lemma setkey_enc_take:
  assumes "bits \<in> {128, 192, 256}" "bits div 8 \<le> length key"
  shows "utils_aes_setkey_enc (take (bits div 8) key) bits = utils_aes_setkey_enc key bits"
proof -
  have "get_uint32_le (take (bits div 8) key) (4 * i) = get_uint32_le key (4 * i)" if "i < bits div 32" for i
    using that assms by (auto simp: get_uint32_le_def)
  then have "fold (\<lambda>i b. b[i := get_uint32_le (take (bits div 8) key) (4 * i)]) [0..<bits div 32] z =
      fold (\<lambda>i b. b[i := get_uint32_le key (4 * i)]) [0..<bits div 32] z" for z
    by (intro fold_cong) auto
  then show ?thesis by (simp only: utils_aes_setkey_enc_def)
qed

lemma setkey_dec_take:
  assumes "bits \<in> {128, 192, 256}" "bits div 8 \<le> length key"
  shows "utils_aes_setkey_dec (take (bits div 8) key) bits = utils_aes_setkey_dec key bits"
  by (simp only: utils_aes_setkey_dec_def setkey_enc_take [OF assms])

lemma fips_block_fun:
  assumes "bits \<in> {128, 192, 256}" "length key = bits div 8"
  shows "block_fun (fips_aes key bits)"
proof -
  obtain e where e: "utils_aes_setkey_enc key bits = Some e" using setkey_enc_total [OF assms(1)] by blast
  show ?thesis using block_funs(1) [of e] encrypt_fips [OF e assms(2)] by (simp add: block_fun_def)
qed

text \<open>CBC decryption of what FIPS 197 encrypts, with a key that may have more bytes behind it.\<close>

lemma cbc_decrypt_fips:
  assumes bits: "bits \<in> {128, 192, 256}" and key: "bits div 8 \<le> length key" and iv: "length iv = 16"
    and n: "length data = 16 * n" "16 * n \<le> length pOut"
    and pin: "take (16 * n) pIn = cbc_enc_blocks (fips_aes (take (bits div 8) key) bits) n iv data" "16 * n \<le> length pIn"
  shows "utils_aes_cbc pIn (16 * n) pOut m UTILS_AES_DECRYPT key bits iv = Inr (memcpy_at 0 data pOut, 0)"
proof -
  let ?k = "take (bits div 8) key" and ?F = "fips_aes (take (bits div 8) key) bits"
  obtain e where e: "utils_aes_setkey_enc ?k bits = Some e" using setkey_enc_total [OF bits] by blast
  obtain d where d: "utils_aes_setkey_dec ?k bits = Some d" using setkey_dec_total [OF bits] by blast
  have lk: "length ?k = bits div 8" using key by simp
  let ?D = "utils_internal_aes_decrypt d" and ?E = "utils_internal_aes_encrypt e"
  have DF: "?D (?F b) = b" if "length b = 16" for b
    using decrypt_encrypt [OF e d that] encrypt_fips [OF e lk that] by simp
  obtain iv' where loop: "cbc_loop d UTILS_AES_DECRYPT n 0 iv pIn pOut = Inr (iv', memcpy_at 0 (cbc_dec_blocks ?D n iv pIn) pOut)"
    using cbc_loop_dec [of 0 n pIn pOut iv d] n pin iv by auto
  have "cbc_dec_blocks ?D n iv pIn = cbc_dec_blocks ?D n iv (take (16 * n) pIn)"
  proof -
    have "cbc_dec_blocks D m iv (take (16 * m) x) = cbc_dec_blocks D m iv x" for D m iv x
      by (induction m arbitrary: iv x) (simp_all add: drop_take min_def)
    then show ?thesis by simp
  qed
  also have "\<dots> = take (16 * n) data"
    unfolding pin(1) by (rule cbc_roundtrip [OF fips_block_fun [OF bits lk] DF iv]) (simp_all add: n)
  finally have "cbc_dec_blocks ?D n iv pIn = data" using n by simp
  moreover have "utils_aes_setkey_dec key bits = Some d" using setkey_dec_take [OF bits key] d by simp
  ultimately show ?thesis using bits key loop by (simp add: utils_aes_cbc_def utils_aes_crypt_cbc_def not_less)
qed

section \<open>Properties\<close>

text \<open>C11.
  The encryption of a block with the tables computed at run time is the cipher of FIPS 197, for
  each of the three key lengths, and the decryption with the schedule for decryption gives the
  block back.
\<close>

theorem aes_is_fips197:
  assumes "bits \<in> {128, 192, 256}" "length key = bits div 8" "length b = 16"
  shows "\<exists>e d. utils_aes_setkey_enc key bits = Some e \<and> utils_aes_setkey_dec key bits = Some d \<and>
    utils_aes_crypt_ecb e UTILS_AES_ENCRYPT b = fips_aes key bits b \<and>
    utils_aes_crypt_ecb d UTILS_AES_DECRYPT (fips_aes key bits b) = b"
proof -
  obtain e where e: "utils_aes_setkey_enc key bits = Some e" using setkey_enc_total [OF assms(1)] by blast
  obtain d where d: "utils_aes_setkey_dec key bits = Some d" using setkey_dec_total [OF assms(1)] by blast
  show ?thesis
    using e d encrypt_fips [OF e assms(2,3)] decrypt_encrypt [OF e d assms(3)]
    by (simp add: utils_aes_crypt_ecb_def)
qed

lemma aes_is_fips197_witness:
  "\<exists>e d. utils_aes_setkey_enc (replicate 24 0x2b) 192 = Some e \<and>
    utils_aes_setkey_dec (replicate 24 0x2b) 192 = Some d \<and>
    utils_aes_crypt_ecb e UTILS_AES_ENCRYPT (replicate 16 0x11) = fips_aes (replicate 24 0x2b) 192 (replicate 16 0x11) \<and>
    utils_aes_crypt_ecb d UTILS_AES_DECRYPT (fips_aes (replicate 24 0x2b) 192 (replicate 16 0x11)) = replicate 16 0x11"
  by (rule aes_is_fips197) (simp_all only: length_replicate, simp_all)

text \<open>C33.
  Decrypting in CBC mode what FIPS 197 encrypts in CBC mode writes the plain text into the output
  and leaves the bytes behind it.
\<close>

theorem aes_cbc_decrypts:
  assumes "bits \<in> {128, 192, 256}" "length key = bits div 8" "length iv = 16"
    and "length data = 16 * n" "16 * n \<le> length pOut"
  shows "utils_aes_cbc (cbc_enc_blocks (fips_aes key bits) n iv data) (16 * n) pOut outBuffLen UTILS_AES_DECRYPT key bits iv =
    Inr (data @ drop (16 * n) pOut, 0)"
proof -
  have l: "length (cbc_enc_blocks (fips_aes key bits) n iv data) = 16 * n"
    by (rule length_cbc_enc [OF fips_block_fun]) (use assms in simp_all)
  have "utils_aes_cbc (cbc_enc_blocks (fips_aes key bits) n iv data) (16 * n) pOut outBuffLen UTILS_AES_DECRYPT key bits iv =
    Inr (memcpy_at 0 data pOut, 0)"
    by (rule cbc_decrypt_fips) (use assms l in simp_all)
  then show ?thesis using assms(4) by (simp add: memcpy_at_def)
qed

lemma aes_cbc_decrypts_witness:
  "utils_aes_cbc (cbc_enc_blocks (fips_aes (replicate 16 7) 128) 2 (replicate 16 9) (replicate 32 0x61)) (16 * 2)
     (replicate 40 1) 512 UTILS_AES_DECRYPT (replicate 16 7) 128 (replicate 16 9) =
   Inr (replicate 32 0x61 @ drop (16 * 2) (replicate 40 1), 0)"
  by (rule aes_cbc_decrypts) (simp_all only: length_replicate, simp_all)

text \<open>Encryption with a separate output buffer reads past the end of its input, whatever the data: the
  copy with the padding goes to the output, the cipher goes on reading the input.
\<close>

theorem aes_cbc_encrypt_reads_beyond:
  assumes "bits \<in> {128, 192, 256}" "bits div 8 \<le> length key" "length iv = 16"
    and "length pIn = datalen" "datalen + 16 \<le> outBuffLen" "length pOut = outBuffLen"
  shows "utils_aes_cbc pIn datalen pOut outBuffLen UTILS_AES_ENCRYPT key bits iv = Inl OutOfBounds"
proof -
  obtain e where e: "utils_aes_setkey_enc key bits = Some e" using setkey_enc_total [OF assms(1)] by blast
  define pad where "pad = 16 - datalen mod 16"
  have pad: "0 < pad" "(datalen + pad) mod 16 = 0" "pad \<le> 16"
    unfolding pad_def by (simp, presburger, simp)
  have "16 * ((datalen + pad) div 16) = datalen + pad" using pad(2) by presburger
  then have "cbc_loop e UTILS_AES_ENCRYPT ((datalen + pad) div 16) 0 iv pIn out = Inl OutOfBounds" for out
    by (intro cbc_loop_out_of_bounds) (use assms pad in auto)
  then show ?thesis
    using assms e pad by (auto simp: utils_aes_cbc_def Let_def utils_aes_crypt_cbc_def pad_def [symmetric])
qed

lemma aes_cbc_encrypt_reads_beyond_witness:
  "utils_aes_cbc (replicate 5 1) 5 (replicate 32 0) 32 UTILS_AES_ENCRYPT (replicate 16 7) 128 (replicate 16 9) = Inl OutOfBounds"
  by (rule aes_cbc_encrypt_reads_beyond) (simp_all only: length_replicate, simp_all)

end
