(* ===== verification/SecretTheorems.thy ===== *)
theory SecretTheorems
  imports AesTheorems
begin

text \<open>
  \<^verbatim>\<open>aes_decode\<close> on what the cloud sends: the secret comes back, and a payload that is too long
  is written behind the array that receives the plain text.
\<close>

lemma of_char_octet: "unat (of_char c :: octet) = of_char c"
proof -
  have "(of_char c :: octet) = of_nat (of_char c)" by (simp add: of_nat_of_char)
  moreover have "(of_char c :: nat) < 256" by simp
  ultimately show ?thesis by (simp add: unat_of_nat)
qed

lemma string_of_bytes_of [simp]: "string_of (bytes_of s) = s"
  by (induction s) (simp_all add: string_of_def bytes_of_def of_char_octet)

lemma bytes_of_string_of [simp]: "bytes_of (string_of bs) = bs"
proof -
  have "(of_char (char_of (unat b) :: char) :: octet) = b" for b
  proof -
    have "(of_char (char_of (unat b) :: char) :: octet) = of_nat (of_char (char_of (unat b) :: char))"
      by (rule of_nat_of_char [symmetric])
    also have "(of_char (char_of (unat b) :: char) :: nat) = unat b" using unat_octet [of b] by simp
    finally show ?thesis by simp
  qed
  then show ?thesis by (simp add: string_of_def bytes_of_def o_def)
qed

lemma length_bytes_of [simp]: "length (bytes_of s) = length s"
  by (simp add: bytes_of_def)

lemma length_string_of [simp]: "length (string_of bs) = length bs"
  by (simp add: string_of_def)

section \<open>Trimming\<close>

lemma right_trim_append:
  assumes "\<forall>x\<in>set ys. P x" "xs \<noteq> [] \<Longrightarrow> \<not> P (last xs)"
  shows "right_trim P (xs @ ys) = xs"
proof -
  have "dropWhile P (rev ys @ rev xs) = dropWhile P (rev xs)" using assms(1) by (intro dropWhile_append2) auto
  also have "\<dots> = rev xs"
    using assms(2) by (cases xs rule: rev_cases) auto
  finally show ?thesis by (simp add: right_trim_def)
qed

text \<open>The C string in a zero-filled array that starts with a text and its padding.\<close>

lemma take_text:
  assumes "0 \<notin> set s"
  shows "\<exists>p'. takeWhile (\<lambda>b. b \<noteq> 0) (s @ p @ replicate (Suc k) 0) = s @ p' \<and> set p' \<subseteq> set p"
proof -
  have "takeWhile (\<lambda>b. b \<noteq> 0) (s @ p @ replicate (Suc k) 0) = s @ takeWhile (\<lambda>b. b \<noteq> 0) (p @ replicate (Suc k) 0)"
    using assms by (intro takeWhile_append2) auto
  moreover have "set (takeWhile (\<lambda>b. b \<noteq> 0) (p @ replicate (Suc k) 0)) \<subseteq> set p"
    using set_takeWhileD by fastforce
  ultimately show ?thesis by blast
qed

section \<open>Properties\<close>

lemma aes_decode_unfold:
  assumes enc: "bytes_of enc = b64 cipher" and len: "length cipher < 2 ^ 32"
    and key: "16 \<le> length dev"
  shows "\<exists>pin. length pin = length cipher + 1 \<and> take (length cipher) pin = cipher \<and>
    aes_decode dev enc part =
      c_bind (utils_aes_cbc pin (length cipher) (replicate 512 0) 512 UTILS_AES_DECRYPT
         (if part then take 16 (bytes_of dev) else bytes_of dev @ [0]) (if part then 128 else 192) (take 16 (bytes_of dev)))
       (\<lambda>(decoded, ret).
          if ret \<noteq> 0 then Inr None
          else if 0 \<notin> set decoded then Inl OutOfBounds
          else Inr (Some (string_of (right_trim url_trim (takeWhile (\<lambda>b. b \<noteq> 0) decoded)))))"
proof -
  have l60: "length cipher < 2 ^ 60" using len by simp
  let ?empty = "\<lparr>bb_buffer = replicate (length cipher + 1) 0, bb_len = 0\<rparr>"
  obtain out where out: "aws_base64_decode (b64 cipher) ?empty = Some out" "bb_len out = length cipher"
      "take (length cipher) (bb_buffer out) = cipher" "length (bb_buffer out) = length cipher + 1"
    using decode_b64 [OF l60, of ?empty] by auto
  have t: "take 16 (bytes_of dev @ [0]) = take 16 (bytes_of dev)" using key by simp
  have "\<not> length (bytes_of dev @ [0]) < 16" "length cipher mod 2 ^ 32 = length cipher" using key len by simp_all
  then show ?thesis
    using out t by (intro exI [of _ "bb_buffer out"] conjI)
      (simp_all only: aes_decode_def enc decoded_len [OF l60] option.case Let_def DECODE_BUFF_LEN_def if_False)
qed

lemma decode_recovers:
  assumes key: "(if part then 16 else 24) \<le> length dev"
    and sec: "0 \<notin> set (bytes_of secret)" "secret \<noteq> [] \<Longrightarrow> \<not> url_trim (of_char (last secret))"
    and pad: "\<forall>x\<in>set pad. url_trim x" "length secret + length pad = 16 * n" "16 * n < 512"
    and enc: "enc = string_of (b64 (cbc_enc_blocks (fips_aes (take (if part then 16 else 24) (bytes_of dev)) (if part then 128 else 192))
      n (take 16 (bytes_of dev)) (bytes_of secret @ pad)))"
  shows "aes_decode dev enc part = Inr (Some secret)"
proof -
  let ?bits = "if part then 128 else 192 :: nat" and ?n = "if part then 16 else 24 :: nat"
  define key where "key = (if part then take 16 (bytes_of dev) else bytes_of dev @ [0])"
  let ?F = "fips_aes (take ?n (bytes_of dev)) ?bits" and ?iv = "take 16 (bytes_of dev)"
  let ?data = "bytes_of secret @ pad"
  define cipher where "cipher = cbc_enc_blocks ?F n ?iv ?data"
  have bits: "?bits \<in> {128, 192, 256}" "?bits div 8 = ?n" by auto
  have kl: "?bits div 8 \<le> length key" "take (?bits div 8) key = take ?n (bytes_of dev)" "length ?iv = 16"
    using key by (auto simp: key_def split: if_splits)
  have F: "block_fun ?F" using fips_block_fun [OF bits(1)] kl key by simp
  have dl: "length ?data = 16 * n" using pad(2) by simp
  have cl: "length cipher = 16 * n" unfolding cipher_def by (rule length_cbc_enc [OF F kl(3)]) (simp only: dl order_refl)
  obtain pin where pin: "length pin = length cipher + 1" "take (length cipher) pin = cipher"
    and dec: "aes_decode dev enc part =
      c_bind (utils_aes_cbc pin (length cipher) (replicate 512 0) 512 UTILS_AES_DECRYPT key ?bits ?iv)
       (\<lambda>(decoded, ret).
          if ret \<noteq> 0 then Inr None
          else if 0 \<notin> set decoded then Inl OutOfBounds
          else Inr (Some (string_of (right_trim url_trim (takeWhile (\<lambda>b. b \<noteq> 0) decoded)))))"
    using aes_decode_unfold [of enc cipher dev part] enc cl pad(3) key unfolding cipher_def key_def
    by (cases part) auto
  have cbc: "utils_aes_cbc pin (length cipher) (replicate 512 0) 512 UTILS_AES_DECRYPT key ?bits ?iv =
      Inr (memcpy_at 0 ?data (replicate 512 0), 0)"
    unfolding cl by (rule cbc_decrypt_fips [OF bits(1) kl(1,3) dl]) (use pin cl pad(3) kl(2) cipher_def in simp_all)
  obtain k where k: "512 - 16 * n = Suc k" using pad(3) by (cases "512 - 16 * n") auto
  have mem: "memcpy_at 0 ?data (replicate 512 0) = bytes_of secret @ pad @ replicate (Suc k) 0"
    using dl k by (simp add: memcpy_at_def drop_replicate)
  obtain p' where p': "takeWhile (\<lambda>b. b \<noteq> 0) (bytes_of secret @ pad @ replicate (Suc k) 0) = bytes_of secret @ p'" "set p' \<subseteq> set pad"
    using take_text [OF sec(1)] by blast
  have "right_trim url_trim (bytes_of secret @ p') = bytes_of secret"
    by (rule right_trim_append) (use pad(1) p'(2) sec(2) in \<open>auto simp: bytes_of_def last_map\<close>)
  then show ?thesis unfolding dec cbc mem by (simp add: p'(1) del: replicate.simps)
qed

lemma decode_partial_block:
  assumes "(if part then 16 else 24) \<le> length dev" "length cipher mod 16 \<noteq> 0" "length cipher < 2 ^ 32"
  shows "aes_decode dev (string_of (b64 cipher)) part = Inr None"
proof -
  let ?bits = "if part then 128 else 192 :: nat"
  define key where "key = (if part then take 16 (bytes_of dev) else bytes_of dev @ [0])"
  have bits: "?bits \<in> {128, 192, 256}" by auto
  have kl: "\<not> length key < ?bits div 8" using assms(1) by (auto simp: key_def split: if_splits)
  obtain d where d: "utils_aes_setkey_dec key ?bits = Some d" using setkey_dec_total [OF bits] by blast
  have dev: "16 \<le> length dev" using assms(1) by (auto split: if_splits)
  obtain pin where dec: "aes_decode dev (string_of (b64 cipher)) part =
      c_bind (utils_aes_cbc pin (length cipher) (replicate 512 0) 512 UTILS_AES_DECRYPT key ?bits (take 16 (bytes_of dev)))
       (\<lambda>(decoded, ret).
          if ret \<noteq> 0 then Inr None
          else if 0 \<notin> set decoded then Inl OutOfBounds
          else Inr (Some (string_of (right_trim url_trim (takeWhile (\<lambda>b. b \<noteq> 0) decoded)))))"
    using aes_decode_unfold [of "string_of (b64 cipher)" cipher dev part] assms(3) dev
    unfolding key_def by (cases part) auto
  have "utils_aes_cbc pin (length cipher) (replicate 512 0) 512 UTILS_AES_DECRYPT key ?bits (take 16 (bytes_of dev)) =
      Inr (replicate 512 0, -1)"
    unfolding utils_aes_cbc_def using kl d assms(2)
    by (simp add: utils_aes_crypt_cbc_def UTILS_ERR_AES_INVALID_INPUT_LENGTH_def)
  then show ?thesis unfolding dec by simp
qed

text \<open>C7.
  A secret encrypted with AES in CBC mode under the key of the device, padded with blanks, control
  characters or zeros, and sent in Base64 is returned unchanged, as long as it ends in a character
  that is not trimmed and the padded text is shorter than the receiving array.
\<close>

theorem aes_decode_recovers:
  assumes key: "(if part then 16 else 24) \<le> length dev"
    and sec: "0 \<notin> set (bytes_of secret)" "secret \<noteq> [] \<Longrightarrow> \<not> url_trim (of_char (last secret))"
    and pad: "\<forall>x\<in>set pad. url_trim x" "length secret + length pad = 16 * n" "16 * n < 512"
    and enc: "enc = string_of (b64 (cbc_enc_blocks (fips_aes (take (if part then 16 else 24) (bytes_of dev)) (if part then 128 else 192))
      n (take 16 (bytes_of dev)) (bytes_of secret @ pad)))"
  shows "aes_decode dev enc part = Inr (Some secret)"
  by (rule decode_recovers [OF assms])

lemma aes_decode_recovers_witness:
  "aes_decode ''product-secret-1'' (string_of (b64 (cbc_enc_blocks (fips_aes (take 16 (bytes_of ''product-secret-1'')) 128)
      1 (take 16 (bytes_of ''product-secret-1'')) (bytes_of ''device-key'' @ replicate 6 6)))) True =
   Inr (Some ''device-key'')"
  by (rule aes_decode_recovers [where part = True and n = 1 and pad = "replicate 6 6", simplified if_True])
    (simp_all add: bytes_of_def url_trim_def)

text \<open>A payload that decodes to more than 512 bytes, in whole blocks, makes the decryption write behind
  the array on the stack that receives it: the size of the array is passed and not used.
\<close>

theorem aes_decode_overflows:
  assumes "(if part then 16 else 24) \<le> length dev"
    and "512 < length cipher" "length cipher mod 16 = 0" "length cipher < 2 ^ 32"
  shows "aes_decode dev (string_of (b64 cipher)) part = Inl OutOfBounds"
proof -
  let ?bits = "if part then 128 else 192 :: nat"
  define key where "key = (if part then take 16 (bytes_of dev) else bytes_of dev @ [0])"
  have bits: "?bits \<in> {128, 192, 256}" by auto
  have kl: "\<not> length key < ?bits div 8" using assms(1) by (auto simp: key_def split: if_splits)
  obtain d where d: "utils_aes_setkey_dec key ?bits = Some d" using setkey_dec_total [OF bits] by blast
  have dev: "16 \<le> length dev" using assms(1) by (auto split: if_splits)
  obtain pin where pin: "length pin = length cipher + 1"
    and dec: "aes_decode dev (string_of (b64 cipher)) part =
      c_bind (utils_aes_cbc pin (length cipher) (replicate 512 0) 512 UTILS_AES_DECRYPT key ?bits (take 16 (bytes_of dev)))
       (\<lambda>(decoded, ret).
          if ret \<noteq> 0 then Inr None
          else if 0 \<notin> set decoded then Inl OutOfBounds
          else Inr (Some (string_of (right_trim url_trim (takeWhile (\<lambda>b. b \<noteq> 0) decoded)))))"
    using aes_decode_unfold [of "string_of (b64 cipher)" cipher dev part] assms(4) dev
    unfolding key_def by (cases part) auto
  have n: "16 * (length cipher div 16) = length cipher" using assms(3) by auto
  have "cbc_loop d UTILS_AES_DECRYPT (length cipher div 16) 0 (take 16 (bytes_of dev)) pin (replicate 512 0) = Inl OutOfBounds"
    by (rule cbc_loop_out_of_bounds) (use dev n assms(2) in simp_all)
  then have "utils_aes_cbc pin (length cipher) (replicate 512 0) 512 UTILS_AES_DECRYPT key ?bits (take 16 (bytes_of dev)) = Inl OutOfBounds"
    unfolding utils_aes_cbc_def using kl d assms(3) by (simp add: utils_aes_crypt_cbc_def)
  then show ?thesis by (simp add: dec)
qed

lemma aes_decode_overflows_witness:
  "aes_decode (replicate 16 CHR ''k'') (string_of (b64 (replicate 528 1))) True = Inl OutOfBounds"
  by (rule aes_decode_overflows) (simp_all only: length_replicate if_True, simp_all)

end
