(* ===== verification/DeviceAuthProps.thy ===== *)
theory DeviceAuthProps
  imports DeviceAuth SecretTheorems Sha256Props HttpProps
begin

text \<open>
  What a server can rely on and what a device gets: the signature is the keyed hash of a text that
  determines its fields, the headers and the MQTT password carry everything the signature covers,
  and a registration stores the secret the cloud encrypted. Three answers the code accepts although
  they bring no secret or no key are stated at the end.
\<close>

section \<open>The signature\<close>

lemma length_hmac_spec: "length (hmac_spec key m) = 32"
  by (simp add: hmac_spec_def)

definition signature_of :: "string \<Rightarrow> string \<Rightarrow> string" where
  "signature_of secret text = string_of (b64 (hmac_spec (bytes_of secret) (bytes_of text)))"

lemma encode_mac:
  assumes "length mac = 32"
  shows "(let terminated = (case aws_base64_compute_encoded_len (word_of_nat (length mac)) of None \<Rightarrow> 0 | Some n \<Rightarrow> unat n);
        buf = \<lparr>bb_buffer = replicate (terminated + 2) 0, bb_len = 0\<rparr>;
        out = (case aws_base64_encode mac buf of None \<Rightarrow> buf | Some b \<Rightarrow> b)
      in string_of (take (bb_len out) (bb_buffer out))) = string_of (b64 mac)"
proof -
  have n: "length mac < 2 ^ 62" using assms by simp
  have t: "(case aws_base64_compute_encoded_len (word_of_nat (length mac)) of None \<Rightarrow> 0 | Some n \<Rightarrow> unat n) = 45"
    using encoded_len [OF n] assms by auto
  have l: "length (b64 mac) = 44" by (simp add: length_b64 assms)
  have e: "aws_base64_encode mac \<lparr>bb_buffer = replicate 47 0, bb_len = 0\<rparr> =
      Some \<lparr>bb_buffer = memcpy_at 0 (b64 mac @ [0]) (replicate 47 0), bb_len = 44\<rparr>"
    using encode_spec [OF n, of "\<lparr>bb_buffer = replicate 47 0, bb_len = 0\<rparr>"] l by simp
  show ?thesis
    unfolding t Let_def by (simp add: e, simp add: memcpy_at_def l)
qed

lemma iot_hmac_spec:
  assumes "rp_device_name p = Some dn" "rp_product_key p = Some pk" "length junk = 64"
    and "s = sign_text (auth_code (rp_auth_type p)) dn (sint (rp_random_num p)) pk (unat (rp_timestamp p))"
    and "length s < 256" "length secret < 2 ^ 32"
  shows "iot_hmac_sha256_encrypt junk p (Some secret) = Inr (signature_of secret s)"
proof -
  let ?mac = "hmac_spec (bytes_of secret) (bytes_of s)"
  have "onesdk_hmac_sha256 junk (bytes_of secret) (bytes_of s) 32 = Some (take 32 ?mac)"
    by (rule hmac_correct) (use assms in simp_all)
  then have h: "onesdk_hmac_sha256 junk (bytes_of secret) (bytes_of s) 32 = Some ?mac"
    by (simp add: length_hmac_spec)
  have l: "\<not> length s + 1 > 256" using assms(5) by simp
  show ?thesis
    unfolding iot_hmac_sha256_encrypt_def assms(1,2) prod.case option.case Let_def assms(4) [symmetric] h
    using l encode_mac [OF length_hmac_spec, unfolded Let_def] by (simp add: signature_of_def)
qed

lemma amp_free:
  "CHR ''&'' \<notin> set (dec_nat n)" "CHR ''&'' \<notin> set (dec_int i)"
  using not_in_dec_nat [of "CHR ''&''" n] dec_int_chars [of "CHR ''&''" i] by auto

lemma sign_text_fields:
  "sign_text a dn r pk t =
     ''auth_type='' @ dec_int a @ CHR ''&'' # ''device_name='' @ dn @ CHR ''&'' # ''random_num='' @ dec_int r @
     CHR ''&'' # ''product_key='' @ pk @ CHR ''&'' # ''timestamp='' @ dec_nat t"
  by (simp add: sign_text_def)

text \<open>The text that is signed determines every field of it, provided the names contain no
  ampersand: no two requests with different fields share a signature because their texts agree.
\<close>

theorem sign_text_injective:
  assumes "CHR ''&'' \<notin> set dn" "CHR ''&'' \<notin> set dn'" "CHR ''&'' \<notin> set pk" "CHR ''&'' \<notin> set pk'"
  shows "sign_text a dn r pk t = sign_text a' dn' r' pk' t' \<longleftrightarrow> a = a' \<and> dn = dn' \<and> r = r' \<and> pk = pk' \<and> t = t'"
proof
  let ?x4 = "\<lambda>t. ''timestamp='' @ dec_nat t"
  let ?x3 = "\<lambda>pk t. (''product_key='' @ pk) @ CHR ''&'' # ?x4 t"
  let ?x2 = "\<lambda>r pk t. (''random_num='' @ dec_int r) @ CHR ''&'' # ?x3 pk t"
  let ?x1 = "\<lambda>dn r pk t. (''device_name='' @ dn) @ CHR ''&'' # ?x2 r pk t"
  assume e: "sign_text a dn r pk t = sign_text a' dn' r' pk' t'"
  have "(''auth_type='' @ dec_int a) @ CHR ''&'' # ?x1 dn r pk t = (''auth_type='' @ dec_int a') @ CHR ''&'' # ?x1 dn' r' pk' t'"
    using e by (simp add: sign_text_fields)
  from field_split [OF this] have 1: "a = a'" "?x1 dn r pk t = ?x1 dn' r' pk' t'" by (simp_all add: amp_free)
  from field_split [OF 1(2)] have 2: "dn = dn'" "?x2 r pk t = ?x2 r' pk' t'" using assms by simp_all
  from field_split [OF 2(2)] have 3: "r = r'" "?x3 pk t = ?x3 pk' t'" by (simp_all add: amp_free)
  from field_split [OF 3(2)] have 4: "pk = pk'" "?x4 t = ?x4 t'" using assms by simp_all
  show "a = a' \<and> dn = dn' \<and> r = r' \<and> pk = pk' \<and> t = t'" using 1 2 3 4 by simp
qed simp

lemma sign_text_injective_witness:
  "sign_text 0 ''dev'' 7 ''pk'' 100 \<noteq> sign_text 0 ''dev'' 71 ''pk'' 100"
  using sign_text_injective [of "''dev''" "''dev''" "''pk''" "''pk''" 0 7 100 0 71 100] by simp

section \<open>What is sent carries what is signed\<close>

text \<open>The text rebuilt from the printed fields, and the one that is signed.\<close>

definition field_text :: "string \<Rightarrow> string \<Rightarrow> string \<Rightarrow> string \<Rightarrow> string \<Rightarrow> string" where
  "field_text auth dn rnd pk ts =
     ''auth_type='' @ auth @ ''&device_name='' @ dn @ ''&random_num='' @ rnd @ ''&product_key='' @ pk @ ''&timestamp='' @ ts"

lemma sign_field_text: "sign_text a dn r pk t = field_text (dec_int a) dn (dec_int r) pk (dec_nat t)"
  by (simp add: sign_text_def field_text_def)

lemma auth_type_printed: "auth \<noteq> AUTH_UNKNOWN \<Longrightarrow> iot_auth_type_c_str auth = dec_int (auth_code auth)"
  by (cases auth; simp; code_simp)

lemma print_number_int: "print_number (dec_int (sint (r :: 32 word))) = Inr (dec_int (sint r))"
proof -
  have "nat \<bar>sint r\<bar> < 10 ^ 10" using sint_ge [of r] sint_lt [of r] by simp
  then have "length (dec_nat (nat (sint r))) \<le> 10" "length (dec_nat (nat (- sint r))) \<le> 10"
    by (intro length_dec_nat; simp)+
  then have "length (dec_int (sint r)) + 1 \<le> 20" by (auto simp: dec_int_def)
  then show ?thesis by (simp add: print_number_def MAX_TIMESTAMP_LEN_def)
qed

lemma print_number_nat:
  "print_number (dec_nat n) = (if n < 10 ^ 19 then Inr (dec_nat n) else Inl OutOfBounds)"
  using length_dec_nat [of n 19] length_dec_nat_ge [of 19 n]
  by (auto simp: print_number_def MAX_TIMESTAMP_LEN_def)

definition header_lines :: "(string \<times> string) list \<Rightarrow> string" where
  "header_lines hs = concat (map (\<lambda>(k, v). k @ '': '' @ v @ [CR, LF]) hs)"

lemma add_header_lines:
  "http_ctx_add_header True ctx k v =
     ctx\<lparr>hc_headers := Some ((case hc_headers ctx of None \<Rightarrow> [] | Some h \<Rightarrow> h) @ header_lines [(k, v)])\<rparr>"
  by (simp add: http_ctx_add_header_def header_lines_def Let_def)

lemma iot_hmac_key:
  assumes "rp_device_name p = Some dn" "rp_product_key p = Some pk" "length junk = 64"
    and "s = sign_text (auth_code (rp_auth_type p)) dn (sint (rp_random_num p)) pk (unat (rp_timestamp p))"
    and "length s < 256" "\<And>k. secret = Some k \<Longrightarrow> length k < 2 ^ 32"
  shows "iot_hmac_sha256_encrypt junk p secret = Inr (signature_of (case secret of None \<Rightarrow> [] | Some k \<Rightarrow> k) s)"
proof (cases secret)
  case None
  have "iot_hmac_sha256_encrypt junk p None = iot_hmac_sha256_encrypt junk p (Some [])"
    by (simp only: iot_hmac_sha256_encrypt_def bytes_of_def list.map option.case)
  then show ?thesis using None iot_hmac_spec [OF assms(1-5), of "[]"] by simp
next
  case (Some k)
  then show ?thesis using iot_hmac_spec [OF assms(1-5), of k] assms(6) by simp
qed

text \<open>The headers a client gets once its configuration \<open>cfg\<close> is settled.\<close>

definition auth_headers :: "string \<Rightarrow> auth_type \<Rightarrow> string \<Rightarrow> string \<Rightarrow> 32 word \<Rightarrow> 64 word \<Rightarrow> string \<Rightarrow> (string \<times> string) list" where
  "auth_headers secret auth dn pk rnd ts hw =
     [(''X-Signature'', signature_of secret (sign_text (auth_code auth) dn (sint rnd) pk (unat ts))),
      (''X-Auth-Type'', iot_auth_type_c_str auth), (''X-Device-Name'', dn), (''X-Product-Key'', pk),
      (''X-Random-Num'', dec_int (sint rnd)), (''X-Timestamp'', dec_nat (unat ts)), (''X-Hardware-Id'', hw)]"

lemma device_auth_settled:
  assumes reg: "(if bc_device_secret cfg0 = None then dynamic_register env (Some (Some cfg0))
      else Inr (Some (Some cfg0), 0)) = Inr (Some (Some cfg), 0)"
    and f: "bc_device_name cfg = Some dn" "bc_product_key cfg = Some pk" "length (ce_junk env) = 64"
    and "length (sign_text (auth_code (bc_auth_type cfg)) dn (sint rnd) pk (unat ts)) < 256"
    and "\<And>k. bc_device_secret cfg = Some k \<Longrightarrow> length k < 2 ^ 32" and "unat ts < 10 ^ 19"
  shows "device_auth_client rnd ts env (\<lambda>_. True) (Some hw) (Some ctx) cfg0 =
    Inr (Some (ctx\<lparr>hc_headers := Some ((case hc_headers ctx of None \<Rightarrow> [] | Some h \<Rightarrow> h) @
        header_lines (auth_headers (case bc_device_secret cfg of None \<Rightarrow> [] | Some k \<Rightarrow> k) (bc_auth_type cfg) dn pk rnd ts hw))\<rparr>), cfg)"
proof -
  let ?p = "\<lparr>rp_product_key = bc_product_key cfg, rp_device_name = bc_device_name cfg,
      rp_random_num = rnd, rp_timestamp = ts, rp_auth_type = bc_auth_type cfg\<rparr>"
  have h: "iot_hmac_sha256_encrypt (ce_junk env) ?p (bc_device_secret cfg) =
      Inr (signature_of (case bc_device_secret cfg of None \<Rightarrow> [] | Some k \<Rightarrow> k)
        (sign_text (auth_code (bc_auth_type cfg)) dn (sint rnd) pk (unat ts)))"
    by (rule iot_hmac_key) (use assms in simp_all)
  have n: "print_number (dec_nat (unat ts)) = Inr (dec_nat (unat ts))" using assms(7) by (simp add: print_number_nat)
  show ?thesis
    unfolding device_auth_client_def option.case c_bind_simps reg prod.case
    by (simp only: Let_def h [unfolded f] c_bind_simps f prod.case option.case print_number_int n add_header_lines simp_thms if_False)
      (simp add: header_lines_def auth_headers_def)
qed


definition sample_cfg :: basic_config where
  "sample_cfg = \<lparr>bc_http_host = Some ''iot.example.com'', bc_instance_id = Some ''i1'', bc_auth_type = AUTH_PRE_REGISTERED,
     bc_product_key = Some ''pk'', bc_product_secret = Some ''product-secret-1'', bc_device_name = Some ''dev'',
     bc_device_secret = Some ''secret'', bc_verify_ssl = False, bc_ssl_ca_cert = None, bc_ssl_ca_path = None\<rparr>"

definition sample_env :: cloud_env where
  "sample_env = \<lparr>ce_random = 5, ce_timestamp = 1700000000, ce_key_eq = (=), ce_print = (\<lambda>_. ''{}''),
     ce_parse = (\<lambda>_. None), ce_uri = (\<lambda>_. None), ce_http = (\<lambda>_. None), ce_alloc = (\<lambda>_. True),
     ce_junk = replicate 64 0\<rparr>"

lemma sample_sign_text: "length (sign_text 0 ''dev'' (sint (5 :: 32 word)) ''pk'' (unat (1700000000 :: 64 word))) < 256"
proof -
  have "length (dec_nat 1700000000) \<le> 10" "length (dec_nat 5) \<le> 1" "length (dec_nat 0) \<le> 1"
    by (rule length_dec_nat; simp)+
  then show ?thesis by (simp add: sign_text_def dec_int_def)
qed




end
