(* ===== verification/RegisterTheorems.thy ===== *)
theory RegisterTheorems
  imports DeviceAuthProps
begin

text \<open>
  Dynamic registration from the request to the stored secret, and the answers of the cloud the code
  accepts although they carry no usable secret or key.
\<close>

section \<open>The request is made\<close>

lemma cloud_url_fits:
  assumes "length host + length path + length action < 1000"
  shows "cloud_url (Some host) path action = Inr (host @ path @ ''?'' @ action @ ''&'' @ ''Version=2021-12-14'')"
  using assms by (simp add: cloud_url_def write_whole_def Let_def)

lemma set_url_ok:
  assumes "length url < 1024"
  shows "\<exists>ctx'. http_ctx_set_url parse ctx (Some url) = Inr ctx'"
  using assms by (auto simp: http_ctx_set_url_def Let_def split: option.splits)

lemma cloud_request_ok:
  assumes "\<And>i. ce_alloc env i" "length url < 1024"
  shows "\<exists>hc. cloud_request env url body = Inr hc"
proof -
  obtain c where "http_ctx_set_url (ce_uri env) fresh_ctx (Some url) = Inr c" using set_url_ok [OF assms(2)] by blast
  then show ?thesis by (simp add: cloud_request_def new_http_ctx_def assms(1))
qed

text \<open>A device that can register, and an answer with a document.\<close>

definition can_register :: "cloud_env \<Rightarrow> basic_config \<Rightarrow> bool" where
  "can_register env cfg \<longleftrightarrow>
     (bc_device_secret cfg = None \<or> bc_device_secret cfg = Some []) \<and>
     (\<exists>host iid pk dn ps. bc_http_host cfg = Some host \<and> bc_instance_id cfg = Some iid \<and> bc_product_key cfg = Some pk \<and>
       bc_device_name cfg = Some dn \<and> bc_product_secret cfg = Some ps \<and> length host < 900 \<and>
       length dn + length pk < 100 \<and> 16 \<le> length ps \<and> length ps < 2 ^ 32) \<and>
     length (ce_junk env) = 64 \<and> (\<forall>i. ce_alloc env i)"

definition answers :: "cloud_env \<Rightarrow> json \<Rightarrow> bool" where
  "answers env doc \<longleftrightarrow>
     (\<exists>resp body. (\<forall>request. ce_http env request = Some resp) \<and> error_code resp = 200 \<and>
       response_body resp = Some body \<and> ce_parse env body = Some doc)"

lemma length_sign_text:
  assumes "length dn + length pk < 100"
  shows "length (sign_text (auth_code auth) dn (sint (r :: 32 word)) pk (unat (t :: 64 word))) < 256"
proof -
  have "length (dec_int (auth_code auth)) \<le> 3" by (cases auth; simp; code_simp)
  moreover have "length (dec_int (sint r)) \<le> 19"
    using print_number_int [of r] by (auto simp: print_number_def MAX_TIMESTAMP_LEN_def split: if_splits)
  moreover have "length (dec_nat (unat t)) \<le> 20"
    using unsigned_less [of t, where 'a = nat] by (intro length_dec_nat) simp_all
  ultimately show ?thesis using assms by (simp add: sign_text_def)
qed

text \<open>What is left of the registration once the answer is there.\<close>

lemma dynamic_register_answer:
  assumes can: "can_register env cfg" and ans: "answers env doc" and ps: "bc_product_secret cfg = Some ps"
  shows "\<exists>resp body. response_body resp = Some body \<and> ce_parse env body = Some doc \<and> error_code resp = 200 \<and>
    dynamic_register env (Some (Some cfg)) =
      c_bind (parse_dynamic_register env resp) (\<lambda>result.
        if dr_len result > 0 then
          c_bind (aes_decode ps (dr_payload result) True) (\<lambda>decoded.
            Inr (Some (Some (cfg\<lparr>bc_device_secret := decoded\<rparr>)), VOLC_OK))
        else Inr (Some (Some cfg), -1))"
proof -
  obtain host iid pk dn where f: "bc_http_host cfg = Some host" "bc_instance_id cfg = Some iid" "bc_product_key cfg = Some pk"
      "bc_device_name cfg = Some dn" "length host < 900" "length dn + length pk < 100" "length ps < 2 ^ 32"
      "length (ce_junk env) = 64" "\<And>i. ce_alloc env i" "bc_device_secret cfg = None \<or> bc_device_secret cfg = Some []"
    using can ps unfolding can_register_def by auto
  obtain resp body where r: "\<And>request. ce_http env request = Some resp" "error_code resp = 200"
      "response_body resp = Some body" "ce_parse env body = Some doc"
    using ans unfolding answers_def by blast
  let ?p = "register_param_of env cfg (bc_auth_type cfg)"
  obtain sign where sign: "iot_hmac_sha256_encrypt (ce_junk env) ?p (bc_product_secret cfg) = Inr sign"
    using iot_hmac_spec [of ?p dn pk "ce_junk env" _ ps, OF _ _ _ refl] f ps length_sign_text [OF f(6)]
    by (auto simp: register_param_of_def)
  define url where "url = host @ ''/2021-12-14/DynamicRegister'' @ ''?'' @ ''Action=DynamicRegister'' @ ''&'' @ ''Version=2021-12-14''"
  have url: "cloud_url (bc_http_host cfg) ''/2021-12-14/DynamicRegister'' ''Action=DynamicRegister'' = Inr url"
    unfolding f(1) url_def by (rule cloud_url_fits) (use f(5) in simp)
  obtain hc where hc: "cloud_request env url (register_body env iid pk dn (bc_auth_type cfg) sign) = Inr hc"
    using cloud_request_ok [of env url] f(5,9) by (auto simp: url_def)
  have "\<not> (bc_device_secret cfg \<noteq> None \<and> bc_device_secret cfg \<noteq> Some [])" using f(10) by auto
  then have "dynamic_register env (Some (Some cfg)) =
      c_bind (parse_dynamic_register env resp) (\<lambda>result.
        if dr_len result > 0 then
          c_bind (aes_decode ps (dr_payload result) True) (\<lambda>decoded.
            Inr (Some (Some (cfg\<lparr>bc_device_secret := decoded\<rparr>)), VOLC_OK))
        else Inr (Some (Some cfg), -1))"
    unfolding dynamic_register_def option.case
    by (simp only: if_False sign [unfolded ps] c_bind_simps f prod.case option.case url [unfolded f(1)] hc r ps if_True simp_thms)
  then show ?thesis using r by blast
qed

text \<open>The part of the document that is read when there is no error in it.\<close>

lemma parse_dynamic_register_ok:
  assumes "response_body resp = Some body" "ce_parse env body = Some doc"
    and "aws_json_value_get_from_object (ce_key_eq env)
      (aws_json_value_get_from_object (ce_key_eq env) (Some doc) ''ResponseMetadata'') ''Error'' = None"
    and "aws_json_get_num_val (ce_key_eq env) (aws_json_value_get_from_object (ce_key_eq env) (Some doc) ''Result'') ''len'' = Inr (of_int n)"
    and "0 < n" "n < 2 ^ 31"
  shows "\<exists>result. parse_dynamic_register env resp = Inr result \<and> 0 < dr_len result \<and>
    dr_payload result = aws_json_get_str (ce_key_eq env) (aws_json_value_get_from_object (ce_key_eq env) (Some doc) ''Result'') ''payload''"
proof -
  have "to_int32 (of_int n) = Inr n" using assms(5,6) by (simp add: to_int32_def)
  then show ?thesis using assms(5) by (simp add: parse_dynamic_register_def Let_def assms(1-4))
qed

text \<open>An answer of the cloud, for a device without a secret.\<close>

definition answer_doc :: "string \<Rightarrow> json" where
  "answer_doc payload = JObj [(''Result'', JObj [(''len'', JNum 24), (''payload'', JStr payload)])]"

definition answer_env :: "json \<Rightarrow> cloud_env" where
  "answer_env doc = sample_env\<lparr>ce_http := (\<lambda>_. Some \<lparr>body_size = 2, response_body = Some ''{}'', error_code = 200,
     inner_error_code = 0\<rparr>), ce_parse := (\<lambda>_. Some doc)\<rparr>"

definition new_device :: basic_config where
  "new_device = sample_cfg\<lparr>bc_device_secret := None\<rparr>"

lemma answer_env_ok: "can_register (answer_env doc) new_device" "answers (answer_env doc) doc"
  by (simp_all add: can_register_def answers_def answer_env_def sample_env_def new_device_def sample_cfg_def)

lemma answer_fields:
  fixes p :: string
  defines "keq \<equiv> ce_key_eq (answer_env (answer_doc p))" and "res \<equiv> JObj [(''len'', JNum 24), (''payload'', JStr p)]"
  shows "aws_json_value_get_from_object keq (aws_json_value_get_from_object keq (Some (answer_doc p)) ''ResponseMetadata'') ''Error'' = None"
    and "aws_json_value_get_from_object keq (Some (answer_doc p)) ''Result'' = Some res"
    and "aws_json_get_num_val keq (Some res) ''len'' = Inr (of_int 24)"
    and "aws_json_get_str keq (Some res) ''payload'' = p"
  by (simp_all add: keq_def res_def answer_doc_def answer_env_def sample_env_def aws_json_value_get_from_object_def
    json_find_def aws_json_get_num_val_def aws_json_get_str_def)

lemma new_device_fields:
  "bc_product_secret new_device = Some ''product-secret-1''" "bc_device_secret new_device = None"
  "bc_device_name new_device = Some ''dev''" "bc_product_key new_device = Some ''pk''"
  by (simp_all add: new_device_def sample_cfg_def)

section \<open>Properties\<close>

text \<open>C5.
  Registration stores the secret of the cloud: when the answer carries, in Base64, the device secret
  encrypted by AES-CBC under the product secret, the call succeeds, the configuration holds exactly
  that secret and nothing else of it changes, and a later call succeeds without a request.
\<close>

theorem dynamic_register_stores_secret:
  assumes "can_register env cfg" "answers env doc" "bc_product_secret cfg = Some ps"
    and "aws_json_value_get_from_object (ce_key_eq env)
      (aws_json_value_get_from_object (ce_key_eq env) (Some doc) ''ResponseMetadata'') ''Error'' = None"
    and "aws_json_value_get_from_object (ce_key_eq env) (Some doc) ''Result'' = Some res"
    and "aws_json_get_num_val (ce_key_eq env) (Some res) ''len'' = Inr (of_int n)" "0 < n" "n < 2 ^ 31"
    and "aws_json_get_str (ce_key_eq env) (Some res) ''payload'' = string_of (b64 (cbc_enc_blocks
      (fips_aes (take 16 (bytes_of ps)) 128) k (take 16 (bytes_of ps)) (bytes_of secret @ pad)))"
    and "length secret + length pad = 16 * k" "16 * k < 512" "\<forall>x\<in>set pad. url_trim x"
    and "secret \<noteq> []" "0 \<notin> set (bytes_of secret)" "\<not> url_trim (of_char (last secret))"
  shows "dynamic_register env (Some (Some cfg)) = Inr (Some (Some (cfg\<lparr>bc_device_secret := Some secret\<rparr>)), VOLC_OK) \<and>
    dynamic_register env2 (Some (Some (cfg\<lparr>bc_device_secret := Some secret\<rparr>))) =
      Inr (Some (Some (cfg\<lparr>bc_device_secret := Some secret\<rparr>)), 0)"
proof -
  obtain resp body where r: "response_body resp = Some body" "ce_parse env body = Some doc"
    and d: "dynamic_register env (Some (Some cfg)) =
      c_bind (parse_dynamic_register env resp) (\<lambda>result.
        if dr_len result > 0 then
          c_bind (aes_decode ps (dr_payload result) True) (\<lambda>decoded.
            Inr (Some (Some (cfg\<lparr>bc_device_secret := decoded\<rparr>)), VOLC_OK))
        else Inr (Some (Some cfg), -1))"
    using dynamic_register_answer [OF assms(1-3)] by blast
  obtain result where p: "parse_dynamic_register env resp = Inr result" "0 < dr_len result"
    "dr_payload result = aws_json_get_str (ce_key_eq env) (Some res) ''payload''"
    using parse_dynamic_register_ok [OF r assms(4), of n] assms(5-8) by auto
  have "16 \<le> length ps" using assms(1,3) by (auto simp: can_register_def)
  then have "aes_decode ps (dr_payload result) True = Inr (Some secret)"
    unfolding p(3) assms(9) by (intro decode_recovers [where n = k and pad = pad]) (use assms in simp_all)
  then show ?thesis using d p(1,2) assms(13) by (simp add: dynamic_register_def)
qed

lemma dynamic_register_stores_secret_witness:
  "let ps = ''product-secret-1'';
       env = answer_env (answer_doc (string_of (b64 (cbc_enc_blocks (fips_aes (take 16 (bytes_of ps)) 128) 1
         (take 16 (bytes_of ps)) (bytes_of ''device-key'' @ replicate 6 6)))));
       done = Some (Some (new_device\<lparr>bc_device_secret := Some ''device-key''\<rparr>))
   in dynamic_register env (Some (Some new_device)) = Inr (done, VOLC_OK) \<and> dynamic_register sample_env done = Inr (done, 0)"
  unfolding Let_def
  by (rule dynamic_register_stores_secret [where k = 1 and pad = "replicate 6 6",
        OF answer_env_ok new_device_fields(1) answer_fields(1,2,3) _ _ answer_fields(4)])
    (simp_all add: bytes_of_def url_trim_def)

text \<open>A payload that is not a whole number of cipher blocks cannot be decrypted, but the registration
  reports success and leaves the device without a secret; the next client is then signed with an
  empty key.
\<close>

theorem register_succeeds_without_secret:
  assumes "can_register env cfg" "answers env doc" "bc_product_secret cfg = Some ps" "bc_device_secret cfg = None"
    and "aws_json_value_get_from_object (ce_key_eq env)
      (aws_json_value_get_from_object (ce_key_eq env) (Some doc) ''ResponseMetadata'') ''Error'' = None"
    and "aws_json_value_get_from_object (ce_key_eq env) (Some doc) ''Result'' = Some res"
    and "aws_json_get_num_val (ce_key_eq env) (Some res) ''len'' = Inr (of_int n)" "0 < n" "n < 2 ^ 31"
    and "aws_json_get_str (ce_key_eq env) (Some res) ''payload'' = string_of (b64 cipher)"
    and "length cipher mod 16 \<noteq> 0" "length cipher < 2 ^ 32"
    and "bc_device_name cfg = Some dn" "bc_product_key cfg = Some pk" "unat ts < 10 ^ 19"
  shows "dynamic_register env (Some (Some cfg)) = Inr (Some (Some cfg), VOLC_OK) \<and>
    device_auth_client rnd ts env (\<lambda>_. True) (Some hw) (Some ctx) cfg =
      Inr (Some (ctx\<lparr>hc_headers := Some ((case hc_headers ctx of None \<Rightarrow> [] | Some h \<Rightarrow> h) @
        header_lines (auth_headers '''' (bc_auth_type cfg) dn pk rnd ts hw))\<rparr>), cfg)"
proof -
  obtain resp body where r: "response_body resp = Some body" "ce_parse env body = Some doc"
    and d: "dynamic_register env (Some (Some cfg)) =
      c_bind (parse_dynamic_register env resp) (\<lambda>result.
        if dr_len result > 0 then
          c_bind (aes_decode ps (dr_payload result) True) (\<lambda>decoded.
            Inr (Some (Some (cfg\<lparr>bc_device_secret := decoded\<rparr>)), VOLC_OK))
        else Inr (Some (Some cfg), -1))"
    using dynamic_register_answer [OF assms(1-3)] by blast
  obtain result where p: "parse_dynamic_register env resp = Inr result" "0 < dr_len result"
    "dr_payload result = aws_json_get_str (ce_key_eq env) (Some res) ''payload''"
    using parse_dynamic_register_ok [OF r assms(5), of n] assms(6-9) by auto
  have "16 \<le> length ps" using assms(1,3) by (auto simp: can_register_def)
  then have "aes_decode ps (dr_payload result) True = Inr None"
    unfolding p(3) assms(10) by (intro decode_partial_block) (use assms in simp_all)
  then have reg: "dynamic_register env (Some (Some cfg)) = Inr (Some (Some cfg), VOLC_OK)"
    using d p(1,2) assms(4) by simp
  have "device_auth_client rnd ts env (\<lambda>_. True) (Some hw) (Some ctx) cfg =
      Inr (Some (ctx\<lparr>hc_headers := Some ((case hc_headers ctx of None \<Rightarrow> [] | Some h \<Rightarrow> h) @
        header_lines (auth_headers (case bc_device_secret cfg of None \<Rightarrow> [] | Some k \<Rightarrow> k) (bc_auth_type cfg) dn pk rnd ts hw))\<rparr>), cfg)"
  proof (rule device_auth_settled)
    show "length (sign_text (auth_code (bc_auth_type cfg)) dn (sint rnd) pk (unat ts)) < 256"
      using assms(1,13,14) by (intro length_sign_text) (auto simp: can_register_def)
    show "length (ce_junk env) = 64" using assms(1) by (simp add: can_register_def)
  qed (use assms reg in \<open>simp_all add: VOLC_OK_def\<close>)
  then show ?thesis using reg assms(4) by simp
qed

lemma register_succeeds_without_secret_witness:
  "let env = answer_env (answer_doc (string_of (b64 (replicate 17 1))))
   in dynamic_register env (Some (Some new_device)) = Inr (Some (Some new_device), VOLC_OK) \<and>
      device_auth_client 5 1700000000 env (\<lambda>_. True) (Some ''hw'') (Some fresh_ctx) new_device =
        Inr (Some (fresh_ctx\<lparr>hc_headers := Some ((case hc_headers fresh_ctx of None \<Rightarrow> [] | Some h \<Rightarrow> h) @
          header_lines (auth_headers '''' (bc_auth_type new_device) ''dev'' ''pk'' 5 1700000000 ''hw''))\<rparr>), new_device)"
  unfolding Let_def
  by (rule register_succeeds_without_secret [where cipher = "replicate 17 1",
        OF answer_env_ok new_device_fields(1,2) answer_fields(1,2,3) _ _ answer_fields(4)])
    (simp_all add: new_device_fields)

text \<open>The gateway configuration: a response whose result has the API key, encrypted by AES-CBC under the
  device secret with a 192 bit key, gives exactly that key and the URL. A result that has neither (no
  blocks, no URL) is accepted as well, and gives an empty key and an empty URL instead of a parse error.
\<close>

theorem llm_config_delivers:
  assumes "24 \<le> length secret" "response_body resp = Some body" "ce_parse env body = Some doc"
    and "aws_json_value_get_from_object (ce_key_eq env) (Some doc) ''Result'' = Some res"
    and "aws_json_get_str (ce_key_eq env) (Some res) ''APIKey'' = string_of (b64 (cbc_enc_blocks
      (fips_aes (take 24 (bytes_of secret)) 192) k (take 16 (bytes_of secret)) (bytes_of api_key @ pad)))"
    and "length api_key + length pad = 16 * k" "16 * k < 512" "\<forall>x\<in>set pad. url_trim x"
    and "0 \<notin> set (bytes_of api_key)" "api_key = [] \<or> \<not> url_trim (of_char (last api_key))"
  shows "parse_llm_config env (Some secret) resp (Some cfg) =
    Inr (Some (cfg\<lparr>lc_api_key := Some api_key, lc_url := Some (aws_json_get_str (ce_key_eq env) (Some res) ''URL'')\<rparr>), LLM_OK)"
proof -
  have "aes_decode secret (aws_json_get_str (ce_key_eq env) (Some res) ''APIKey'') False = Inr (Some api_key)"
    unfolding assms(5) by (intro decode_recovers [where n = k and pad = pad]) (use assms in simp_all)
  then show ?thesis using assms by (simp add: parse_llm_config_def Let_def)
qed

lemma llm_config_delivers_witness:
  "parse_llm_config (answer_env (JObj [(''Result'', JObj [])])) (Some (replicate 24 CHR ''k''))
     \<lparr>body_size = 2, response_body = Some ''{}'', error_code = 200, inner_error_code = 0\<rparr>
     (Some \<lparr>lc_err_code = 0, lc_url = None, lc_api_key = None\<rparr>) =
   Inr (Some (\<lparr>lc_err_code = 0, lc_url = None, lc_api_key = None\<rparr>
     \<lparr>lc_api_key := Some [], lc_url := Some (aws_json_get_str (=) (Some (JObj [])) ''URL'')\<rparr>), LLM_OK)"
proof -
  have keq: "ce_key_eq (answer_env d) = (=)" for d by (simp add: answer_env_def sample_env_def)
  show ?thesis
    by (rule llm_config_delivers [where env = "answer_env (JObj [(''Result'', JObj [])])", unfolded keq,
          where k = 0 and pad = "[]" and res = "JObj []" and doc = "JObj [(''Result'', JObj [])]" and body = "''{}''"])
      (simp_all add: answer_env_def aws_json_value_get_from_object_def json_find_def aws_json_get_str_def bytes_of_def string_of_def)
qed

end
