(* ===== verification/Realtime.thy ===== *)
theory Realtime
  imports DeviceAuth
begin

text \<open>
  The realtime session of \<^verbatim>\<open>src/infer_realtime_ws.c\<close>: the context with its ring of texts to send,
  the libwebsockets callback, one definition per \<^verbatim>\<open>case\<close>, and the requests as JSON documents. The
  ring belongs to libwebsockets: its operations are a record of functions, an argument of the
  definitions that use it. Calls into the library are recorded in the order they are made.
\<close>

section \<open>State\<close>

record ws_config =
  wc_url :: "string option"
  wc_path :: "string option"
  wc_api_key :: "string option"
  wc_reconnect_interval_ms :: int
  wc_verify_ssl :: bool
  wc_ca :: "string option"
  wc_send_ping :: bool
  wc_ping_interval_s :: int

record my_item =
  item_value :: string
  item_len :: nat

record 'r ring_ops =
  ring_insert :: "my_item \<Rightarrow> 'r \<Rightarrow> nat \<times> 'r"
  ring_get :: "'r \<Rightarrow> my_item option"
  ring_consume :: "'r \<Rightarrow> 'r"

text \<open>The context, with the file-level counter of attempts to reconnect.\<close>

record 'r ws_ctx =
  ws_config :: "ws_config option"
  ws_iot :: "basic_config option"
  ws_callback :: bool
  ws_ring :: 'r
  ws_connected :: bool
  ws_try_connect :: bool
  ws_ping_count :: int
  ws_conn :: bool
  ws_reconnect_times :: nat

record ws_connect_info =
  ci_address :: string
  ci_port :: int
  ci_path :: "string option"
  ci_use_ssl :: bool
  ci_insecure :: bool

text \<open>A write is recorded with its result.\<close>

datatype ws_call =
    WsWritable | WsSetTimer | WsText string int | WsPing string int | WsConnect ws_connect_info | WsClose
  | WsMessage string | WsHeader string string

type_synonym 'r ws_result = "('r ws_ctx \<times> ws_call list \<times> int) c_result"

section \<open>Connecting\<close>

definition MAX_RECONNECT_TIMES :: nat where "MAX_RECONNECT_TIMES = 3"

text \<open>\<open>conn\<close> is the result of \<^verbatim>\<open>lws_client_connect_via_info\<close>.\<close>

definition aigw_ws_connect :: "uri_parser \<Rightarrow> bool \<Rightarrow> 'r ws_ctx \<Rightarrow> 'r ws_result" where
  "aigw_ws_connect parse conn ctx =
     (case ws_config ctx of
        None \<Rightarrow> Inl NullDeref
      | Some cfg \<Rightarrow>
          (case wc_url cfg of
             None \<Rightarrow> Inl NullDeref
           | Some url \<Rightarrow>
               (case parse url of
                  None \<Rightarrow> Inl Uninit
                | Some (prot, address, port, _) \<Rightarrow>
                    let info = \<lparr>ci_address = address, ci_port = port, ci_path = wc_path cfg,
                          ci_use_ssl = (prot = ''https'' \<or> prot = ''wss''), ci_insecure = (\<not> wc_verify_ssl cfg)\<rparr>
                    in Inr (ctx\<lparr>ws_conn := conn\<rparr>, [WsConnect info], if conn then VOLC_OK else VOLC_ERR_CONNECT))))"

definition aigw_ws_disconnect :: "'r ws_ctx \<Rightarrow> 'r ws_ctx \<times> ws_call list" where
  "aigw_ws_disconnect ctx = (ctx, if ws_connected ctx then [WsClose] else [])"

section \<open>Sending a request\<close>

text \<open>The text is copied behind room for the header of the library, \<open>pre\<close> bytes.\<close>

definition text_item :: "nat \<Rightarrow> string \<Rightarrow> my_item" where
  "text_item pre json = \<lparr>item_value = replicate pre NUL @ json, item_len = length json\<rparr>"

definition aigw_ws_send_request ::
  "'r ring_ops \<Rightarrow> nat \<Rightarrow> uri_parser \<Rightarrow> bool \<Rightarrow> bool \<Rightarrow> 'r ws_ctx \<Rightarrow> string option \<Rightarrow> 'r ws_result" where
  "aigw_ws_send_request ops pre parse conn alloc ctx json_str =
     (case json_str of
        None \<Rightarrow> Inr (ctx, [], VOLC_OK)
      | Some json \<Rightarrow>
          c_bind (if \<not> ws_connected ctx \<and> ws_try_connect ctx then
              c_bind (aigw_ws_connect parse conn ctx) (\<lambda>(ctx, calls, _). Inr (ctx\<lparr>ws_try_connect := False\<rparr>, calls))
            else Inr (ctx, [])) (\<lambda>(ctx, calls).
          if \<not> alloc then Inr (ctx, calls, VOLC_ERR_MALLOC_FAILED)
          else
            let (n, ring) = ring_insert ops (text_item pre json) (ws_ring ctx)
            in Inr (ctx\<lparr>ws_ring := ring\<rparr>, calls @ (if ws_connected ctx then [WsWritable] else []), VOLC_OK)))"

section \<open>The callback\<close>

text \<open>The cast of a \<^verbatim>\<open>size_t\<close> to \<^verbatim>\<open>int\<close>.\<close>

definition int_of_size :: "nat \<Rightarrow> int" where
  "int_of_size n = sint (word_of_nat n :: 32 word)"

text \<open>
  The writeable event, with the result \<open>m\<close> of the write. Without a message a message is consumed
  all the same.
\<close>

definition on_writeable :: "'r ring_ops \<Rightarrow> nat \<Rightarrow> int \<Rightarrow> 'r ws_ctx \<Rightarrow> 'r ws_ctx \<times> ws_call list \<times> int" where
  "on_writeable ops pre m ctx =
     (if \<not> ws_connected ctx then (ctx, [], -1)
      else
        let finish = (\<lambda>calls.
              let ring = ring_consume ops (ws_ring ctx)
              in (ctx\<lparr>ws_ring := ring\<rparr>, calls @ (if ring_get ops ring \<noteq> None then [WsWritable] else []), 0))
        in (case ring_get ops (ws_ring ctx) of
              None \<Rightarrow> finish []
            | Some msg \<Rightarrow>
                let call = WsText (take (item_len msg) (drop pre (item_value msg))) m
                in if m < int_of_size (item_len msg) then (ctx, [call], -1) else finish [call]))"

text \<open>
  The timer: with pings switched on the counter is incremented by every tick. The array of the ping
  is cleared, the word is copied to its offset 4 and the first four bytes are sent.
\<close>

definition ping_payload :: "nat \<Rightarrow> string c_result" where
  "ping_payload pre =
     (if 8 \<le> pre + 4 then Inr (take 4 (memcpy_at 4 ''ping'' (replicate (pre + 4) NUL))) else Inl OutOfBounds)"

definition on_timer :: "'r ring_ops \<Rightarrow> nat \<Rightarrow> int \<Rightarrow> 'r ws_ctx \<Rightarrow> 'r ws_result" where
  "on_timer ops pre m ctx =
     (if \<not> ws_connected ctx then Inr (ctx, [], 0)
      else
        (case ws_config ctx of
           None \<Rightarrow> Inl NullDeref
         | Some cfg \<Rightarrow>
             let last = [WsSetTimer] @ (if ring_get ops (ws_ring ctx) \<noteq> None then [WsWritable] else [])
             in if \<not> wc_send_ping cfg then Inr (ctx, last, 0)
                else if ws_ping_count ctx \<ge> 2 ^ 31 - 1 then Inl SignedOverflow
                else if ws_ping_count ctx = wc_ping_interval_s cfg then
                  c_bind (ping_payload pre) (\<lambda>p. Inr (ctx\<lparr>ws_ping_count := 0\<rparr>, [WsPing p m] @ last, 0))
                else Inr (ctx\<lparr>ws_ping_count := ws_ping_count ctx + 1\<rparr>, last, 0)))"

text \<open>
  A failed connection. The counter is incremented in the arguments of a log call: not at all when
  the library is built without these logs.
\<close>

definition ws_connection_error :: "bool \<Rightarrow> uri_parser \<Rightarrow> bool \<Rightarrow> 'r ws_ctx \<Rightarrow> 'r ws_result" where
  "ws_connection_error logs parse conn ctx =
     (let ctx = ctx\<lparr>ws_connected := False\<rparr> in
      if ws_reconnect_times ctx < MAX_RECONNECT_TIMES then
        let ctx = (if logs then ctx\<lparr>ws_reconnect_times := ws_reconnect_times ctx + 1\<rparr> else ctx) in
        c_bind (aigw_ws_connect parse conn ctx) (\<lambda>(ctx, calls, _). Inr (ctx, calls, 0))
      else Inr (ctx, [], 0))"

definition ws_established :: "'r ws_ctx \<Rightarrow> 'r ws_ctx \<times> ws_call list \<times> int" where
  "ws_established ctx =
     (ctx\<lparr>ws_connected := True, ws_try_connect := True, ws_ping_count := 0, ws_reconnect_times := 0\<rparr>,
      [WsWritable, WsSetTimer], 0)"

text \<open>
  The headers of the handshake, \<open>token\<close> being the result of the call that adds the authorization.
  Its value is printed into an array of 1024 bytes.
\<close>

definition on_handshake ::
  "octet list \<Rightarrow> 32 word \<Rightarrow> 64 word \<Rightarrow> string option \<Rightarrow> bool \<Rightarrow> 'r ws_ctx \<Rightarrow> 'r ws_result" where
  "on_handshake junk rnd ts hw token ctx =
     (case ws_config ctx of
        None \<Rightarrow> Inl NullDeref
      | Some cfg \<Rightarrow>
          (case wc_api_key cfg of
             None \<Rightarrow> Inl NullDeref
           | Some key \<Rightarrow>
               let auth = ''Bearer '' @ key
               in if length auth + 1 > 1024 then Inl OutOfBounds
                  else if \<not> token then Inr (ctx, [], -1)
                  else
                    (case (ws_iot ctx, hw) of
                       (Some iot, Some hw_id) \<Rightarrow>
                         c_bind (aigw_auth_header_new junk \<lparr>rp_product_key = bc_product_key iot, rp_device_name = bc_device_name iot,
                             rp_random_num = rnd, rp_timestamp = ts, rp_auth_type = bc_auth_type iot\<rparr> (bc_device_secret iot)) (\<lambda>h.
                         Inr (ctx, [WsHeader ''authorization:'' auth, WsHeader ''X-Signature'' (ah_signature h),
                           WsHeader ''X-Auth-Type'' (ah_auth_type h), WsHeader ''X-Device-Name'' (ah_device_name h),
                           WsHeader ''X-Product-Key'' (ah_product_key h), WsHeader ''X-Random-Num'' (ah_random_num h),
                           WsHeader ''X-Timestamp'' (ah_timestamp h), WsHeader ''X-Hardware-Id'' hw_id], 0))
                     | _ \<Rightarrow> Inl NullDeref)))"

datatype ws_event =
    Established | ConnectionError bool | ClientClosed | Closed | Receive string | Writeable int
  | Handshake "octet list" "32 word" "64 word" "string option" bool | Timer int | OtherReason

fun aigw_lws_callback :: "'r ring_ops \<Rightarrow> nat \<Rightarrow> bool \<Rightarrow> uri_parser \<Rightarrow> ws_event \<Rightarrow> 'r ws_ctx \<Rightarrow> 'r ws_result" where
  "aigw_lws_callback ops pre logs parse Established ctx = Inr (ws_established ctx)"
| "aigw_lws_callback ops pre logs parse (ConnectionError conn) ctx = ws_connection_error logs parse conn ctx"
| "aigw_lws_callback ops pre logs parse ClientClosed ctx = Inr (ctx\<lparr>ws_connected := False\<rparr>, [], 0)"
| "aigw_lws_callback ops pre logs parse Closed ctx = Inr (ctx\<lparr>ws_connected := False\<rparr>, [], 0)"
| "aigw_lws_callback ops pre logs parse (Receive msg) ctx = Inr (ctx, if ws_callback ctx then [WsMessage msg] else [], 0)"
| "aigw_lws_callback ops pre logs parse (Writeable m) ctx = Inr (on_writeable ops pre m ctx)"
| "aigw_lws_callback ops pre logs parse (Handshake junk rnd ts hw token) ctx = on_handshake junk rnd ts hw token ctx"
| "aigw_lws_callback ops pre logs parse (Timer m) ctx = on_timer ops pre m ctx"
| "aigw_lws_callback ops pre logs parse OtherReason ctx = Inr (ctx, [], 0)"

section \<open>Creation and options\<close>

definition dup_str :: "bool \<Rightarrow> string option \<Rightarrow> string option" where
  "dup_str alloc s = (if alloc then s else None)"

definition copy_config :: "(nat \<Rightarrow> bool) \<Rightarrow> ws_config \<Rightarrow> ws_config" where
  "copy_config dup src =
     \<lparr>wc_url = dup_str (dup 0) (wc_url src), wc_path = dup_str (dup 2) (wc_path src),
      wc_api_key = dup_str (dup 1) (wc_api_key src), wc_reconnect_interval_ms = wc_reconnect_interval_ms src,
      wc_verify_ssl = wc_verify_ssl src, wc_ca = dup_str (dup 3) (wc_ca src), wc_send_ping = wc_send_ping src,
      wc_ping_interval_s = wc_ping_interval_s src\<rparr>"

text \<open>
  A context that is null is allocated, but only for the call: the caller's pointer stays null.
\<close>

definition aigw_ws_init ::
  "'r \<Rightarrow> bool \<Rightarrow> bool \<Rightarrow> (nat \<Rightarrow> bool) \<Rightarrow> 'r ws_ctx option \<Rightarrow> ws_config option \<Rightarrow> ('r ws_ctx option \<times> int) c_result" where
  "aigw_ws_init ring alloc_ctx alloc_config dup ctxp configp =
     (if ctxp = None \<and> \<not> alloc_ctx then Inr (None, VOLC_ERR_MALLOC)
      else
        (case configp of
           None \<Rightarrow> Inl NullDeref
         | Some config \<Rightarrow>
             let ctx = \<lparr>ws_config = (if alloc_config then Some (copy_config dup config) else None), ws_iot = None,
                   ws_callback = False, ws_ring = ring, ws_connected = False, ws_try_connect = False,
                   ws_ping_count = 0, ws_conn = False,
                   ws_reconnect_times = (case ctxp of None \<Rightarrow> 0 | Some c \<Rightarrow> ws_reconnect_times c)\<rparr>
             in Inr (map_option (\<lambda>_. ctx) ctxp, if alloc_config then VOLC_OK else VOLC_ERR_MALLOC)))"

datatype ws_option =
    WS_URL string | WS_PATH string | WS_API_KEY string | WS_RECONNECT_INTERVAL int | WS_VERIFY_SSL int
  | WS_SSL_CA_PATH string | WS_IOT_CONFIG "bool" "cfg_field \<Rightarrow> bool" "basic_config option" | WS_OTHER

definition aigw_ws_set_option :: "'r ws_ctx \<Rightarrow> ws_option \<Rightarrow> 'r ws_ctx c_result" where
  "aigw_ws_set_option ctx opt =
     (case opt of
        WS_IOT_CONFIG alloc dup src \<Rightarrow> Inr (ctx\<lparr>ws_iot := iot_config_dup alloc dup src\<rparr>)
      | WS_OTHER \<Rightarrow> Inr ctx
      | _ \<Rightarrow>
          (case ws_config ctx of
             None \<Rightarrow> Inl NullDeref
           | Some cfg \<Rightarrow> Inr (ctx\<lparr>ws_config := Some
               (case opt of
                  WS_URL v \<Rightarrow> cfg\<lparr>wc_url := Some v\<rparr>
                | WS_PATH v \<Rightarrow> cfg\<lparr>wc_path := Some v\<rparr>
                | WS_API_KEY v \<Rightarrow> cfg\<lparr>wc_api_key := Some v\<rparr>
                | WS_RECONNECT_INTERVAL v \<Rightarrow> cfg\<lparr>wc_reconnect_interval_ms := v\<rparr>
                | WS_VERIFY_SSL v \<Rightarrow> cfg\<lparr>wc_verify_ssl := (v \<noteq> 0)\<rparr>
                | WS_SSL_CA_PATH v \<Rightarrow> cfg\<lparr>wc_ca := Some v\<rparr>
                | _ \<Rightarrow> cfg)\<rparr>)))"

definition aigw_ws_register_callback :: "'r ws_ctx \<Rightarrow> bool \<Rightarrow> 'r ws_ctx" where
  "aigw_ws_register_callback ctx callback = ctx\<lparr>ws_callback := callback\<rparr>"

text \<open>The connection to the bound gateway; \<open>None\<close> of a source leaves the target field alone.\<close>

definition onesdk_iot_get_binding_aigw_info ::
  "llm_config option \<Rightarrow> ws_config \<Rightarrow> basic_config \<Rightarrow> ws_config \<times> int" where
  "onesdk_iot_get_binding_aigw_info llm ws cfg =
     (case llm of
        None \<Rightarrow> (ws, VOLC_ERR_INVALID_PARAM)
      | Some l \<Rightarrow>
          (ws\<lparr>wc_url := (case lc_url l of None \<Rightarrow> wc_url ws | u \<Rightarrow> u),
              wc_api_key := (case lc_api_key l of None \<Rightarrow> wc_api_key ws | k \<Rightarrow> k),
              wc_path := Some ''/v1/realtime?model=AG-voice-chat-agent'',
              wc_verify_ssl := bc_verify_ssl cfg,
              wc_ca := (case bc_ssl_ca_cert cfg of None \<Rightarrow> wc_ca ws | c \<Rightarrow> c)\<rparr>, VOLC_OK))"

section \<open>Requests\<close>

record session_tools =
  st_type :: "string option"
  st_name :: "string option"
  st_description :: "string option"
  st_parameters :: "string option"

record ws_session =
  ss_instructions :: "string option"
  ss_voice :: "string option"
  ss_input_audio_format :: "string option"
  ss_output_audio_format :: "string option"
  ss_modality_audio_enabled :: bool
  ss_modality_text_enabled :: bool
  ss_tools :: "session_tools option"

text \<open>The \<^verbatim>\<open>double\<close> nearest to 0.8.\<close>

definition temperature_08 :: rat where "temperature_08 = 3602879701896397 / 4503599627370496"

text \<open>\<open>parse\<close> is the parser of cJSON; parameters that are null or do not parse are left out.\<close>

definition session_doc :: "(string \<Rightarrow> json option) \<Rightarrow> ws_session \<Rightarrow> json" where
  "session_doc parse session =
     JObj [(''type'', JStr ''session.update''),
       (''session'', JObj (
          [(''modalities'', JArr ((if ss_modality_audio_enabled session then [JStr ''audio''] else []) @
              (if ss_modality_text_enabled session then [JStr ''text''] else [])))] @
          str_member ''instructions'' (ss_instructions session) @ str_member ''voice'' (ss_voice session) @
          str_member ''input_audio_format'' (ss_input_audio_format session) @
          str_member ''output_audio_format'' (ss_output_audio_format session) @
          [(''tool_choice'', JStr ''auto''), (''turn_detection'', JNull),
           (''input_audio_transcription'', JObj [(''model'', JStr ''any'')]),
           (''tools'', JArr (case ss_tools session of None \<Rightarrow> [] | Some t \<Rightarrow>
              [JObj (str_member ''type'' (st_type t) @ str_member ''name'' (st_name t) @
                str_member ''description'' (st_description t) @
                item_member ''parameters'' (Option.bind (st_parameters t) parse))])),
           (''temperature'', JNum temperature_08)]))]"

definition typed_doc :: "string \<Rightarrow> (string \<times> json) list \<Rightarrow> json" where
  "typed_doc ty members = JObj ((''type'', JStr ty) # members)"

definition audio_doc :: "string \<Rightarrow> json" where
  "audio_doc buffer = typed_doc ''input_audio_buffer.append'' [(''audio'', JStr buffer)]"
definition commit_doc :: json where "commit_doc = typed_doc ''input_audio_buffer.commit'' []"
definition audio_done_doc :: json where "audio_done_doc = typed_doc ''input_audio.done'' []"
definition cancel_doc :: json where "cancel_doc = typed_doc ''response.cancel'' []"
definition response_doc :: json where
  "response_doc = typed_doc ''response.create'' [(''response'', JObj [(''modalities'', JArr [JStr ''text'', JStr ''audio''])])]"

text \<open>The result reported to the model is a fixed text of four Chinese characters in UTF-8.\<close>

definition opened_text :: string where
  "opened_text = map char_of [230::nat, 137, 147, 229, 188, 128, 230, 136, 144, 229, 138, 159]"

definition item_create_doc :: "string option \<Rightarrow> json" where
  "item_create_doc func_call_id = typed_doc ''conversation_item.create''
     [(''item'', JObj (str_member ''call_id'' func_call_id @
        [(''type'', JStr ''function_call_output''), (''output'', JObj [(''result'', JStr opened_text)])]))]"

text \<open>
  What a request needs from outside: the printer of cJSON, the results of the allocation and of a
  connect, and for the library the room in front of a text and its URL parser.
\<close>

record send_env =
  se_pre :: nat
  se_parse_uri :: uri_parser
  se_print :: "json \<Rightarrow> string option"
  se_conn :: bool
  se_alloc :: bool

definition send_doc :: "'r ring_ops \<Rightarrow> send_env \<Rightarrow> 'r ws_ctx \<Rightarrow> json \<Rightarrow> 'r ws_result" where
  "send_doc ops e ctx doc =
     aigw_ws_send_request ops (se_pre e) (se_parse_uri e) (se_conn e) (se_alloc e) ctx (se_print e doc)"

definition aigw_ws_session_update ::
  "'r ring_ops \<Rightarrow> send_env \<Rightarrow> (string \<Rightarrow> json option) \<Rightarrow> 'r ws_ctx \<Rightarrow> ws_session option \<Rightarrow> 'r ws_result" where
  "aigw_ws_session_update ops e parse ctx session =
     (case session of None \<Rightarrow> Inr (ctx, [], VOLC_ERR_INVALID_PARAM)
      | Some s \<Rightarrow> send_doc ops e ctx (session_doc parse s))"

definition aigw_ws_input_audio_buffer_append ::
  "'r ring_ops \<Rightarrow> send_env \<Rightarrow> 'r ws_ctx \<Rightarrow> string option \<Rightarrow> nat \<Rightarrow> 'r ws_result" where
  "aigw_ws_input_audio_buffer_append ops e ctx buffer len =
     (case buffer of
        None \<Rightarrow> Inr (ctx, [], VOLC_OK)
      | Some b \<Rightarrow> if len = 0 then Inr (ctx, [], VOLC_OK) else send_doc ops e ctx (audio_doc b))"

end
