(* ===== verification/RealtimeApi.thy ===== *)
theory RealtimeApi
  imports Realtime
begin

text \<open>
  The rest of the realtime session: the translation session of \<^verbatim>\<open>src/infer_realtime_ws.c\<close>, the
  operations of \<^verbatim>\<open>src/onesdk_rt.c\<close> composed of requests, the reassembly of received fragments into
  events, and histories of API calls and callbacks.
\<close>

section \<open>Translation\<close>

record glossary_item =
  gi_transcription :: "string option"
  gi_translation :: "string option"

record translation_session =
  tr_input_audio_format :: "string option"
  tr_modalities :: "string option list option"
  tr_source_language :: "string option"
  tr_target_language :: "string option"
  tr_hot_words :: "string option list option"
  tr_glossary :: "glossary_item list option"

text \<open>An array of strings with its length: null entries are skipped, a null array is empty.\<close>

definition string_array :: "string option list option \<Rightarrow> json" where
  "string_array xs = JArr (case xs of None \<Rightarrow> [] | Some ys \<Rightarrow> concat (map (\<lambda>y. case y of None \<Rightarrow> [] | Some s \<Rightarrow> [JStr s]) ys))"

definition translation_doc :: "translation_session \<Rightarrow> json" where
  "translation_doc t =
     typed_doc ''session.update''
      [(''session'', JObj (
         str_member ''input_audio_format'' (tr_input_audio_format t) @
         [(''modalities'', string_array (tr_modalities t)),
          (''input_audio_translation'', JObj (
             str_member ''source_language'' (tr_source_language t) @
             str_member ''target_language'' (tr_target_language t) @
             [(''add_vocab'', JObj
                [(''hot_word_list'', string_array (tr_hot_words t)),
                 (''glossary_list'', JArr (case tr_glossary t of None \<Rightarrow> [] | Some gs \<Rightarrow>
                    map (\<lambda>g. JObj (str_member ''input_audio_transcription'' (gi_transcription g) @
                      str_member ''input_audio_translation'' (gi_translation g))) gs))])]))]))]"

definition aigw_ws_translation_session_update ::
  "'r ring_ops \<Rightarrow> send_env \<Rightarrow> 'r ws_ctx \<Rightarrow> translation_session option \<Rightarrow> 'r ws_result" where
  "aigw_ws_translation_session_update ops e ctx session =
     (case session of None \<Rightarrow> Inr (ctx, [], VOLC_ERR_INVALID_PARAM)
      | Some t \<Rightarrow> send_doc ops e ctx (translation_doc t))"

section \<open>Operations composed of requests\<close>

text \<open>One request after another; the first that fails ends the operation.\<close>

definition then_send :: "'r ws_result \<Rightarrow> ('r ws_ctx \<Rightarrow> 'r ws_result) \<Rightarrow> 'r ws_result" where
  "then_send r f =
     c_bind r (\<lambda>(ctx, calls, ret).
       if ret \<noteq> VOLC_OK then Inr (ctx, calls, ret)
       else c_bind (f ctx) (\<lambda>(ctx', calls', ret'). Inr (ctx', calls @ calls', ret')))"

text \<open>\<open>e 0\<close>, \<open>e 1\<close>, \<open>e 2\<close> is the outside as each of the requests finds it.\<close>

definition rt_send_audio ::
  "'r ring_ops \<Rightarrow> (nat \<Rightarrow> send_env) \<Rightarrow> 'r ws_ctx \<Rightarrow> string option \<Rightarrow> nat \<Rightarrow> bool \<Rightarrow> json \<Rightarrow> 'r ws_result" where
  "rt_send_audio ops e ctx audio len commit finish =
     then_send (aigw_ws_input_audio_buffer_append ops (e 0) ctx audio len) (\<lambda>ctx.
       if commit then then_send (send_doc ops (e 1) ctx commit_doc) (\<lambda>ctx. send_doc ops (e 2) ctx finish)
       else Inr (ctx, [], VOLC_OK))"

text \<open>Without a session every operation of \<^verbatim>\<open>onesdk_rt.c\<close> is an error.\<close>

definition with_session ::
  "'r ws_ctx option \<Rightarrow> ('r ws_ctx \<Rightarrow> 'r ws_result) \<Rightarrow> ('r ws_ctx option \<times> ws_call list \<times> int) c_result" where
  "with_session ctxp f =
     (case ctxp of
        None \<Rightarrow> Inr (None, [], VOLC_ERR_INIT)
      | Some ctx \<Rightarrow> c_bind (f ctx) (\<lambda>(ctx', calls, ret). Inr (Some ctx', calls, ret)))"

definition onesdk_rt_set_event_cb :: "'r ws_ctx option \<Rightarrow> ('r ws_ctx option \<times> ws_call list \<times> int) c_result" where
  "onesdk_rt_set_event_cb ctxp = with_session ctxp (\<lambda>ctx. Inr (aigw_ws_register_callback ctx True, [], VOLC_OK))"

definition onesdk_rt_session_update where
  "onesdk_rt_session_update ops e parse ctxp session =
     with_session ctxp (\<lambda>ctx. aigw_ws_session_update ops e parse ctx session)"

definition onesdk_rt_translation_session_update where
  "onesdk_rt_translation_session_update ops e ctxp session =
     with_session ctxp (\<lambda>ctx. aigw_ws_translation_session_update ops e ctx session)"

definition onesdk_rt_audio_response_cancel where
  "onesdk_rt_audio_response_cancel ops e ctxp = with_session ctxp (\<lambda>ctx. send_doc ops e ctx cancel_doc)"

definition onesdk_rt_audio_send where
  "onesdk_rt_audio_send ops e ctxp audio len commit =
     with_session ctxp (\<lambda>ctx. rt_send_audio ops e ctx audio len commit response_doc)"

definition onesdk_rt_translation_audio_send where
  "onesdk_rt_translation_audio_send ops e ctxp audio len commit =
     with_session ctxp (\<lambda>ctx. rt_send_audio ops e ctx audio len commit audio_done_doc)"

section \<open>Histories\<close>

datatype ws_op =
    WsSend send_env "string option"
  | WsConnectCall bool
  | WsDisconnect
  | WsEvent ws_event

text \<open>\<open>pre\<close>, \<open>logs\<close> and \<open>parse\<close> are those of the library the program is linked with.\<close>

fun ws_exec :: "'r ring_ops \<Rightarrow> nat \<Rightarrow> bool \<Rightarrow> uri_parser \<Rightarrow> ws_op \<Rightarrow> 'r ws_ctx \<Rightarrow> 'r ws_result" where
  "ws_exec ops pre logs parse (WsSend e json) ctx =
     aigw_ws_send_request ops pre parse (se_conn e) (se_alloc e) ctx json"
| "ws_exec ops pre logs parse (WsConnectCall conn) ctx = aigw_ws_connect parse conn ctx"
| "ws_exec ops pre logs parse WsDisconnect ctx = (let (ctx', calls) = aigw_ws_disconnect ctx in Inr (ctx', calls, 0))"
| "ws_exec ops pre logs parse (WsEvent ev) ctx = aigw_lws_callback ops pre logs parse ev ctx"

abbreviation ws_run :: "'r ring_ops \<Rightarrow> nat \<Rightarrow> bool \<Rightarrow> uri_parser \<Rightarrow> ws_op list \<Rightarrow> 'r ws_ctx \<Rightarrow> ('r ws_ctx \<times> ws_call list) c_result" where
  "ws_run ops pre logs parse \<equiv> c_run (ws_exec ops pre logs parse)"

section \<open>Received events\<close>

text \<open>
  The reassembly buffer: the memory, the bytes in use, and the capacity the code believes it has.
  The events of the user are recorded; \<open>cbs\<close> says which callbacks are registered.
\<close>

record rt_state =
  rt_buf :: "string option"
  rt_size :: nat
  rt_capacity :: nat

datatype rt_event =
    OnAudio "string option" | OnText "string option" | OnTranslation "string option" | OnTranscript "string option"
  | OnResponseDone | OnError string string

datatype rt_cb = CbAudio | CbText | CbError | CbTranscript | CbTranslation | CbDone

definition user_event :: "(rt_cb \<Rightarrow> bool) \<Rightarrow> rt_cb \<Rightarrow> rt_event \<Rightarrow> rt_event list" where
  "user_event cbs cb ev = (if cbs cb then [ev] else [])"

text \<open>The events of one document. A value that is no string is passed on as a null pointer.\<close>

definition rt_dispatch :: "key_eq \<Rightarrow> (rt_cb \<Rightarrow> bool) option \<Rightarrow> json \<Rightarrow> rt_event list" where
  "rt_dispatch keq cbs doc =
     (let item = get_item keq (Some doc); delta = item ''delta''; transcript = item ''transcript'' in
      case (string_item (item ''type''), item ''event_id'', cbs) of
        (Some ty, Some _, Some has) \<Rightarrow>
          if ty = ''response.audio.delta'' \<and> delta \<noteq> None then user_event has CbAudio (OnAudio (string_item delta))
          else if ty = ''response.audio_transcript.done'' \<and> transcript \<noteq> None then
            user_event has CbText (OnText (string_item transcript))
          else if ty = ''response.audio_translation.delta'' \<and> delta \<noteq> None then
            user_event has CbTranslation (OnTranslation (string_item delta))
          else if ty = ''response.audio_transcript.delta'' \<and> delta \<noteq> None then
            user_event has CbTranscript (OnTranscript (string_item delta))
          else if ty = ''response.done'' then user_event has CbDone OnResponseDone
          else if ty = ''error'' then
            (case (string_item (get_item keq (item ''error'') ''code''), string_item (get_item keq (item ''error'') ''message'')) of
               (Some code, Some message) \<Rightarrow> user_event has CbError (OnError code message)
             | _ \<Rightarrow> [])
          else []
      | _ \<Rightarrow> [])"

text \<open>
  \<^verbatim>\<open>cJSON_ParseWithLengthOpts\<close> on a prefix: the document and the number of bytes it takes. The loop
  ends when the rest does not parse; \<open>None\<close> is a loop that does not return.
\<close>

type_synonym prefix_parser = "string \<Rightarrow> (json \<times> nat) option"

partial_function (option) rt_loop ::
  "prefix_parser \<Rightarrow> (json \<Rightarrow> rt_event list) \<Rightarrow> string \<Rightarrow> nat \<Rightarrow> rt_event list \<Rightarrow> (string \<times> nat \<times> rt_event list) c_result option" where
  "rt_loop parse dispatch buf used evs =
     (case parse (take used buf) of
        None \<Rightarrow> Some (Inr (buf, used, evs))
      | Some (doc, processed) \<Rightarrow>
          if processed > used then Some (Inl OutOfBounds)
          else rt_loop parse dispatch (memmove_in 0 processed (used - processed) buf) (used - processed) (evs @ dispatch doc))"

text \<open>
  The room for a message. The sums are those of 64-bit numbers; after a failed \<^verbatim>\<open>realloc\<close> the
  message is dropped, but the capacity is the one that was asked for.
\<close>

definition rt_reserve :: "bool \<Rightarrow> nat \<Rightarrow> rt_state \<Rightarrow> rt_state \<times> bool" where
  "rt_reserve alloc len st =
     (case rt_buf st of
        None \<Rightarrow>
          let cap = (len * 2) mod 2 ^ 64
          in (\<lparr>rt_buf = (if alloc then Some (replicate cap NUL) else None), rt_size = 0, rt_capacity = cap\<rparr>, True)
      | Some buf \<Rightarrow>
          if rt_capacity st < (rt_size st + len) mod 2 ^ 64 then
            if len > (2 ^ 64 - 1) div 2 \<or> rt_size st > 2 ^ 64 - 1 - len then (st, False)
            else
              let cap = ((rt_size st + len) * 2) mod 2 ^ 64; st = st\<lparr>rt_capacity := cap\<rparr>
              in if alloc then (st\<lparr>rt_buf := Some (realloc_to NUL cap buf)\<rparr>, True) else (st, False)
          else (st, True))"

definition rt_recv_cb ::
  "prefix_parser \<Rightarrow> (json \<Rightarrow> rt_event list) \<Rightarrow> bool \<Rightarrow> string \<Rightarrow> rt_state \<Rightarrow> (rt_state \<times> rt_event list) c_result option" where
  "rt_recv_cb parse dispatch alloc message st0 =
     (let (st, go) = rt_reserve alloc (length message) st0 in
      if \<not> go then Some (Inr (st, []))
      else
        (case rt_buf st of
           None \<Rightarrow> Some (Inl NullDeref)
         | Some buf \<Rightarrow>
             if rt_size st + length message > length buf then Some (Inl OutOfBounds)
             else
               (case rt_loop parse dispatch (memcpy_at (rt_size st) message buf) (rt_size st + length message) [] of
                  None \<Rightarrow> None
                | Some (Inl u) \<Rightarrow> Some (Inl u)
                | Some (Inr (buf', size', evs)) \<Rightarrow> Some (Inr (st\<lparr>rt_buf := Some buf', rt_size := size'\<rparr>, evs)))))"

text \<open>Fragments one after another.\<close>

fun rt_recv_all ::
  "prefix_parser \<Rightarrow> (json \<Rightarrow> rt_event list) \<Rightarrow> string list \<Rightarrow> rt_state \<Rightarrow> (rt_state \<times> rt_event list) c_result option" where
  "rt_recv_all parse dispatch [] st = Some (Inr (st, []))"
| "rt_recv_all parse dispatch (m # ms) st =
     (case rt_recv_cb parse dispatch True m st of
        None \<Rightarrow> None
      | Some (Inl u) \<Rightarrow> Some (Inl u)
      | Some (Inr (st', evs)) \<Rightarrow>
          (case rt_recv_all parse dispatch ms st' of
             None \<Rightarrow> None
           | Some (Inl u) \<Rightarrow> Some (Inl u)
           | Some (Inr (st'', evs')) \<Rightarrow> Some (Inr (st'', evs @ evs'))))"

end
