(* ===== verification/RealtimeProps.thy ===== *)
theory RealtimeProps
  imports RealtimeApi
begin

text \<open>
  What a realtime session guarantees: the texts written to the connection are the accepted ones in
  order, a full ring loses a text silently, the callback gives up after three failed connections, and
  the events of the user do not depend on how the server's messages are cut into fragments.
\<close>

section \<open>The ring of libwebsockets\<close>

text \<open>
  The documented behaviour of the ring: a queue of bounded length. \<open>contents\<close> are its elements, oldest
  first.
\<close>

definition ring_ok :: "'r ring_ops \<Rightarrow> ('r \<Rightarrow> my_item list) \<Rightarrow> nat \<Rightarrow> bool" where
  "ring_ok ops contents cap \<longleftrightarrow>
     (\<forall>r. ring_get ops r = (case contents r of [] \<Rightarrow> None | x # _ \<Rightarrow> Some x)) \<and>
     (\<forall>r. contents (ring_consume ops r) = tl (contents r)) \<and>
     (\<forall>x r. if length (contents r) < cap
            then fst (ring_insert ops x r) = 1 \<and> contents (snd (ring_insert ops x r)) = contents r @ [x]
            else fst (ring_insert ops x r) = 0 \<and> contents (snd (ring_insert ops x r)) = contents r)"

definition list_ring :: "nat \<Rightarrow> my_item list ring_ops" where
  "list_ring cap = \<lparr>ring_insert = (\<lambda>x r. if length r < cap then (1, r @ [x]) else (0, r)),
     ring_get = (\<lambda>r. case r of [] \<Rightarrow> None | x # _ \<Rightarrow> Some x), ring_consume = tl\<rparr>"

lemma list_ring_ok: "ring_ok (list_ring cap) (\<lambda>r. r) cap"
  by (simp add: ring_ok_def list_ring_def split: list.splits)

section \<open>The session as a queue\<close>

definition item_text :: "nat \<Rightarrow> my_item \<Rightarrow> string" where
  "item_text pre i = take (item_len i) (drop pre (item_value i))"

lemma item_text_item [simp]: "item_text pre (text_item pre t) = t" "item_len (text_item pre t) = length t"
  by (simp_all add: item_text_def text_item_def)

lemma text_item_payload [simp]: "drop pre (item_value (text_item pre t)) = t"
  by (simp add: text_item_def)

lemma text_item_inject [simp]: "text_item pre t = text_item pre u \<longleftrightarrow> t = u"
  by (metis text_item_payload)

definition texts :: "('r \<Rightarrow> my_item list) \<Rightarrow> nat \<Rightarrow> 'r ws_ctx \<Rightarrow> string list" where
  "texts contents pre ctx = map (item_text pre) (contents (ws_ring ctx))"

text \<open>The texts that were written completely.\<close>

fun delivered :: "ws_call list \<Rightarrow> string list" where
  "delivered [] = []"
| "delivered (WsText t m # calls) = (if m < int_of_size (length t) then delivered calls else t # delivered calls)"
| "delivered (_ # calls) = delivered calls"

lemma delivered_append [simp]: "delivered (xs @ ys) = delivered xs @ delivered ys"
  by (induction xs rule: delivered.induct) simp_all

text \<open>The specification: a queue of at most \<open>cap\<close> texts, and whether there is a connection.\<close>

fun queue_spec :: "nat \<Rightarrow> ws_op \<Rightarrow> string list \<times> bool \<Rightarrow> (string list \<times> bool) \<times> string list" where
  "queue_spec cap (WsSend e (Some t)) (q, c) = ((if se_alloc e \<and> length q < cap then q @ [t] else q, c), [])"
| "queue_spec cap (WsEvent (Writeable m)) (q, c) =
     (if \<not> c then ((q, c), [])
      else case q of [] \<Rightarrow> ((q, c), []) | t # q' \<Rightarrow> if m < int_of_size (length t) then ((q, c), []) else ((q', c), [t]))"
| "queue_spec cap (WsEvent Established) (q, c) = ((q, True), [])"
| "queue_spec cap (WsEvent (ConnectionError _)) (q, c) = ((q, False), [])"
| "queue_spec cap (WsEvent ClientClosed) (q, c) = ((q, False), [])"
| "queue_spec cap (WsEvent Closed) (q, c) = ((q, False), [])"
| "queue_spec cap op s = (s, [])"

definition session_view :: "('r \<Rightarrow> my_item list) \<Rightarrow> nat \<Rightarrow> 'r ws_ctx \<Rightarrow> string list \<times> bool" where
  "session_view contents pre ctx = (texts contents pre ctx, ws_connected ctx)"

definition session_valid :: "'r ring_ops \<Rightarrow> ('r \<Rightarrow> my_item list) \<Rightarrow> nat \<Rightarrow> nat \<Rightarrow> 'r ws_ctx \<Rightarrow> bool" where
  "session_valid ops contents cap pre ctx \<longleftrightarrow>
     ring_ok ops contents cap \<and> (\<forall>i\<in>set (contents (ws_ring ctx)). \<exists>t. i = text_item pre t)"

lemma aigw_ws_connect_keeps:
  assumes "aigw_ws_connect parse conn ctx = Inr (ctx', calls, ret)"
  shows "\<exists>info. ctx' = ctx\<lparr>ws_conn := conn\<rparr> \<and> calls = [WsConnect info]"
  using assms by (auto simp: aigw_ws_connect_def Let_def split: option.splits)

lemma send_refines:
  assumes v: "session_valid ops contents cap pre ctx"
    and s: "aigw_ws_send_request ops pre parse conn alloc ctx json = Inr (ctx', calls, ret)"
  shows "session_valid ops contents cap pre ctx' \<and> delivered calls = [] \<and> ws_connected ctx' = ws_connected ctx \<and>
    texts contents pre ctx' = (case json of Some t \<Rightarrow>
      if alloc \<and> length (texts contents pre ctx) < cap then texts contents pre ctx @ [t] else texts contents pre ctx
      | None \<Rightarrow> texts contents pre ctx)"
proof (cases json)
  case None
  then show ?thesis using v s by (simp add: aigw_ws_send_request_def)
next
  case (Some t)
  obtain ctx1 calls1 where
    1: "(if \<not> ws_connected ctx \<and> ws_try_connect ctx then
        c_bind (aigw_ws_connect parse conn ctx) (\<lambda>(ctx, calls, _). Inr (ctx\<lparr>ws_try_connect := False\<rparr>, calls))
      else Inr (ctx, [])) = Inr (ctx1, calls1)"
    and 2: "(if \<not> alloc then Inr (ctx1, calls1, VOLC_ERR_MALLOC_FAILED)
      else let (n, ring) = ring_insert ops (text_item pre t) (ws_ring ctx1)
        in Inr (ctx1\<lparr>ws_ring := ring\<rparr>, calls1 @ (if ws_connected ctx1 then [WsWritable] else []), VOLC_OK)) =
      (Inr (ctx', calls, ret) :: 'a ws_result)"
    using s Some by (auto simp: aigw_ws_send_request_def c_bind_Inr_iff)
  have k: "ws_ring ctx1 = ws_ring ctx" "ws_connected ctx1 = ws_connected ctx" "delivered calls1 = []"
    using 1 by (auto simp: c_bind_Inr_iff dest!: aigw_ws_connect_keeps split: if_splits)
  have r: "ring_ok ops contents cap" using v by (simp add: session_valid_def)
  obtain n ring where i: "ring_insert ops (text_item pre t) (ws_ring ctx) = (n, ring)" by fastforce
  then have c: "contents ring = (if length (contents (ws_ring ctx)) < cap then contents (ws_ring ctx) @ [text_item pre t]
      else contents (ws_ring ctx))"
    using r unfolding ring_ok_def by (metis snd_conv)
  show ?thesis
    using 2 v Some k i c by (auto simp: session_valid_def texts_def split: if_splits)
qed

lemma writeable_refines:
  assumes v: "session_valid ops contents cap pre ctx" and s: "on_writeable ops pre m ctx = (ctx', calls, ret)"
  shows "session_valid ops contents cap pre ctx' \<and>
    queue_spec cap (WsEvent (Writeable m)) (session_view contents pre ctx) = (session_view contents pre ctx', delivered calls)"
proof -
  have r: "ring_get ops r = (case contents r of [] \<Rightarrow> None | x # _ \<Rightarrow> Some x)" "contents (ring_consume ops r) = tl (contents r)" for r
    using v by (auto simp: session_valid_def ring_ok_def)
  show ?thesis
  proof (cases "contents (ws_ring ctx)")
    case Nil
    then show ?thesis using v s
      by (auto simp: on_writeable_def r session_valid_def session_view_def texts_def Let_def split: if_splits)
  next
    case (Cons i rest)
    then obtain t where t: "i = text_item pre t" using v by (auto simp: session_valid_def)
    show ?thesis using v s Cons
      by (auto simp: on_writeable_def r session_valid_def session_view_def texts_def Let_def t split: if_splits)
  qed
qed

text \<open>The remaining events change neither the ring nor, but for the obvious ones, the connection.\<close>

lemma other_event_keeps:
  assumes "aigw_lws_callback ops pre logs parse ev ctx = Inr (ctx', calls, ret)" "\<forall>m. ev \<noteq> Writeable m"
  shows "ws_ring ctx' = ws_ring ctx \<and> delivered calls = [] \<and>
    ws_connected ctx' = (case ev of Established \<Rightarrow> True | ConnectionError _ \<Rightarrow> False | ClientClosed \<Rightarrow> False
      | Closed \<Rightarrow> False | _ \<Rightarrow> ws_connected ctx)"
proof (cases ev)
  case (ConnectionError c)
  then show ?thesis using assms(1)
    by (auto simp: ws_connection_error_def Let_def c_bind_Inr_iff dest!: aigw_ws_connect_keeps split: if_splits)
next
  case (Timer m)
  then show ?thesis using assms(1)
    by (auto simp: on_timer_def Let_def c_bind_Inr_iff split: if_splits option.splits)
next
  case (Handshake j r t h b)
  then show ?thesis using assms(1)
    by (auto simp: on_handshake_def Let_def c_bind_Inr_iff split: if_splits option.splits)
qed (use assms in \<open>auto simp: ws_established_def split: if_splits\<close>)

lemma exec_refines:
  assumes v: "session_valid ops contents cap pre ctx" and s: "ws_exec ops pre logs parse p ctx = Inr (ctx', calls, ret)"
  shows "session_valid ops contents cap pre ctx' \<and>
    queue_spec cap p (session_view contents pre ctx) = (session_view contents pre ctx', delivered calls)"
proof (cases p)
  case (WsSend e json)
  show ?thesis
    using send_refines [OF v] s WsSend by (cases json) (auto simp: session_view_def)
next
  case (WsConnectCall c)
  then show ?thesis using v s by (auto simp: session_view_def session_valid_def texts_def dest!: aigw_ws_connect_keeps)
next
  case WsDisconnect
  then show ?thesis using v s by (auto simp: aigw_ws_disconnect_def session_view_def)
next
  case (WsEvent ev)
  show ?thesis
  proof (cases "\<exists>m. ev = Writeable m")
    case True
    then show ?thesis using writeable_refines [OF v] s WsEvent by auto
  next
    case False
    then show ?thesis using other_event_keeps [of ops pre logs parse ev ctx] v s WsEvent
      by (cases ev) (auto simp: session_view_def session_valid_def texts_def)
  qed
qed

interpretation session: refinement "ws_exec ops pre logs parse" "queue_spec cap" "session_view contents pre" delivered
    "session_valid ops contents cap pre"
  by unfold_locales (simp, simp, rule exec_refines)

text \<open>In the specification nothing is reordered or invented.\<close>

fun sent :: "ws_op list \<Rightarrow> string list" where
  "sent [] = []"
| "sent (WsSend e (Some t) # ops) = t # sent ops"
| "sent (_ # ops) = sent ops"

lemma sent_append [simp]: "sent (xs @ ys) = sent xs @ sent ys"
  by (induction xs rule: sent.induct) simp_all

lemma queue_spec_accepts:
  "queue_spec cap p (q, c) = ((q', c'), out) \<Longrightarrow> out @ q' = q \<or> (out @ q' = q @ sent [p])"
  by (cases "(cap, p, (q, c))" rule: queue_spec.cases) (auto split: if_splits list.splits)

lemma queue_run_accepts:
  "spec_run (queue_spec cap) ps (q, c) = ((q', c'), out) \<Longrightarrow> \<exists>acc. subseq acc (sent ps) \<and> out @ q' = q @ acc"
proof (induction ps arbitrary: q c out)
  case (Cons p ps)
  obtain q1 c1 o1 o2 where p: "queue_spec cap p (q, c) = ((q1, c1), o1)"
    and ps: "spec_run (queue_spec cap) ps (q1, c1) = ((q', c'), o2)" "out = o1 @ o2"
    using Cons.prems by (auto simp: Let_def split: prod.splits)
  obtain acc where acc: "subseq acc (sent ps)" "o2 @ q' = q1 @ acc" using Cons.IH [OF ps(1)] by blast
  have s: "sent (p # ps) = sent [p] @ sent ps" using sent_append [of "[p]" ps] by simp
  from queue_spec_accepts [OF p] show ?case
  proof
    assume "o1 @ q1 = q"
    then have "out @ q' = q @ acc" using acc(2) ps(2) by auto
    then show ?thesis using acc(1) s by (auto intro: list_emb_append2)
  next
    assume "o1 @ q1 = q @ sent [p]"
    then have "(o1 @ q1) @ acc = (q @ sent [p]) @ acc" by simp
    then have "out @ q' = q @ sent [p] @ acc" using acc(2) ps(2) by simp
    moreover have "subseq (sent [p] @ acc) (sent (p # ps))" unfolding s using acc(1) by (intro list_emb_append_mono) simp_all
    ultimately show ?thesis by blast
  qed
qed simp

end
