(* ===== verification/RealtimeTheorems.thy ===== *)
theory RealtimeTheorems
  imports RealtimeProps
begin

text \<open>
  The properties of the realtime session: the send ring and the reconnections in the first part, the
  fragments of the server's messages in the second.
\<close>

section \<open>Sending\<close>

definition sample_ws_config :: ws_config where
  "sample_ws_config = \<lparr>wc_url = Some ''wss://gw'', wc_path = Some ''/v1/realtime'', wc_api_key = Some ''key'',
     wc_reconnect_interval_ms = 1000, wc_verify_ssl = True, wc_ca = None, wc_send_ping = True, wc_ping_interval_s = 110\<rparr>"

definition sample_ws :: "my_item list ws_ctx" where
  "sample_ws = \<lparr>ws_config = Some sample_ws_config, ws_iot = None, ws_callback = True, ws_ring = [], ws_connected = False,
     ws_try_connect = False, ws_ping_count = 0, ws_conn = False, ws_reconnect_times = 0\<rparr>"

definition sample_uri :: uri_parser where
  "sample_uri url = Some (''wss'', ''gw'', 443, '''')"

definition sample_send :: send_env where
  "sample_send = \<lparr>se_pre = 16, se_parse_uri = sample_uri, se_print = (\<lambda>_. Some ''{}''), se_conn = True, se_alloc = True\<rparr>"

text \<open>C8.
  Over every history of requests and callbacks the session behaves as the queue of its
  specification; in particular the texts written completely, followed by the texts still in the ring,
  are the accepted texts in the order of the requests, none of them twice, across any number of lost
  and renewed connections.
\<close>

theorem ws_session_refines_queue:
  assumes "ring_ok ring contents cap" "contents (ws_ring ctx) = []"
    and "ws_run ring pre logs parse ops ctx = Inr (ctx', calls)"
  shows "spec_run (queue_spec cap) ops ([], ws_connected ctx) =
      ((texts contents pre ctx', ws_connected ctx'), delivered calls) \<and>
    (\<exists>accepted. subseq accepted (sent ops) \<and> delivered calls @ texts contents pre ctx' = accepted)"
proof -
  have "session_valid ring contents cap pre ctx" using assms(1,2) by (simp add: session_valid_def)
  from session.run_refines [OF this assms(3)]
  have r: "spec_run (queue_spec cap) ops ([], ws_connected ctx) = ((texts contents pre ctx', ws_connected ctx'), delivered calls)"
    using assms(2) by (simp add: session_view_def texts_def)
  then show ?thesis using queue_run_accepts [OF r] by simp
qed

lemma ws_session_refines_queue_witness:
  "let ops = [WsSend sample_send (Some ''a''), WsSend sample_send (Some ''bc''), WsEvent Established,
       WsEvent (Writeable 1), WsEvent (Writeable 1), WsEvent ClientClosed, WsEvent Established, WsEvent (Writeable 2)];
     r = ws_run (list_ring 2) 16 True sample_uri ops sample_ws
   in case r of Inl _ \<Rightarrow> False | Inr (ctx', calls) \<Rightarrow>
     spec_run (queue_spec 2) ops ([], False) = ((texts (\<lambda>r. r) 16 ctx', ws_connected ctx'), delivered calls) \<and>
     delivered calls = [''a'', ''bc'']"
proof -
  let ?ops = "[WsSend sample_send (Some ''a''), WsSend sample_send (Some ''bc''), WsEvent Established,
       WsEvent (Writeable 1), WsEvent (Writeable 1), WsEvent ClientClosed, WsEvent Established, WsEvent (Writeable 2)]"
  have d: "case ws_run (list_ring 2) 16 True sample_uri ?ops sample_ws of Inl _ \<Rightarrow> False
     | Inr (ctx', calls) \<Rightarrow> delivered calls = [''a'', ''bc'']"
    by code_simp
  then obtain ctx' calls where r: "ws_run (list_ring 2) 16 True sample_uri ?ops sample_ws = Inr (ctx', calls)"
    by (cases "ws_run (list_ring 2) 16 True sample_uri ?ops sample_ws") (auto split: prod.splits)
  have s: "ws_ring sample_ws = []" "ws_connected sample_ws = False" by (simp_all add: sample_ws_def)
  show ?thesis
    using ws_session_refines_queue [OF list_ring_ok _ r] d s unfolding Let_def r by simp
qed

text \<open>A request that finds the ring full is lost without a sign: the text is not queued and the result is
  the one of success.
\<close>

theorem ws_full_ring_loses_request:
  assumes "ring_ok ring contents cap" "\<forall>i\<in>set (contents (ws_ring ctx)). \<exists>t. i = text_item pre t"
    and "cap \<le> length (texts contents pre ctx)" "ws_connected ctx"
  shows "\<exists>ctx' calls. aigw_ws_send_request ring pre parse conn True ctx (Some json) = Inr (ctx', calls, VOLC_OK) \<and>
    texts contents pre ctx' = texts contents pre ctx"
proof -
  obtain ctx' calls where s: "aigw_ws_send_request ring pre parse conn True ctx (Some json) = Inr (ctx', calls, VOLC_OK)"
    using assms(4) by (cases "ring_insert ring (text_item pre json) (ws_ring ctx)") (simp add: aigw_ws_send_request_def)
  have "session_valid ring contents cap pre ctx" using assms(1,2) by (simp add: session_valid_def)
  from send_refines [OF this s] show ?thesis using s assms(3) by auto
qed

lemma ws_full_ring_loses_request_witness:
  "\<exists>ctx' calls. aigw_ws_send_request (list_ring 1) 16 sample_uri True True
      (sample_ws\<lparr>ws_ring := [text_item 16 ''a''], ws_connected := True\<rparr>) (Some ''b'') = Inr (ctx', calls, VOLC_OK) \<and>
    texts (\<lambda>r. r) 16 ctx' = texts (\<lambda>r. r) 16 (sample_ws\<lparr>ws_ring := [text_item 16 ''a''], ws_connected := True\<rparr>)"
  by (rule ws_full_ring_loses_request [OF list_ring_ok]) (auto simp: texts_def)

section \<open>Reconnecting\<close>

lemma connection_error_run:
  assumes "ws_config ctx = Some cfg" "wc_url cfg = Some url" "parse url = Some (prot, address, port, path)"
    and "ws_reconnect_times ctx \<le> 3"
  shows "\<exists>ctx' calls. ws_run ring pre logs parse (map (\<lambda>c. WsEvent (ConnectionError c)) conns) ctx = Inr (ctx', calls) \<and>
    length calls = (if logs then min (3 - ws_reconnect_times ctx) (length conns)
      else if ws_reconnect_times ctx < 3 then length conns else 0) \<and>
    (\<forall>c\<in>set calls. \<exists>info. c = WsConnect info)"
  using assms
proof (induction conns arbitrary: ctx)
  case (Cons c conns)
  show ?case
  proof (cases "ws_reconnect_times ctx < 3")
    case True
    obtain info ctx1 where s: "ws_connection_error logs parse c ctx = Inr (ctx1, [WsConnect info], 0)"
      and k: "ws_config ctx1 = ws_config ctx" "ws_reconnect_times ctx1 = (if logs then ws_reconnect_times ctx + 1 else ws_reconnect_times ctx)"
      using Cons.prems True by (cases logs) (simp_all add: ws_connection_error_def aigw_ws_connect_def MAX_RECONNECT_TIMES_def Let_def)
    have "ws_config ctx1 = Some cfg" "ws_reconnect_times ctx1 \<le> 3" using Cons.prems k True by auto
    from Cons.IH [OF this(1) Cons.prems(2,3) this(2)] show ?thesis using s k True by auto
  next
    case False
    let ?ctx = "ctx\<lparr>ws_connected := False\<rparr>"
    have s: "ws_connection_error logs parse c ctx = Inr (?ctx, [], 0)"
      using False by (simp add: ws_connection_error_def MAX_RECONNECT_TIMES_def Let_def)
    have "ws_config ?ctx = Some cfg" "ws_reconnect_times ?ctx \<le> 3" using Cons.prems by auto
    from Cons.IH [OF this(1) Cons.prems(2,3) this(2)] show ?thesis using s False by auto
  qed
qed simp

text \<open>After a connection was established, the callback answers a row of failed connections with exactly
  three attempts and then gives up; when the library is built without user logs, whose arguments hold
  the increment of the counter, it reconnects after every failure without end.
\<close>

theorem ws_gives_up_after_three:
  assumes "ws_config ctx = Some cfg" "wc_url cfg = Some url" "parse url = Some (prot, address, port, path)"
  shows "\<exists>ctx' calls. ws_run ring pre logs parse (WsEvent Established # map (\<lambda>c. WsEvent (ConnectionError c)) conns) ctx =
      Inr (ctx', [WsWritable, WsSetTimer] @ calls) \<and>
    length calls = (if logs then min 3 (length conns) else length conns) \<and> (\<forall>c\<in>set calls. \<exists>info. c = WsConnect info)"
proof -
  let ?ctx = "ctx\<lparr>ws_connected := True, ws_try_connect := True, ws_ping_count := 0, ws_reconnect_times := 0\<rparr>"
  have "ws_config ?ctx = Some cfg" "ws_reconnect_times ?ctx \<le> 3" using assms by simp_all
  from connection_error_run [where ctx = ?ctx and parse = parse and url = url, OF this(1) assms(2,3) this(2), of ring pre logs conns]
  show ?thesis by (auto simp: ws_established_def)
qed

lemma ws_gives_up_after_three_witness:
  "\<exists>ctx' calls. ws_run (list_ring 2) 16 True sample_uri
      (WsEvent Established # map (\<lambda>c. WsEvent (ConnectionError c)) [True, True, True, True, False]) sample_ws =
      Inr (ctx', [WsWritable, WsSetTimer] @ calls) \<and>
    length calls = (if True then min 3 (length [True, True, True, True, False]) else length [True, True, True, True, False]) \<and>
    (\<forall>c\<in>set calls. \<exists>info. c = WsConnect info)"
  by (rule ws_gives_up_after_three [where cfg = sample_ws_config and url = "''wss://gw''" and prot = "''wss''"
        and address = "''gw''" and port = 443 and path = "[]"])
    (simp_all add: sample_ws_def sample_ws_config_def sample_uri_def)

end
