(* ===== verification/RtFragments.thy ===== *)
theory RtFragments
  imports RealtimeTheorems
begin

text \<open>
  The reassembly buffer of \<^verbatim>\<open>rt_recv_cb\<close>: the capacity is the size of the memory, the bytes in use
  are the part of the stream that is no document yet, and the events are those of the documents of
  the stream, however it is cut. A failed \<^verbatim>\<open>realloc\<close> breaks the first of these.
\<close>

section \<open>The stream\<close>

text \<open>
  What the code relies on in the parser of cJSON, for the documents of a stream: a document is
  recognised as soon as it is complete, whatever follows, and not before.
\<close>

definition stream_parser :: "prefix_parser \<Rightarrow> (json \<Rightarrow> string) \<Rightarrow> json set \<Rightarrow> bool" where
  "stream_parser parse enc docs \<longleftrightarrow>
     (\<forall>d\<in>docs. enc d \<noteq> [] \<and> (\<forall>rest. parse (enc d @ rest) = Some (d, length (enc d))) \<and>
        (\<forall>p. strict_prefix p (enc d) \<longrightarrow> parse p = None))"

definition stream_of :: "(json \<Rightarrow> string) \<Rightarrow> json list \<Rightarrow> string" where
  "stream_of enc ds = concat (map enc ds)"

text \<open>A prefix of a stream is some of its documents and a part of the next one.\<close>

lemma stream_prefix:
  assumes "prefix x (stream_of enc ds @ tail)"
  shows "\<exists>k t. k \<le> length ds \<and> x = stream_of enc (take k ds) @ t \<and>
    (if k < length ds then strict_prefix t (enc (ds ! k)) else prefix t tail)"
  using assms
proof (induction ds arbitrary: x)
  case Nil
  then show ?case by (simp add: stream_of_def)
next
  case (Cons d ds)
  have p: "prefix x (enc d @ stream_of enc ds @ tail)" using Cons.prems by (simp add: stream_of_def)
  show ?case
  proof (cases "strict_prefix x (enc d)")
    case True
    then show ?thesis by (intro exI [of _ 0] exI [of _ x]) (simp add: stream_of_def)
  next
    case False
    then obtain y where y: "x = enc d @ y" "prefix y (stream_of enc ds @ tail)"
      using p by (auto simp: prefix_append strict_prefix_def)
    then obtain k t where "k \<le> length ds" "y = stream_of enc (take k ds) @ t"
      "if k < length ds then strict_prefix t (enc (ds ! k)) else prefix t tail"
      using Cons.IH [OF y(2)] by blast
    then show ?thesis by (intro exI [of _ "Suc k"] exI [of _ t]) (simp add: y(1) stream_of_def)
  qed
qed

section \<open>The buffer\<close>

definition rt_content :: "rt_state \<Rightarrow> string" where
  "rt_content st = (case rt_buf st of None \<Rightarrow> [] | Some b \<Rightarrow> take (rt_size st) b)"

definition rt_wf :: "rt_state \<Rightarrow> bool" where
  "rt_wf st \<longleftrightarrow> (case rt_buf st of None \<Rightarrow> rt_size st = 0
     | Some b \<Rightarrow> length b = rt_capacity st \<and> rt_size st \<le> rt_capacity st)"

lemma rt_content_length: "rt_wf st \<Longrightarrow> length (rt_content st) = rt_size st"
  by (auto simp: rt_wf_def rt_content_def split: option.splits)

lemma rt_loop_stream:
  assumes "stream_parser parse enc (set ds)" "take n buf = stream_of enc ds @ t" "n \<le> length buf" "parse t = None"
  shows "\<exists>buf'. rt_loop parse dispatch buf n evs = Some (Inr (buf', length t, evs @ concat (map dispatch ds))) \<and>
    length buf' = length buf \<and> take (length t) buf' = t"
  using assms
proof (induction ds arbitrary: buf n evs)
  case Nil
  then have "n = length t" by (metis append_Nil concat.simps(1) length_take list.map(1) min.absorb2 stream_of_def)
  then show ?case using Nil by (subst rt_loop.simps) (simp add: stream_of_def)
next
  case (Cons d ds)
  let ?n = "length (enc d)"
  have c: "take n buf = enc d @ stream_of enc ds @ t" using Cons.prems(2) by (simp add: stream_of_def)
  have p: "parse (take n buf) = Some (d, ?n)" unfolding c using Cons.prems(1) by (simp add: stream_parser_def)
  have "length (take n buf) = n" using Cons.prems(3) by simp
  then have len: "?n + length (stream_of enc ds @ t) = n" using arg_cong [OF c, of length] by simp
  define buf1 where "buf1 = memmove_in 0 ?n (n - ?n) buf"
  have "take (n - ?n) (drop ?n buf) = drop ?n (take n buf)" by (simp add: drop_take)
  then have t1: "take (n - ?n) buf1 = stream_of enc ds @ t"
    using take_memmove_in [of 0 ?n "n - ?n" buf] len Cons.prems(3) c by (simp add: buf1_def)
  have l1: "length buf1 = length buf" using len Cons.prems(3) by (simp add: buf1_def array_simps)
  have nl: "n - ?n \<le> length buf1" using l1 Cons.prems(3) by simp
  have sp: "stream_parser parse enc (set ds)" using Cons.prems(1) by (simp add: stream_parser_def)
  obtain buf' where "rt_loop parse dispatch buf1 (n - ?n) (evs @ dispatch d) =
      Some (Inr (buf', length t, (evs @ dispatch d) @ concat (map dispatch ds)))"
      "length buf' = length buf1" "take (length t) buf' = t"
    using Cons.IH [OF sp t1 nl Cons.prems(4), of "evs @ dispatch d"] by blast
  then show ?case using p len l1 by (subst rt_loop.simps) (simp add: buf1_def)
qed

lemma rt_reserve_ok:
  assumes "rt_wf st" "2 * (rt_size st + len) < 2 ^ 64" "rt_reserve True len st = (st', go)"
  shows "go \<and> rt_wf st' \<and> rt_size st' = rt_size st \<and> rt_content st' = rt_content st \<and>
    (\<exists>b. rt_buf st' = Some b \<and> rt_size st + len \<le> length b)"
proof -
  have m: "(rt_size st + len) mod 2 ^ 64 = rt_size st + len" "(rt_size st + len) * 2 mod 2 ^ 64 = (rt_size st + len) * 2"
    "len * 2 mod 2 ^ 64 = len * 2" "\<not> len > (2 ^ 64 - 1) div 2" "\<not> rt_size st > 2 ^ 64 - 1 - len"
    using assms(2) by simp_all
  show ?thesis
  proof (cases "rt_buf st")
    case None
    then show ?thesis using assms(1,3) unfolding rt_reserve_def
      by (simp only: None option.case Let_def m) (auto simp: rt_wf_def rt_content_def None)
  next
    case (Some b)
    have "rt_reserve True len st =
        (if rt_capacity st < rt_size st + len
         then (st\<lparr>rt_capacity := (rt_size st + len) * 2, rt_buf := Some (realloc_to NUL ((rt_size st + len) * 2) b)\<rparr>, True)
         else (st, True))"
      unfolding rt_reserve_def by (simp only: Some option.case Let_def m if_False simp_thms) simp
    then show ?thesis using assms(1,3) Some
      by (auto simp: rt_wf_def rt_content_def array_simps split: if_splits)
  qed
qed

lemma rt_recv_stream:
  assumes "stream_parser parse enc (set ds)" "parse t = None"
    and "rt_wf st" "2 * (rt_size st + length m) < 2 ^ 64" "rt_content st @ m = stream_of enc ds @ t"
  shows "\<exists>st'. rt_recv_cb parse dispatch True m st = Some (Inr (st', concat (map dispatch ds))) \<and>
    rt_wf st' \<and> rt_content st' = t"
proof -
  obtain st1 go where r: "rt_reserve True (length m) st = (st1, go)" by fastforce
  from rt_reserve_ok [OF assms(3,4) r] obtain b where
    1: "go" "rt_wf st1" "rt_size st1 = rt_size st" "rt_content st1 = rt_content st"
      "rt_buf st1 = Some b" "rt_size st + length m \<le> length b" by blast
  let ?b = "memcpy_at (rt_size st) m b" and ?n = "rt_size st + length m"
  have c: "take ?n ?b = stream_of enc ds @ t"
    using assms(5) 1 by (simp add: array_simps rt_content_def)
  have lb: "length ?b = length b" using 1(6) by (simp add: array_simps)
  obtain buf' where l: "rt_loop parse dispatch ?b ?n [] = Some (Inr (buf', length t, concat (map dispatch ds)))"
      "length buf' = length b" "take (length t) buf' = t"
    using rt_loop_stream [OF assms(1) c _ assms(2), of dispatch "[]"] 1(6) lb by auto
  have "length t \<le> length b" using l(2,3) by (metis length_take min.cobounded2 min.commute)
  then show ?thesis using r 1 l
    by (simp add: rt_recv_cb_def Let_def) (auto simp: rt_wf_def rt_content_def)
qed

text \<open>A stream that is cut into fragments, received from the state in which \<open>c\<close> has arrived.\<close>

lemma rt_recv_all_stream:
  assumes "stream_parser parse enc docs" "set ds \<subseteq> docs" "\<forall>p. prefix p tail \<longrightarrow> parse p = None"
    and "rt_wf st" "rt_content st @ concat frags = stream_of enc ds @ tail" "2 * (length (stream_of enc ds) + length tail) < 2 ^ 64"
  shows "\<exists>st'. rt_recv_all parse dispatch frags st = Some (Inr (st', concat (map dispatch ds))) \<and>
    rt_wf st' \<and> rt_content st' = tail \<or> ds \<noteq> [] \<and> frags = []"
  using assms(2,4-)
proof (induction frags arbitrary: ds st)
  case Nil
  then show ?case by (auto simp: stream_of_def)
next
  case (Cons m frags)
  have "prefix (rt_content st @ m) (stream_of enc ds @ tail)"
    using Cons.prems(3) by (metis append.assoc concat.simps(2) prefixI)
  then obtain k t where k: "k \<le> length ds" "rt_content st @ m = stream_of enc (take k ds) @ t"
      "if k < length ds then strict_prefix t (enc (ds ! k)) else prefix t tail"
    using stream_prefix by blast
  have s: "stream_of enc ds = stream_of enc (take k ds) @ stream_of enc (drop k ds)"
    unfolding stream_of_def by (metis append_take_drop_id concat_append map_append)
  have t: "parse t = None"
  proof (cases "k < length ds")
    case True
    then have "ds ! k \<in> docs" using Cons.prems(1) nth_mem by blast
    then show ?thesis using k(3) True assms(1) by (simp add: stream_parser_def)
  qed (use k(3) assms(3) in auto)
  have sp: "stream_parser parse enc (set (take k ds))"
    using assms(1) Cons.prems(1) in_set_takeD [of _ k ds] by (fastforce simp: stream_parser_def)
  have "length (rt_content st @ m) + length (concat frags) = length (stream_of enc ds) + length tail"
    using arg_cong [OF Cons.prems(3), of length] by simp
  then have "2 * (rt_size st + length m) < 2 ^ 64"
    using Cons.prems(4) rt_content_length [OF Cons.prems(2)] by simp
  from rt_recv_stream [OF sp t Cons.prems(2) this k(2)] obtain st1 where
    1: "rt_recv_cb parse dispatch True m st = Some (Inr (st1, concat (map dispatch (take k ds))))" "rt_wf st1" "rt_content st1 = t"
    by blast
  have "stream_of enc (take k ds) @ t @ concat frags = (rt_content st @ m) @ concat frags" using k(2) by simp
  also have "\<dots> = stream_of enc (take k ds) @ stream_of enc (drop k ds) @ tail" using Cons.prems(3) s by simp
  finally have "t @ concat frags = stream_of enc (drop k ds) @ tail" by simp
  then have r: "rt_content st1 @ concat frags = stream_of enc (drop k ds) @ tail" by (simp add: 1)
  have b: "2 * (length (stream_of enc (drop k ds)) + length tail) < 2 ^ 64" using Cons.prems(4) s by simp
  have d: "set (drop k ds) \<subseteq> docs" using Cons.prems(1) set_drop_subset by fast
  have e: "concat (map dispatch ds) = concat (map dispatch (take k ds)) @ concat (map dispatch (drop k ds))"
    by (metis append_take_drop_id concat_append map_append)
  show ?case
  proof (cases frags)
    case Nil
    have none: "drop k ds = []"
    proof (rule ccontr)
      assume "drop k ds \<noteq> []"
      then have lt: "k < length ds" by simp
      then have "length t < length (enc (ds ! k))" using k(3) prefix_length_less by auto
      moreover have "t = stream_of enc (drop k ds) @ tail" using r 1(3) Nil by simp
      then have "length (enc (ds ! k)) \<le> length t" using lt by (simp add: stream_of_def flip: Cons_nth_drop_Suc)
      ultimately show False by simp
    qed
    have "concat (map dispatch ds) = concat (map dispatch (take k ds))" unfolding e none by simp
    moreover have "t = tail" using r 1(3) Nil none by (simp add: stream_of_def)
    ultimately show ?thesis using 1 Nil by (intro exI [of _ st1]) simp
  next
    case (Cons m' frags')
    then obtain st2 where "rt_recv_all parse dispatch frags st1 = Some (Inr (st2, concat (map dispatch (drop k ds))))"
      "rt_wf st2" "rt_content st2 = tail"
      using Cons.IH [OF d 1(2) r b] by auto
    then show ?thesis using 1 e by (intro exI [of _ st2]) simp
  qed
qed

definition rt_initial :: rt_state where
  "rt_initial = \<lparr>rt_buf = None, rt_size = 0, rt_capacity = 0\<rparr>"

section \<open>Properties\<close>


definition done_doc :: json where
  "done_doc = JObj [(''type'', JStr ''response.done''), (''event_id'', JStr ''e'')]"

definition done_parser :: prefix_parser where
  "done_parser s = (if take 2 s = ''{}'' then Some (done_doc, 2) else None)"

lemma done_parser_ok: "stream_parser done_parser (\<lambda>_. ''{}'') {done_doc}"
  by (auto simp: stream_parser_def done_parser_def strict_prefix_def prefix_Cons)


text \<open>Bytes at the front of the buffer that no continuation turns into a document stop the session for
  good: no later message causes an event, and everything received piles up behind them.
\<close>

theorem rt_malformed_blocks:
  assumes "\<And>rest. parse (junk @ rest) = None" "rt_wf st" "rt_content st = junk @ x"
    and "2 * (rt_size st + length (concat frags)) < 2 ^ 64"
  shows "\<exists>st'. rt_recv_all parse dispatch frags st = Some (Inr (st', [])) \<and> rt_content st' = junk @ x @ concat frags"
  using assms
proof (induction frags arbitrary: st x)
  case (Cons m frags)
  have sp: "stream_parser parse (\<lambda>_. []) (set [])" by (simp add: stream_parser_def)
  have c: "rt_content st @ m = stream_of (\<lambda>_. []) [] @ junk @ x @ m" using Cons.prems(3) by (simp add: stream_of_def)
  have "2 * (rt_size st + length m) < 2 ^ 64" using Cons.prems(4) by simp
  from rt_recv_stream [OF sp Cons.prems(1) Cons.prems(2) this c, of dispatch] obtain st1 where
    1: "rt_recv_cb parse dispatch True m st = Some (Inr (st1, []))" "rt_wf st1" "rt_content st1 = junk @ x @ m" by auto
  have "rt_size st1 = rt_size st + length m"
    using rt_content_length [OF 1(2)] rt_content_length [OF Cons.prems(2)] Cons.prems(3) 1(3) by simp
  then obtain st2 where "rt_recv_all parse dispatch frags st1 = Some (Inr (st2, []))" "rt_content st2 = junk @ (x @ m) @ concat frags"
    using Cons.IH [OF Cons.prems(1) 1(2), of "x @ m"] 1(3) Cons.prems(4) by auto
  then show ?case using 1 by simp
qed simp

lemma rt_malformed_blocks_witness:
  "\<exists>st'. rt_recv_all done_parser (rt_dispatch (=) None) [''{'', ''}''] \<lparr>rt_buf = Some ''x  '', rt_size = 1, rt_capacity = 3\<rparr> =
      Some (Inr (st', [])) \<and> rt_content st' = ''x'' @ [] @ concat [''{'', ''}'']"
  by (rule rt_malformed_blocks) (simp_all add: done_parser_def rt_wf_def rt_content_def numeral_3_eq_3)

text \<open>When a \<^verbatim>\<open>realloc\<close> fails the message is dropped but the larger capacity is remembered: the next
  message that does not fit the memory and fits this capacity is written behind the memory.
\<close>

theorem rt_failed_realloc_overflows:
  assumes "rt_wf st" "rt_buf st = Some b" "length b < rt_size st + length m" "2 * (rt_size st + length m) < 2 ^ 64"
    and "length b < rt_size st + length m2" "rt_size st + length m2 \<le> 2 * (rt_size st + length m)"
  shows "\<exists>st'. rt_recv_cb parse dispatch False m st = Some (Inr (st', [])) \<and> \<not> rt_wf st' \<and>
    rt_recv_cb parse dispatch alloc m2 st' = Some (Inl OutOfBounds)"
proof -
  let ?st = "st\<lparr>rt_capacity := (rt_size st + length m) * 2\<rparr>"
  have w: "length b = rt_capacity st" using assms(1,2) by (simp add: rt_wf_def)
  have m: "(rt_size st + length m) mod 2 ^ 64 = rt_size st + length m"
    "(rt_size st + length m) * 2 mod 2 ^ 64 = (rt_size st + length m) * 2"
    "\<not> length m > (2 ^ 64 - 1) div 2" "\<not> rt_size st > 2 ^ 64 - 1 - length m"
    "(rt_size st + length m2) mod 2 ^ 64 = rt_size st + length m2"
    using assms(4,6) by simp_all
  have 1: "rt_reserve False (length m) st = (?st, False)"
    unfolding rt_reserve_def using assms(3) w by (simp only: assms(2) option.case Let_def m if_False if_True simp_thms)
  have 2: "rt_reserve alloc (length m2) ?st = (?st, True)"
    unfolding rt_reserve_def using assms(2,6) m(5) by simp
  have "\<not> rt_wf ?st" using assms(2,3) w by (simp add: rt_wf_def)
  then show ?thesis using 1 2 assms(2,5) by (intro exI [of _ ?st]) (simp add: rt_recv_cb_def)
qed

lemma rt_failed_realloc_overflows_witness:
  "\<exists>st'. rt_recv_cb done_parser (rt_dispatch (=) None) False ''abcd'' \<lparr>rt_buf = Some ''x '', rt_size = 1, rt_capacity = 2\<rparr> =
      Some (Inr (st', [])) \<and> \<not> rt_wf st' \<and>
    rt_recv_cb done_parser (rt_dispatch (=) None) True ''abcdef'' st' = Some (Inl OutOfBounds)"
  by (rule rt_failed_realloc_overflows [where b = "''x ''"]) (simp_all add: rt_wf_def)

end
