(* ===== verification/ChatRequest.thy ===== *)
theory ChatRequest
  imports DeviceAuth
begin

text \<open>
  The chat request of \<^verbatim>\<open>src/infer_inner_chat.c\<close>: the JSON document the model service is sent and
  the HTTP request that carries it, signed for the device. Arrays with a count are lists; a null
  pointer to an array is \<open>None\<close>.
\<close>

section \<open>The request of the user\<close>

record chat_tool =
  ct_type :: "string option"
  ct_name :: "string option"
  ct_description :: "string option"
  ct_parameters :: "string option"
  ct_required :: "string option"

record chat_multi_content =
  mc_type :: "string option"
  mc_text :: "string option"
  mc_url :: "string option"
  mc_detail :: "string option"

record chat_tool_call =
  tc_id :: "string option"
  tc_type :: "string option"
  tc_name :: "string option"
  tc_arguments :: "string option"

record chat_message =
  cm_role :: "string option"
  cm_content :: "string option"
  cm_multi_contents :: "chat_multi_content list option"
  cm_tool_calls :: "chat_tool_call list option"
  cm_tool_call_id :: "string option"
  cm_function_call :: "string option"

record chat_request =
  rq_model :: "string option"
  rq_messages :: "chat_message list"
  rq_tools :: "chat_tool list"
  rq_tool_choice :: "string option"
  rq_max_completion_tokens :: int
  rq_stream :: bool
  rq_temperature :: rat
  rq_top_p :: rat
  rq_store :: bool

section \<open>The document\<close>

text \<open>The type of a content is compared before it is looked at: a null type is dereferenced.\<close>

definition content_item :: "chat_multi_content \<Rightarrow> json c_result" where
  "content_item c =
     (case mc_type c of
        None \<Rightarrow> Inl NullDeref
      | Some t \<Rightarrow>
          Inr (JObj ([(''type'', JStr t)] @
            (if t = ''image_url''
             then [(''image_url'', JObj (str_member ''url'' (mc_url c) @ str_member ''detail'' (mc_detail c)))]
             else if t = ''text'' then str_member ''text'' (mc_text c) else []))))"

definition message_content :: "chat_message \<Rightarrow> (string \<times> json) list c_result" where
  "message_content m =
     (case cm_multi_contents m of
        None \<Rightarrow> Inr (str_member ''content'' (cm_content m))
      | Some cs \<Rightarrow> c_bind (c_map content_item cs) (\<lambda>items. Inr [(''content'', JArr items)]))"

definition tool_call_doc :: "chat_tool_call \<Rightarrow> json" where
  "tool_call_doc tc =
     JObj (str_member ''id'' (tc_id tc) @ str_member ''type'' (tc_type tc) @
       [(''function'', JObj (str_member ''name'' (tc_name tc) @ str_member ''arguments'' (tc_arguments tc)))])"

definition message_doc :: "chat_message \<Rightarrow> json c_result" where
  "message_doc m =
     c_bind (message_content m) (\<lambda>content.
       Inr (JObj (str_member ''role'' (cm_role m) @ content @
         item_member ''tool_calls'' (map_option (\<lambda>tcs. JArr (map tool_call_doc tcs)) (cm_tool_calls m)) @
         str_member ''tool_call_id'' (cm_tool_call_id m))))"

text \<open>The parameters of a tool are text that is parsed; text that is no JSON is left out.\<close>

definition tool_doc :: "(string \<Rightarrow> json option) \<Rightarrow> chat_tool \<Rightarrow> json" where
  "tool_doc parse t =
     JObj (str_member ''type'' (ct_type t) @
       [(''function'', JObj (str_member ''name'' (ct_name t) @ str_member ''description'' (ct_description t) @
          item_member ''parameters'' (Option.bind (ct_parameters t) parse) @ str_member ''required'' (ct_required t)))])"

definition tool_choice_member :: "(string \<Rightarrow> json option) \<Rightarrow> string option \<Rightarrow> (string \<times> json) list" where
  "tool_choice_member parse choice =
     item_member ''tool_choice'' (map_option (\<lambda>s. case parse s of Some j \<Rightarrow> j | None \<Rightarrow> JStr s) choice)"

text \<open>Tools together with streaming are refused, after the messages have been built.\<close>

definition request_doc :: "(string \<Rightarrow> json option) \<Rightarrow> chat_request \<Rightarrow> json option c_result" where
  "request_doc parse r =
     c_bind (c_map message_doc (rq_messages r)) (\<lambda>ms.
       if rq_tools r \<noteq> [] \<and> rq_stream r then Inr None
       else Inr (Some (JObj (
         str_member ''model'' (rq_model r) @
         [(''messages'', JArr ms), (''store'', JBool (rq_store r)), (''stream'', JBool (rq_stream r))] @
         (if rq_max_completion_tokens r > 0 then [(''max_tokens'', JNum (of_int (rq_max_completion_tokens r)))] else []) @
         (if rq_temperature r > 0 then [(''temperature'', JNum (rq_temperature r))] else []) @
         (if rq_top_p r > 0 then [(''top_p'', JNum (rq_top_p r))] else []) @
         (if rq_tools r \<noteq> [] then [(''tools'', JArr (map (tool_doc parse) (rq_tools r)))] else []) @
         tool_choice_member parse (rq_tool_choice r)))))"

section \<open>The HTTP request\<close>

definition chat_completions_path :: string where "chat_completions_path = ''/v1/chat/completions''"

definition ONESDK_INFER_DEFAULT_CHAT_TIMEOUT :: int where "ONESDK_INFER_DEFAULT_CHAT_TIMEOUT = 60 * 1000"

text \<open>\<^verbatim>\<open>snprintf\<close> into an array: what does not fit is cut off.\<close>

definition snprintf_s :: "nat \<Rightarrow> string \<Rightarrow> string" where
  "snprintf_s n s = take (n - 1) s"

text \<open>The pointers to callbacks of the context are set by the functions that send.\<close>

record chat_request_context =
  cr_http :: http_request_ctx
  cr_endpoint :: string
  cr_api_key :: string

text \<open>
  What an environment gives one request: the parameters of the cloud, a random number and a time for
  the signature, the hardware id, the outcome of the allocations, and the
  integer cJSON stores beside a number.
\<close>

record chat_env =
  ch_cloud :: cloud_env
  ch_random :: "32 word"
  ch_time :: "64 word"
  ch_hardware :: "string option"
  ch_alloc :: "nat \<Rightarrow> bool"
  ch_valueint :: "rat \<Rightarrow> int"

definition chat_sign ::
  "chat_env \<Rightarrow> http_request_ctx \<Rightarrow> basic_config option \<Rightarrow> (http_request_ctx option \<times> basic_config) c_result" where
  "chat_sign env http_ctx config =
     (case config of
        None \<Rightarrow> Inl NullDeref
      | Some cfg \<Rightarrow> device_auth_client (ch_random env) (ch_time env) (ch_cloud env) (ch_alloc env) (ch_hardware env) (Some http_ctx) cfg)"

text \<open>
  \<^verbatim>\<open>chat_request_context_init\<close>. \<open>iot\<close> is the device context with its configuration. The device
  context is tested before the signature and used without a test after it; the signed request is
  used without a test as well. The configuration is returned, since a registration may have changed it.
\<close>

definition chat_request_context_init ::
  "chat_env \<Rightarrow> string option \<Rightarrow> string \<Rightarrow> chat_request \<Rightarrow> basic_config option option
     \<Rightarrow> (chat_request_context option \<times> basic_config option option) c_result" where
  "chat_request_context_init env endpoint api_key request iot =
     c_bind (new_http_ctx (ch_alloc env)) (\<lambda>ctxp. case ctxp of
       None \<Rightarrow> Inr (None, iot)
     | Some ctx \<Rightarrow>
         (case endpoint of
            None \<Rightarrow> Inr (None, iot)
          | Some ep \<Rightarrow>
              if ep = [] then Inr (None, iot)
              else c_bind (http_ctx_set_url (ce_uri (ch_cloud env)) ctx (Some (snprintf_s 256 (ep @ chat_completions_path)))) (\<lambda>ctx.
                let ctx = http_ctx_set_method (ctx\<lparr>timeout_ms := ONESDK_INFER_DEFAULT_CHAT_TIMEOUT\<rparr>) HTTP_POST in
                c_bind (request_doc (ce_parse (ch_cloud env)) request) (\<lambda>doc. case doc of
                  None \<Rightarrow> Inr (None, iot)
                | Some root_obj \<Rightarrow>
                    let ctx = http_ctx_set_json_body (ch_alloc env 12) ctx (Some (ce_print (ch_cloud env) root_obj));
                        ctx = http_ctx_add_header (ch_alloc env 13) ctx ''Content-Type'' ''application/json''
                    in c_bind (http_ctx_set_bearer_token (ch_alloc env 14) ctx (Some (snprintf_s 256 (''Bearer '' @ api_key)))) (\<lambda>ctx.
                    case iot of
                      None \<Rightarrow> Inl NullDeref
                    | Some config \<Rightarrow>
                        c_bind (chat_sign env ctx config) (\<lambda>(ctxp, cfg).
                        case ctxp of
                          None \<Rightarrow> Inl NullDeref
                        | Some ctx \<Rightarrow>
                            c_bind (http_ctx_set_ca_crt (ch_alloc env 15) ctx (bc_ssl_ca_cert cfg)) (\<lambda>ctx.
                            Inr (Some \<lparr>cr_http = ctx\<lparr>hc_verify_ssl := bc_verify_ssl cfg\<rparr>, cr_endpoint = ep, cr_api_key = api_key\<rparr>,
                                 Some (Some cfg)))))))))"

end
