(* ===== verification/ChatResponse.thy ===== *)
theory ChatResponse
  imports ChatRequest
begin

text \<open>
  The answers of the model service, \<^verbatim>\<open>src/infer_inner_chat.c\<close>: the parsers of a whole response and of
  one streamed part. The comparison of keys, the JSON parser and printer and the integer value cJSON
  stores beside a number (\<open>vi\<close>) are arguments. Strings are copied with \<^verbatim>\<open>strdup\<close>, which reads through
  its argument: a missing member or one that is no string ends in a null dereference where the code
  does not test it. The memory of the structures is assumed to be available.
\<close>

section \<open>Tool calls\<close>

text \<open>\<^verbatim>\<open>strdup(item->valuestring)\<close> without a test of the item.\<close>

definition dup_untested :: "json option \<Rightarrow> string c_result" where
  "dup_untested item = (case item of Some (JStr s) \<Rightarrow> Inr s | _ \<Rightarrow> Inl NullDeref)"

definition int_item :: "(rat \<Rightarrow> int) \<Rightarrow> json option \<Rightarrow> int" where
  "int_item vi item = (case item of Some (JNum x) \<Rightarrow> vi x | _ \<Rightarrow> 0)"

definition double_item :: "json option \<Rightarrow> rat" where
  "double_item item = (case item of Some (JNum x) \<Rightarrow> x | _ \<Rightarrow> 0)"

definition uint64_item :: "json option \<Rightarrow> nat c_result" where
  "uint64_item item = (case item of Some (JNum x) \<Rightarrow> to_uint64 x | _ \<Rightarrow> Inr 0)"

definition is_object :: "json option \<Rightarrow> bool" where
  "is_object item = (case item of Some (JObj _) \<Rightarrow> True | _ \<Rightarrow> False)"

text \<open>A tool call of a whole response: every string of it is copied without a test.\<close>

definition parse_tool_call :: "key_eq \<Rightarrow> json \<Rightarrow> chat_tool_call c_result" where
  "parse_tool_call keq call =
     c_bind (dup_untested (get_item keq (Some call) ''id'')) (\<lambda>i.
     c_bind (dup_untested (get_item keq (Some call) ''type'')) (\<lambda>t.
     let func = get_item keq (Some call) ''function'' in
     if is_object func then
       c_bind (dup_untested (get_item keq func ''name'')) (\<lambda>n.
       c_bind (dup_untested (get_item keq func ''arguments'')) (\<lambda>a.
       Inr \<lparr>tc_id = Some i, tc_type = Some t, tc_name = Some n, tc_arguments = Some a\<rparr>))
     else Inr \<lparr>tc_id = Some i, tc_type = Some t, tc_name = None, tc_arguments = None\<rparr>))"

text \<open>A tool call of a streamed part: only the identifier and the type are copied without a test.\<close>

definition parse_delta_tool_call :: "key_eq \<Rightarrow> json \<Rightarrow> chat_tool_call c_result" where
  "parse_delta_tool_call keq call =
     c_bind (dup_untested (get_item keq (Some call) ''id'')) (\<lambda>i.
     c_bind (dup_untested (get_item keq (Some call) ''type'')) (\<lambda>t.
     let func = get_item keq (Some call) ''function'' in
     Inr \<lparr>tc_id = Some i, tc_type = Some t,
       tc_name = (if is_object func then string_item (get_item keq func ''name'') else None),
       tc_arguments = (if is_object func then string_item (get_item keq func ''arguments'') else None)\<rparr>))"

section \<open>A whole response\<close>

record chat_choice =
  cc_index :: int
  cc_message :: chat_message
  cc_finish_reason :: "string option"

record chat_usage =
  us_prompt_tokens :: int
  us_completion_tokens :: int
  us_total_tokens :: int
  us_reasoning_tokens :: int
  us_accepted_prediction_tokens :: int
  us_rejected_prediction_tokens :: int

text \<open>
  Members that the code only ever sets to null are left out. \<open>rs_metadata\<close> says that the structure
  holds a pointer into the parsed document, which is released before the function returns.
\<close>

record chat_response =
  rs_id :: "string option"
  rs_object :: "string option"
  rs_created :: nat
  rs_choices :: "chat_choice list"
  rs_model :: "string option"
  rs_system_fingerprint :: "string option"
  rs_usage :: chat_usage
  rs_request_id :: "string option"
  rs_seed :: nat
  rs_top_p :: rat
  rs_temperature :: rat
  rs_presence_penalty :: rat
  rs_frequency_penalty :: rat
  rs_service_tier :: "string option"
  rs_metadata :: bool

definition parse_choice_tool_calls :: "key_eq \<Rightarrow> json option \<Rightarrow> chat_tool_call list option c_result" where
  "parse_choice_tool_calls keq item =
     (case item of
        Some (JArr calls) \<Rightarrow> c_bind (c_map (parse_tool_call keq) calls) (\<lambda>tcs. Inr (Some tcs))
      | _ \<Rightarrow> Inr None)"

definition parse_choice :: "key_eq \<Rightarrow> (rat \<Rightarrow> int) \<Rightarrow> (json \<Rightarrow> string) \<Rightarrow> json \<Rightarrow> chat_choice c_result" where
  "parse_choice keq vi print choice =
     (let msg = get_item keq (Some choice) ''message''; m = get_item keq msg in
      c_bind (parse_choice_tool_calls keq (m ''tool_calls'')) (\<lambda>tcs.
      Inr \<lparr>cc_index = int_item vi (get_item keq (Some choice) ''index''),
           cc_message = \<lparr>cm_role = (if is_object msg then string_item (m ''role'') else None),
             cm_content = (if is_object msg then string_item (m ''content'') else None),
             cm_multi_contents = None, cm_tool_calls = tcs, cm_tool_call_id = None,
             cm_function_call = (case m ''function_call'' of Some (JObj kvs) \<Rightarrow> Some (print (JObj kvs)) | _ \<Rightarrow> None)\<rparr>,
           cc_finish_reason = string_item (get_item keq (Some choice) ''finish_reason'')\<rparr>))"

definition parse_usage :: "key_eq \<Rightarrow> (rat \<Rightarrow> int) \<Rightarrow> json option \<Rightarrow> chat_usage" where
  "parse_usage keq vi usage =
     (let n = (\<lambda>obj key. int_item vi (get_item keq obj key));
          details = get_item keq usage ''completion_tokens_details'';
          d = (\<lambda>key. if is_object details then n details key else 0)
      in \<lparr>us_prompt_tokens = n usage ''prompt_tokens'', us_completion_tokens = n usage ''completion_tokens'',
          us_total_tokens = n usage ''total_tokens'', us_reasoning_tokens = d ''reasoning_tokens'',
          us_accepted_prediction_tokens = d ''accepted_prediction_tokens'',
          us_rejected_prediction_tokens = d ''rejected_prediction_tokens''\<rparr>)"

definition no_usage :: chat_usage where
  "no_usage = \<lparr>us_prompt_tokens = 0, us_completion_tokens = 0, us_total_tokens = 0, us_reasoning_tokens = 0,
     us_accepted_prediction_tokens = 0, us_rejected_prediction_tokens = 0\<rparr>"

definition parse_choices :: "key_eq \<Rightarrow> (rat \<Rightarrow> int) \<Rightarrow> (json \<Rightarrow> string) \<Rightarrow> json option \<Rightarrow> chat_choice list c_result" where
  "parse_choices keq vi print item =
     (case item of Some (JArr cs) \<Rightarrow> c_map (parse_choice keq vi print) cs | _ \<Rightarrow> Inr [])"

text \<open>\<^verbatim>\<open>parse_response\<close>: text that is no JSON gives a null pointer.\<close>

definition parse_response ::
  "key_eq \<Rightarrow> (rat \<Rightarrow> int) \<Rightarrow> (json \<Rightarrow> string) \<Rightarrow> (string \<Rightarrow> json option) \<Rightarrow> string option \<Rightarrow> chat_response option c_result" where
  "parse_response keq vi print parse json_str =
     (case Option.bind json_str parse of
        None \<Rightarrow> Inr None
      | Some doc \<Rightarrow>
          let item = get_item keq (Some doc); s = (\<lambda>key. string_item (item key)) in
          c_bind (uint64_item (item ''created'')) (\<lambda>created.
          c_bind (parse_choices keq vi print (item ''choices'')) (\<lambda>choices.
          c_bind (uint64_item (item ''seed'')) (\<lambda>seed.
          Inr (Some \<lparr>rs_id = s ''id'', rs_object = s ''object'', rs_created = created, rs_choices = choices,
            rs_model = s ''model'', rs_system_fingerprint = s ''system_fingerprint'',
            rs_usage = (if is_object (item ''usage'') then parse_usage keq vi (item ''usage'') else no_usage),
            rs_request_id = s ''request_id'', rs_seed = seed, rs_top_p = double_item (item ''top_p''),
            rs_temperature = double_item (item ''temperature''),
            rs_presence_penalty = double_item (item ''presence_penalty''),
            rs_frequency_penalty = double_item (item ''frequency_penalty''),
            rs_service_tier = s ''service_tier'', rs_metadata = is_object (item ''metadata'')\<rparr>)))))"

section \<open>A streamed part\<close>

record stream_delta =
  sd_role :: "string option"
  sd_content :: "string option"
  sd_tool_calls :: "chat_tool_call list option"

record filter_results =
  fr_hate :: int
  fr_self_harm :: int
  fr_sexual :: int
  fr_violence :: int

record stream_choice =
  sc_index :: int
  sc_delta :: stream_delta
  sc_finish_reason :: "string option"
  sc_filter :: filter_results

record stream_response =
  sr_id :: "string option"
  sr_object :: "string option"
  sr_created :: int
  sr_model :: "string option"
  sr_choices :: "stream_choice list"
  sr_system_fingerprint :: "string option"

definition parse_filter_result :: "key_eq \<Rightarrow> json option \<Rightarrow> int" where
  "parse_filter_result keq result =
     (case get_item keq result ''filtered'' of Some (JBool b) \<Rightarrow> (if b then 1 else 0) | _ \<Rightarrow> 0)"

definition no_filter :: filter_results where
  "no_filter = \<lparr>fr_hate = 0, fr_self_harm = 0, fr_sexual = 0, fr_violence = 0\<rparr>"

definition parse_content_filter_results :: "key_eq \<Rightarrow> json option \<Rightarrow> filter_results" where
  "parse_content_filter_results keq results =
     (let f = (\<lambda>key. let r = get_item keq results key in if is_object r then parse_filter_result keq r else 0)
      in \<lparr>fr_hate = f ''hate'', fr_self_harm = f ''self_harm'', fr_sexual = f ''sexual'', fr_violence = f ''violence''\<rparr>)"

definition no_delta :: stream_delta where
  "no_delta = \<lparr>sd_role = None, sd_content = None, sd_tool_calls = None\<rparr>"

definition parse_delta :: "key_eq \<Rightarrow> json option \<Rightarrow> stream_delta c_result" where
  "parse_delta keq delta =
     c_bind (case get_item keq delta ''tool_calls'' of
         Some (JArr calls) \<Rightarrow> c_bind (c_map (parse_delta_tool_call keq) calls) (\<lambda>tcs. Inr (Some tcs))
       | _ \<Rightarrow> Inr None) (\<lambda>tcs.
     Inr \<lparr>sd_role = string_item (get_item keq delta ''role''), sd_content = string_item (get_item keq delta ''content''),
          sd_tool_calls = tcs\<rparr>)"

definition parse_stream_choice :: "key_eq \<Rightarrow> (rat \<Rightarrow> int) \<Rightarrow> json \<Rightarrow> stream_choice c_result" where
  "parse_stream_choice keq vi choice =
     (let item = get_item keq (Some choice) in
      c_bind (if is_object (item ''delta'') then parse_delta keq (item ''delta'') else Inr no_delta) (\<lambda>delta.
      Inr \<lparr>sc_index = int_item vi (item ''index''), sc_delta = delta, sc_finish_reason = string_item (item ''finish_reason''),
           sc_filter = (if is_object (item ''content_filter_results'')
                        then parse_content_filter_results keq (item ''content_filter_results'') else no_filter)\<rparr>))"

definition parse_stream_choices :: "key_eq \<Rightarrow> (rat \<Rightarrow> int) \<Rightarrow> json option \<Rightarrow> stream_choice list c_result" where
  "parse_stream_choices keq vi item =
     (case item of Some (JArr cs) \<Rightarrow> c_map (parse_stream_choice keq vi) cs | _ \<Rightarrow> Inr [])"

definition parse_stream_response ::
  "key_eq \<Rightarrow> (rat \<Rightarrow> int) \<Rightarrow> (string \<Rightarrow> json option) \<Rightarrow> string option \<Rightarrow> stream_response option c_result" where
  "parse_stream_response keq vi parse json_str =
     (case Option.bind json_str parse of
        None \<Rightarrow> Inr None
      | Some doc \<Rightarrow>
          let item = get_item keq (Some doc); s = (\<lambda>key. string_item (item key)) in
          c_bind (parse_stream_choices keq vi (item ''choices'')) (\<lambda>choices.
          Inr (Some \<lparr>sr_id = s ''id'', sr_object = s ''object'', sr_created = int_item vi (item ''created''),
            sr_model = s ''model'', sr_choices = choices, sr_system_fingerprint = s ''system_fingerprint''\<rparr>)))"

end
