(* ===== verification/Chat.thy ===== *)
theory Chat
  imports ChatResponse
begin

text \<open>
  The chat context of \<^verbatim>\<open>src/onesdk_chat.c\<close> with the sending functions of
  \<^verbatim>\<open>src/infer_inner_chat.c\<close>. The callbacks of the HTTP request are the ones this file registers:
  what the HTTP client reports is turned into calls of the user's callbacks, and the text of a
  streamed answer is collected in the buffer the user gave.
\<close>

section \<open>State\<close>

record chat_callbacks =
  cb_stream :: bool
  cb_completed :: bool
  cb_error :: bool

text \<open>What the user sees.\<close>

datatype chat_call =
    UserText "char list"
  | UserCompleted
  | UserError int "string option"

text \<open>
  The structure \<^verbatim>\<open>onesdk_chat_context_t\<close>. The output buffer is memory of the user: \<open>cx_data\<close> is its
  content, \<open>cx_data_len\<close> the size the user named. \<open>cx_response_out\<close> is the place for a whole
  response when one is registered, with what it holds.
\<close>

record chat_context =
  cx_request_context :: "chat_request_context option"
  cx_endpoint :: string
  cx_api_key :: string
  cx_callbacks :: "chat_callbacks option"
  cx_is_streaming :: bool
  cx_is_completed :: bool
  cx_data :: "char list option"
  cx_data_current_len :: nat
  cx_data_len :: nat
  cx_response_out :: "chat_response option option"
  cx_iot :: "basic_config option option"

definition chat_context_fresh :: "string \<Rightarrow> string \<Rightarrow> chat_context" where
  "chat_context_fresh endpoint api_key =
     \<lparr>cx_request_context = None, cx_endpoint = endpoint, cx_api_key = api_key, cx_callbacks = None,
      cx_is_streaming = False, cx_is_completed = False, cx_data = None, cx_data_current_len = 0, cx_data_len = 0,
      cx_response_out = None, cx_iot = None\<rparr>"

definition onesdk_chat_context_init :: "bool \<Rightarrow> string option \<Rightarrow> string option \<Rightarrow> chat_context option" where
  "onesdk_chat_context_init alloc endpoint api_key =
     (case (alloc, endpoint, api_key) of
        (True, Some ep, Some key) \<Rightarrow> Some (chat_context_fresh ep key)
      | _ \<Rightarrow> None)"

definition onesdk_chat_set_callbacks :: "chat_callbacks option \<Rightarrow> chat_context option \<Rightarrow> chat_context option" where
  "onesdk_chat_set_callbacks cbs ctxp =
     (case (cbs, ctxp) of (Some c, Some ctx) \<Rightarrow> Some (ctx\<lparr>cx_callbacks := Some c\<rparr>) | _ \<Rightarrow> ctxp)"

definition onesdk_chat_set_functioncall_data :: "chat_response option option \<Rightarrow> chat_context option \<Rightarrow> chat_context option" where
  "onesdk_chat_set_functioncall_data out = map_option (\<lambda>ctx. ctx\<lparr>cx_response_out := out\<rparr>)"

section \<open>The internal callbacks\<close>

text \<open>Subtraction on \<^verbatim>\<open>size_t\<close>.\<close>

definition size_sub :: "nat \<Rightarrow> nat \<Rightarrow> nat" where
  "size_sub a b = (if b \<le> a then a - b else a + 2 ^ 64 - b)"

text \<open>
  The text of a part is copied behind the text so far and terminated. The number of bytes copied is
  the length of the text or, when that seems not to fit, the rest of the buffer.
\<close>

definition chat_copy_text :: "string \<Rightarrow> chat_context \<Rightarrow> (chat_context \<times> char list) c_result" where
  "chat_copy_text content ctx =
     (let cur = cx_data_current_len ctx;
          n = (if cur + length content \<ge> size_sub (cx_data_len ctx) 1 then size_sub (cx_data_len ctx) cur else length content)
      in case cx_data ctx of
           None \<Rightarrow> Inl NullDeref
         | Some mem \<Rightarrow>
             if n > length content + 1 \<or> cur + n > length mem then Inl OutOfBounds
             else
               let mem = memcpy_at cur (take n (content @ [NUL])) mem;
                   cur = cur + n
               in if cur < length mem
                  then Inr (ctx\<lparr>cx_data := Some (mem[cur := NUL]), cx_data_current_len := cur\<rparr>,
                            take n (drop (cur - n) (mem[cur := NUL])))
                  else Inl OutOfBounds)"

definition user_cb :: "(chat_callbacks \<Rightarrow> bool) \<Rightarrow> chat_context \<Rightarrow> chat_call \<Rightarrow> chat_call list" where
  "user_cb registered ctx call = (case cx_callbacks ctx of Some cbs \<Rightarrow> if registered cbs then [call] else [] | None \<Rightarrow> [])"

definition chat_internal_stream_callback :: "stream_response \<Rightarrow> chat_context \<Rightarrow> (chat_context \<times> chat_call list) c_result" where
  "chat_internal_stream_callback partial ctx =
     (case sr_choices partial of
        [] \<Rightarrow> Inr (ctx, [])
      | c # _ \<Rightarrow>
          (case sd_content (sc_delta c) of
             None \<Rightarrow> Inr (ctx, [])
           | Some content \<Rightarrow>
               c_bind (chat_copy_text content ctx) (\<lambda>(ctx, piece).
                 Inr (ctx, user_cb cb_stream ctx (UserText piece)))))"

definition chat_internal_completed_callback :: "chat_context \<Rightarrow> chat_context \<times> chat_call list" where
  "chat_internal_completed_callback ctx = (ctx\<lparr>cx_is_completed := True\<rparr>, user_cb cb_completed ctx UserCompleted)"

definition chat_internal_error_callback :: "int \<Rightarrow> string option \<Rightarrow> chat_context \<Rightarrow> chat_context \<times> chat_call list" where
  "chat_internal_error_callback code msg ctx = (ctx, user_cb cb_error ctx (UserError code msg))"

text \<open>\<^verbatim>\<open>infer_internal_sse_callback\<close>: the data of the event is parsed; what is no JSON is passed over.\<close>

definition infer_internal_sse_callback :: "chat_env \<Rightarrow> string option \<Rightarrow> chat_context \<Rightarrow> (chat_context \<times> chat_call list) c_result" where
  "infer_internal_sse_callback env data ctx =
     c_bind (parse_stream_response (ce_key_eq (ch_cloud env)) (ch_valueint env) (ce_parse (ch_cloud env)) data) (\<lambda>part.
       case part of None \<Rightarrow> Inr (ctx, []) | Some p \<Rightarrow> chat_internal_stream_callback p ctx)"

text \<open>What the HTTP client reports during a request, in order.\<close>

fun chat_on_http_call :: "chat_env \<Rightarrow> http_call \<Rightarrow> chat_context \<Rightarrow> (chat_context \<times> chat_call list) c_result" where
  "chat_on_http_call env (OnSse (ev, data)) ctx = infer_internal_sse_callback env data ctx"
| "chat_on_http_call env OnComplete ctx = Inr (chat_internal_completed_callback ctx)"
| "chat_on_http_call env (OnError code msg) ctx = Inr (chat_internal_error_callback code msg ctx)"
| "chat_on_http_call env _ ctx = Inr (ctx, [])"

fun chat_on_http_calls :: "chat_env \<Rightarrow> http_call list \<Rightarrow> chat_context \<Rightarrow> (chat_context \<times> chat_call list) c_result" where
  "chat_on_http_calls env [] ctx = Inr (ctx, [])"
| "chat_on_http_calls env (c # cs) ctx =
     c_bind (chat_on_http_call env c ctx) (\<lambda>(ctx, us).
     c_bind (chat_on_http_calls env cs ctx) (\<lambda>(ctx, us'). Inr (ctx, us @ us')))"

section \<open>Sending\<close>

definition chat_http_callbacks :: "http_request_ctx \<Rightarrow> http_request_ctx" where
  "chat_http_callbacks http = http\<lparr>on_complete_cb := True, on_get_sse_cb := True, on_error_cb := True\<rparr>"

text \<open>
  What the network does to one request: whether its context and its connection are created and, for
  each call of \<^verbatim>\<open>lws_service\<close>, the callbacks made and the result.
\<close>

record chat_net =
  cn_created :: bool
  cn_connected :: bool
  cn_script :: "(http_event list \<times> int) list"

definition chat_send_stream_request ::
  "chat_net \<Rightarrow> http_globals \<Rightarrow> chat_request_context \<Rightarrow> (http_globals \<times> chat_request_context \<times> http_call list \<times> int) c_result" where
  "chat_send_stream_request net g cr =
     c_bind (http_request_async (cn_created net) (cn_connected net) g (chat_http_callbacks (cr_http cr))) (\<lambda>(g, http, calls, ret).
       Inr (g, cr\<lparr>cr_http := http\<rparr>, calls, ret))"

text \<open>\<^verbatim>\<open>chat_send_non_stream_request\<close>: the calls and the response that is parsed, and whether the request ended.\<close>

definition chat_send_non_stream_request ::
  "chat_env \<Rightarrow> chat_net \<Rightarrow> http_globals \<Rightarrow> chat_request_context
     \<Rightarrow> (http_globals \<times> chat_request_context \<times> http_call list \<times> nat option \<times> chat_response option) c_result" where
  "chat_send_non_stream_request env net g cr =
     c_bind (http_request (cn_created net) (cn_connected net) (cn_script net) g (chat_http_callbacks (cr_http cr))) (\<lambda>(g, http, calls, k, resp).
     c_bind (case (k, resp) of
         (Some _, Some r) \<Rightarrow> parse_response (ce_key_eq (ch_cloud env)) (ch_valueint env) (ce_print (ch_cloud env)) (ce_parse (ch_cloud env)) (response_body r)
       | _ \<Rightarrow> Inr None) (\<lambda>response.
     Inr (g, cr\<lparr>cr_http := http\<rparr>, calls, k, response)))"

text \<open>\<^verbatim>\<open>strncpy\<close> of \<open>n\<close> bytes: padded with terminators, and not terminated when the text is longer.\<close>

definition strncpy_to :: "nat \<Rightarrow> string \<Rightarrow> char list \<Rightarrow> char list c_result" where
  "strncpy_to n src mem =
     (if n > length mem then Inl OutOfBounds else Inr (take n (src @ replicate n NUL) @ drop n mem))"

text \<open>The text of a whole answer; \<open>len\<close> is \<^verbatim>\<open>*output_len\<close>.\<close>

definition copy_answer :: "chat_response \<Rightarrow> char list \<Rightarrow> nat \<Rightarrow> (char list \<times> nat) c_result" where
  "copy_answer response mem len =
     (case rs_choices response of
        [] \<Rightarrow> Inr (mem, len)
      | c # _ \<Rightarrow>
          (case cm_content (cc_message c) of
             None \<Rightarrow> Inr (mem, len)
           | Some content \<Rightarrow>
               c_bind (strncpy_to (size_sub len 1) content mem) (\<lambda>mem.
                 Inr (mem, if length content \<ge> len then len else length content))))"

text \<open>
  \<^verbatim>\<open>onesdk_chat_send_inner\<close>. The results are the context, the output length and the return code; the
  output is the buffer of the context. \<open>None\<close> stands for a synchronous request that is still waiting
  when the script of the network ends.
\<close>

record chat_outcome =
  co_globals :: http_globals
  co_context :: chat_context
  co_output_len :: nat
  co_calls :: "chat_call list"
  co_ret :: int

definition answer_sync :: "chat_context \<Rightarrow> chat_response option \<Rightarrow> nat \<Rightarrow> (chat_context \<times> nat \<times> int) c_result" where
  "answer_sync ctx response len =
     (case response of
        None \<Rightarrow> Inr (ctx, len, -1)
      | Some r \<Rightarrow>
          (case cx_data ctx of
             None \<Rightarrow> Inr (ctx, len, VOLC_OK)
           | Some mem \<Rightarrow>
               c_bind (copy_answer r mem len) (\<lambda>(mem, len).
                 Inr (ctx\<lparr>cx_data := Some mem, cx_response_out := map_option (\<lambda>_. Some r) (cx_response_out ctx)\<rparr>, len, VOLC_OK))))"

definition onesdk_chat_send_inner ::
  "chat_env \<Rightarrow> chat_net \<Rightarrow> http_globals \<Rightarrow> chat_context \<Rightarrow> chat_request \<Rightarrow> char list option \<Rightarrow> nat option \<Rightarrow> chat_outcome option c_result" where
  "onesdk_chat_send_inner env net g ctx request outbuf output_len =
     c_bind (chat_request_context_init env (Some (cx_endpoint ctx)) (cx_api_key ctx) request (cx_iot ctx)) (\<lambda>(crp, iot).
     case crp of
       None \<Rightarrow> Inr (Some \<lparr>co_globals = g, co_context = ctx, co_output_len = (case output_len of None \<Rightarrow> 0 | Some n \<Rightarrow> n),
                 co_calls = [], co_ret = VOLC_ERR_HTTP_SEND_FAILED\<rparr>)
     | Some cr \<Rightarrow>
         (case output_len of
            None \<Rightarrow> Inl NullDeref
          | Some len \<Rightarrow>
              let ctx = ctx\<lparr>cx_iot := iot, cx_data := outbuf, cx_data_current_len := 0, cx_data_len := len,
                            cx_is_streaming := rq_stream request\<rparr>
              in if rq_stream request then
                   c_bind (chat_send_stream_request net g cr) (\<lambda>(g, cr, calls, ret).
                   c_bind (chat_on_http_calls env calls ctx) (\<lambda>(ctx, us).
                   Inr (Some \<lparr>co_globals = g, co_context = ctx\<lparr>cx_request_context := Some cr\<rparr>, co_output_len = len, co_calls = us, co_ret = ret\<rparr>)))
                 else
                   c_bind (chat_send_non_stream_request env net g cr) (\<lambda>(g, cr, calls, k, response).
                   c_bind (chat_on_http_calls env calls ctx) (\<lambda>(ctx, us).
                   if k = None then Inr None
                   else c_bind (answer_sync ctx response len) (\<lambda>(ctx, len, ret).
                     Inr (Some \<lparr>co_globals = g, co_context = ctx\<lparr>cx_request_context := None\<rparr>, co_output_len = len, co_calls = us, co_ret = ret\<rparr>))))))"

section \<open>Waiting\<close>

text \<open>The loop of \<^verbatim>\<open>http_wait_complete\<close>, with the script as in the loop of a synchronous request.\<close>

fun http_wait_complete :: "int \<Rightarrow> (http_event list \<times> int) list \<Rightarrow> http_globals \<Rightarrow> http_request_ctx \<Rightarrow>
    (http_globals \<times> http_request_ctx \<times> http_call list \<times> nat option) c_result" where
  "http_wait_complete n script g ctx =
     (if n \<ge> 0 \<and> \<not> is_connection_completed ctx then
        (case script of
           [] \<Rightarrow> Inr (g, ctx, [], None)
         | (es, n') # script' \<Rightarrow>
             c_bind (run_events es g ctx) (\<lambda>(g1, ctx1, calls).
               c_bind (http_wait_complete n' script' g1 ctx1) (\<lambda>(g2, ctx2, calls2, k).
                 Inr (g2, ctx2, calls @ calls2, map_option Suc k))))
      else Inr (g, ctx, [], Some 0))"

declare http_wait_complete.simps [simp del]

text \<open>The value \<^verbatim>\<open>chat_wait_complete\<close> returns for a request that has ended.\<close>

definition chat_wait_code :: "http_request_ctx \<Rightarrow> int" where
  "chat_wait_code http =
     (let http_code = (case hc_response http of None \<Rightarrow> -1 | Some r \<Rightarrow> error_code r)
      in if http_code > 0 \<and> http_code < 300 then 0 else http_code)"

definition onesdk_chat_wait_inner ::
  "chat_env \<Rightarrow> (http_event list \<times> int) list \<Rightarrow> http_globals \<Rightarrow> chat_context \<Rightarrow> (http_globals \<times> chat_context \<times> chat_call list \<times> int) option c_result" where
  "onesdk_chat_wait_inner env script g ctx =
     (if \<not> cx_is_streaming ctx then Inr (Some (g, ctx, [], VOLC_OK))
      else case cx_request_context ctx of
        None \<Rightarrow> Inr (Some (g, ctx, [], -1))
      | Some cr \<Rightarrow>
          c_bind (http_wait_complete 0 script g (cr_http cr)) (\<lambda>(g, http, calls, k).
          c_bind (chat_on_http_calls env calls ctx) (\<lambda>(ctx, us).
          if k = None then Inr None
          else Inr (Some (g, ctx\<lparr>cx_request_context := None\<rparr>, us, chat_wait_code http)))))"

section \<open>Entry points\<close>

text \<open>
  \<^verbatim>\<open>onesdk_chat\<close>: the test of the chat context looks into it exactly when there is none.
\<close>

definition onesdk_chat ::
  "chat_env \<Rightarrow> chat_net \<Rightarrow> http_globals \<Rightarrow> chat_context option \<Rightarrow> chat_request \<Rightarrow> char list option \<Rightarrow> nat option \<Rightarrow> chat_outcome option c_result" where
  "onesdk_chat env net g ctxp request outbuf output_len =
     (case ctxp of
        None \<Rightarrow> Inl NullDeref
      | Some ctx \<Rightarrow> onesdk_chat_send_inner env net g ctx request outbuf output_len)"

definition onesdk_chat_wait ::
  "chat_env \<Rightarrow> (http_event list \<times> int) list \<Rightarrow> http_globals \<Rightarrow> chat_context option
     \<Rightarrow> (http_globals \<times> chat_context option \<times> chat_call list \<times> int) option c_result" where
  "onesdk_chat_wait env script g ctxp =
     (case ctxp of
        None \<Rightarrow> Inr (Some (g, None, [], -1))
      | Some ctx \<Rightarrow>
          c_bind (onesdk_chat_wait_inner env script g ctx) (\<lambda>r.
            Inr (map_option (\<lambda>(g, ctx, us, ret). (g, Some ctx, us, ret)) r)))"

text \<open>
  Releasing the context: a response that was handed out is released with it, and the place of the user
  holds null afterwards.
\<close>

definition onesdk_chat_release_context_inner :: "chat_context option \<Rightarrow> chat_response option option \<times> int" where
  "onesdk_chat_release_context_inner ctxp =
     (case ctxp of
        None \<Rightarrow> (None, -1)
      | Some ctx \<Rightarrow> (map_option (\<lambda>_. None) (cx_response_out ctx), VOLC_OK))"

text \<open>The request for a stored completion goes to a fixed host.\<close>

definition chat_get_chat_completion ::
  "chat_env \<Rightarrow> chat_net \<Rightarrow> http_globals \<Rightarrow> string option \<Rightarrow> string option \<Rightarrow> (http_globals \<times> nat option \<times> chat_response option) c_result" where
  "chat_get_chat_completion env net g api_key completion_id =
     (case (api_key, completion_id) of
        (Some key, Some i) \<Rightarrow>
          c_bind (new_http_ctx (ch_alloc env)) (\<lambda>ctxp. case ctxp of
            None \<Rightarrow> Inr (g, Some 0, None)
          | Some ctx \<Rightarrow>
              c_bind (http_ctx_set_url (ce_uri (ch_cloud env)) ctx (Some (snprintf_s 256
                (''http://llm-gateway.vei.gtm.volcdns.com:30506'' @ chat_completions_path @ ''/'' @ i)))) (\<lambda>ctx.
              let ctx = http_ctx_add_header (ch_alloc env 13) (http_ctx_set_method ctx HTTP_GET) ''Content-Type'' ''application/json''
              in c_bind (http_ctx_set_bearer_token (ch_alloc env 14) ctx (Some (snprintf_s 256 (''Bearer '' @ key)))) (\<lambda>ctx.
              c_bind (http_request (cn_created net) (cn_connected net) (cn_script net) g ctx) (\<lambda>(g, _, _, k, resp).
              c_bind (case (k, resp) of
                  (Some _, Some r) \<Rightarrow> parse_response (ce_key_eq (ch_cloud env)) (ch_valueint env) (ce_print (ch_cloud env)) (ce_parse (ch_cloud env)) (response_body r)
                | _ \<Rightarrow> Inr None) (\<lambda>response. Inr (g, k, response))))))
      | _ \<Rightarrow> Inr (g, Some 0, None))"

end
