(* ===== verification/ChatProps.thy ===== *)
theory ChatProps
  imports Chat SseTheorems
begin

text \<open>
  What a streamed answer becomes in the buffer of the user: the text of a part is read off its
  document, the parts are appended exactly as long as they leave two bytes of the buffer free, and the
  next one is terminated behind the buffer.
\<close>

section \<open>The text of a part\<close>

definition stream_text :: "key_eq \<Rightarrow> json option \<Rightarrow> string option" where
  "stream_text keq doc =
     (case get_item keq doc ''choices'' of
        Some (JArr (c # _)) \<Rightarrow> string_item (get_item keq (get_item keq (Some c) ''delta'') ''content'')
      | _ \<Rightarrow> None)"

lemma get_item_no_object: "\<not> is_object item \<Longrightarrow> get_item keq item key = None"
  by (auto simp: get_item_def is_object_def split: option.splits json.splits)

lemma string_item_None [simp]: "string_item None = None"
  by (simp add: string_item_def)

lemma parse_delta_content: "parse_delta keq delta = Inr d \<Longrightarrow> sd_content d = string_item (get_item keq delta ''content'')"
  by (auto simp: parse_delta_def c_bind_Inr_iff)

lemma parse_stream_choice_content:
  assumes "parse_stream_choice keq vi c = Inr sc"
  shows "sd_content (sc_delta sc) = string_item (get_item keq (get_item keq (Some c) ''delta'') ''content'')"
proof (cases "is_object (get_item keq (Some c) ''delta'')")
  case True
  then show ?thesis using assms by (auto simp: parse_stream_choice_def Let_def c_bind_Inr_iff parse_delta_content)
next
  case False
  then show ?thesis using assms
    by (auto simp: parse_stream_choice_def Let_def no_delta_def get_item_no_object)
qed

lemma parse_stream_text:
  assumes "parse_stream_response keq vi parse data = Inr part" "part = Some p"
  shows "(case sr_choices p of [] \<Rightarrow> None | c # _ \<Rightarrow> sd_content (sc_delta c)) = stream_text keq (Option.bind data parse)"
proof -
  obtain doc where doc: "Option.bind data parse = Some doc"
    using assms by (auto simp: parse_stream_response_def split: option.splits)
  then have ch: "parse_stream_choices keq vi (get_item keq (Some doc) ''choices'') = Inr (sr_choices p)"
    using assms by (auto simp: parse_stream_response_def Let_def c_bind_Inr_iff)
  show ?thesis
  proof (cases "\<exists>c cs. get_item keq (Some doc) ''choices'' = Some (JArr (c # cs))")
    case True
    then obtain c cs where cs: "get_item keq (Some doc) ''choices'' = Some (JArr (c # cs))" by blast
    then obtain sc scs where "parse_stream_choice keq vi c = Inr sc" "sr_choices p = sc # scs"
      using ch by (fastforce simp: parse_stream_choices_def c_bind_Inr_iff dest: sym)
    then show ?thesis by (simp add: doc cs stream_text_def parse_stream_choice_content)
  next
    case False
    then have "sr_choices p = [] \<and> stream_text keq (Some doc) = None"
      using ch by (auto simp: parse_stream_choices_def stream_text_def split: option.splits json.splits list.splits)
    then show ?thesis by (simp add: doc)
  qed
qed

text \<open>The documents of a list of events whose texts the parser takes without leaving its structures.\<close>

definition parts_ok :: "chat_env \<Rightarrow> string option list \<Rightarrow> bool" where
  "parts_ok env datas \<longleftrightarrow>
     list_all (\<lambda>d. \<not> isl (parse_stream_response (ce_key_eq (ch_cloud env)) (ch_valueint env) (ce_parse (ch_cloud env)) d)) datas"

definition texts_of :: "chat_env \<Rightarrow> string option list \<Rightarrow> string list" where
  "texts_of env datas =
     concat (map (\<lambda>d. case stream_text (ce_key_eq (ch_cloud env)) (Option.bind d (ce_parse (ch_cloud env))) of
       None \<Rightarrow> [] | Some t \<Rightarrow> [t]) datas)"

section \<open>The buffer\<close>

text \<open>The text behind what the buffer holds, and what is left of the memory.\<close>

definition with_text :: "chat_context \<Rightarrow> char list \<Rightarrow> string \<Rightarrow> chat_context" where
  "with_text ctx mem t =
     ctx\<lparr>cx_data := Some (take (cx_data_current_len ctx) mem @ t @ NUL # drop (cx_data_current_len ctx + length t + 1) mem),
         cx_data_current_len := cx_data_current_len ctx + length t\<rparr>"

lemma chat_copy_text_spec:
  assumes mem: "cx_data ctx = Some mem" "length mem = cx_data_len ctx"
    and cur: "cx_data_current_len ctx \<le> cx_data_len ctx - 1" and len: "cx_data_current_len ctx + length t < 2 ^ 64 - 1"
  shows "chat_copy_text t ctx =
    (if cx_data_current_len ctx + length t < cx_data_len ctx - 1 then Inr (with_text ctx mem t, t) else Inl OutOfBounds)"
proof -
  define n where "n = cx_data_len ctx"
  define cur where "cur = cx_data_current_len ctx"
  note d = n_def [symmetric] cur_def [symmetric]
  have c: "cur \<le> n - 1" "length mem = n" "cur + length t < 2 ^ 64 - 1" using assms by (simp_all only: d)
  show ?thesis
  proof (cases "n = 0")
    case True
    then have "\<not> cur + length t \<ge> size_sub n 1" using c by (simp add: size_sub_def)
    then show ?thesis using True c by (simp add: chat_copy_text_def Let_def d mem(1) size_sub_def memcpy_at_def)
  next
    case n: False
    then have s: "size_sub n 1 = n - 1" "size_sub n cur = n - cur" using c by (simp_all add: size_sub_def)
    show ?thesis
    proof (cases "cur + length t < n - 1")
      case True
      then have "memcpy_at cur t mem = take cur mem @ t @ drop (cur + length t) mem"
        by (simp add: memcpy_at_def)
      moreover have "drop (cur + length t) mem = mem ! (cur + length t) # drop (cur + length t + 1) mem"
        using True c by (simp add: Cons_nth_drop_Suc)
      ultimately have u: "(memcpy_at cur t mem)[cur + length t := NUL] = take cur mem @ t @ NUL # drop (cur + length t + 1) mem"
        using True c by (simp add: list_update_append)
      then show ?thesis using True c s
        by (simp add: chat_copy_text_def Let_def d mem(1) with_text_def memcpy_at_def)
    next
      case False
      then have "n - cur \<le> length t + 1" using n c by linarith
      then show ?thesis using False c s n
        by (simp add: chat_copy_text_def Let_def d mem(1) memcpy_at_def)
    qed
  qed
qed

lemma with_text_frame:
  "cx_callbacks (with_text ctx mem t) = cx_callbacks ctx" "cx_data_len (with_text ctx mem t) = cx_data_len ctx"
  "cx_data_current_len (with_text ctx mem t) = cx_data_current_len ctx + length t"
  by (simp_all add: with_text_def)

lemma with_text_data:
  assumes "cx_data_current_len ctx + length t < length mem"
  obtains mem' where "cx_data (with_text ctx mem t) = Some mem'" "length mem' = length mem"
    "with_text (with_text ctx mem t) mem' u = with_text ctx mem (t @ u)"
proof -
  define mem' where "mem' = take (cx_data_current_len ctx) mem @ t @ NUL # drop (cx_data_current_len ctx + length t + 1) mem"
  have "take (cx_data_current_len ctx + length t) mem' = take (cx_data_current_len ctx) mem @ t"
    "drop (cx_data_current_len ctx + length t + length u + 1) mem' = drop (cx_data_current_len ctx + length t + length u + 1) mem"
    using assms by (simp_all add: mem'_def ac_simps)
  then have "with_text (with_text ctx mem t) mem' u = with_text ctx mem (t @ u)"
    by (simp add: with_text_def ac_simps)
  moreover have "length mem' = length mem" using assms by (simp add: mem'_def)
  moreover have "cx_data (with_text ctx mem t) = Some mem'" by (simp add: with_text_def mem'_def)
  ultimately show thesis using that by blast
qed

lemma chat_part:
  assumes "parts_ok env [data]"
  shows "chat_on_http_call env (OnSse (ev, data)) ctx =
    (case texts_of env [data] of
       t # _ \<Rightarrow> c_bind (chat_copy_text t ctx) (\<lambda>(ctx, piece). Inr (ctx, user_cb cb_stream ctx (UserText piece)))
     | [] \<Rightarrow> Inr (ctx, []))"
proof -
  obtain part where part: "parse_stream_response (ce_key_eq (ch_cloud env)) (ch_valueint env) (ce_parse (ch_cloud env)) data = Inr part"
    using assms by (auto simp: parts_ok_def isl_def split: sum.splits) (metis sum.exhaust)
  show ?thesis
  proof (cases part)
    case None
    then have "Option.bind data (ce_parse (ch_cloud env)) = None"
      using part by (auto simp: parse_stream_response_def Let_def c_bind_Inr_iff split: option.splits)
    then show ?thesis using None
      by (simp add: infer_internal_sse_callback_def part texts_of_def stream_text_def get_item_def)
  next
    case (Some p)
    note t = parse_stream_text [OF part Some]
    show ?thesis
      using t by (auto simp: Some infer_internal_sse_callback_def part texts_of_def chat_internal_stream_callback_def
          split: list.splits option.splits)
  qed
qed

text \<open>A run of parts: appended while they fit, out of bounds at the first that does not.\<close>

lemma chat_stream_run:
  assumes "cx_data ctx = Some mem" "length mem = cx_data_len ctx" "cx_data_current_len ctx \<le> cx_data_len ctx - 1"
    and "parts_ok env (map snd evs)" "cx_data_current_len ctx + length (concat (texts_of env (map snd evs))) < 2 ^ 64 - 1"
  shows "chat_on_http_calls env (map OnSse evs) ctx =
    (let texts = texts_of env (map snd evs) in
     if texts = [] then Inr (ctx, [])
     else if cx_data_current_len ctx + length (concat texts) < cx_data_len ctx - 1
     then Inr (with_text ctx mem (concat texts), concat (map (\<lambda>t. user_cb cb_stream ctx (UserText t)) texts))
     else Inl OutOfBounds)"
  using assms
proof (induction evs arbitrary: ctx mem)
  case Nil
  then show ?case by (simp add: texts_of_def)
next
  case (Cons e evs)
  obtain ev data where e: "e = (ev, data)" by (cases e)
  define rest where "rest = texts_of env (map snd evs)"
  have ok: "parts_ok env [data]" "parts_ok env (map snd evs)" using Cons.prems(4) by (simp_all add: parts_ok_def e)
  have split: "texts_of env (map snd (e # evs)) = texts_of env [data] @ rest"
    by (simp add: texts_of_def e rest_def)
  then have split2: "texts_of env (snd e # map snd evs) = texts_of env [data] @ rest" by simp
  have one: "texts_of env [data] = [] \<or> (\<exists>t. texts_of env [data] = [t])"
    by (auto simp: texts_of_def split: option.splits)
  show ?case
  proof (cases "texts_of env [data]")
    case Nil
    then have "chat_on_http_call env (OnSse e) ctx = Inr (ctx, [])" by (simp add: e chat_part [OF ok(1)] del: chat_on_http_call.simps)
    moreover have "cx_data_current_len ctx + length (concat (texts_of env (map snd evs))) < 2 ^ 64 - 1"
      using Cons.prems(5) Nil split by (simp add: rest_def)
    ultimately show ?thesis
      using Cons.IH [OF Cons.prems(1-3) ok(2)] Nil split by (simp add: rest_def Let_def)
  next
    case (Cons t ts)
    then have t: "texts_of env [data] = [t]" using one by auto
    have l: "cx_data_current_len ctx + length t < 2 ^ 64 - 1" using Cons.prems(5) split t by simp
    note copy = chat_copy_text_spec [OF Cons.prems(1-3) l]
    show ?thesis
    proof (cases "cx_data_current_len ctx + length t < cx_data_len ctx - 1")
      case False
      then show ?thesis using copy by (simp add: e chat_part [OF ok(1)] t split2 [unfolded e snd_conv] Let_def del: chat_on_http_call.simps)
    next
      case True
      then have fit: "cx_data_current_len ctx + length t < length mem" using Cons.prems(2) by linarith
      obtain mem' where mem': "cx_data (with_text ctx mem t) = Some mem'" "length mem' = length mem"
        "with_text (with_text ctx mem t) mem' (concat rest) = with_text ctx mem (t @ concat rest)"
        using with_text_data [OF fit] by metis
      have step: "chat_on_http_call env (OnSse e) ctx = Inr (with_text ctx mem t, user_cb cb_stream ctx (UserText t))"
        using copy True by (simp add: e chat_part [OF ok(1)] t user_cb_def with_text_frame del: chat_on_http_call.simps)
      have "chat_on_http_calls env (map OnSse evs) (with_text ctx mem t) =
        (if rest = [] then Inr (with_text ctx mem t, [])
         else if cx_data_current_len ctx + length t + length (concat rest) < cx_data_len ctx - 1
         then Inr (with_text ctx mem (t @ concat rest), concat (map (\<lambda>t. user_cb cb_stream ctx (UserText t)) rest))
         else Inl OutOfBounds)"
        using Cons.IH [OF mem'(1) _ _ ok(2)] mem' Cons.prems(2,5) True split t
        by (simp add: with_text_frame rest_def [symmetric] Let_def user_cb_def)
      then show ?thesis
        using True by (simp add: step split2 t Let_def add.assoc del: chat_on_http_call.simps)
    qed
  qed
qed

section \<open>From the network to the buffer\<close>

text \<open>A stream with one document per event.\<close>

definition sse_stream :: "string list \<Rightarrow> string" where
  "sse_stream vs = concat (map (\<lambda>v. ''data: '' @ v @ [LF, LF]) vs)"

definition sse_text :: "string \<Rightarrow> bool" where
  "sse_text v \<longleftrightarrow> v \<noteq> [] \<and> \<not> isspace (hd v) \<and> LF \<notin> set v \<and> CR \<notin> set v \<and> NUL \<notin> set v"

lemma cut_data_line:
  assumes "sse_text v" "length v + 8 < SSE_BUFFER_SIZE"
  shows "cut_events (\<lambda>_. True) True (''data: '' @ v @ [LF, LF]) fs [] =
    Inr ([], store_field (\<lambda>_. True) (''data'', v) (sse_free_fields fs), [(None, Some v)])"
proof -
  let ?ln = "''data: '' @ v"
  have v: "v \<noteq> []" "\<not> isspace (hd v)" "LF \<notin> set v" "CR \<notin> set v" "NUL \<notin> set v" using assms(1) by (simp_all add: sse_text_def)
  have cl: "LF \<notin> set ?ln" "CR \<notin> set ?ln" "?ln \<noteq> []" using v(3,4) by (auto simp: LF_def CR_def)
  have tw: "takeWhile (\<lambda>c. c \<noteq> CHR '':'' \<and> c \<noteq> NUL) ?ln = ''data''" by (simp add: NUL_def)
  have dv: "dropWhile isspace v = v" using v(1,2) by (cases v) auto
  have kv: "line_kv ?ln ([], []) = Inr (''data'', v)"
    using v(1,5) assms(2) tw dv
    by (simp add: line_kv_def Let_def rstrip_def isspace_def SSE_KEY_SIZE_def SSE_BUFFER_SIZE_def)
  have nil: "cut_events (\<lambda>_. True) True [] fs' seen = Inr ([], fs', seen)" for fs' seen
    by (subst cut_events.simps) simp
  have n: "next_event (''data: '' @ v @ [LF, LF]) = Some (length ?ln + 2)"
    using next_event_one_line [OF cl(1,2)] by simp
  have m: "message_fields (\<lambda>_. True) (''data: '' @ v @ [LF, LF]) ([], []) fs' = Inr (store_field (\<lambda>_. True) (''data'', v) fs')" for fs'
    using message_one_line [OF cl, of "\<lambda>_. True" "([], [])" fs'] by (simp only: append_assoc kv c_bind_simps)
  have "take (length ?ln + 2) (''data: '' @ v @ [LF, LF]) = ''data: '' @ v @ [LF, LF]"
    "drop (length ?ln + 2) (''data: '' @ v @ [LF, LF]) = []" by simp_all
  then have "cut_events (\<lambda>_. True) True (''data: '' @ v @ [LF, LF]) fs [] =
      Inr ([], store_field (\<lambda>_. True) (''data'', v) (sse_free_fields fs),
        [(sse_event (store_field (\<lambda>_. True) (''data'', v) (sse_free_fields fs)), sse_data (store_field (\<lambda>_. True) (''data'', v) (sse_free_fields fs)))])"
    by (subst cut_events.simps) (simp only: n option.case m c_bind_simps nil, simp)
  then show ?thesis by (simp add: store_field_def sse_free_fields_def)
qed

lemma cut_stream:
  assumes "list_all sse_text vs" "length (sse_stream vs) < SSE_BUFFER_SIZE"
  shows "cut_out (\<lambda>_. True) True (sse_stream vs) fs = Inr ([], map (\<lambda>v. (None, Some v)) vs)"
  using assms
proof (induction vs arbitrary: fs)
  case Nil
  show ?case by (simp add: sse_stream_def cut_out_def) (subst cut_events.simps, simp)
next
  case (Cons v vs)
  have l: "length v + 8 < SSE_BUFFER_SIZE" "length (sse_stream vs) < SSE_BUFFER_SIZE"
    using Cons.prems(2) by (simp_all add: sse_stream_def)
  have cr: "CR \<notin> set ((''data: '' @ v @ [LF, LF]) @ sse_stream vs)"
    using Cons.prems(1) by (auto simp: sse_stream_def sse_text_def list_all_iff CR_def LF_def)
  have "sse_text v" using Cons.prems(1) by simp
  then have one: "cut_events (\<lambda>_. True) True (''data: '' @ v @ [LF, LF]) fs [] =
      Inr ([], store_field (\<lambda>_. True) (''data'', v) (sse_free_fields fs), [(None, Some v)])" using l(1) by (rule cut_data_line)
  have "sse_stream (v # vs) = (''data: '' @ v @ [LF, LF]) @ sse_stream vs" by (simp add: sse_stream_def)
  then show ?case
    using cut_out_append [OF cr, of "\<lambda>_. True" True fs] Cons.IH Cons.prems(1) l(2)
    by (simp only: one c_bind_simps prod.case append_Nil) simp
qed

lemma receive_stream:
  assumes "concat chunks = sse_stream vs" "vs \<noteq> []" "list_all sse_text vs" "length (sse_stream vs) < SSE_BUFFER_SIZE"
  shows "\<exists>sse. sse_receive_all (\<lambda>_. True) True sse_initial chunks = Inr (sse, map (\<lambda>v. (None, Some v)) vs)"
proof -
  have "chunks \<noteq> []" using assms(1,2) by (cases vs) (auto simp: sse_stream_def)
  moreover have "CR \<notin> set (sse_stream vs)"
    using assms(3) by (auto simp: sse_stream_def sse_text_def list_all_iff CR_def LF_def)
  ultimately have "sse_outcome (sse_receive_all (\<lambda>_. True) True sse_initial chunks) = Inr ([], map (\<lambda>v. (None, Some v)) vs)"
    using sse_receive_all_outcome [of chunks sse_initial "\<lambda>_. True" True] cut_stream [OF assms(3,4)] assms(1,4)
    by (simp add: sse_initial_wf)
  then show ?thesis by (auto simp: sse_outcome_def c_bind_Inr_iff)
qed

end
