(* ===== verification/ChatTheorems.thy ===== *)
theory ChatTheorems
  imports ChatProps RegisterTheorems
begin

text \<open>
  The properties of the chat component: what a streamed answer becomes, what happens when it does not
  fit, the answer of a synchronous request, and three ways in which the outside world makes the code
  dereference a null pointer or report success for a failure.
\<close>

text \<open>An environment whose parser takes any text as the content of one part.\<close>

definition part_doc :: "string \<Rightarrow> json" where
  "part_doc t = JObj [(''choices'', JArr [JObj [(''delta'', JObj [(''content'', JStr t)])]])]"

definition sample_chat_env :: "(string \<Rightarrow> json option) \<Rightarrow> chat_env" where
  "sample_chat_env parse =
     \<lparr>ch_cloud = \<lparr>ce_random = 0, ce_timestamp = 0, ce_key_eq = (=), ce_print = (\<lambda>_. []), ce_parse = parse,
        ce_uri = (\<lambda>_. None), ce_http = (\<lambda>_. None), ce_alloc = (\<lambda>_. True), ce_junk = replicate 64 0\<rparr>,
      ch_random = 0, ch_time = 0, ch_hardware = Some ''hw'', ch_alloc = (\<lambda>_. True), ch_valueint = (\<lambda>_. 0)\<rparr>"

definition sample_chat :: "char list \<Rightarrow> chat_context" where
  "sample_chat mem =
     (chat_context_fresh ''http://h'' ''key'')\<lparr>cx_callbacks := Some \<lparr>cb_stream = True, cb_completed = True, cb_error = True\<rparr>,
       cx_is_streaming := True, cx_data := Some mem, cx_data_len := length mem\<rparr>"

lemmas sample_defs = sample_chat_env_def sample_chat_def chat_context_fresh_def part_doc_def

lemma part_texts:
  "parts_ok (sample_chat_env (\<lambda>s. Some (part_doc s))) (map Some ts)"
  "texts_of (sample_chat_env (\<lambda>s. Some (part_doc s))) (map Some ts) = ts"
  by (induction ts) (simp_all add: parts_ok_def texts_of_def sample_defs parse_stream_response_def parse_stream_choices_def
    parse_stream_choice_def parse_delta_def get_item_def json_find_def is_object_def string_item_def stream_text_def Let_def)

section \<open>Streaming\<close>

text \<open>
  C9. From the network to the user: an answer streamed as one document per event arrives completely
  and in order, however the stream is cut into chunks. The buffer of the user holds the concatenated
  texts with a terminator, and the stream callback has seen each text once, provided the stream fits
  the receive buffer and the texts leave two bytes of the user's buffer free.
\<close>

theorem chat_answer_assembled:
  assumes "concat chunks = sse_stream vs" "vs \<noteq> []" "list_all sse_text vs" "length (sse_stream vs) < SSE_BUFFER_SIZE"
    and "parts_ok env (map Some vs)" "texts_of env (map Some vs) = texts" "texts \<noteq> []"
    and "cx_data ctx = Some mem" "length mem = cx_data_len ctx" "cx_data_current_len ctx = 0" "cx_data_len ctx < 2 ^ 64"
    and "cx_callbacks ctx = Some cbs" "cb_stream cbs" "length (concat texts) < cx_data_len ctx - 1"
  shows "\<exists>sse seen. sse_receive_all (\<lambda>_. True) True sse_initial chunks = Inr (sse, seen) \<and>
    chat_on_http_calls env (map OnSse seen) ctx =
      Inr (ctx\<lparr>cx_data := Some (concat texts @ NUL # drop (length (concat texts) + 1) mem),
               cx_data_current_len := length (concat texts)\<rparr>, map UserText texts)"
proof -
  let ?evs = "map (\<lambda>v. (None, Some v)) vs :: sse_seen list"
  have snd: "map snd ?evs = map Some vs" by (simp add: comp_def)
  have u: "concat (map (\<lambda>t. user_cb cb_stream ctx (UserText t)) texts) = map UserText texts"
    using assms(12,13) by (simp add: user_cb_def)
  have "chat_on_http_calls env (map OnSse ?evs) ctx =
      Inr (with_text ctx mem (concat texts), concat (map (\<lambda>t. user_cb cb_stream ctx (UserText t)) texts))"
    using chat_stream_run [OF assms(8,9), of env ?evs] assms(5,6,7,10,11,14) unfolding snd by (simp add: Let_def)
  then show ?thesis
    using receive_stream [OF assms(1-4)] u assms(10) by (auto simp: with_text_def)
qed

lemma chat_answer_assembled_witness:
  "\<exists>sse seen. sse_receive_all (\<lambda>_. True) True sse_initial [''data: he'', ''l'' @ [LF], LF # ''data: lo'' @ [LF, LF]] = Inr (sse, seen) \<and>
    chat_on_http_calls (sample_chat_env (\<lambda>s. Some (part_doc s))) (map OnSse seen) (sample_chat ''0123456789'') =
      Inr ((sample_chat ''0123456789'')\<lparr>cx_data := Some (concat [''hel'', ''lo''] @ NUL # drop (length (concat [''hel'', ''lo'']) + 1) ''0123456789''),
             cx_data_current_len := length (concat [''hel'', ''lo''])\<rparr>, map UserText [''hel'', ''lo''])"
  by (rule chat_answer_assembled [where vs = "[''hel'', ''lo'']" and cbs = "\<lparr>cb_stream = True, cb_completed = True, cb_error = True\<rparr>"])
    (simp_all only: part_texts, simp_all add: sse_stream_def sse_text_def isspace_def LF_def CR_def NUL_def SSE_BUFFER_SIZE_def
      sample_chat_def chat_context_fresh_def)

text \<open>
  The check of the text buffer is wrong by one: as soon as the texts of an answer fill all but one
  byte of the buffer, or are longer, the terminator is written behind the buffer. A buffer of any
  size, zero included, is overrun by a longer answer.
\<close>

theorem chat_long_answer_overflows:
  assumes "cx_data ctx = Some mem" "length mem = cx_data_len ctx" "cx_data_current_len ctx = 0"
    and "parts_ok env datas" "texts_of env datas \<noteq> []"
    and "cx_data_len ctx \<le> length (concat (texts_of env datas)) + 1" "length (concat (texts_of env datas)) < 2 ^ 64 - 1"
  shows "chat_on_http_calls env (map (\<lambda>d. OnSse (ev, d)) datas) ctx = Inl OutOfBounds"
proof -
  let ?evs = "map (\<lambda>d. (ev, d)) datas"
  have m: "map snd ?evs = datas" "map OnSse ?evs = map (\<lambda>d. OnSse (ev, d)) datas" by (simp_all add: comp_def)
  have "cx_data_current_len ctx \<le> cx_data_len ctx - 1"
    "cx_data_current_len ctx + length (concat (texts_of env datas)) < 2 ^ 64 - 1"
    "\<not> cx_data_current_len ctx + length (concat (texts_of env datas)) < cx_data_len ctx - 1"
    using assms(3,6,7) by simp_all
  then show ?thesis
    using chat_stream_run [OF assms(1,2), of env ?evs, unfolded m] assms(4,5) by (simp add: Let_def)
qed

lemma chat_long_answer_overflows_witness:
  "chat_on_http_calls (sample_chat_env (\<lambda>s. Some (part_doc s))) [OnSse (None, Some ''hel''), OnSse (None, Some ''lo'')] (sample_chat ''012345'') = Inl OutOfBounds"
  using chat_long_answer_overflows [of "sample_chat ''012345''" "''012345''" "sample_chat_env (\<lambda>s. Some (part_doc s))" "map Some [''hel'', ''lo'']" None]
    part_texts [of "[''hel'', ''lo'']"]
  by (simp add: sample_chat_def chat_context_fresh_def)

section \<open>Synchronous answers\<close>

text \<open>
  The text of a synchronous answer in a buffer of the size the user named. The first bytes of the
  text are copied and the last byte of the buffer keeps what it held, so the answer is complete and
  terminated exactly when two bytes stay free, or one and the last byte was a terminator before. The
  length reported for an answer that was cut is the whole buffer, its foreign last byte included.
\<close>

theorem chat_sync_answer:
  assumes "rs_choices r = c # cs" "cm_content (cc_message c) = Some t" "length mem = len" "0 < len"
  shows "\<exists>mem'. copy_answer r mem len = Inr (mem', min (length t) len) \<and> length mem' = len \<and>
    take (len - 1) mem' = take (len - 1) (t @ replicate (len - 1) NUL) \<and> last mem' = last mem \<and>
    ((\<exists>rest. mem' = t @ NUL # rest) \<longleftrightarrow> length t + 1 < len \<or> (length t + 1 = len \<and> last mem = NUL))"
proof -
  define mem' where "mem' = take (len - 1) (t @ replicate (len - 1) NUL) @ [last mem]"
  have "drop (len - 1) mem = [last mem]"
    using assms(3,4) by (metis append_butlast_last_id append_eq_conv_conj length_butlast length_greater_0_conv)
  then have "copy_answer r mem len = Inr (mem', min (length t) len)"
    using assms by (auto simp: copy_answer_def size_sub_def strncpy_to_def mem'_def min_def)
  moreover have l: "length mem' = len" using assms(4) by (simp add: mem'_def)
  moreover have "(\<exists>rest. mem' = t @ NUL # rest) \<longleftrightarrow> length t + 1 < len \<or> (length t + 1 = len \<and> last mem = NUL)"
  proof (cases "length t + 1 < len")
    case True
    then obtain k where k: "min (len - 1 - length t) (len - 1) = Suc k" by (cases "min (len - 1 - length t) (len - 1)") auto
    have "take (len - 1) (t @ replicate (len - 1) NUL) = t @ replicate (Suc k) NUL"
      using True by (simp only: take_append take_replicate k) simp
    then have "mem' = t @ NUL # (replicate k NUL @ [last mem])" by (simp add: mem'_def)
    then show ?thesis using True by auto
  next
    case False
    show ?thesis
    proof (cases "length t + 1 = len")
      case True
      then have "mem' = t @ [last mem]" by (simp add: mem'_def)
      then show ?thesis using True by auto
    next
      case longer: False
      have "length mem' < length (t @ NUL # rest)" for rest using l False longer by simp
      then show ?thesis using False longer by (metis less_irrefl)
    qed
  qed
  ultimately show ?thesis by (auto simp: mem'_def)
qed

definition sample_response :: "string \<Rightarrow> chat_response" where
  "sample_response t =
     \<lparr>rs_id = None, rs_object = None, rs_created = 0,
      rs_choices = [\<lparr>cc_index = 0, cc_message = \<lparr>cm_role = None, cm_content = Some t, cm_multi_contents = None, cm_tool_calls = None,
        cm_tool_call_id = None, cm_function_call = None\<rparr>, cc_finish_reason = None\<rparr>],
      rs_model = None, rs_system_fingerprint = None, rs_usage = no_usage, rs_request_id = None, rs_seed = 0, rs_top_p = 0,
      rs_temperature = 0, rs_presence_penalty = 0, rs_frequency_penalty = 0, rs_service_tier = None, rs_metadata = False\<rparr>"

lemma chat_sync_answer_witness:
  "\<exists>mem'. copy_answer (sample_response ''hello'') ''012345'' 6 = Inr (mem', 5) \<and> \<not> (\<exists>rest. mem' = ''hello'' @ NUL # rest)"
  using chat_sync_answer [of "sample_response ''hello''" "hd (rs_choices (sample_response ''hello''))" "[]" "''hello''" "''012345''" 6]
  by (auto simp: sample_response_def NUL_def)

section \<open>Failures\<close>

text \<open>The allocations of the parsers fail on nothing but null pointers.\<close>

lemma tool_call_error: "parse_delta_tool_call keq call = Inl e \<Longrightarrow> e = NullDeref"
  by (auto simp: parse_delta_tool_call_def dup_untested_def Let_def split: option.splits json.splits)

lemma c_map_error: "(\<And>x e. f x = Inl e \<Longrightarrow> e = u) \<Longrightarrow> x \<in> set xs \<Longrightarrow> f x = Inl v \<Longrightarrow> c_map f xs = Inl u"
  by (induction xs) (auto simp: c_bind_def split: sum.splits)

text \<open>
  A streamed part whose first choice has a tool call without an identifier, which the parts after
  the first one of a streamed tool call are, makes the client dereference a null pointer.
\<close>

theorem chat_tool_call_without_id:
  assumes "get_item (ce_key_eq (ch_cloud env)) (Option.bind data (ce_parse (ch_cloud env))) ''choices'' = Some (JArr (c # cs))"
    and "get_item (ce_key_eq (ch_cloud env)) (Some c) ''delta'' = Some (JObj delta)"
    and "get_item (ce_key_eq (ch_cloud env)) (Some (JObj delta)) ''tool_calls'' = Some (JArr calls)"
    and "call \<in> set calls" "string_item (get_item (ce_key_eq (ch_cloud env)) (Some call) ''id'') = None"
  shows "chat_on_http_call env (OnSse (ev, data)) ctx = Inl NullDeref"
proof -
  obtain doc where doc: "Option.bind data (ce_parse (ch_cloud env)) = Some doc"
    using assms(1) by (cases "Option.bind data (ce_parse (ch_cloud env))") (auto simp: get_item_def)
  have "parse_delta_tool_call (ce_key_eq (ch_cloud env)) call = Inl NullDeref"
    using assms(5) by (auto simp: parse_delta_tool_call_def dup_untested_def string_item_def split: option.splits json.splits)
  then have "c_map (parse_delta_tool_call (ce_key_eq (ch_cloud env))) calls = Inl NullDeref"
    by (intro c_map_error [OF _ assms(4)]) (auto dest: tool_call_error)
  then have "parse_stream_choice (ce_key_eq (ch_cloud env)) (ch_valueint env) c = Inl NullDeref"
    using assms(2,3) by (simp add: parse_stream_choice_def is_object_def parse_delta_def Let_def)
  then show ?thesis
    using assms(1) by (simp add: infer_internal_sse_callback_def parse_stream_response_def doc parse_stream_choices_def Let_def)
qed

definition call_doc :: json where
  "call_doc = JObj [(''choices'', JArr [JObj [(''delta'', JObj [(''tool_calls'', JArr [JObj [(''index'', JNum 0)]])])]])]"

lemma chat_tool_call_without_id_witness:
  "chat_on_http_call (sample_chat_env (\<lambda>_. Some call_doc)) (OnSse (None, Some ''{}'')) (sample_chat ''0123456789'') = Inl NullDeref"
  by (rule chat_tool_call_without_id [where c = "JObj [(''delta'', JObj [(''tool_calls'', JArr [JObj [(''index'', JNum 0)]])])]"
        and cs = "[]" and delta = "[(''tool_calls'', JArr [JObj [(''index'', JNum 0)]])]" and calls = "[JObj [(''index'', JNum 0)]]"
        and call = "JObj [(''index'', JNum 0)]"])
    (simp_all add: sample_chat_env_def call_doc_def get_item_def json_find_def)

text \<open>
  A request for a device that still has to be registered and whose registration fails does not
  fail: the missing result is used as a request, which dereferences a null pointer.
\<close>

theorem chat_failed_registration:
  assumes "\<forall>i. ch_alloc env i" "ep \<noteq> []" "request_doc (ce_parse (ch_cloud env)) request = Inr (Some doc)"
    and "bc_device_secret cfg = None" "dynamic_register (ch_cloud env) (Some (Some cfg)) = Inr (Some (Some cfg'), ret)" "ret \<noteq> 0"
  shows "chat_request_context_init env (Some ep) key request (Some (Some cfg)) = Inl NullDeref"
proof -
  have url: "\<exists>ctx. http_ctx_set_url (ce_uri (ch_cloud env)) c (Some (snprintf_s 256 u)) = Inr ctx" for c u
    by (auto simp: http_ctx_set_url_def snprintf_s_def Let_def split: option.splits)
  obtain ctx where ctx: "http_ctx_set_url (ce_uri (ch_cloud env)) fresh_ctx (Some (snprintf_s 256 (ep @ chat_completions_path))) = Inr ctx"
    using url by blast
  have "chat_sign env http (Some cfg) = Inr (None, cfg')" for http
    using assms(4-6) by (simp add: chat_sign_def device_auth_client_def)
  then show ?thesis
    using assms(1-3) ctx by (simp add: chat_request_context_init_def new_http_ctx_def http_ctx_set_bearer_token_def Let_def)
qed

definition plain_request :: chat_request where
  "plain_request = \<lparr>rq_model = Some ''m'', rq_messages = [], rq_tools = [], rq_tool_choice = None, rq_max_completion_tokens = 0,
     rq_stream = True, rq_temperature = 0, rq_top_p = 0, rq_store = False\<rparr>"

definition empty_answer :: json where
  "empty_answer = JObj [(''Result'', JObj [(''len'', JNum 0)])]"

lemma empty_answer_register:
  "dynamic_register (answer_env empty_answer) (Some (Some new_device)) = Inr (Some (Some new_device), -1)"
proof -
  obtain resp body where r: "response_body resp = Some body" "ce_parse (answer_env empty_answer) body = Some empty_answer"
    and d: "dynamic_register (answer_env empty_answer) (Some (Some new_device)) =
      c_bind (parse_dynamic_register (answer_env empty_answer) resp) (\<lambda>result.
        if dr_len result > 0 then
          c_bind (aes_decode ''product-secret-1'' (dr_payload result) True) (\<lambda>decoded.
            Inr (Some (Some (new_device\<lparr>bc_device_secret := decoded\<rparr>)), VOLC_OK))
        else Inr (Some (Some new_device), -1))"
    using dynamic_register_answer [OF answer_env_ok new_device_fields(1)] by blast
  have "\<exists>result. parse_dynamic_register (answer_env empty_answer) resp = Inr result \<and> dr_len result = 0"
    by (simp add: parse_dynamic_register_def r empty_answer_def answer_env_def sample_env_def Let_def to_int32_def
        aws_json_value_get_from_object_def json_find_def aws_json_get_num_val_def)
  then show ?thesis using d by auto
qed

lemma chat_failed_registration_witness:
  "chat_request_context_init ((sample_chat_env (\<lambda>_. None))\<lparr>ch_cloud := answer_env empty_answer\<rparr>)
     (Some ''http://h'') ''key'' plain_request (Some (Some new_device)) = Inl NullDeref"
  by (rule chat_failed_registration [OF _ _ _ new_device_fields(2)])
    (simp_all add: empty_answer_register, simp_all add: sample_chat_env_def request_doc_def plain_request_def tool_choice_member_def item_member_def)

text \<open>
  A streamed request whose connection fails while the user waits is reported as a success: the
  status of the response is still zero, and only the error callback tells the difference.
\<close>

theorem chat_wait_hides_connection_error:
  assumes "cx_is_streaming ctx" "cx_request_context ctx = Some cr" "\<not> is_connection_completed (cr_http cr)"
    and "hc_response (cr_http cr) = Some r" "error_code r = 0" "on_error_cb (cr_http cr)" "\<not> has_download_ctx (cr_http cr)"
  shows "\<exists>g'. onesdk_chat_wait_inner env [([HConnectionError (Some msg)], n)] g ctx =
    Inr (Some (g', ctx\<lparr>cx_request_context := None\<rparr>, user_cb cb_error ctx (UserError VOLC_ERR_HTTP_CONN_FAILED (Some msg)), VOLC_OK))"
proof -
  have "\<exists>g' http. http_wait_complete 0 [([HConnectionError (Some msg)], n)] g (cr_http cr) =
      Inr (g', http, [CancelServiceH, OnError VOLC_ERR_HTTP_CONN_FAILED (Some msg)], Some 1) \<and> chat_wait_code http = VOLC_OK"
    using assms(3-7)
    by (simp add: http_wait_complete.simps on_connection_error_def map_response_def chat_wait_code_def VOLC_OK_def)
  then show ?thesis
    using assms(1,2) by (auto simp: onesdk_chat_wait_inner_def chat_internal_error_callback_def)
qed

lemma chat_wait_hides_connection_error_witness:
  "let cr = \<lparr>cr_http = chat_http_callbacks fresh_ctx, cr_endpoint = ''http://h'', cr_api_key = ''key''\<rparr>;
       ctx = (sample_chat ''0123'')\<lparr>cx_request_context := Some cr\<rparr>
   in \<exists>g'. onesdk_chat_wait_inner (sample_chat_env (\<lambda>_. None)) [([HConnectionError (Some ''refused'')], 0)] \<lparr>interrupted = False, bad = 0, http_status = 0, ba_user = None, ba_password = None\<rparr> ctx =
      Inr (Some (g', ctx\<lparr>cx_request_context := None\<rparr>, user_cb cb_error ctx (UserError VOLC_ERR_HTTP_CONN_FAILED (Some ''refused'')), VOLC_OK))"
  unfolding Let_def
  by (rule chat_wait_hides_connection_error [where cr = "\<lparr>cr_http = chat_http_callbacks fresh_ctx, cr_endpoint = ''http://h'', cr_api_key = ''key''\<rparr>"
        and r = "\<lparr>body_size = 0, response_body = None, error_code = 0, inner_error_code = 0\<rparr>"])
    (simp_all add: sample_chat_def chat_context_fresh_def chat_http_callbacks_def fresh_ctx_def)

end
