(* ===== verification/ChatRoundtrip.thy ===== *)
theory ChatRoundtrip
  imports ChatTheorems
begin

text \<open>
  The chat request as the service reads it: a reader of the document gets back the request of the user,
  message by message, with tool calls, contents of several kinds, tools and options.
\<close>

section \<open>The reader\<close>

abbreviation (input) member :: "json option \<Rightarrow> string \<Rightarrow> json option" where
  "member \<equiv> get_item (=)"

definition member_str :: "json option \<Rightarrow> string \<Rightarrow> string option" where
  "member_str obj key = string_item (member obj key)"

definition member_num :: "json \<Rightarrow> string \<Rightarrow> rat" where
  "member_num obj key = double_item (member (Some obj) key)"

definition member_bool :: "json \<Rightarrow> string \<Rightarrow> bool" where
  "member_bool obj key = (member (Some obj) key = Some (JBool True))"

definition member_list :: "(json \<Rightarrow> 'a) \<Rightarrow> json \<Rightarrow> string \<Rightarrow> 'a list option" where
  "member_list f obj key = (case member (Some obj) key of Some (JArr xs) \<Rightarrow> Some (map f xs) | _ \<Rightarrow> None)"

definition read_tool_call :: "json \<Rightarrow> chat_tool_call" where
  "read_tool_call j =
     (let f = member (Some j) ''function'' in
      \<lparr>tc_id = member_str (Some j) ''id'', tc_type = member_str (Some j) ''type'',
       tc_name = member_str f ''name'', tc_arguments = member_str f ''arguments''\<rparr>)"

definition read_content :: "json \<Rightarrow> chat_multi_content" where
  "read_content j =
     (let u = member (Some j) ''image_url'' in
      \<lparr>mc_type = member_str (Some j) ''type'', mc_text = member_str (Some j) ''text'',
       mc_url = member_str u ''url'', mc_detail = member_str u ''detail''\<rparr>)"

definition read_message :: "json \<Rightarrow> chat_message" where
  "read_message j =
     \<lparr>cm_role = member_str (Some j) ''role'', cm_content = member_str (Some j) ''content'',
      cm_multi_contents = member_list read_content j ''content'', cm_tool_calls = member_list read_tool_call j ''tool_calls'',
      cm_tool_call_id = member_str (Some j) ''tool_call_id'', cm_function_call = None\<rparr>"

definition read_tool :: "(json \<Rightarrow> string) \<Rightarrow> json \<Rightarrow> chat_tool" where
  "read_tool print j =
     (let f = member (Some j) ''function'' in
      \<lparr>ct_type = member_str (Some j) ''type'', ct_name = member_str f ''name'', ct_description = member_str f ''description'',
       ct_parameters = map_option print (member f ''parameters''), ct_required = member_str f ''required''\<rparr>)"

definition read_request :: "(json \<Rightarrow> string) \<Rightarrow> json \<Rightarrow> chat_request" where
  "read_request print d =
     \<lparr>rq_model = member_str (Some d) ''model'',
      rq_messages = (case member_list read_message d ''messages'' of None \<Rightarrow> [] | Some ms \<Rightarrow> ms),
      rq_tools = (case member_list (read_tool print) d ''tools'' of None \<Rightarrow> [] | Some ts \<Rightarrow> ts),
      rq_tool_choice = (case member (Some d) ''tool_choice'' of None \<Rightarrow> None | Some (JStr s) \<Rightarrow> Some s | Some j \<Rightarrow> Some (print j)),
      rq_max_completion_tokens = \<lfloor>member_num d ''max_tokens''\<rfloor>, rq_stream = member_bool d ''stream'',
      rq_temperature = member_num d ''temperature'', rq_top_p = member_num d ''top_p'', rq_store = member_bool d ''store''\<rparr>"

section \<open>Requests the document carries completely\<close>

definition valid_content :: "chat_multi_content \<Rightarrow> bool" where
  "valid_content c \<longleftrightarrow>
     (case mc_type c of
        None \<Rightarrow> False
      | Some t \<Rightarrow> (t \<noteq> ''text'' \<longrightarrow> mc_text c = None) \<and> (t \<noteq> ''image_url'' \<longrightarrow> mc_url c = None \<and> mc_detail c = None))"

definition valid_message :: "chat_message \<Rightarrow> bool" where
  "valid_message m \<longleftrightarrow> cm_function_call m = None \<and>
     (case cm_multi_contents m of None \<Rightarrow> True | Some cs \<Rightarrow> cm_content m = None \<and> list_all valid_content cs)"

definition valid_request :: "(string \<Rightarrow> json option) \<Rightarrow> (json \<Rightarrow> string) \<Rightarrow> chat_request \<Rightarrow> bool" where
  "valid_request parse print r \<longleftrightarrow>
     list_all valid_message (rq_messages r) \<and>
     list_all (\<lambda>t. ct_parameters t = map_option print (Option.bind (ct_parameters t) parse)) (rq_tools r) \<and>
     (case rq_tool_choice r of
        None \<Rightarrow> True
      | Some s \<Rightarrow> (case parse s of None \<Rightarrow> True | Some (JStr x) \<Rightarrow> False | Some j \<Rightarrow> print j = s)) \<and>
     0 \<le> rq_max_completion_tokens r \<and> 0 \<le> rq_temperature r \<and> 0 \<le> rq_top_p r \<and> (rq_tools r = [] \<or> \<not> rq_stream r)"

section \<open>The way back\<close>

lemma find_append: "json_find keq (xs @ ys) k = (case json_find keq xs k of None \<Rightarrow> json_find keq ys k | Some v \<Rightarrow> Some v)"
  by (induction xs) (auto simp: json_find_def split: option.splits)

lemma find_member:
  "json_find (=) [] k = None"
  "json_find (=) ((k', v) # kvs) k = (if k' = k then Some v else json_find (=) kvs k)"
  "json_find (=) (item_member k' i) k = (if k' = k then i else None)"
  "json_find (=) (str_member k' s) k = (if k' = k then map_option JStr s else None)"
  by (auto simp: json_find_def item_member_def str_member_def split: option.splits)

lemma find_if: "json_find keq (if b then xs else ys) k = (if b then json_find keq xs k else json_find keq ys k)"
  by simp

lemmas reading = get_item_def find_append find_member member_str_def string_item_def

lemma read_back_tool_call [simp]: "read_tool_call (tool_call_doc tc) = tc"
  by (cases tc) (auto simp: read_tool_call_def tool_call_doc_def reading split: option.splits)

lemma read_back_content: "valid_content c \<Longrightarrow> \<exists>j. content_item c = Inr j \<and> read_content j = c"
  by (cases c) (auto simp: valid_content_def content_item_def read_content_def reading split: option.splits)

lemma read_back_message: 
  assumes "valid_message m"
  shows "\<exists>j. message_doc m = Inr j \<and> read_message j = m"
proof (cases "cm_multi_contents m")
  case None
  then show ?thesis using assms
    by (cases m) (auto simp: message_doc_def message_content_def valid_message_def read_message_def member_list_def
        reading comp_def split: option.splits)
next
  case (Some cs)
  have "\<exists>js. c_map content_item cs = Inr js \<and> map read_content js = cs" if "list_all valid_content cs" for cs
    using that by (induction cs) (auto dest!: read_back_content)
  then obtain js where "c_map content_item cs = Inr js" "map read_content js = cs"
    using assms Some by (auto simp: valid_message_def)
  then show ?thesis using assms Some
    by (cases m) (auto simp: message_doc_def message_content_def valid_message_def read_message_def member_list_def
        reading comp_def split: option.splits)
qed

lemma read_back_messages:
  "list_all valid_message ms \<Longrightarrow> \<exists>js. c_map message_doc ms = Inr js \<and> map read_message js = ms"
  by (induction ms) (auto dest!: read_back_message)

lemma read_back_tool:
  "ct_parameters t = map_option print (Option.bind (ct_parameters t) parse) \<Longrightarrow> read_tool print (tool_doc parse t) = t"
  by (cases t) (auto simp: read_tool_def tool_doc_def reading split: option.splits)

lemma request_read_back:
  assumes "valid_request parse print r"
  shows "\<exists>d. request_doc parse r = Inr (Some d) \<and> read_request print d = r"
proof -
  note v = assms [unfolded valid_request_def]
  obtain js where js: "c_map message_doc (rq_messages r) = Inr js" "map read_message js = rq_messages r"
    using read_back_messages v by blast
  have tools: "map (read_tool print) (map (tool_doc parse) (rq_tools r)) = rq_tools r"
    using v read_back_tool by (simp add: list_all_iff map_idI)
  obtain kvs where d: "request_doc parse r = Inr (Some (JObj kvs))" and kvs: "kvs =
      str_member ''model'' (rq_model r) @
      [(''messages'', JArr js), (''store'', JBool (rq_store r)), (''stream'', JBool (rq_stream r))] @
      (if rq_max_completion_tokens r > 0 then [(''max_tokens'', JNum (of_int (rq_max_completion_tokens r)))] else []) @
      (if rq_temperature r > 0 then [(''temperature'', JNum (rq_temperature r))] else []) @
      (if rq_top_p r > 0 then [(''top_p'', JNum (rq_top_p r))] else []) @
      (if rq_tools r \<noteq> [] then [(''tools'', JArr (map (tool_doc parse) (rq_tools r)))] else []) @
      tool_choice_member parse (rq_tool_choice r)"
    using v js by (auto simp: request_doc_def)
  note look = kvs get_item_def find_append find_member find_if tool_choice_member_def
  have "member (Some (JObj kvs)) ''model'' = map_option JStr (rq_model r)"
    "member (Some (JObj kvs)) ''messages'' = Some (JArr js)"
    "member (Some (JObj kvs)) ''store'' = Some (JBool (rq_store r))"
    "member (Some (JObj kvs)) ''stream'' = Some (JBool (rq_stream r))"
    "member (Some (JObj kvs)) ''max_tokens'' =
      (if rq_max_completion_tokens r > 0 then Some (JNum (of_int (rq_max_completion_tokens r))) else None)"
    "member (Some (JObj kvs)) ''temperature'' = (if rq_temperature r > 0 then Some (JNum (rq_temperature r)) else None)"
    "member (Some (JObj kvs)) ''top_p'' = (if rq_top_p r > 0 then Some (JNum (rq_top_p r)) else None)"
    "member (Some (JObj kvs)) ''tools'' = (if rq_tools r \<noteq> [] then Some (JArr (map (tool_doc parse) (rq_tools r))) else None)"
    "member (Some (JObj kvs)) ''tool_choice'' = map_option (\<lambda>s. case parse s of Some j \<Rightarrow> j | None \<Rightarrow> JStr s) (rq_tool_choice r)"
    by (simp_all add: look split: option.splits)
  moreover have "(case map_option (\<lambda>s. case parse s of Some j \<Rightarrow> j | None \<Rightarrow> JStr s) (rq_tool_choice r) of
      None \<Rightarrow> None | Some (JStr s) \<Rightarrow> Some s | Some j \<Rightarrow> Some (print j)) = rq_tool_choice r"
    using v by (auto split: option.splits json.splits)
  ultimately have "read_request print (JObj kvs) = r"
    using v js(2) tools
    by (cases r) (simp add: read_request_def member_str_def member_num_def member_bool_def member_list_def
        string_item_def double_item_def split: option.splits)
  then show ?thesis using d by blast
qed

interpretation chat_document: codec
  "\<lambda>r. case request_doc parse r of Inr d \<Rightarrow> d | _ \<Rightarrow> None" "\<lambda>d. Some (read_request print d)" "valid_request parse print"
  for parse print
  by unfold_locales (use request_read_back in fastforce)


definition tool_request :: chat_request where
  "tool_request = plain_request\<lparr>rq_stream := False, rq_top_p := 1, rq_max_completion_tokens := 100,
     rq_messages := [
       \<lparr>cm_role = Some ''user'', cm_content = None, cm_multi_contents = Some [
          \<lparr>mc_type = Some ''text'', mc_text = Some ''what is this'', mc_url = None, mc_detail = None\<rparr>,
          \<lparr>mc_type = Some ''image_url'', mc_text = None, mc_url = Some ''u'', mc_detail = Some ''low''\<rparr>],
        cm_tool_calls = None, cm_tool_call_id = None, cm_function_call = None\<rparr>,
       \<lparr>cm_role = Some ''assistant'', cm_content = Some [], cm_multi_contents = None,
        cm_tool_calls = Some [\<lparr>tc_id = Some ''call_1'', tc_type = Some ''function'', tc_name = Some ''f'', tc_arguments = Some ''{}''\<rparr>],
        cm_tool_call_id = None, cm_function_call = None\<rparr>],
     rq_tools := [\<lparr>ct_type = Some ''function'', ct_name = Some ''f'', ct_description = None, ct_parameters = Some ''{}'', ct_required = None\<rparr>],
     rq_tool_choice := Some ''auto''\<rparr>"

definition braces :: "string \<Rightarrow> json option" where
  "braces s = (if s = ''{}'' then Some (JObj []) else None)"


end
