(* ===== verification/Kv.thy ===== *)
theory Kv
  imports Json DeviceAuth
begin

text \<open>
  The key-value store of \<^verbatim>\<open>src/iot/iot_kv.c\<close>: a JSON object in memory that is written to its file
  after every change, and read from it when the store is opened. The file system is a map from paths
  to contents; the comparison of keys, the parser and the printer are those of cJSON, and \<open>writable\<close>
  says whether the file can be opened for writing. The lock of the store serialises the operations.
\<close>

section \<open>State\<close>

type_synonym files = "string \<Rightarrow> string option"

record kv_ctx =
  kv_path :: string
  kv_data :: json

record json_lib =
  jl_eq :: key_eq
  jl_print :: "json \<Rightarrow> string"
  jl_parse :: "string \<Rightarrow> json option"

section \<open>Operations\<close>

text \<open>The first member whose key matches is removed.\<close>

definition aws_json_value_remove_from_object :: "key_eq \<Rightarrow> json \<Rightarrow> string \<Rightarrow> json" where
  "aws_json_value_remove_from_object keq obj key =
     (case obj of JObj kvs \<Rightarrow> JObj (remove_first (\<lambda>(k, v). keq k key) kvs) | _ \<Rightarrow> obj)"

text \<open>
  \<^verbatim>\<open>iot_kv_init\<close>. A part of the path that does not fit the array of 1024 bytes is left out. A file that is
  no JSON counts as empty.
\<close>

definition iot_kv_init :: "json_lib \<Rightarrow> files \<Rightarrow> string \<Rightarrow> string \<Rightarrow> kv_ctx" where
  "iot_kv_init lib fs save_file_dir_path filename_name =
     (let path = write_whole 1024 filename_name (write_whole 1024 save_file_dir_path [])
      in \<lparr>kv_path = path,
          kv_data = (case fs path of
             None \<Rightarrow> JObj []
           | Some content \<Rightarrow> (case jl_parse lib (cstr content) of None \<Rightarrow> JObj [] | Some j \<Rightarrow> j))\<rparr>)"

text \<open>The result of \<^verbatim>\<open>fopen\<close> is not tested.\<close>

definition iot_write_file :: "json_lib \<Rightarrow> (string \<Rightarrow> bool) \<Rightarrow> kv_ctx \<Rightarrow> files \<Rightarrow> files c_result" where
  "iot_write_file lib writable ctx fs =
     (if writable (kv_path ctx) then Inr (fs(kv_path ctx \<mapsto> jl_print lib (kv_data ctx))) else Inl NullDeref)"

definition kv_store :: "json_lib \<Rightarrow> string \<Rightarrow> json \<Rightarrow> kv_ctx \<Rightarrow> kv_ctx" where
  "kv_store lib key v ctx =
     ctx\<lparr>kv_data := aws_json_value_add_to_object (jl_eq lib) (aws_json_value_remove_from_object (jl_eq lib) (kv_data ctx) key) key v\<rparr>"

definition kv_unstore :: "json_lib \<Rightarrow> string \<Rightarrow> kv_ctx \<Rightarrow> kv_ctx" where
  "kv_unstore lib key ctx = ctx\<lparr>kv_data := aws_json_value_remove_from_object (jl_eq lib) (kv_data ctx) key\<rparr>"

definition kv_commit :: "json_lib \<Rightarrow> (string \<Rightarrow> bool) \<Rightarrow> kv_ctx \<Rightarrow> files \<Rightarrow> (kv_ctx \<times> files) c_result" where
  "kv_commit lib writable ctx fs = c_bind (iot_write_file lib writable ctx fs) (\<lambda>fs. Inr (ctx, fs))"

definition iot_add_kv_string ::
  "json_lib \<Rightarrow> (string \<Rightarrow> bool) \<Rightarrow> string \<Rightarrow> string \<Rightarrow> kv_ctx \<Rightarrow> files \<Rightarrow> (kv_ctx \<times> files) c_result" where
  "iot_add_kv_string lib writable key val ctx fs = kv_commit lib writable (kv_store lib (cstr key) (JStr (cstr val)) ctx) fs"

definition iot_kv_set_num ::
  "json_lib \<Rightarrow> (string \<Rightarrow> bool) \<Rightarrow> string \<Rightarrow> rat \<Rightarrow> kv_ctx \<Rightarrow> files \<Rightarrow> (kv_ctx \<times> files) c_result" where
  "iot_kv_set_num lib writable key num ctx fs = kv_commit lib writable (kv_store lib (cstr key) (JNum num) ctx) fs"

definition iot_remove_key ::
  "json_lib \<Rightarrow> (string \<Rightarrow> bool) \<Rightarrow> string \<Rightarrow> kv_ctx \<Rightarrow> files \<Rightarrow> (kv_ctx \<times> files) c_result" where
  "iot_remove_key lib writable key ctx fs = kv_commit lib writable (kv_unstore lib (cstr key) ctx) fs"

text \<open>
  \<^verbatim>\<open>iot_get_kv_string\<close>: \<open>None\<close> when the output is left as it was. The test for a null value is false for
  a key that is absent, which is then found to be no string. \<^verbatim>\<open>iot_get_kv_str\<close> starts with an empty output.
\<close>

definition iot_get_kv_string :: "json_lib \<Rightarrow> kv_ctx \<Rightarrow> string \<Rightarrow> string option" where
  "iot_get_kv_string lib ctx key =
     (case aws_json_value_get_from_object (jl_eq lib) (Some (kv_data ctx)) (cstr key) of
        Some JNull \<Rightarrow> Some []
      | Some (JStr s) \<Rightarrow> Some s
      | _ \<Rightarrow> None)"

definition iot_get_kv_str :: "json_lib \<Rightarrow> kv_ctx \<Rightarrow> string \<Rightarrow> string" where
  "iot_get_kv_str lib ctx key = (case iot_get_kv_string lib ctx key of None \<Rightarrow> [] | Some s \<Rightarrow> s)"

text \<open>A key that is absent or holds no number: the result is a variable never written.\<close>

definition iot_kv_get_num :: "json_lib \<Rightarrow> kv_ctx \<Rightarrow> string \<Rightarrow> rat c_result" where
  "iot_kv_get_num lib ctx key =
     (case aws_json_value_get_from_object (jl_eq lib) (Some (kv_data ctx)) (cstr key) of
        Some JNull \<Rightarrow> Inr 0
      | Some (JNum x) \<Rightarrow> Inr x
      | _ \<Rightarrow> Inl Uninit)"

text \<open>\<^verbatim>\<open>iot_get_kv_keys\<close> copies the key of each child; the children of an array have none.\<close>

definition iot_get_kv_keys :: "kv_ctx \<Rightarrow> string list c_result" where
  "iot_get_kv_keys ctx =
     (case kv_data ctx of JObj kvs \<Rightarrow> Inr (map fst kvs) | JArr (_ # _) \<Rightarrow> Inl NullDeref | _ \<Rightarrow> Inr [])"

end
