(* ===== verification/IotUtils.thy ===== *)
theory IotUtils
  imports Kv Basic
begin

text \<open>
  Helpers of the IoT components: topics printed from a format (\<^verbatim>\<open>src/iot/iot_utils.c\<close>), request and
  reply payloads and the members of JSON objects (\<^verbatim>\<open>src/util/aws_json.c\<close>, \<^verbatim>\<open>src/util/util.c\<close>).
\<close>

section \<open>Topics\<close>

text \<open>A format whose only directives are \<^verbatim>\<open>%s\<close>.\<close>

fun fmt_s :: "string \<Rightarrow> string list \<Rightarrow> string" where
  "fmt_s (c # d # cs) (a # as) = (if c = CHR ''%'' \<and> d = CHR ''s'' then a @ fmt_s cs as else c # fmt_s (d # cs) (a # as))"
| "fmt_s cs as = cs"

text \<open>The length of a string of less than 1024 bytes; zero for a longer one.\<close>

definition secure_strlen :: "string \<Rightarrow> nat" where
  "secure_strlen s = (if length s < 1024 then length s else 0)"

text \<open>The text is printed into \<open>out_size + 1\<close> bytes without a check.\<close>

definition print_into :: "nat \<Rightarrow> string \<Rightarrow> string c_result" where
  "print_into out_size t = (if length t > out_size then Inl OutOfBounds else Inr t)"

definition iot_get_common_topic :: "string \<Rightarrow> string \<Rightarrow> string \<Rightarrow> string c_result" where
  "iot_get_common_topic fmt product_key device_name =
     print_into (length fmt + length product_key + length device_name) (fmt_s fmt [product_key, device_name])"

definition iot_get_topic_with_1_c_str_param :: "string \<Rightarrow> string \<Rightarrow> string \<Rightarrow> string \<Rightarrow> string c_result" where
  "iot_get_topic_with_1_c_str_param fmt product_key device_name p1 =
     print_into (secure_strlen fmt + length product_key + length device_name + secure_strlen p1)
       (fmt_s fmt [product_key, device_name, p1])"

definition iot_get_topic_with_1_param :: "string \<Rightarrow> string \<Rightarrow> string \<Rightarrow> string \<Rightarrow> string c_result" where
  "iot_get_topic_with_1_param fmt product_key device_name p1 =
     print_into (secure_strlen fmt + length product_key + length device_name + length p1)
       (fmt_s fmt [product_key, device_name, p1])"

definition iot_get_topic_with_2_c_str_param :: "string \<Rightarrow> string \<Rightarrow> string \<Rightarrow> string \<Rightarrow> string \<Rightarrow> string c_result" where
  "iot_get_topic_with_2_c_str_param fmt product_key device_name p1 p2 =
     print_into (secure_strlen fmt + length product_key + length device_name + secure_strlen p1 + secure_strlen p2)
       (fmt_s fmt [product_key, device_name, p1, p2])"

definition iot_get_topic_with_3_c_str_param :: "string \<Rightarrow> string \<Rightarrow> string \<Rightarrow> string \<Rightarrow> string \<Rightarrow> string \<Rightarrow> string c_result" where
  "iot_get_topic_with_3_c_str_param fmt product_key device_name p1 p2 p3 =
     print_into (secure_strlen fmt + secure_strlen product_key + secure_strlen device_name + secure_strlen p1 + secure_strlen p2 + secure_strlen p3)
       (fmt_s fmt [product_key, device_name, p1, p2, p3])"

section \<open>Identifiers and payloads\<close>

text \<open>A random number and the time in milliseconds, as text.\<close>

definition get_random_string_with_time_suffix :: "32 word \<Rightarrow> 64 word \<Rightarrow> string" where
  "get_random_string_with_time_suffix rnd now = dec_nat (unat rnd) @ dec_nat (unat now)"

definition get_random_string_id_c_str :: "32 word \<Rightarrow> 64 word \<Rightarrow> string" where
  "get_random_string_id_c_str rnd now = dec_nat (unat (ucast rnd :: 8 word)) @ dec_nat (unat now)"

definition SDK_VERSION :: string where "SDK_VERSION = ''1.0.0''"

definition aws_json_add_str_val :: "key_eq \<Rightarrow> string \<Rightarrow> string option \<Rightarrow> json \<Rightarrow> json" where
  "aws_json_add_str_val keq key val obj =
     (case val of
        None \<Rightarrow> aws_json_value_remove_from_object keq obj key
      | Some v \<Rightarrow> aws_json_value_add_to_object keq obj key (JStr v))"

definition aws_json_add_num_val :: "key_eq \<Rightarrow> string \<Rightarrow> rat \<Rightarrow> json \<Rightarrow> json" where
  "aws_json_add_num_val keq key val obj = aws_json_value_add_to_object keq obj key (JNum val)"

definition aws_json_add_json_obj :: "key_eq \<Rightarrow> string \<Rightarrow> json option \<Rightarrow> json \<Rightarrow> json" where
  "aws_json_add_json_obj keq key val obj =
     (case val of
        None \<Rightarrow> aws_json_value_remove_from_object keq obj key
      | Some v \<Rightarrow> aws_json_value_add_to_object keq obj key v)"

definition new_request_payload :: "key_eq \<Rightarrow> 32 word \<Rightarrow> 64 word \<Rightarrow> string \<Rightarrow> json option \<Rightarrow> json" where
  "new_request_payload keq rnd now version data =
     (let payload = aws_json_value_add_to_object keq
            (aws_json_value_add_to_object keq (JObj []) ''id'' (JStr (get_random_string_with_time_suffix rnd now)))
            ''version'' (JStr version)
      in case data of None \<Rightarrow> payload | Some d \<Rightarrow> aws_json_value_add_to_object keq payload ''params'' d)"

definition new_reply_payload :: "key_eq \<Rightarrow> string \<Rightarrow> int \<Rightarrow> json option \<Rightarrow> json" where
  "new_reply_payload keq i code data =
     (let payload = aws_json_value_add_to_object keq
            (aws_json_value_add_to_object keq (JObj []) ''ID'' (JStr (cstr i))) ''Code'' (JNum (of_int code))
      in case data of None \<Rightarrow> payload | Some d \<Rightarrow> aws_json_value_add_to_object keq payload ''Data'' d)"

text \<open>The number under a key as an integer of 32 bits.\<close>

definition json_int32 :: "key_eq \<Rightarrow> json option \<Rightarrow> string \<Rightarrow> int c_result" where
  "json_int32 keq obj key = c_bind (aws_json_get_num_val keq obj key) to_int32"

section \<open>Lists of C\<close>

text \<open>\<^verbatim>\<open>aws_byte_cursor_split_on_char\<close>: the pieces between the separators, empty ones included.\<close>

fun split_on :: "char \<Rightarrow> string \<Rightarrow> string list" where
  "split_on c [] = [[]]"
| "split_on c (x # xs) =
     (if x = c then [] # split_on c xs else (case split_on c xs of p # ps \<Rightarrow> (x # p) # ps | [] \<Rightarrow> [[x]]))"

text \<open>A topic fits its memory exactly when the parameters are measured correctly.\<close>

lemma length_fmt_s: "length (fmt_s fmt ps) \<le> length fmt + sum_list (map length ps)"
  by (induction fmt ps rule: fmt_s.induct) auto

section \<open>Names\<close>

text \<open>The product and the device, read from the configuration through its pointers.\<close>

definition config_names :: "basic_config option \<Rightarrow> (string \<times> string) c_result" where
  "config_names cfgp =
     (case cfgp of
        Some cfg \<Rightarrow> (case (bc_product_key cfg, bc_device_name cfg) of (Some pk, Some dn) \<Rightarrow> Inr (pk, dn) | _ \<Rightarrow> Inl NullDeref)
      | None \<Rightarrow> Inl NullDeref)"

end
