(* ===== verification/Ota.thy ===== *)
theory Ota
  imports IotUtils Md5
begin

text \<open>
  The firmware update of \<^verbatim>\<open>src/iot/ota\<close>: jobs announced and described over MQTT, tasks resumed from the
  key-value store, the download with its callbacks and the reports. What the component does to the
  outside is a list of actions in order: publications (with the text of the payload) and calls of the
  user's callbacks. Files are a map from paths to contents.
\<close>

section \<open>Status\<close>

datatype ota_status = ToUpgrade | Downloading | Downloaded | DiffRecovering | DiffRecovered
  | Installing | Installed | Success | Failed

fun iot_ota_job_status_enum_to_string :: "ota_status \<Rightarrow> string" where
  "iot_ota_job_status_enum_to_string ToUpgrade = ''ToUpgrade''"
| "iot_ota_job_status_enum_to_string Downloading = ''Downloading''"
| "iot_ota_job_status_enum_to_string Downloaded = ''Downloaded''"
| "iot_ota_job_status_enum_to_string DiffRecovering = ''DiffRecovering''"
| "iot_ota_job_status_enum_to_string DiffRecovered = ''DiffRecovered''"
| "iot_ota_job_status_enum_to_string Installing = ''Installing''"
| "iot_ota_job_status_enum_to_string Installed = ''Installed''"
| "iot_ota_job_status_enum_to_string Success = ''Success''"
| "iot_ota_job_status_enum_to_string Failed = ''Failed''"

definition iot_ota_job_status_str_to_status_enum :: "string \<Rightarrow> ota_status" where
  "iot_ota_job_status_str_to_status_enum s =
     (case find (\<lambda>st. s = iot_ota_job_status_enum_to_string st)
        [Downloading, Downloaded, Installing, Installed, Success, DiffRecovering, DiffRecovered, Failed] of
        Some st \<Rightarrow> st | None \<Rightarrow> Failed)"

section \<open>State\<close>

record job_info =
  ji_ota_job_id :: string
  ji_dest_version :: string
  ji_module :: string
  ji_url :: string
  ji_timeout_in_minutes :: int
  ji_size :: nat
  ji_sign :: string

text \<open>
  \<open>tk_job\<close> is the memory the pointer to the job points to, \<open>None\<close> when it has been released;
  \<open>tk_download_file_size\<close> is \<open>None\<close> when the field was never written.
\<close>

record ota_task =
  tk_job :: "job_info option"
  tk_decode_url :: string
  tk_retry_time :: int
  tk_is_pending_to_retry :: bool
  tk_upgrade_device_status :: int
  tk_ota_file_path :: "string option"
  tk_download_file_size :: "nat option"
  tk_downloaded_size :: nat

record ota_handler =
  oh_mqtt :: "basic_config option"
  oh_kv :: kv_ctx
  oh_devices :: "(string \<times> string) list"
  oh_download_dir :: "string option"
  oh_job_cb :: bool
  oh_complete_cb :: bool
  oh_progress_cb :: bool
  oh_tasks :: "string \<Rightarrow> ota_task option"

datatype ota_act =
    PublishO string string
  | SubscribeO string
  | CbJob job_info
  | CbProgress job_info "char list" nat
  | CbComplete int job_info string

text \<open>The JSON library, the file system's answers, the random numbers and the clock.\<close>

record ota_env =
  oe_json :: json_lib
  oe_writable :: "string \<Rightarrow> bool"
  oe_random :: "32 word"
  oe_now :: "64 word"
  oe_uri :: uri_parser
  oe_alloc :: "nat \<Rightarrow> bool"

type_synonym ota_result = "(ota_handler \<times> files \<times> ota_act list) c_result"

definition iot_ota_init :: "ota_env \<Rightarrow> files \<Rightarrow> ota_handler" where
  "iot_ota_init env fs =
     \<lparr>oh_mqtt = None, oh_kv = iot_kv_init (oe_json env) fs [] ''./ota.kv'', oh_devices = [], oh_download_dir = None,
      oh_job_cb = False, oh_complete_cb = False, oh_progress_cb = False, oh_tasks = (\<lambda>_. None)\<rparr>"

definition iot_ota_set_download_dir :: "string \<Rightarrow> ota_handler \<Rightarrow> ota_handler" where
  "iot_ota_set_download_dir dir h = h\<lparr>oh_download_dir := Some dir\<rparr>"

section \<open>Reports\<close>

definition OTA_UPGRADE_NOTIFY_TOPIC :: string where "OTA_UPGRADE_NOTIFY_TOPIC = ''sys/%s/%s/ota/notify/+''"
definition OTA_REQUEST_UPGRADE_REPLY_TOPIC :: string where "OTA_REQUEST_UPGRADE_REPLY_TOPIC = ''sys/%s/%s/ota/upgrade/post_reply''"
definition OTA_UPGRADE_PROGRESS_REPORT_TOPIC :: string where "OTA_UPGRADE_PROGRESS_REPORT_TOPIC = ''sys/%s/%s/ota/progress/%s''"
definition OTA_REQUEST_UPGRADE_TOPIC :: string where "OTA_REQUEST_UPGRADE_TOPIC = ''sys/%s/%s/ota/upgrade/post''"
definition OTA_VERSION_REPORT_TOPIC :: string where "OTA_VERSION_REPORT_TOPIC = ''sys/%s/%s/ota/version''"

text \<open>The names of the device, read through the MQTT handle.\<close>

definition device_names :: "ota_handler \<Rightarrow> (string \<times> string) c_result" where
  "device_names h =
     (case oh_mqtt h of
        Some cfg \<Rightarrow> (case (bc_product_key cfg, bc_device_name cfg) of (Some pk, Some dn) \<Rightarrow> Inr (pk, dn) | _ \<Rightarrow> Inl NullDeref)
      | None \<Rightarrow> Inl NullDeref)"

definition request_text :: "ota_env \<Rightarrow> json \<Rightarrow> string" where
  "request_text env data =
     jl_print (oe_json env) (new_request_payload (jl_eq (oe_json env)) (oe_random env) (oe_now env) SDK_VERSION (Some data))"

definition progress_data :: "ota_env \<Rightarrow> ota_status \<Rightarrow> int \<Rightarrow> string option \<Rightarrow> json" where
  "progress_data env st code desc =
     (let keq = jl_eq (oe_json env) in
      (aws_json_add_num_val keq ''time'' (of_nat (double_of_nat (unat (oe_now env))))
       (aws_json_add_str_val keq ''result_desc'' desc
        (aws_json_add_num_val keq ''result_code'' (of_int code)
         (aws_json_add_str_val keq ''status'' (Some (iot_ota_job_status_enum_to_string st)) (JObj []))))))"

definition iot_ota_report_progress ::
  "ota_env \<Rightarrow> ota_handler \<Rightarrow> string \<Rightarrow> ota_status \<Rightarrow> int \<Rightarrow> string option \<Rightarrow> ota_act list c_result" where
  "iot_ota_report_progress env h job_id st code desc =
     c_bind (device_names h) (\<lambda>(pk, dn).
     c_bind (iot_get_topic_with_1_c_str_param OTA_UPGRADE_PROGRESS_REPORT_TOPIC pk dn job_id) (\<lambda>topic.
       Inr [PublishO topic (request_text env (progress_data env st code desc))]))"

definition iot_ota_report_progress_success :: "ota_env \<Rightarrow> ota_handler \<Rightarrow> string \<Rightarrow> ota_status \<Rightarrow> ota_act list c_result" where
  "iot_ota_report_progress_success env h job_id st = iot_ota_report_progress env h job_id st 0 None"

definition iot_ota_report_progress_failed ::
  "ota_env \<Rightarrow> ota_handler \<Rightarrow> string \<Rightarrow> ota_status \<Rightarrow> int \<Rightarrow> string \<Rightarrow> ota_act list c_result" where
  "iot_ota_report_progress_failed env h job_id st code desc = iot_ota_report_progress env h job_id st code (Some desc)"

definition iot_ota_report_installing :: "ota_env \<Rightarrow> ota_handler \<Rightarrow> string \<Rightarrow> ota_act list c_result" where
  "iot_ota_report_installing env h job_id = iot_ota_report_progress env h job_id Installing 0 None"

definition iot_ota_report_install_success :: "ota_env \<Rightarrow> ota_handler \<Rightarrow> string \<Rightarrow> ota_act list c_result" where
  "iot_ota_report_install_success env h job_id = iot_ota_report_progress env h job_id Installed 0 None"

text \<open>A failed installation marks the task, if there is one, for another try.\<close>

definition iot_ota_report_install_failed :: "ota_env \<Rightarrow> ota_handler \<Rightarrow> string \<Rightarrow> string \<Rightarrow> (ota_handler \<times> ota_act list) c_result" where
  "iot_ota_report_install_failed env h job_id desc =
     (let h = (case oh_tasks h job_id of
           None \<Rightarrow> h
         | Some t \<Rightarrow> h\<lparr>oh_tasks := (oh_tasks h)(job_id \<mapsto> t\<lparr>tk_is_pending_to_retry := True\<rparr>)\<rparr>)
      in c_bind (iot_ota_report_progress env h job_id Failed VOLC_ERR_OTA_INSTALL_FAILED (Some desc)) (\<lambda>acts. Inr (h, acts)))"

definition iot_ota_report_version :: "ota_env \<Rightarrow> ota_handler \<Rightarrow> (string \<times> string) list \<Rightarrow> (int \<times> ota_act list) c_result" where
  "iot_ota_report_version env h devices =
     (if devices = [] then Inr (VOLC_ERR_NULL_POINTER, [])
      else
        let data = fold (\<lambda>(m, v). aws_json_add_str_val (jl_eq (oe_json env)) m (Some v)) devices (JObj [])
        in c_bind (device_names h) (\<lambda>(pk, dn).
           c_bind (iot_get_common_topic OTA_VERSION_REPORT_TOPIC pk dn) (\<lambda>topic.
             Inr (VOLC_OK, [PublishO topic (request_text env data)]))))"

section \<open>Registration\<close>

text \<open>
  The topics the component listens to. \<^verbatim>\<open>iot_ota_set_mqtt_handler\<close> returns with an error for a null handle;
  the callbacks are registered without one.
\<close>

definition mqtt_sub_ota_info :: "ota_handler \<Rightarrow> ota_act list c_result" where
  "mqtt_sub_ota_info h =
     (if oh_mqtt h = None then Inr []
      else c_bind (device_names h) (\<lambda>(pk, dn).
        c_bind (iot_get_common_topic OTA_UPGRADE_NOTIFY_TOPIC pk dn) (\<lambda>topic. Inr [SubscribeO topic])))"

definition mqtt_sub_ota_upgrade_post_reply :: "ota_handler \<Rightarrow> ota_act list c_result" where
  "mqtt_sub_ota_upgrade_post_reply h =
     (if oh_mqtt h = None then Inr []
      else c_bind (device_names h) (\<lambda>(pk, dn).
        c_bind (iot_get_common_topic OTA_REQUEST_UPGRADE_REPLY_TOPIC pk dn) (\<lambda>topic. Inr [SubscribeO topic])))"

definition iot_ota_set_mqtt_handler :: "basic_config option \<Rightarrow> ota_handler \<Rightarrow> (int \<times> ota_handler \<times> ota_act list) c_result" where
  "iot_ota_set_mqtt_handler mqtt h =
     (if mqtt = None then Inr (VOLC_ERR_NULL_POINTER, h, [])
      else
        let h = h\<lparr>oh_mqtt := mqtt\<rparr> in
        c_bind (mqtt_sub_ota_info h) (\<lambda>acts.
        c_bind (mqtt_sub_ota_upgrade_post_reply h) (\<lambda>acts'. Inr (VOLC_OK, h, acts @ acts'))))"

definition iot_ota_set_get_job_info_callback :: "bool \<Rightarrow> ota_handler \<Rightarrow> ota_handler" where
  "iot_ota_set_get_job_info_callback given h = h\<lparr>oh_job_cb := given\<rparr>"

definition iot_ota_set_download_complete_callback :: "bool \<Rightarrow> ota_handler \<Rightarrow> ota_handler" where
  "iot_ota_set_download_complete_callback given h = h\<lparr>oh_complete_cb := given\<rparr>"

definition iot_ota_set_rev_data_progress_callback :: "bool \<Rightarrow> ota_handler \<Rightarrow> ota_handler" where
  "iot_ota_set_rev_data_progress_callback given h = h\<lparr>oh_progress_cb := given\<rparr>"

section \<open>Jobs\<close>

definition iot_ota_request_ota_job_info ::
  "ota_env \<Rightarrow> ota_handler \<Rightarrow> string \<times> string \<Rightarrow> string option \<Rightarrow> ota_act list c_result" where
  "iot_ota_request_ota_job_info env h device job_id =
     (let keq = jl_eq (oe_json env);
          ps0 = (case job_id of None \<Rightarrow> JObj [] | Some i \<Rightarrow> aws_json_add_str_val keq ''ota_job_id'' (Some i) (JObj []));
          ps = aws_json_add_str_val keq ''src_version'' (Some (snd device)) (aws_json_add_str_val keq ''module'' (Some (fst device)) ps0)
      in c_bind (device_names h) (\<lambda>(pk, dn).
         c_bind (iot_get_common_topic OTA_REQUEST_UPGRADE_TOPIC pk dn) (\<lambda>topic.
           Inr [PublishO topic (request_text env ps)])))"

definition request_device_job_info_inner :: "ota_env \<Rightarrow> ota_handler \<Rightarrow> ota_act list c_result" where
  "request_device_job_info_inner env h =
     c_bind (c_map (\<lambda>d. iot_ota_request_ota_job_info env h d None) (oh_devices h)) (\<lambda>as. Inr (concat as))"

text \<open>The members of a job; a number that is missing is a variable never written.\<close>

definition ota_data_json_to_ota_job_info :: "key_eq \<Rightarrow> json option \<Rightarrow> job_info c_result" where
  "ota_data_json_to_ota_job_info keq data =
     c_bind (json_int32 keq data ''timeout_in_minutes'') (\<lambda>timeout.
     c_bind (aws_json_get_num_val keq data ''size'') (\<lambda>sz.
     c_bind (to_uint64 sz) (\<lambda>size.
     Inr \<lparr>ji_ota_job_id = aws_json_get_str keq data ''ota_job_id'', ji_dest_version = aws_json_get_str keq data ''dest_version'',
          ji_module = aws_json_get_str keq data ''module'', ji_url = aws_json_get_str keq data ''url'',
          ji_timeout_in_minutes = timeout, ji_size = size, ji_sign = aws_json_get_str keq data ''sign''\<rparr>)))"

text \<open>The keys of the store are printed into 100 bytes: with a bound only where a device is resumed.\<close>

definition KEY_SAVE_JOB_INFO :: "string \<Rightarrow> string" where "KEY_SAVE_JOB_INFO m = ''key_save_job_info_'' @ m"
definition KEY_SAVE_TASK_INFO :: "string \<Rightarrow> string" where "KEY_SAVE_TASK_INFO i = ''key_save_task_info_'' @ i"

definition kv_key :: "string \<Rightarrow> string c_result" where
  "kv_key s = print_into 99 s"

text \<open>
  \<^verbatim>\<open>_ota_rev_ota_notify_info\<close>: the job is named by the sixth part of the topic. Each module of the device
  that the message names asks for the job.
\<close>

definition ota_rev_ota_notify_info :: "ota_env \<Rightarrow> string \<Rightarrow> string \<Rightarrow> ota_handler \<Rightarrow> ota_act list c_result" where
  "ota_rev_ota_notify_info env topic payload h =
     (let keq = jl_eq (oe_json env);
          parts = split_on (CHR ''/'') topic;
          job_id = (if length parts > 5 then parts ! 5 else []);
          data = aws_json_value_get_from_object keq (jl_parse (oe_json env) (cstr payload)) ''data''
      in if data = None \<or> aws_json_get_str keq data ''type'' \<noteq> ''Upgrade'' then Inr []
         else c_bind (c_map (\<lambda>d. iot_ota_request_ota_job_info env h d (Some job_id))
                (filter (\<lambda>d. fst d = aws_json_get_str keq data ''module'') (oh_devices h))) (\<lambda>as. Inr (concat as)))"

text \<open>\<^verbatim>\<open>_ota_rev_ota_upgrade_post_reply\<close>: the job is stored as text and handed to the user.\<close>

definition ota_rev_ota_upgrade_post_reply :: "ota_env \<Rightarrow> string \<Rightarrow> ota_handler \<Rightarrow> files \<Rightarrow> ota_result" where
  "ota_rev_ota_upgrade_post_reply env payload h fs =
     (let lib = oe_json env;
          data = aws_json_value_get_from_object (jl_eq lib) (jl_parse lib (cstr payload)) ''data''
      in case data of
           None \<Rightarrow> Inr (h, fs, [])
         | Some d \<Rightarrow>
             c_bind (ota_data_json_to_ota_job_info (jl_eq lib) data) (\<lambda>job.
             if ji_size job > 0 then
               c_bind (kv_key (KEY_SAVE_JOB_INFO (ji_module job))) (\<lambda>key.
               c_bind (iot_add_kv_string lib (oe_writable env) key (jl_print lib d) (oh_kv h) fs) (\<lambda>(kv, fs).
               Inr (h\<lparr>oh_kv := kv\<rparr>, fs, if oh_job_cb h then [CbJob job] else [])))
             else Inr (h, fs, [])))"

section \<open>Tasks in the store\<close>

definition task_doc :: "ota_env \<Rightarrow> ota_task \<Rightarrow> json" where
  "task_doc env t =
     (let keq = jl_eq (oe_json env) in
      (aws_json_add_str_val keq ''ota_file_path'' (tk_ota_file_path t)
       (aws_json_add_num_val keq ''upgrade_device_status'' (of_int (tk_upgrade_device_status t))
        (aws_json_add_num_val keq ''retry_time'' (of_int (tk_retry_time t))
         (aws_json_add_str_val keq ''decode_url'' (Some (tk_decode_url t))
          (aws_json_add_str_val keq ''ota_file_path'' (tk_ota_file_path t) (JObj [])))))))"

text \<open>Both read the identifier through the pointer to the job.\<close>

definition task_key :: "ota_task \<Rightarrow> string c_result" where
  "task_key t = (case tk_job t of None \<Rightarrow> Inl UseAfterFree | Some j \<Rightarrow> kv_key (KEY_SAVE_TASK_INFO (ji_ota_job_id j)))"

definition iot_ota_save_job_task_info :: "ota_env \<Rightarrow> ota_task \<Rightarrow> ota_handler \<Rightarrow> files \<Rightarrow> (ota_handler \<times> files) c_result" where
  "iot_ota_save_job_task_info env t h fs =
     c_bind (task_key t) (\<lambda>key.
     c_bind (iot_add_kv_string (oe_json env) (oe_writable env) key (jl_print (oe_json env) (task_doc env t)) (oh_kv h) fs) (\<lambda>(kv, fs).
     Inr (h\<lparr>oh_kv := kv\<rparr>, fs)))"

definition iot_ota_delete_job_task_info :: "ota_env \<Rightarrow> ota_task \<Rightarrow> ota_handler \<Rightarrow> files \<Rightarrow> (ota_handler \<times> files) c_result" where
  "iot_ota_delete_job_task_info env t h fs =
     c_bind (task_key t) (\<lambda>key.
     c_bind (iot_remove_key (oe_json env) (oe_writable env) key (oh_kv h) fs) (\<lambda>(kv, fs).
     Inr (h\<lparr>oh_kv := kv\<rparr>, fs)))"

text \<open>
  A stored task is read back without its job: the structure the pointer points to is released at the
  end of the same step.
\<close>

definition task_of_json :: "key_eq \<Rightarrow> json option \<Rightarrow> ota_task c_result" where
  "task_of_json keq doc =
     c_bind (json_int32 keq doc ''retry_time'') (\<lambda>retry.
     c_bind (json_int32 keq doc ''upgrade_device_status'') (\<lambda>st.
     Inr \<lparr>tk_job = None, tk_decode_url = aws_json_get_str keq doc ''decode_url'', tk_retry_time = retry,
          tk_is_pending_to_retry = True, tk_upgrade_device_status = st,
          tk_ota_file_path = Some (aws_json_get_str keq doc ''ota_file_path''),
          tk_download_file_size = None, tk_downloaded_size = 0\<rparr>))"

text \<open>One module of \<^verbatim>\<open>iot_ota_set_device_module_info\<close>.\<close>

definition resume_device :: "ota_env \<Rightarrow> string \<times> string \<Rightarrow> ota_handler \<Rightarrow> files \<Rightarrow> ota_result" where
  "resume_device env device h fs =
     (let lib = oe_json env;
          key = take 99 (KEY_SAVE_JOB_INFO (fst device));
          val = iot_get_kv_str lib (oh_kv h) key
      in if val = [] then Inr (h, fs, [])
         else
           c_bind (ota_data_json_to_ota_job_info (jl_eq lib) (jl_parse lib (cstr val))) (\<lambda>job.
           c_bind (kv_key (KEY_SAVE_TASK_INFO (ji_ota_job_id job))) (\<lambda>tkey.
           let tval = iot_get_kv_str lib (oh_kv h) tkey in
           if ji_dest_version job = snd device then
             c_bind (iot_ota_report_progress_success env h (ji_ota_job_id job) Success) (\<lambda>acts.
             c_bind (iot_remove_key lib (oe_writable env) key (oh_kv h) fs) (\<lambda>(kv, fs).
             c_bind (iot_remove_key lib (oe_writable env) tkey kv fs) (\<lambda>(kv, fs).
             Inr (h\<lparr>oh_kv := kv\<rparr>, fs, acts))))
           else if tval \<noteq> [] then
             c_bind (task_of_json (jl_eq lib) (jl_parse lib (cstr tval))) (\<lambda>t.
             Inr (h\<lparr>oh_tasks := (oh_tasks h)(ji_ota_job_id job \<mapsto> t)\<rparr>, fs, []))
           else Inr (h, fs, []))))"

fun resume_devices :: "ota_env \<Rightarrow> (string \<times> string) list \<Rightarrow> ota_handler \<Rightarrow> files \<Rightarrow> ota_result" where
  "resume_devices env [] h fs = Inr (h, fs, [])"
| "resume_devices env (d # ds) h fs =
     c_bind (resume_device env d h fs) (\<lambda>(h, fs, acts).
     c_bind (resume_devices env ds h fs) (\<lambda>(h, fs, acts'). Inr (h, fs, acts @ acts')))"

definition iot_ota_set_device_module_info :: "ota_env \<Rightarrow> (string \<times> string) list \<Rightarrow> ota_handler \<Rightarrow> files \<Rightarrow> ota_result" where
  "iot_ota_set_device_module_info env devices h fs =
     c_bind (resume_devices env devices (h\<lparr>oh_devices := devices\<rparr>) fs) (\<lambda>(h, fs, acts).
     c_bind (iot_ota_report_version env h devices) (\<lambda>(_, acts'). Inr (h, fs, acts @ acts')))"

end
