(* ===== verification/OtaDownload.thy ===== *)
theory OtaDownload
  imports Ota Chat
begin

text \<open>
  The download of a firmware file: \<^verbatim>\<open>iot_ota_start_download\<close> with the callbacks it registers at the HTTP
  request (\<^verbatim>\<open>src/iot/ota/iot_ota_api.c\<close>), the file the HTTP client writes
  (\<^verbatim>\<open>src/protocols/lws_http_download.c\<close>) and the names of \<^verbatim>\<open>src/iot/ota/iot_ota_utils.c\<close>.
\<close>

section \<open>Names\<close>

text \<open>What follows the last slash, up to a question mark; none without a slash.\<close>

definition extract_filename :: "string \<Rightarrow> string option" where
  "extract_filename url =
     (if CHR ''/'' \<in> set url
      then Some (takeWhile (\<lambda>c. c \<noteq> CHR ''?'') (rev (takeWhile (\<lambda>c. c \<noteq> CHR ''/'') (rev url))))
      else None)"

definition concat_const_strings :: "string \<Rightarrow> string \<Rightarrow> string" where
  "concat_const_strings s t = s @ t"

section \<open>The file\<close>

text \<open>
  The download context of the HTTP client: the file is created by the first data and stays open until
  the request completes or fails.
\<close>

record download_ctx =
  dl_file_path :: string
  dl_open :: bool
  dl_downloaded_size :: nat

definition lws_http_download_init :: "string \<Rightarrow> download_ctx" where
  "lws_http_download_init path = \<lparr>dl_file_path = path, dl_open = False, dl_downloaded_size = 0\<rparr>"

definition internal_download_handle :: "(string \<Rightarrow> bool) \<Rightarrow> char list \<Rightarrow> download_ctx \<Rightarrow> files \<Rightarrow> download_ctx \<times> files" where
  "internal_download_handle writable bytes dl fs =
     (if bytes = [] then (dl, fs)
      else if \<not> dl_open dl \<and> \<not> writable (dl_file_path dl) then (dl, fs)
      else
        let old = (if dl_open dl then (case fs (dl_file_path dl) of None \<Rightarrow> [] | Some c \<Rightarrow> c) else [])
        in (dl\<lparr>dl_open := True, dl_downloaded_size := dl_downloaded_size dl + length bytes\<rparr>,
            fs(dl_file_path dl \<mapsto> old @ bytes)))"

definition internal_download_close :: "download_ctx \<Rightarrow> download_ctx" where
  "internal_download_close dl = dl\<lparr>dl_open := False\<rparr>"

definition delete_fw_info_file :: "string \<Rightarrow> files \<Rightarrow> files \<times> int" where
  "delete_fw_info_file path fs = (if fs path = None then (fs, VOLC_ERR_FILE_DELETE) else (fs(path := None), VOLC_OK))"

text \<open>\<^verbatim>\<open>fread\<close> in pieces of 1024 bytes.\<close>

function read_pieces :: "'b list \<Rightarrow> 'b list list" where
  "read_pieces bs = (if bs = [] then [] else take 1024 bs # read_pieces (drop 1024 bs))"
  by pat_completeness auto
termination
  by (relation "measure length") auto

declare read_pieces.simps [simp del]

definition file_md5 :: "string \<Rightarrow> string" where
  "file_md5 content = md5File (read_pieces (bytes_of content))"

section \<open>The callbacks\<close>

text \<open>The state of a download: the handler, the files, the task (\<open>None\<close> once it has been released) and the file.\<close>

record download_state =
  ds_handler :: ota_handler
  ds_files :: files
  ds_task :: "ota_task option"
  ds_file :: download_ctx

text \<open>
  \<^verbatim>\<open>on_data_received\<close>: the share that has arrived is a quotient of \<^verbatim>\<open>size_t\<close> values, cut to 32 bits.
\<close>

definition on_data_received :: "char list \<Rightarrow> ota_task \<Rightarrow> ota_handler \<Rightarrow> (ota_task \<times> ota_act list) c_result" where
  "on_data_received body t h =
     (let t = t\<lparr>tk_downloaded_size := (tk_downloaded_size t + length body) mod 2 ^ 64\<rparr> in
      case tk_download_file_size t of
        None \<Rightarrow> Inl Uninit
      | Some file_size \<Rightarrow>
          if file_size = 0 then Inl DivByZero
          else
            let percent = (100 * tk_downloaded_size t) mod 2 ^ 64 div file_size mod 2 ^ 32
            in if oh_progress_cb h
               then (case tk_job t of None \<Rightarrow> Inl UseAfterFree | Some j \<Rightarrow> Inr (t, [CbProgress j body percent]))
               else Inr (t, []))"

text \<open>The end of every task: forgotten in the store and in the table, and released.\<close>

definition end_task :: "ota_env \<Rightarrow> ota_task \<Rightarrow> ota_handler \<Rightarrow> files \<Rightarrow> (ota_handler \<times> files) c_result" where
  "end_task env t h fs =
     c_bind (iot_ota_delete_job_task_info env t h fs) (\<lambda>(h, fs).
     case tk_job t of
       None \<Rightarrow> Inl UseAfterFree
     | Some j \<Rightarrow> Inr (h\<lparr>oh_tasks := (oh_tasks h)(ji_ota_job_id j := None)\<rparr>, fs))"

definition on_download_error :: "ota_env \<Rightarrow> int \<Rightarrow> ota_task \<Rightarrow> ota_handler \<Rightarrow> files \<Rightarrow> ota_result" where
  "on_download_error env code t h fs =
     (case (tk_ota_file_path t, tk_job t) of
        (Some path, Some j) \<Rightarrow>
          let fs = fst (delete_fw_info_file path fs) in
          c_bind (iot_ota_report_progress_failed env h (ji_ota_job_id j) Failed code ''download failed'') (\<lambda>acts.
          c_bind (end_task env t h fs) (\<lambda>(h, fs). Inr (h, fs, acts)))
      | (_, None) \<Rightarrow> Inl UseAfterFree
      | (None, _) \<Rightarrow> Inl NullDeref)"

text \<open>
  \<^verbatim>\<open>on_download_complete\<close>: everything that tells the outside about the end of a download stands inside the
  test for a signature.
\<close>

definition on_download_complete :: "ota_env \<Rightarrow> ota_task \<Rightarrow> ota_handler \<Rightarrow> files \<Rightarrow> ota_result" where
  "on_download_complete env t h fs =
     (case tk_job t of
        None \<Rightarrow> Inl UseAfterFree
      | Some j \<Rightarrow>
          c_bind (if ji_sign j = [] then Inr (h, fs, [])
            else case tk_ota_file_path t of
              None \<Rightarrow> Inl NullDeref
            | Some path \<Rightarrow>
                (case fs path of
                   None \<Rightarrow> Inl NullDeref
                 | Some content \<Rightarrow>
                     if file_md5 content \<noteq> ji_sign j then
                       c_bind (iot_ota_report_progress_failed env h (ji_ota_job_id j) Failed VOLC_ERR_OTA_DOWNLOAD_FILE_SIGN_CHECK ''download failed'')
                         (\<lambda>acts. Inr (h, fst (delete_fw_info_file path fs), acts))
                     else
                       c_bind (iot_ota_report_progress_success env h (ji_ota_job_id j) Downloaded) (\<lambda>acts.
                       c_bind (iot_ota_save_job_task_info env t h fs) (\<lambda>(h, fs).
                       Inr (h, fs, acts @ (if oh_complete_cb h then [CbComplete VOLC_OK j path] else []))))))
          (\<lambda>(h, fs, acts). c_bind (end_task env t h fs) (\<lambda>(h, fs). Inr (h, fs, acts))))"

text \<open>
  What the HTTP client reports, in order. Once a callback has released the task, another one of them
  uses it after the release.
\<close>

definition with_task ::
  "(ota_task \<Rightarrow> (ota_handler \<times> files \<times> ota_task option \<times> ota_act list) c_result) \<Rightarrow> download_state \<Rightarrow> (download_state \<times> ota_act list) c_result" where
  "with_task f s =
     (case ds_task s of
        None \<Rightarrow> Inl UseAfterFree
      | Some t \<Rightarrow> c_bind (f t) (\<lambda>(h, fs, tp, acts). Inr (s\<lparr>ds_handler := h, ds_files := fs, ds_task := tp\<rparr>, acts)))"

fun download_on_http_call :: "ota_env \<Rightarrow> http_call \<Rightarrow> download_state \<Rightarrow> (download_state \<times> ota_act list) c_result" where
  "download_on_http_call env (OnBody bytes) s =
     with_task (\<lambda>t. c_bind (on_data_received bytes t (ds_handler s)) (\<lambda>(t, acts).
       Inr (ds_handler s, ds_files s, Some t, acts))) s"
| "download_on_http_call env (OnDownloadData bytes) s =
     (case internal_download_handle (oe_writable env) bytes (ds_file s) (ds_files s) of
        (dl, fs) \<Rightarrow> Inr (s\<lparr>ds_file := dl, ds_files := fs\<rparr>, []))"
| "download_on_http_call env OnDownloadComplete s = Inr (s\<lparr>ds_file := internal_download_close (ds_file s)\<rparr>, [])"
| "download_on_http_call env (OnDownloadError code) s = Inr (s\<lparr>ds_file := internal_download_close (ds_file s)\<rparr>, [])"
| "download_on_http_call env (OnError code msg) s =
     with_task (\<lambda>t. c_bind (on_download_error env code t (ds_handler s) (ds_files s)) (\<lambda>(h, fs, acts). Inr (h, fs, None, acts))) s"
| "download_on_http_call env OnComplete s =
     with_task (\<lambda>t. c_bind (on_download_complete env t (ds_handler s) (ds_files s)) (\<lambda>(h, fs, acts). Inr (h, fs, None, acts))) s"
| "download_on_http_call env _ s = Inr (s, [])"

fun download_on_http_calls :: "ota_env \<Rightarrow> http_call list \<Rightarrow> download_state \<Rightarrow> (download_state \<times> ota_act list) c_result" where
  "download_on_http_calls env [] s = Inr (s, [])"
| "download_on_http_calls env (c # cs) s =
     c_bind (download_on_http_call env c s) (\<lambda>(s, as).
     c_bind (download_on_http_calls env cs s) (\<lambda>(s, as'). Inr (s, as @ as')))"

section \<open>Starting\<close>

text \<open>
  What is known of an earlier task of the same job: its file is complete and verified (the path is
  returned), it is still running, or it does not stop a new download. The job of the earlier task is
  read whenever that task has a file.
\<close>

datatype last_task = Verified string | Running | Free

definition last_task_state :: "ota_handler \<Rightarrow> files \<Rightarrow> string \<Rightarrow> last_task c_result" where
  "last_task_state h fs job_id =
     (case oh_tasks h job_id of
        None \<Rightarrow> Inr Free
      | Some t \<Rightarrow>
          (case tk_ota_file_path t of
             None \<Rightarrow> Inr Free
           | Some path \<Rightarrow>
               (case tk_job t of
                  None \<Rightarrow> Inl UseAfterFree
                | Some j \<Rightarrow>
                    let ok = (ji_sign j \<noteq> [] \<and> (case fs path of None \<Rightarrow> False | Some c \<Rightarrow> file_md5 c = ji_sign j))
                    in if ok \<and> oh_complete_cb h then Inr (Verified path)
                       else if \<not> tk_is_pending_to_retry t then Inr Running
                       else Inr Free)))"

definition new_task :: "ota_handler \<Rightarrow> job_info \<Rightarrow> string \<Rightarrow> string \<Rightarrow> ota_task" where
  "new_task h job url path =
     \<lparr>tk_job = Some job, tk_decode_url = url,
      tk_retry_time = (case oh_tasks h (ji_ota_job_id job) of None \<Rightarrow> 0 | Some t \<Rightarrow> tk_retry_time t + 1),
      tk_is_pending_to_retry = False, tk_upgrade_device_status = 0, tk_ota_file_path = Some path,
      tk_download_file_size = Some 0, tk_downloaded_size = 0\<rparr>"

text \<open>The decrypted address and the path of the file.\<close>

definition download_target :: "ota_handler \<Rightarrow> job_info \<Rightarrow> (string \<times> string) c_result" where
  "download_target h job =
     (case oh_mqtt h of
        None \<Rightarrow> Inl NullDeref
      | Some cfg \<Rightarrow>
          (case bc_device_secret cfg of
             None \<Rightarrow> Inl NullDeref
           | Some secret \<Rightarrow>
               c_bind (aes_decode secret (ji_url job) True) (\<lambda>decoded.
               case decoded of
                 None \<Rightarrow> Inl NullDeref
               | Some url \<Rightarrow>
                   (case (oh_download_dir h, extract_filename url) of
                      (Some dir, Some name) \<Rightarrow> Inr (url, concat_const_strings dir name)
                    | _ \<Rightarrow> Inl NullDeref))))"

definition download_request :: "ota_env \<Rightarrow> string option \<Rightarrow> string \<Rightarrow> http_request_ctx c_result" where
  "download_request env ca url =
     c_bind (new_http_ctx (oe_alloc env)) (\<lambda>ctxp. case ctxp of
       None \<Rightarrow> Inl NullDeref
     | Some ctx \<Rightarrow>
         c_bind (http_ctx_set_ca_crt (oe_alloc env 5) ctx ca) (\<lambda>ctx.
         c_bind (http_ctx_set_url (oe_uri env) ctx (Some url)) (\<lambda>ctx.
         Inr ((http_ctx_set_method ctx HTTP_GET)\<lparr>timeout_ms := 10000, on_get_body_cb := True, on_error_cb := True,
           on_complete_cb := True, has_download_ctx := oe_alloc env 6\<rparr>))))"

text \<open>
  \<^verbatim>\<open>iot_ota_start_download\<close>. The task is not entered into the table. The result says whether the wait
  for the request has ended; the variables all requests share are passed along.
\<close>

definition run_download ::
  "ota_env \<Rightarrow> chat_net \<Rightarrow> http_globals \<Rightarrow> http_request_ctx \<Rightarrow> download_state \<Rightarrow> (download_state \<times> ota_act list \<times> nat option) c_result" where
  "run_download env net g http s =
     c_bind (http_request_async (cn_created net) (cn_connected net) g http) (\<lambda>(g, http, calls, ret).
     c_bind (download_on_http_calls env calls s) (\<lambda>(s, acts).
     if ret \<noteq> 0 then Inr (s, acts, Some 0)
     else
       c_bind (http_wait_complete 0 (cn_script net) g http) (\<lambda>(g, http, calls, k).
       c_bind (download_on_http_calls env calls s) (\<lambda>(s, acts'). Inr (s, acts @ acts', k)))))"

definition iot_ota_start_download ::
  "ota_env \<Rightarrow> chat_net \<Rightarrow> http_globals \<Rightarrow> job_info \<Rightarrow> ota_handler \<Rightarrow> files \<Rightarrow> (ota_handler \<times> files \<times> ota_act list \<times> nat option) c_result" where
  "iot_ota_start_download env net g job h fs =
     c_bind (last_task_state h fs (ji_ota_job_id job)) (\<lambda>last_st. case last_st of
       Verified path \<Rightarrow> Inr (h, fs, [CbComplete 0 job path], Some 0)
     | Running \<Rightarrow> Inr (h, fs, [], Some 0)
     | Free \<Rightarrow>
         if ji_size job \<le> 0 then Inr (h, fs, [], Some 0)
         else
           c_bind (download_target h job) (\<lambda>(url, path).
           c_bind (download_request env (case oh_mqtt h of Some cfg \<Rightarrow> bc_ssl_ca_cert cfg | None \<Rightarrow> None) url) (\<lambda>http.
           c_bind (run_download env net g http
               \<lparr>ds_handler = h, ds_files = fs, ds_task = Some (new_task h job url path), ds_file = lws_http_download_init path\<rparr>) (\<lambda>(s, acts, k).
           Inr (ds_handler s, ds_files s, acts, k)))))"

end
