(* ===== verification/KvProps.thy ===== *)
theory KvProps
  imports Kv
begin

text \<open>
  The store as a map. The interface below is what a user of a store relies on; the store of the code
  provides it, with keys that differ only as the comparison of cJSON ignores (upper and lower case)
  standing for one key, and keeps it across a restart.
\<close>

section \<open>The interface\<close>

locale map_store =
  fixes lookup :: "'s \<Rightarrow> 'k \<Rightarrow> 'v option"
    and put :: "'k \<Rightarrow> 'v \<Rightarrow> 's \<Rightarrow> 's"
    and del :: "'k \<Rightarrow> 's \<Rightarrow> 's"
    and same :: "'k \<Rightarrow> 'k \<Rightarrow> bool"
    and valid :: "'s \<Rightarrow> bool"
  assumes put_valid: "valid s \<Longrightarrow> valid (put k v s)"
    and del_valid: "valid s \<Longrightarrow> valid (del k s)"
    and lookup_put: "valid s \<Longrightarrow> lookup (put k v s) k' = (if same k k' then Some v else lookup s k')"
    and lookup_del: "valid s \<Longrightarrow> lookup (del k s) k' = (if same k k' then None else lookup s k')"
begin

text \<open>A change puts a value or, without one, deletes the key.\<close>

definition change :: "'k \<times> 'v option \<Rightarrow> 's \<Rightarrow> 's" where
  "change c s = (case c of (k, Some v) \<Rightarrow> put k v s | (k, None) \<Rightarrow> del k s)"

lemma fold_valid: "valid s \<Longrightarrow> valid (fold change cs s)"
  by (induction cs arbitrary: s) (auto simp: change_def put_valid del_valid split: prod.splits option.splits)

lemma lookup_change: "valid s \<Longrightarrow> lookup (change c s) k = (if same (fst c) k then snd c else lookup s k)"
  by (cases c) (auto simp: change_def lookup_put lookup_del split: option.splits)

text \<open>A lookup finds what the last change of the key left.\<close>

lemma lookup_fold:
  "valid s \<Longrightarrow> lookup (fold change cs s) k =
    (case find (\<lambda>(k', _). same k' k) (rev cs) of Some (_, r) \<Rightarrow> r | None \<Rightarrow> lookup s k)"
proof (induction cs rule: rev_induct)
  case (snoc c cs)
  have "valid (fold change cs s)" using snoc.prems by (rule fold_valid)
  then show ?case
    using snoc by (cases c) (simp add: lookup_change)
qed simp

end

section \<open>The store of the code\<close>

definition kv_valid :: "json_lib \<Rightarrow> kv_ctx \<Rightarrow> bool" where
  "kv_valid lib ctx \<longleftrightarrow> equivp (jl_eq lib) \<and>
     (\<exists>kvs. kv_data ctx = JObj kvs \<and> sorted_wrt (\<lambda>a b. \<not> jl_eq lib (fst a) (fst b)) kvs)"

definition kv_lookup :: "json_lib \<Rightarrow> kv_ctx \<Rightarrow> string \<Rightarrow> json option" where
  "kv_lookup lib ctx key = aws_json_value_get_from_object (jl_eq lib) (Some (kv_data ctx)) key"

lemma json_find_remove:
  assumes "equivp keq" "sorted_wrt (\<lambda>a b. \<not> keq (fst a) (fst b)) kvs"
  shows "json_find keq (remove_first (\<lambda>(k, v). keq k key) kvs) k' = (if keq key k' then None else json_find keq kvs k')"
  using assms(2)
proof (induction kvs)
  case (Cons a kvs)
  have sym: "keq x y \<longleftrightarrow> keq y x" for x y using assms(1) equivp_symp by metis
  have trans: "keq x y \<Longrightarrow> keq y z \<Longrightarrow> keq x z" for x y z using assms(1) by (rule equivp_transp)
  obtain k v where a: "a = (k, v)" by (cases a)
  show ?case
  proof (cases "keq k key")
    case True
    have "json_find keq kvs k' = None" if "keq key k'"
    proof -
      have "keq k k'" using True that trans by blast
      have "\<not> keq (fst b) k'" if b: "b \<in> set kvs" for b
      proof
        assume "keq (fst b) k'"
        then have "keq k' (fst b)" by (simp only: sym [of k'])
        then have "keq k (fst b)" by (rule trans [OF \<open>keq k k'\<close>])
        then show False using Cons.prems b a by simp
      qed
      then show ?thesis by (auto simp: json_find_def find_None_iff)
    qed
    moreover have "keq k k' \<longleftrightarrow> keq key k'" using True sym trans by blast
    ultimately show ?thesis using True by (auto simp: a json_find_def)
  next
    case False
    then have "\<not> (keq k k' \<and> keq key k')" using sym trans by blast
    then show ?thesis using False Cons by (auto simp: a json_find_def)
  qed
qed (simp add: json_find_def)

lemma remove_first_apart:
  "sorted_wrt P kvs \<Longrightarrow> sorted_wrt P (remove_first Q kvs)"
  by (induction kvs) (auto dest: set_remove_first_subset [THEN subsetD])

lemma store_absent:
  assumes "equivp keq" "json_find keq kvs key = None"
  shows "\<forall>a\<in>set kvs. \<not> keq (fst a) key"
  using assms by (auto simp: json_find_def find_None_iff)

lemma kv_unstore_data:
  "kv_data ctx = JObj kvs \<Longrightarrow> kv_data (kv_unstore lib key ctx) = JObj (remove_first (\<lambda>(k, v). jl_eq lib k key) kvs)"
  by (simp add: kv_unstore_def aws_json_value_remove_from_object_def)

lemma kv_store_data:
  assumes "kv_valid lib ctx" "kv_data ctx = JObj kvs"
  shows "kv_data (kv_store lib key v ctx) = JObj (remove_first (\<lambda>(k, v). jl_eq lib k key) kvs @ [(key, v)])"
proof -
  have "jl_eq lib key key" using assms(1) by (simp add: kv_valid_def equivp_reflp)
  then have "json_find (jl_eq lib) (remove_first (\<lambda>(k, v). jl_eq lib k key) kvs) key = None"
    using assms by (simp add: kv_valid_def json_find_remove)
  then show ?thesis
    by (simp add: kv_store_def aws_json_value_remove_from_object_def assms(2) aws_json_value_add_to_object_def)
qed

interpretation kv: map_store "kv_lookup lib" "kv_store lib" "kv_unstore lib" "jl_eq lib" "kv_valid lib" for lib
proof
  fix ctx k v k'
  assume val: "kv_valid lib ctx"
  then obtain kvs where kvs: "kv_data ctx = JObj kvs" "sorted_wrt (\<lambda>a b. \<not> jl_eq lib (fst a) (fst b)) kvs"
    and eq: "equivp (jl_eq lib)" by (auto simp: kv_valid_def)
  let ?rest = "remove_first (\<lambda>(j, v). jl_eq lib j k) kvs"
  have refl: "jl_eq lib k k" using eq by (simp add: equivp_reflp)
  have "json_find (jl_eq lib) ?rest k = None" using json_find_remove [OF eq kvs(2)] refl by simp
  then have "\<forall>a\<in>set ?rest. \<not> jl_eq lib (fst a) k" by (rule store_absent [OF eq])
  then show "kv_valid lib (kv_store lib k v ctx)"
    using eq remove_first_apart [OF kvs(2)] by (simp add: kv_valid_def kv_store_data [OF val kvs(1)] sorted_wrt_append)
  show "kv_valid lib (kv_unstore lib k ctx)"
    using eq remove_first_apart [OF kvs(2)] by (simp add: kv_valid_def kv_unstore_data [OF kvs(1)])
  show "kv_lookup lib (kv_store lib k v ctx) k' = (if jl_eq lib k k' then Some v else kv_lookup lib ctx k')"
    by (auto simp: kv_lookup_def kv_store_data [OF val kvs(1)] aws_json_value_get_from_object_def json_find_app
        json_find_remove [OF eq kvs(2)] kvs(1) split: option.splits)
  show "kv_lookup lib (kv_unstore lib k ctx) k' = (if jl_eq lib k k' then None else kv_lookup lib ctx k')"
    by (simp add: kv_lookup_def kv_unstore_data [OF kvs(1)] aws_json_value_get_from_object_def
        json_find_remove [OF eq kvs(2)] kvs(1))
qed

section \<open>Runs\<close>

text \<open>The changes a program makes, with the file.\<close>

datatype kv_op = KvString string string | KvNum string rat | KvRemove string

fun kv_exec :: "json_lib \<Rightarrow> (string \<Rightarrow> bool) \<Rightarrow> kv_op \<Rightarrow> kv_ctx \<Rightarrow> files \<Rightarrow> (kv_ctx \<times> files) c_result" where
  "kv_exec lib writable (KvString k v) ctx fs = iot_add_kv_string lib writable k v ctx fs"
| "kv_exec lib writable (KvNum k x) ctx fs = iot_kv_set_num lib writable k x ctx fs"
| "kv_exec lib writable (KvRemove k) ctx fs = iot_remove_key lib writable k ctx fs"

fun kv_run :: "json_lib \<Rightarrow> (string \<Rightarrow> bool) \<Rightarrow> kv_op list \<Rightarrow> kv_ctx \<Rightarrow> files \<Rightarrow> (kv_ctx \<times> files) c_result" where
  "kv_run lib writable [] ctx fs = Inr (ctx, fs)"
| "kv_run lib writable (p # ps) ctx fs =
     c_bind (kv_exec lib writable p ctx fs) (\<lambda>(ctx, fs). kv_run lib writable ps ctx fs)"

fun op_change :: "kv_op \<Rightarrow> string \<times> json option" where
  "op_change (KvString k v) = (cstr k, Some (JStr (cstr v)))"
| "op_change (KvNum k x) = (cstr k, Some (JNum x))"
| "op_change (KvRemove k) = (cstr k, None)"

lemma kv_exec_change:
  "writable (kv_path ctx) \<Longrightarrow> kv_exec lib writable p ctx fs =
    Inr (kv.change lib (op_change p) ctx, fs(kv_path ctx \<mapsto> jl_print lib (kv_data (kv.change lib (op_change p) ctx))))"
  by (cases p) (simp_all add: kv.change_def iot_add_kv_string_def iot_kv_set_num_def iot_remove_key_def kv_commit_def
    iot_write_file_def kv_store_def kv_unstore_def)

lemma kv_change_path [simp]: "kv_path (kv.change lib c ctx) = kv_path ctx"
  by (simp add: kv.change_def kv_store_def kv_unstore_def split: prod.splits option.splits)

lemma kv_fold_path [simp]: "kv_path (fold (kv.change lib) cs ctx) = kv_path ctx"
  by (induction cs arbitrary: ctx) simp_all

lemma kv_run_fold:
  "writable (kv_path ctx) \<Longrightarrow> ps \<noteq> [] \<Longrightarrow> kv_run lib writable ps ctx fs =
    Inr (fold (kv.change lib) (map op_change ps) ctx,
         fs(kv_path ctx \<mapsto> jl_print lib (kv_data (fold (kv.change lib) (map op_change ps) ctx))))"
proof (induction ps arbitrary: ctx fs)
  case (Cons p ps)
  show ?case
  proof (cases "ps = []")
    case True
    then show ?thesis using Cons.prems by (auto simp: kv_exec_change fun_upd_def intro!: ext)
  next
    case False
    then show ?thesis using Cons by (auto simp: kv_exec_change fun_upd_def intro!: ext)
  qed
qed simp

text \<open>
  C30. The store is a map that survives a restart: after any sequence of changes the value of a key is
  the one its last change left, where keys that the comparison identifies are one key; and a store that
  is opened on the file afterwards is the same, when the parser reads back the text the printer wrote.
\<close>

theorem kv_store_is_map:
  assumes "equivp (jl_eq lib)" "fs (kv_path ctx) = None" "ctx = iot_kv_init lib fs dir name" "writable (kv_path ctx)" "ps \<noteq> []"
    and "kv_run lib writable ps ctx fs = Inr (ctx', fs')"
    and "jl_parse lib (cstr (jl_print lib (kv_data ctx'))) = Some (kv_data ctx')"
  shows "kv_lookup lib ctx' k =
      (case find (\<lambda>(k', _). jl_eq lib k' k) (rev (map op_change ps)) of Some (_, r) \<Rightarrow> r | None \<Rightarrow> None) \<and>
    iot_kv_init lib fs' dir name = ctx'"
proof -
  let ?path = "write_whole 1024 name (write_whole 1024 dir [])"
  have p: "kv_path ctx = ?path" using assms(3) by (simp add: iot_kv_init_def Let_def)
  then have d: "kv_data ctx = JObj []" using assms(2,3) by (simp add: iot_kv_init_def Let_def)
  have v: "kv_valid lib ctx" using assms(1) by (simp add: kv_valid_def d)
  have r: "ctx' = fold (kv.change lib) (map op_change ps) ctx" "fs' = fs(?path \<mapsto> jl_print lib (kv_data ctx'))"
    using kv_run_fold [where writable = writable and ctx = ctx and ps = ps and lib = lib and fs = fs, OF assms(4,5)] assms(6) p by auto
  have "kv_lookup lib ctx k = None" by (simp add: kv_lookup_def d aws_json_value_get_from_object_def json_find_def)
  then have "kv_lookup lib ctx' k =
      (case find (\<lambda>(k', _). jl_eq lib k' k) (rev (map op_change ps)) of Some (_, r) \<Rightarrow> r | None \<Rightarrow> None)"
    using kv.lookup_fold [OF v, of "map op_change ps" k] by (simp add: r(1) split: option.splits)
  moreover have "iot_kv_init lib fs' dir name = ctx'"
  proof -
    have "kv_path ctx' = ?path" by (simp add: r(1) p)
    moreover have "iot_kv_init lib fs' dir name = \<lparr>kv_path = ?path, kv_data = kv_data ctx'\<rparr>"
      by (simp add: iot_kv_init_def Let_def r(2) assms(7))
    ultimately show ?thesis by simp
  qed
  ultimately show ?thesis by simp
qed

definition one_text_lib :: "json \<Rightarrow> json_lib" where
  "one_text_lib d = \<lparr>jl_eq = (=), jl_print = (\<lambda>_. ''text''), jl_parse = (\<lambda>_. Some d)\<rparr>"

lemma kv_store_is_map_witness:
  "let lib = one_text_lib (JObj [(''b'', JNum 2), (''a'', JStr ''y'')]); ctx = iot_kv_init lib (\<lambda>_. None) [] ''ota.kv'' in
   case kv_run lib (\<lambda>_. True) [KvString ''a'' ''x'', KvNum ''b'' 2, KvString ''a'' ''y''] ctx (\<lambda>_. None) of
     Inr (ctx', fs') \<Rightarrow> kv_lookup lib ctx' ''a'' = Some (JStr ''y'') \<and> iot_kv_init lib fs' [] ''ota.kv'' = ctx'
   | Inl _ \<Rightarrow> False"
proof -
  define lib where "lib = one_text_lib (JObj [(''b'', JNum 2), (''a'', JStr ''y'')])"
  define ctx where "ctx = iot_kv_init lib (\<lambda>_. None) [] ''ota.kv''"
  let ?ps = "[KvString ''a'' ''x'', KvNum ''b'' 2, KvString ''a'' ''y'']"
  have d: "kv_data (fold (kv.change lib) (map op_change ?ps) ctx) = JObj [(''b'', JNum 2), (''a'', JStr ''y'')]"
    by (simp add: lib_def ctx_def one_text_lib_def iot_kv_init_def kv.change_def kv_store_def aws_json_value_add_to_object_def
        aws_json_value_remove_from_object_def json_find_def NUL_def)
  obtain ctx' fs' where r: "kv_run lib (\<lambda>_. True) ?ps ctx (\<lambda>_. None) = Inr (ctx', fs')" "ctx' = fold (kv.change lib) (map op_change ?ps) ctx"
    using kv_run_fold [of "\<lambda>_. True" ctx ?ps lib "\<lambda>_. None"] by simp
  have d': "kv_data ctx' = JObj [(''b'', JNum 2), (''a'', JStr ''y'')]" by (simp only: r(2) d)
  have pr: "jl_parse lib t = Some (JObj [(''b'', JNum 2), (''a'', JStr ''y'')])" for t by (simp add: lib_def one_text_lib_def)
  have eq: "equivp (jl_eq lib)" by (simp add: lib_def one_text_lib_def identity_equivp)
  have "kv_lookup lib ctx' ''a'' = (case find (\<lambda>(k', _). jl_eq lib k' ''a'') (rev (map op_change ?ps)) of Some (_, r) \<Rightarrow> r | None \<Rightarrow> None) \<and>
      iot_kv_init lib fs' [] ''ota.kv'' = ctx'"
    by (rule kv_store_is_map [OF eq _ ctx_def _ _ r(1)]) (simp_all only: d' pr, simp_all)
  then show ?thesis
    unfolding Let_def lib_def [symmetric] ctx_def [symmetric] r(1) by (simp add: lib_def one_text_lib_def NUL_def)
qed

text \<open>
  Reading a number under a key that is absent, or that holds something else, returns a variable that
  was never written, although the code means to return zero.
\<close>

theorem kv_absent_number:
  assumes "kv_lookup lib ctx (cstr key) = None"
  shows "iot_kv_get_num lib ctx key = Inl Uninit"
  using assms by (simp add: kv_lookup_def iot_kv_get_num_def)

lemma kv_absent_number_witness:
  "iot_kv_get_num (one_text_lib JNull) (iot_kv_init (one_text_lib JNull) (\<lambda>_. None) [] ''ota.kv'') ''k'' = Inl Uninit"
  by (rule kv_absent_number)
    (simp add: kv_lookup_def iot_kv_init_def Let_def aws_json_value_get_from_object_def json_find_def)

end
