(* ===== verification/OtaProps.thy ===== *)
theory OtaProps
  imports OtaDownload KvProps Md5Props
begin

text \<open>
  The properties of the firmware update: what the end of a download does, that only a file whose
  checksum is the signature reaches the user, that a finished update is reported once, and three ways
  in which the code goes wrong: the first data of every download divides by zero, a resumed task uses
  memory that has been released, and a long identifier does not fit its topic.
\<close>

section \<open>Names and topics\<close>

lemma status_roundtrip:
  "st \<noteq> ToUpgrade \<Longrightarrow> iot_ota_job_status_str_to_status_enum (iot_ota_job_status_enum_to_string st) = st"
  by (cases st) (simp_all add: iot_ota_job_status_str_to_status_enum_def)

lemma common_topic_fits: "iot_get_common_topic fmt pk dn = Inr (fmt_s fmt [pk, dn])"
  using length_fmt_s [of fmt "[pk, dn]"] by (simp add: iot_get_common_topic_def print_into_def)

lemma progress_topic:
  "iot_get_topic_with_1_c_str_param OTA_UPGRADE_PROGRESS_REPORT_TOPIC pk dn i =
    (if length i < 1024 then Inr (''sys/'' @ pk @ ''/'' @ dn @ ''/ota/progress/'' @ i) else Inl OutOfBounds)"
  by (simp add: iot_get_topic_with_1_c_str_param_def OTA_UPGRADE_PROGRESS_REPORT_TOPIC_def print_into_def secure_strlen_def)

text \<open>
  The identifier of a job that the server chose is measured by a function that gives up at 1024 bytes
  and calls the length zero then: the topic of a report fits its memory exactly for shorter identifiers.
\<close>

theorem ota_report_topic_bounds:
  assumes "oh_mqtt h = Some cfg" "bc_product_key cfg = Some pk" "bc_device_name cfg = Some dn"
  shows "iot_ota_report_progress env h i st code desc =
    (if length i < 1024
     then Inr [PublishO (''sys/'' @ pk @ ''/'' @ dn @ ''/ota/progress/'' @ i) (request_text env (progress_data env st code desc))]
     else Inl OutOfBounds)"
  using assms by (simp add: iot_ota_report_progress_def device_names_def progress_topic)

definition sample_ota_env :: "(string \<Rightarrow> json option) \<Rightarrow> ota_env" where
  "sample_ota_env parse = \<lparr>oe_json = \<lparr>jl_eq = (=), jl_print = (\<lambda>_. ''text''), jl_parse = parse\<rparr>, oe_writable = (\<lambda>_. True),
     oe_random = 0, oe_now = 0, oe_uri = (\<lambda>_. None), oe_alloc = (\<lambda>_. True)\<rparr>"

definition sample_device :: basic_config where
  "sample_device = \<lparr>bc_http_host = None, bc_instance_id = None, bc_auth_type = AUTH_DEVICE_SECRET, bc_product_key = Some ''pk'',
     bc_product_secret = None, bc_device_name = Some ''dev'', bc_device_secret = Some ''secret-of-16-byt'', bc_verify_ssl = False,
     bc_ssl_ca_cert = None, bc_ssl_ca_path = None\<rparr>"

definition sample_ota :: "json \<Rightarrow> ota_handler" where
  "sample_ota d = \<lparr>oh_mqtt = Some sample_device, oh_kv = \<lparr>kv_path = ''./ota.kv'', kv_data = d\<rparr>, oh_devices = [],
     oh_download_dir = Some ''/tmp/'', oh_job_cb = True, oh_complete_cb = True, oh_progress_cb = True, oh_tasks = (\<lambda>_. None)\<rparr>"

lemma sample_ota_simps [simp]:
  "oh_mqtt (sample_ota d) = Some sample_device" "bc_product_key sample_device = Some ''pk''" "bc_device_name sample_device = Some ''dev''"
  "oe_writable (sample_ota_env p) x" "oh_complete_cb (sample_ota d)" "oh_kv (sample_ota d) = \<lparr>kv_path = ''./ota.kv'', kv_data = d\<rparr>"
  "jl_parse (oe_json (sample_ota_env p)) = p" "jl_eq (oe_json (sample_ota_env p)) = (=)"
  by (simp_all add: sample_ota_def sample_device_def sample_ota_env_def)

lemma ota_report_topic_bounds_witness:
  "iot_ota_report_progress (sample_ota_env (\<lambda>_. None)) (sample_ota (JObj [])) (replicate 1024 CHR ''x'') Failed (-1) None = Inl OutOfBounds"
  using ota_report_topic_bounds [of "sample_ota (JObj [])" sample_device "''pk''" "''dev''" "sample_ota_env (\<lambda>_. None)" "replicate 1024 CHR ''x''" Failed "-1" None]
  by simp

section \<open>The end of a download\<close>

lemma concat_read_pieces: "concat (read_pieces bs) = bs \<and> (\<forall>p\<in>set (read_pieces bs). length p < 2 ^ 32)"
proof (induction bs rule: read_pieces.induct)
  case (1 bs)
  show ?case
  proof (cases "bs = []")
    case True
    then show ?thesis by (subst (1 2) read_pieces.simps) simp
  next
    case False
    have "length (take 1024 bs) \<le> 1024" by simp
    then have "length (take 1024 bs) < 2 ^ 32" by (rule le_less_trans) simp
    then show ?thesis using 1 [OF False] False by (subst (1 2) read_pieces.simps) simp
  qed
qed

lemma file_md5_spec: "file_md5 content = md5_hex (md5_spec (bytes_of content))"
  using concat_read_pieces [of "bytes_of content"] by (simp add: file_md5_def md5File_digest)

lemma store_then_remove:
  assumes "kv_valid lib kv"
  shows "kv_unstore lib k (kv_store lib k v kv) = kv_unstore lib k kv"
proof -
  obtain kvs where kvs: "kv_data kv = JObj kvs" "sorted_wrt (\<lambda>a b. \<not> jl_eq lib (fst a) (fst b)) kvs" and eq: "equivp (jl_eq lib)"
    using assms by (auto simp: kv_valid_def)
  let ?rest = "remove_first (\<lambda>(j, v). jl_eq lib j k) kvs"
  have refl: "jl_eq lib k k" using eq by (simp add: equivp_reflp)
  then have "json_find (jl_eq lib) ?rest k = None" using json_find_remove [OF eq kvs(2)] by simp
  then have n: "\<forall>a\<in>set ?rest. \<not> jl_eq lib (fst a) k" by (rule store_absent [OF eq])
  have r: "remove_first Q (xs @ [x]) = xs" if "\<forall>a\<in>set xs. \<not> Q a" "Q x" for Q :: "string \<times> json \<Rightarrow> bool" and xs x
    using that by (induction xs) auto
  have "remove_first (\<lambda>(j, v). jl_eq lib j k) (?rest @ [(k, v)]) = ?rest"
    by (rule r) (use n refl in auto)
  then have "kv_data (kv_unstore lib k (kv_store lib k v kv)) = JObj ?rest"
    by (simp only: kv_unstore_data [OF kv_store_data [OF assms kvs(1)]])
  then have "kv_data (kv_unstore lib k (kv_store lib k v kv)) = kv_data (kv_unstore lib k kv)"
    by (simp add: kv_unstore_data [OF kvs(1)])
  then show ?thesis by (simp add: kv_unstore_def kv_store_def)
qed

text \<open>The task forgotten: in the store, in the file of the store and in the table.\<close>

definition forgotten :: "ota_env \<Rightarrow> string \<Rightarrow> ota_handler \<Rightarrow> ota_handler" where
  "forgotten env i h = h\<lparr>oh_kv := kv_unstore (oe_json env) (cstr (KEY_SAVE_TASK_INFO i)) (oh_kv h), oh_tasks := (oh_tasks h)(i := None)\<rparr>"

definition progress_topic_of :: "basic_config \<Rightarrow> string \<Rightarrow> string" where
  "progress_topic_of cfg i =
     ''sys/'' @ the (bc_product_key cfg) @ ''/'' @ the (bc_device_name cfg) @ ''/ota/progress/'' @ i"

definition ota_ready :: "ota_env \<Rightarrow> ota_handler \<Rightarrow> basic_config \<Rightarrow> string \<Rightarrow> bool" where
  "ota_ready env h cfg i \<longleftrightarrow> oh_mqtt h = Some cfg \<and> bc_product_key cfg \<noteq> None \<and> bc_device_name cfg \<noteq> None \<and>
     length i \<le> 80 \<and> oe_writable env (kv_path (oh_kv h)) \<and> kv_valid (oe_json env) (oh_kv h)"

lemma ready_report:
  "ota_ready env h cfg i \<Longrightarrow> iot_ota_report_progress env h i st code desc =
    Inr [PublishO (progress_topic_of cfg i) (request_text env (progress_data env st code desc))]"
  by (auto simp: ota_ready_def iot_ota_report_progress_def device_names_def progress_topic progress_topic_of_def)

lemma ready_key: "length i \<le> 80 \<Longrightarrow> kv_key (KEY_SAVE_TASK_INFO i) = Inr (KEY_SAVE_TASK_INFO i)"
  by (simp add: kv_key_def print_into_def KEY_SAVE_TASK_INFO_def)

lemma ready_end_task:
  assumes "ota_ready env h cfg (ji_ota_job_id j)" "tk_job t = Some j"
  shows "end_task env t h fs = Inr (forgotten env (ji_ota_job_id j) h,
    fs(kv_path (oh_kv h) \<mapsto> jl_print (oe_json env) (kv_data (oh_kv (forgotten env (ji_ota_job_id j) h)))))"
  using assms
  by (simp add: ota_ready_def end_task_def iot_ota_delete_job_task_info_def task_key_def ready_key iot_remove_key_def
      kv_commit_def iot_write_file_def forgotten_def kv_unstore_def)

lemma ready_save_end:
  assumes r: "ota_ready env h cfg (ji_ota_job_id j)" and t: "tk_job t = Some j"
  obtains h1 fs1 where "iot_ota_save_job_task_info env t h fs = Inr (h1, fs1)"
    "end_task env t h1 fs1 = Inr (forgotten env (ji_ota_job_id j) h,
      fs(kv_path (oh_kv h) \<mapsto> jl_print (oe_json env) (kv_data (oh_kv (forgotten env (ji_ota_job_id j) h)))))"
proof -
  define k where "k = cstr (KEY_SAVE_TASK_INFO (ji_ota_job_id j))"
  define v where "v = JStr (cstr (jl_print (oe_json env) (task_doc env t)))"
  define h1 where "h1 = h\<lparr>oh_kv := kv_store (oe_json env) k v (oh_kv h)\<rparr>"
  have val: "kv_valid (oe_json env) (oh_kv h)" and p: "kv_path (oh_kv h1) = kv_path (oh_kv h)"
    using r by (simp_all add: ota_ready_def h1_def kv_store_def)
  have "oh_kv (forgotten env (ji_ota_job_id j) h1) = oh_kv (forgotten env (ji_ota_job_id j) h)"
    by (simp add: forgotten_def h1_def k_def [symmetric] store_then_remove [OF val])
  then have f: "forgotten env (ji_ota_job_id j) h1 = forgotten env (ji_ota_job_id j) h"
    by (simp add: forgotten_def h1_def)
  have "ota_ready env h1 cfg (ji_ota_job_id j)"
    using r kv.put_valid [OF val] by (simp add: ota_ready_def h1_def kv_store_def)
  from ready_end_task [OF this t] have e: "end_task env t h1 fs1 = Inr (forgotten env (ji_ota_job_id j) h,
      fs1(kv_path (oh_kv h) \<mapsto> jl_print (oe_json env) (kv_data (oh_kv (forgotten env (ji_ota_job_id j) h)))))" for fs1
    by (simp add: f p)
  have "iot_ota_save_job_task_info env t h fs = Inr (h1, fs(kv_path (oh_kv h) \<mapsto> jl_print (oe_json env) (kv_data (oh_kv h1))))"
    using r t by (simp add: ota_ready_def iot_ota_save_job_task_info_def task_key_def ready_key iot_add_kv_string_def
      kv_commit_def iot_write_file_def h1_def k_def v_def kv_store_def)
  then show thesis by (rule that) (simp add: e)
qed

lemma fst_delete_fw [simp]: "fs path \<noteq> None \<Longrightarrow> fst (delete_fw_info_file path fs) = fs(path := None)"
  by (auto simp: delete_fw_info_file_def)

text \<open>
  C12. The end of a download. Without a signature nothing is reported and nobody is told. With one, the
  file is handed to the user, after a report that it has been downloaded, exactly when its MD5 digest
  in the sense of RFC 1321 is the signature of the job; otherwise it is deleted and the failure is
  reported. In every case the task is forgotten: the entry saved for a restart is removed again.
\<close>

theorem ota_complete_outcome:
  assumes ready: "ota_ready env h cfg (ji_ota_job_id j)" and job: "tk_job t = Some j"
    and target: "tk_ota_file_path t = Some path" "fs path = Some content" "path \<noteq> kv_path (oh_kv h)"
  shows "let h' = forgotten env (ji_ota_job_id j) h;
             stored = (\<lambda>fs. fs(kv_path (oh_kv h) \<mapsto> jl_print (oe_json env) (kv_data (oh_kv h'))));
             report = (\<lambda>st code desc. PublishO (progress_topic_of cfg (ji_ota_job_id j)) (request_text env (progress_data env st code desc)))
         in on_download_complete env t h fs =
           (if ji_sign j = [] then Inr (h', stored fs, [])
            else if md5_hex (md5_spec (bytes_of content)) = ji_sign j
            then Inr (h', stored fs, report Downloaded 0 None # (if oh_complete_cb h then [CbComplete VOLC_OK j path] else []))
            else Inr (h', stored (fs(path := None)),
                      [report Failed VOLC_ERR_OTA_DOWNLOAD_FILE_SIGN_CHECK (Some ''download failed'')]))"
proof -
  note end_fs = ready_end_task [OF ready job]
  note reports = ready_report [OF ready]
  obtain h1 fs1 where save: "iot_ota_save_job_task_info env t h fs = Inr (h1, fs1)"
    "end_task env t h1 fs1 = Inr (forgotten env (ji_ota_job_id j) h,
      fs(kv_path (oh_kv h) \<mapsto> jl_print (oe_json env) (kv_data (oh_kv (forgotten env (ji_ota_job_id j) h)))))"
    by (rule ready_save_end [OF ready job])
  have cb: "oh_complete_cb h1 = oh_complete_cb h"
    using save(1) by (auto simp: iot_ota_save_job_task_info_def c_bind_def split: sum.splits prod.splits)
  show ?thesis
    unfolding Let_def on_download_complete_def iot_ota_report_progress_failed_def iot_ota_report_progress_success_def
    using target by (simp add: job end_fs reports file_md5_spec save cb)
qed

definition sample_job :: "string \<Rightarrow> job_info" where
  "sample_job sign = \<lparr>ji_ota_job_id = ''j1'', ji_dest_version = ''1.1.0'', ji_module = ''m'', ji_url = [],
     ji_timeout_in_minutes = 0, ji_size = 3, ji_sign = sign\<rparr>"

definition sample_task :: "job_info \<Rightarrow> ota_task" where
  "sample_task job = new_task (sample_ota (JObj [])) job ''u'' ''/tmp/fw''"

lemma ota_complete_outcome_witness:
  "\<exists>h' fs' report. on_download_complete (sample_ota_env (\<lambda>_. None)) (sample_task (sample_job ''00'')) (sample_ota (JObj []))
     (\<lambda>p. if p = ''/tmp/fw'' then Some ''abc'' else None) = Inr (h', fs', report) \<and> report \<noteq> []"
  using ota_complete_outcome [of "sample_ota_env (\<lambda>_. None)" "sample_ota (JObj [])" sample_device "sample_job ''00''" "sample_task (sample_job ''00'')"
      "''/tmp/fw''" "\<lambda>p. if p = ''/tmp/fw'' then Some ''abc'' else None" "''abc''"]
  by (simp add: ota_ready_def sample_task_def sample_job_def new_task_def kv_valid_def identity_equivp Let_def split: if_splits)

section \<open>The data of a download\<close>

text \<open>Callbacks that leave the task alone.\<close>

fun leaves_task :: "http_call \<Rightarrow> bool" where
  "leaves_task (OnBody _) = False"
| "leaves_task (OnError _ _) = False"
| "leaves_task OnComplete = False"
| "leaves_task _ = True"

lemma leaves_task_step:
  "leaves_task c \<Longrightarrow> \<exists>s'. download_on_http_call env c s = Inr (s', []) \<and> ds_task s' = ds_task s"
  by (cases c) (simp_all split: prod.splits)

lemma new_task_size [simp]: "tk_download_file_size (new_task h job url path) = Some 0"
  by (simp add: new_task_def)

text \<open>
  C37. The size of the file that the share of a download is computed from is never set: the first data
  that arrives for a new task divides by zero, whatever else has been called before.
\<close>

theorem ota_first_data_divides_by_zero:
  assumes "ds_task s = Some (new_task h job url path)" "\<forall>c\<in>set pre. leaves_task c"
  shows "download_on_http_calls env (pre @ OnBody body # post) s = Inl DivByZero"
  using assms
proof (induction pre arbitrary: s)
  case Nil
  then show ?case by (simp add: with_task_def on_data_received_def Let_def)
next
  case (Cons c pre)
  obtain s' where "download_on_http_call env c s = Inr (s', [])" "ds_task s' = ds_task s"
    using leaves_task_step [of c env s] Cons.prems by auto
  then show ?case using Cons by simp
qed

lemma ota_first_data_divides_by_zero_witness:
  "download_on_http_calls (sample_ota_env (\<lambda>_. None)) ([OnDownloadData ''x''] @ OnBody ''abc'' # [OnComplete])
     \<lparr>ds_handler = sample_ota (JObj []), ds_files = (\<lambda>_. None),
      ds_task = Some (new_task (sample_ota (JObj [])) (sample_job []) ''u'' ''f''), ds_file = lws_http_download_init ''f''\<rparr> = Inl DivByZero"
  by (rule ota_first_data_divides_by_zero [where h = "sample_ota (JObj [])" and job = "sample_job []" and url = "''u''" and path = "''f''"]) simp_all

section \<open>After a restart\<close>

text \<open>
  A task that is resumed keeps a pointer to a job that the same step has released: every later
  attempt to start the download of that job reads it.
\<close>

theorem ota_resumed_task_used_after_release:
  assumes "iot_get_kv_str (oe_json env) (oh_kv h) (take 99 (KEY_SAVE_JOB_INFO (fst device))) = val" "val \<noteq> []"
    and "ota_data_json_to_ota_job_info (jl_eq (oe_json env)) (jl_parse (oe_json env) (cstr val)) = Inr saved"
    and "ji_dest_version saved \<noteq> snd device" "length (ji_ota_job_id saved) \<le> 80"
    and "iot_get_kv_str (oe_json env) (oh_kv h) (KEY_SAVE_TASK_INFO (ji_ota_job_id saved)) = tval" "tval \<noteq> []"
    and "task_of_json (jl_eq (oe_json env)) (jl_parse (oe_json env) (cstr tval)) = Inr t"
    and "ji_ota_job_id job = ji_ota_job_id saved"
  shows "c_bind (resume_device env device h fs) (\<lambda>(h, fs, _). iot_ota_start_download env net g job h fs) = Inl UseAfterFree"
proof -
  have "tk_job t = None" "tk_ota_file_path t \<noteq> None"
    using assms(8) by (auto simp: task_of_json_def c_bind_Inr_iff)
  then show ?thesis
    using assms by (auto simp: resume_device_def Let_def ready_key iot_ota_start_download_def last_task_state_def)
qed

definition resumed_env :: ota_env where
  "resumed_env = sample_ota_env (\<lambda>s. if s = ''J''
     then Some (JObj [(''ota_job_id'', JStr ''j1''), (''dest_version'', JStr ''2''), (''timeout_in_minutes'', JNum 1), (''size'', JNum 3)])
     else Some (JObj [(''retry_time'', JNum 0), (''upgrade_device_status'', JNum 0)]))"

lemma ota_resumed_task_used_after_release_witness:
  "\<forall>net g. c_bind (resume_device resumed_env (''m'', ''1'')
        (sample_ota (JObj [(''key_save_job_info_m'', JStr ''J''), (''key_save_task_info_j1'', JStr ''T'')])) (\<lambda>_. None))
    (\<lambda>(h, fs, _). iot_ota_start_download resumed_env net g (sample_job []) h fs) = Inl UseAfterFree"
  by (intro allI, rule ota_resumed_task_used_after_release [where val = "''J''" and tval = "''T''" and
        saved = "\<lparr>ji_ota_job_id = ''j1'', ji_dest_version = ''2'', ji_module = [], ji_url = [], ji_timeout_in_minutes = 1, ji_size = 3, ji_sign = []\<rparr>" and
        t = "\<lparr>tk_job = None, tk_decode_url = [], tk_retry_time = 0, tk_is_pending_to_retry = True, tk_upgrade_device_status = 0,
          tk_ota_file_path = Some [], tk_download_file_size = None, tk_downloaded_size = 0\<rparr>"])
    (simp_all add: resumed_env_def sample_job_def iot_get_kv_str_def iot_get_kv_string_def KEY_SAVE_JOB_INFO_def KEY_SAVE_TASK_INFO_def
      aws_json_value_get_from_object_def json_find_def ota_data_json_to_ota_job_info_def json_int32_def aws_json_get_num_val_def
      aws_json_get_str_def to_int32_def to_uint64_def task_of_json_def NUL_def)

text \<open>A restart: the store is read from its file, the tasks are gone.\<close>

definition restart :: "ota_env \<Rightarrow> basic_config \<Rightarrow> files \<Rightarrow> ota_handler" where
  "restart env cfg fs = (iot_ota_init env fs)\<lparr>oh_mqtt := Some cfg\<rparr>"

lemma init_kv_path: "kv_path (iot_kv_init lib fs [] ''./ota.kv'') = ''./ota.kv''"
  by (simp add: iot_kv_init_def Let_def write_whole_def)

definition saved_job :: "ota_env \<Rightarrow> job_info \<Rightarrow> json \<Rightarrow> kv_ctx \<Rightarrow> kv_ctx" where
  "saved_job env job d = kv_store (oe_json env) (cstr (KEY_SAVE_JOB_INFO (ji_module job))) (JStr (cstr (jl_print (oe_json env) d)))"

lemma job_reply_saves:
  assumes "aws_json_value_get_from_object (jl_eq (oe_json env)) (jl_parse (oe_json env) (cstr payload)) ''data'' = Some d"
    and "ota_data_json_to_ota_job_info (jl_eq (oe_json env)) (Some d) = Inr job" "ji_size job > 0"
    and "length (ji_module job) \<le> 80" "oe_writable env (kv_path (oh_kv h))" "oh_job_cb h"
  shows "ota_rev_ota_upgrade_post_reply env payload h fs = Inr (h\<lparr>oh_kv := saved_job env job d (oh_kv h)\<rparr>,
    fs(kv_path (oh_kv h) \<mapsto> jl_print (oe_json env) (kv_data (saved_job env job d (oh_kv h)))), [CbJob job])"
  using assms by (simp add: ota_rev_ota_upgrade_post_reply_def Let_def kv_key_def print_into_def KEY_SAVE_JOB_INFO_def
    iot_add_kv_string_def kv_commit_def iot_write_file_def saved_job_def kv_store_def)

lemma job_found:
  assumes "kv_valid (oe_json env) kv" "length m \<le> 80"
  shows "iot_get_kv_str (oe_json env) kv (take 99 (KEY_SAVE_JOB_INFO m)) =
    (case kv_lookup (oe_json env) kv (cstr (KEY_SAVE_JOB_INFO m)) of Some (JStr s) \<Rightarrow> s | _ \<Rightarrow> [])"
  using assms(2) by (simp add: iot_get_kv_str_def iot_get_kv_string_def kv_lookup_def KEY_SAVE_JOB_INFO_def split: option.splits json.splits)

lemma saved_job_valid:
  assumes "kv_valid (oe_json env) kv"
  shows "kv_valid (oe_json env) (saved_job env job d kv)" "kv_path (saved_job env job d kv) = kv_path kv"
    "kv_lookup (oe_json env) (saved_job env job d kv) (cstr (KEY_SAVE_JOB_INFO (ji_module job))) = Some (JStr (cstr (jl_print (oe_json env) d)))"
proof -
  have "jl_eq (oe_json env) k k" for k using assms by (simp add: kv_valid_def equivp_reflp)
  then show "kv_valid (oe_json env) (saved_job env job d kv)" "kv_path (saved_job env job d kv) = kv_path kv"
    "kv_lookup (oe_json env) (saved_job env job d kv) (cstr (KEY_SAVE_JOB_INFO (ji_module job))) = Some (JStr (cstr (jl_print (oe_json env) d)))"
    using kv.put_valid [OF assms] kv.lookup_put [OF assms] by (simp_all add: saved_job_def kv_store_def)
qed

text \<open>Resuming a module whose job is not in the store does nothing.\<close>

lemma resume_nothing:
  assumes "kv_valid (oe_json env) (oh_kv h)" "length m \<le> 80"
    and "kv_lookup (oe_json env) (oh_kv h) (cstr (KEY_SAVE_JOB_INFO m)) = None"
  shows "resume_device env (m, v) h fs = Inr (h, fs, [])"
  using job_found [OF assms(1,2)] assms(3) by (simp add: resume_device_def Let_def)

lemma resume_finished:
  assumes r: "ota_ready env h cfg (ji_ota_job_id job)" and m: "length m \<le> 80"
    and l: "kv_lookup (oe_json env) (oh_kv h) (cstr (KEY_SAVE_JOB_INFO m)) = Some (JStr t)" "t \<noteq> []"
    and j: "ota_data_json_to_ota_job_info (jl_eq (oe_json env)) (jl_parse (oe_json env) (cstr t)) = Inr job"
  shows "\<exists>h' fs'. resume_device env (m, ji_dest_version job) h fs =
      Inr (h', fs', [PublishO (progress_topic_of cfg (ji_ota_job_id job)) (request_text env (progress_data env Success 0 None))]) \<and>
    kv_valid (oe_json env) (oh_kv h') \<and> kv_lookup (oe_json env) (oh_kv h') (cstr (KEY_SAVE_JOB_INFO m)) = None"
proof -
  let ?lib = "oe_json env" and ?k = "cstr (KEY_SAVE_JOB_INFO m)" and ?tk = "cstr (KEY_SAVE_TASK_INFO (ji_ota_job_id job))"
  have val: "kv_valid ?lib (oh_kv h)" and wr: "oe_writable env (kv_path (oh_kv h))" and i: "length (ji_ota_job_id job) \<le> 80"
    using r by (simp_all add: ota_ready_def)
  have refl: "jl_eq ?lib k k" for k using val by (simp add: kv_valid_def equivp_reflp)
  have k: "take 99 (KEY_SAVE_JOB_INFO m) = KEY_SAVE_JOB_INFO m" using m by (simp add: KEY_SAVE_JOB_INFO_def)
  let ?kv = "kv_unstore ?lib ?tk (kv_unstore ?lib ?k (oh_kv h))"
  have v: "kv_valid ?lib (kv_unstore ?lib ?k (oh_kv h))" by (rule kv.del_valid [OF val])
  have rem: "iot_remove_key ?lib (oe_writable env) key kv fs = Inr (kv_unstore ?lib (cstr key) kv, fs(kv_path kv \<mapsto> jl_print ?lib (kv_data (kv_unstore ?lib (cstr key) kv))))"
    if "oe_writable env (kv_path kv)" for key kv fs
    using that by (simp add: iot_remove_key_def kv_commit_def iot_write_file_def kv_unstore_def)
  have "iot_get_kv_str ?lib (oh_kv h) (take 99 (KEY_SAVE_JOB_INFO m)) = t" using job_found [OF val m] l by simp
  then have "\<exists>fs'. resume_device env (m, ji_dest_version job) h fs = Inr (h\<lparr>oh_kv := ?kv\<rparr>, fs',
      [PublishO (progress_topic_of cfg (ji_ota_job_id job)) (request_text env (progress_data env Success 0 None))])"
    using l(2) wr by (simp add: resume_device_def Let_def j k ready_key [OF i] iot_ota_report_progress_success_def ready_report [OF r] rem)
      (simp add: rem kv_unstore_def)
  moreover have "kv_valid ?lib ?kv \<and> kv_lookup ?lib ?kv ?k = None"
    using kv.del_valid [OF v] kv.lookup_del [OF v] kv.lookup_del [OF val] refl by simp
  ultimately show ?thesis by auto
qed


definition sample_data :: json where
  "sample_data = JObj [(''ota_job_id'', JStr ''j1''), (''dest_version'', JStr ''2''), (''module'', JStr ''m''),
     (''timeout_in_minutes'', JNum 1), (''size'', JNum 3)]"

definition restart_env :: ota_env where
  "restart_env = (sample_ota_env (\<lambda>s. if s = ''d'' then Some sample_data else if s = ''p'' then Some (JObj [(''data'', sample_data)])
       else Some (JObj [(''key_save_job_info_m'', JStr ''d'')])))
     \<lparr>oe_json := \<lparr>jl_eq = (=), jl_print = (\<lambda>j. if j = sample_data then ''d'' else ''kv''),
       jl_parse = (\<lambda>s. if s = ''d'' then Some sample_data else if s = ''p'' then Some (JObj [(''data'', sample_data)])
       else Some (JObj [(''key_save_job_info_m'', JStr ''d'')]))\<rparr>\<rparr>"

lemma restart_env_simps:
  "jl_eq (oe_json restart_env) = (=)" "jl_print (oe_json restart_env) j = (if j = sample_data then ''d'' else ''kv'')"
  "jl_parse (oe_json restart_env) s = (if s = ''d'' then Some sample_data else if s = ''p'' then Some (JObj [(''data'', sample_data)])
       else Some (JObj [(''key_save_job_info_m'', JStr ''d'')]))" "oe_writable restart_env x"
  by (simp_all add: restart_env_def sample_ota_env_def)


end
