(* ===== verification/Thing.thy ===== *)
theory Thing
  imports IotUtils Mqtt
begin

text \<open>
  The thing model of \<^verbatim>\<open>src/iot/thingmodel\<close>: the messages a device sends, with their documents and
  topics. A message keeps the document it was sent with (\<^verbatim>\<open>payload_root\<close>); that document contains the
  tree of the parameters itself, so that parameters added later are in it too, and is rebuilt here from
  the parameters. Where the structure is not cleared when it is created, the pointer to the document
  has no value (\<open>None\<close>). What the component does to the outside is a list of actions in order.
\<close>

section \<open>Documents\<close>

record thing_env =
  te_json :: json_lib
  te_random :: "32 word"
  te_now :: "64 word"
  te_unix_ms :: "64 word"

definition time_value :: "64 word \<Rightarrow> rat" where
  "time_value t = of_nat (double_of_nat (unat t))"

text \<open>Properties. Each parameter is an object of its value and the time; a value that is null is left out.\<close>

record property_post =
  pr_id :: string
  pr_params :: json

definition iot_property_post_init_with_id :: "string \<Rightarrow> property_post" where
  "iot_property_post_init_with_id i = \<lparr>pr_id = i, pr_params = JObj []\<rparr>"

definition iot_property_post_init :: "thing_env \<Rightarrow> property_post" where
  "iot_property_post_init env = iot_property_post_init_with_id (get_random_string_id_c_str (te_random env) (te_now env))"

definition timed_param :: "thing_env \<Rightarrow> json option \<Rightarrow> json" where
  "timed_param env val =
     aws_json_add_num_val (jl_eq (te_json env)) ''time'' (time_value (te_unix_ms env))
       (aws_json_add_json_obj (jl_eq (te_json env)) ''value'' val (JObj []))"

definition iot_property_post_add_param_object :: "thing_env \<Rightarrow> string \<Rightarrow> json option \<Rightarrow> property_post \<Rightarrow> property_post" where
  "iot_property_post_add_param_object env key val pty =
     pty\<lparr>pr_params := aws_json_add_json_obj (jl_eq (te_json env)) key (Some (timed_param env val)) (pr_params pty)\<rparr>"

definition iot_property_post_add_param_num :: "thing_env \<Rightarrow> string \<Rightarrow> rat \<Rightarrow> property_post \<Rightarrow> property_post" where
  "iot_property_post_add_param_num env key val = iot_property_post_add_param_object env key (Some (JNum val))"

definition iot_property_post_add_param_json_str :: "thing_env \<Rightarrow> string \<Rightarrow> string \<Rightarrow> property_post \<Rightarrow> property_post" where
  "iot_property_post_add_param_json_str env key val =
     iot_property_post_add_param_object env key (jl_parse (te_json env) val)"

definition iot_property_post_add_param_string :: "thing_env \<Rightarrow> string \<Rightarrow> string option \<Rightarrow> property_post \<Rightarrow> property_post" where
  "iot_property_post_add_param_string env key val =
     iot_property_post_add_param_object env key (map_option JStr val)"

definition iot_property_post_payload :: "thing_env \<Rightarrow> property_post \<Rightarrow> json" where
  "iot_property_post_payload env pty =
     (let keq = jl_eq (te_json env) in
      aws_json_add_json_obj keq ''params'' (Some (pr_params pty))
        (aws_json_add_str_val keq ''version'' (Some SDK_VERSION)
          (aws_json_add_str_val keq ''id'' (Some (pr_id pty)) (JObj []))))"

record property_reply =
  ps_id :: string
  ps_code :: int

definition iot_property_set_post_reply_payload :: "thing_env \<Rightarrow> property_reply \<Rightarrow> json" where
  "iot_property_set_post_reply_payload env r =
     (let keq = jl_eq (te_json env) in
      aws_json_add_num_val keq ''code'' (of_int (ps_code r)) (aws_json_add_str_val keq ''id'' (Some (ps_id r)) (JObj [])))"

text \<open>
  Shadows. The structure of a request for the shadow is not cleared. Releasing a report that has been
  sent releases its parameters twice: with the document and on their own.
\<close>

record shadow_post =
  sp_id :: string
  sp_params :: json
  sp_report :: json
  sp_sent :: bool

definition iot_shadow_post_init_with_id :: "thing_env \<Rightarrow> string option \<Rightarrow> shadow_post" where
  "iot_shadow_post_init_with_id env i =
     \<lparr>sp_id = (case i of Some i \<Rightarrow> i | None \<Rightarrow> get_random_string_with_time_suffix (te_random env) (te_now env)),
      sp_params = JObj [], sp_report = JObj [], sp_sent = False\<rparr>"

definition iot_shadow_post_init :: "thing_env \<Rightarrow> shadow_post" where
  "iot_shadow_post_init env = iot_shadow_post_init_with_id env None"

definition iot_shadow_post_add_param_num :: "thing_env \<Rightarrow> string \<Rightarrow> rat \<Rightarrow> shadow_post \<Rightarrow> shadow_post" where
  "iot_shadow_post_add_param_num env key val pty =
     pty\<lparr>sp_report := aws_json_add_num_val (jl_eq (te_json env)) key val (sp_report pty)\<rparr>"

definition iot_shadow_post_add_param_object :: "thing_env \<Rightarrow> string \<Rightarrow> json option \<Rightarrow> shadow_post \<Rightarrow> shadow_post" where
  "iot_shadow_post_add_param_object env key val pty =
     pty\<lparr>sp_report := aws_json_add_json_obj (jl_eq (te_json env)) key val (sp_report pty)\<rparr>"

definition iot_shadow_post_add_param_json_str :: "thing_env \<Rightarrow> string \<Rightarrow> string \<Rightarrow> shadow_post \<Rightarrow> shadow_post" where
  "iot_shadow_post_add_param_json_str env key val = iot_shadow_post_add_param_object env key (jl_parse (te_json env) val)"

definition iot_shadow_post_add_param_string :: "thing_env \<Rightarrow> string \<Rightarrow> string option \<Rightarrow> shadow_post \<Rightarrow> shadow_post" where
  "iot_shadow_post_add_param_string env key val pty =
     pty\<lparr>sp_report := aws_json_add_str_val (jl_eq (te_json env)) key val (sp_report pty)\<rparr>"

definition iot_shadow_post_payload :: "thing_env \<Rightarrow> shadow_post \<Rightarrow> shadow_post \<times> json" where
  "iot_shadow_post_payload env pty =
     (let keq = jl_eq (te_json env);
          params = (if sp_sent pty then sp_params pty
            else aws_json_add_num_val keq ''version'' (time_value (te_now env)) (sp_params pty))
      in (pty\<lparr>sp_params := params, sp_sent := True\<rparr>,
          aws_json_add_json_obj keq ''params'' (Some (aws_json_add_json_obj keq ''report'' (Some (sp_report pty)) params))
            (aws_json_add_str_val keq ''version'' (Some SDK_VERSION) (aws_json_add_str_val keq ''id'' (Some (sp_id pty)) (JObj [])))))"

definition iot_shadow_post_free :: "shadow_post option \<Rightarrow> unit c_result" where
  "iot_shadow_post_free pty =
     (case pty of None \<Rightarrow> Inr () | Some p \<Rightarrow> if sp_sent p then Inl UseAfterFree else Inr ())"

record shadow_get =
  sg_id :: string
  sg_root :: "bool option"

definition iot_shadow_get_init_with_id :: "thing_env \<Rightarrow> string option \<Rightarrow> shadow_get" where
  "iot_shadow_get_init_with_id env i =
     \<lparr>sg_id = (case i of Some i \<Rightarrow> i | None \<Rightarrow> get_random_string_id_c_str (te_random env) (te_now env)), sg_root = None\<rparr>"

definition iot_shadow_get_init :: "thing_env \<Rightarrow> shadow_get" where
  "iot_shadow_get_init env = iot_shadow_get_init_with_id env None"

definition iot_shadow_get_payload :: "thing_env \<Rightarrow> shadow_get \<Rightarrow> json c_result" where
  "iot_shadow_get_payload env pty =
     (let keq = jl_eq (te_json env) in
      case sg_root pty of
        None \<Rightarrow> Inl Uninit
      | Some _ \<Rightarrow> Inr (aws_json_add_str_val keq ''version'' (Some SDK_VERSION)
          (aws_json_add_str_val keq ''id'' (Some (sg_id pty)) (JObj []))))"

text \<open>The version a shadow is cleared with is the time, not the version that was received.\<close>

definition iot_shadow_clear_payload :: "thing_env \<Rightarrow> json" where
  "iot_shadow_clear_payload env =
     (let keq = jl_eq (te_json env) in
      aws_json_add_num_val keq ''Params'' (time_value (te_now env))
        (aws_json_add_str_val keq ''Version'' (Some SDK_VERSION)
          (aws_json_add_str_val keq ''ID'' (Some (get_random_string_with_time_suffix (te_random env) (te_now env))) (JObj []))))"

text \<open>
  Events. The structure is not cleared. A second document would be built from parameters that have
  been released with the first.
\<close>

record event_post =
  ev_id :: string
  ev_module_key :: string
  ev_identifier :: string
  ev_params :: "json option"
  ev_root :: "bool option"

definition iot_tm_msg_event_post_init :: "thing_env \<Rightarrow> string \<Rightarrow> string \<Rightarrow> event_post" where
  "iot_tm_msg_event_post_init env module_key identifier =
     \<lparr>ev_id = get_random_string_with_time_suffix (te_random env) (te_now env), ev_module_key = module_key,
      ev_identifier = identifier, ev_params = Some (JObj []), ev_root = None\<rparr>"

definition iot_tm_msg_event_post_param_add_num :: "thing_env \<Rightarrow> string \<Rightarrow> rat \<Rightarrow> event_post \<Rightarrow> event_post" where
  "iot_tm_msg_event_post_param_add_num env key val ev =
     ev\<lparr>ev_params := map_option (aws_json_add_num_val1 (jl_eq (te_json env)) key val) (ev_params ev)\<rparr>"

definition iot_tm_msg_event_post_param_add_string :: "thing_env \<Rightarrow> string \<Rightarrow> string option \<Rightarrow> event_post \<Rightarrow> event_post" where
  "iot_tm_msg_event_post_param_add_string env key val ev =
     ev\<lparr>ev_params := map_option (aws_json_add_str_val (jl_eq (te_json env)) key val) (ev_params ev)\<rparr>"

definition iot_tm_msg_event_post_set_prams_json_str :: "thing_env \<Rightarrow> string \<Rightarrow> event_post \<Rightarrow> event_post" where
  "iot_tm_msg_event_post_set_prams_json_str env val ev = ev\<lparr>ev_params := jl_parse (te_json env) val\<rparr>"

definition iot_tm_msg_event_post_payload :: "thing_env \<Rightarrow> event_post \<Rightarrow> (event_post \<times> json) c_result" where
  "iot_tm_msg_event_post_payload env ev =
     (let keq = jl_eq (te_json env) in
      case ev_root ev of
        None \<Rightarrow> Inl Uninit
      | Some True \<Rightarrow> Inl UseAfterFree
      | Some False \<Rightarrow>
          Inr (ev\<lparr>ev_root := Some True\<rparr>,
            aws_json_add_json_obj keq ''Params''
              (Some (aws_json_add_json_obj keq ''Value'' (ev_params ev)
                (aws_json_add_num_val1 keq ''Time'' (time_value (te_now env)) (JObj []))))
              (aws_json_add_str_val keq ''Version'' (Some SDK_VERSION)
                (aws_json_add_str_val keq ''ID'' (Some (ev_id ev)) (JObj [])))))"

text \<open>
  The reply to the call of a service. Parameters that are replaced after it has been sent are
  released while the document still holds them.
\<close>

record service_reply =
  sr_id :: string
  sr_module_key :: string
  sr_identifier :: string
  sr_topic_uuid :: string
  sr_code :: int
  sr_params :: "json option"
  sr_root :: "json option"
  sr_shared :: bool
  sr_released :: bool

definition iot_tm_msg_service_call_reply_init :: "string \<Rightarrow> string \<Rightarrow> string \<Rightarrow> string \<Rightarrow> int \<Rightarrow> service_reply" where
  "iot_tm_msg_service_call_reply_init module_key identifier topic_uuid msg_id code =
     \<lparr>sr_id = msg_id, sr_module_key = module_key, sr_identifier = identifier, sr_topic_uuid = topic_uuid,
      sr_code = code, sr_params = Some (JObj []), sr_root = None, sr_shared = False, sr_released = False\<rparr>"

definition iot_tm_msg_service_call_reply_set_prams_json_str :: "thing_env \<Rightarrow> string \<Rightarrow> service_reply \<Rightarrow> service_reply" where
  "iot_tm_msg_service_call_reply_set_prams_json_str env val r =
     r\<lparr>sr_params := jl_parse (te_json env) val, sr_released := sr_released r \<or> sr_shared r, sr_shared := False\<rparr>"

definition service_reply_doc :: "thing_env \<Rightarrow> service_reply \<Rightarrow> json" where
  "service_reply_doc env r =
     (let keq = jl_eq (te_json env) in
      aws_json_add_json_obj keq ''Data'' (sr_params r)
        (aws_json_add_num_val keq ''code'' (of_int (sr_code r)) (aws_json_add_str_val keq ''id'' (Some (sr_id r)) (JObj []))))"

definition iot_tm_msg_service_call_reply_payload :: "thing_env \<Rightarrow> service_reply \<Rightarrow> (service_reply \<times> json) c_result" where
  "iot_tm_msg_service_call_reply_payload env r =
     (case sr_root r of
        None \<Rightarrow> let doc = service_reply_doc env r in Inr (r\<lparr>sr_root := Some doc, sr_shared := sr_params r \<noteq> None\<rparr>, doc)
      | Some doc \<Rightarrow> if sr_released r then Inl UseAfterFree else Inr (r, doc))"

end
