(* ===== verification/ThingApi.thy ===== *)
theory ThingApi
  imports Thing
begin

text \<open>
  Sending and receiving in the thing model: \<^verbatim>\<open>iot_tm_api.c\<close> with the senders and the handlers of the
  other files of \<^verbatim>\<open>src/iot/thingmodel\<close>, and the shell of \<^verbatim>\<open>src/iot/iot_popen.c\<close>.
\<close>

section \<open>State and actions\<close>

record thing_handler =
  th_mqtt :: "basic_config option"
  th_recv :: bool

text \<open>
  What a handler gives to the user. A document that is printed into a buffer has no terminator:
  such a text is memory, not a string.
\<close>

datatype recv_data =
    RecvPropertySet (rd_msg_id: string) (rd_params: "char list")
  | RecvPropertySetPostReply (rd_msg_id: string) (rd_code: int)
  | RecvShadowGetReply (rd_msg_id: string) (rd_version: int) (rd_desired: "char list option")
  | RecvShadowSet (rd_version: int) (rd_desired: "char list option")
  | RecvEventPostReply (rd_msg_id: string) (rd_module: string) (rd_identifier: string) (rd_code: int)
  | RecvServiceCall (rd_msg_id: string) (rd_module: string) (rd_identifier: string) (rd_call_version: string)
      (rd_params: "char list") (rd_uuid: string)
  | RecvCustomTopic (rd_sfx: string) (rd_params: "char list")

record tm_recv =
  rv_product_key :: string
  rv_device_name :: string
  rv_data :: recv_data

datatype thing_act =
    PublishT string "char list"
  | SubscribeT string nat
  | RecvHandler tm_recv

type_synonym thing_acts = "thing_act list c_result"

definition iot_tm_init :: thing_handler where
  "iot_tm_init = \<lparr>th_mqtt = None, th_recv = False\<rparr>"

definition iot_tm_set_tm_recv_handler_t :: "bool \<Rightarrow> thing_handler \<Rightarrow> thing_handler" where
  "iot_tm_set_tm_recv_handler_t given h = h\<lparr>th_recv := given\<rparr>"

section \<open>Messages\<close>

text \<open>
  The members of the union; the answer to a ping is sent with the pointer left null. The topic of the
  custom message is a suffix.
\<close>

datatype msg_data =
    PropertyPost property_post
  | PropertySetReply property_reply
  | ShadowReport shadow_post
  | ShadowGet shadow_get
  | ShadowClear
  | WebshellCommandReply string
  | WebshellCommandPong "(string \<times> string) option"
  | EventPost event_post
  | ServiceCallReply service_reply
  | CustomTopic string string
  | UnknownMsg

record tm_msg =
  ms_product_key :: "string option"
  ms_device_name :: "string option"
  ms_data :: msg_data

definition library_msg :: "msg_data \<Rightarrow> tm_msg" where
  "library_msg d = \<lparr>ms_product_key = None, ms_device_name = None, ms_data = d\<rparr>"

text \<open>A name of one byte counts as none.\<close>

definition msg_name :: "string option \<Rightarrow> string option \<Rightarrow> string c_result" where
  "msg_name given configured =
     (case given of
        Some s \<Rightarrow> if secure_strlen s > 1 then Inr s else (case configured of None \<Rightarrow> Inl NullDeref | Some s \<Rightarrow> Inr s)
      | None \<Rightarrow> (case configured of None \<Rightarrow> Inl NullDeref | Some s \<Rightarrow> Inr s))"

definition dm_prepare_send_topic :: "basic_config \<Rightarrow> tm_msg \<Rightarrow> string c_result" where
  "dm_prepare_send_topic cfg msg =
     c_bind (msg_name (ms_product_key msg) (bc_product_key cfg)) (\<lambda>pk.
     c_bind (msg_name (ms_device_name msg) (bc_device_name cfg)) (\<lambda>dn.
     case ms_data msg of
       PropertyPost _ \<Rightarrow> iot_get_common_topic ''sys/%s/%s/thingmodel/property/post'' pk dn
     | PropertySetReply _ \<Rightarrow> iot_get_common_topic ''sys/%s/%s/thingmodel/service/preset/propertySet/post_reply'' pk dn
     | ShadowReport _ \<Rightarrow> iot_get_common_topic ''sys/%s/%s/shadow/report'' pk dn
     | ShadowGet _ \<Rightarrow> iot_get_common_topic ''sys/%s/%s/shadow/desired/get'' pk dn
     | ShadowClear \<Rightarrow> iot_get_common_topic ''sys/%s/%s/shadow/desired/clear'' pk dn
     | WebshellCommandReply uid \<Rightarrow> iot_get_topic_with_1_c_str_param ''sys/%s/%s/webshell/cmd/%s/post_reply'' pk dn uid
     | WebshellCommandPong None \<Rightarrow> Inl NullDeref
     | WebshellCommandPong (Some (pong, uid)) \<Rightarrow> iot_get_topic_with_1_c_str_param ''sys/%s/%s/webshell/cmd/%s/post_reply'' pk dn uid
     | EventPost ev \<Rightarrow> iot_get_topic_with_2_c_str_param ''sys/%s/%s/thingmodel/event/%s/%s/post'' pk dn (ev_module_key ev) (ev_identifier ev)
     | ServiceCallReply r \<Rightarrow>
         iot_get_topic_with_3_c_str_param ''sys/%s/%s/thingmodel/service/%s/%s/post_reply/%s'' pk dn
           (sr_module_key r) (sr_identifier r) (sr_topic_uuid r)
     | CustomTopic sfx _ \<Rightarrow> iot_get_topic_with_1_c_str_param ''sys/%s/%s/custom/%s'' pk dn sfx
     | UnknownMsg \<Rightarrow> Inl NullDeref))"

text \<open>
  The senders of the table, with the message as it is left. The answer to a shell command is read as
  the answer to a ping, whose first member lies where its only member is.
\<close>

definition tm_document :: "thing_env \<Rightarrow> msg_data \<Rightarrow> (msg_data \<times> (json + char list)) c_result" where
  "tm_document env d =
     (case d of
        PropertyPost p \<Rightarrow> Inr (d, Inl (iot_property_post_payload env p))
      | PropertySetReply r \<Rightarrow> Inr (d, Inl (iot_property_set_post_reply_payload env r))
      | ShadowReport p \<Rightarrow> (case iot_shadow_post_payload env p of (p, j) \<Rightarrow> Inr (ShadowReport p, Inl j))
      | ShadowGet p \<Rightarrow> c_bind (iot_shadow_get_payload env p) (\<lambda>j. Inr (d, Inl j))
      | ShadowClear \<Rightarrow> Inr (d, Inl (iot_shadow_clear_payload env))
      | WebshellCommandReply uid \<Rightarrow> Inr (d, Inr uid)
      | WebshellCommandPong None \<Rightarrow> Inl NullDeref
      | WebshellCommandPong (Some (pong, _)) \<Rightarrow> Inr (d, Inr pong)
      | EventPost ev \<Rightarrow> c_bind (iot_tm_msg_event_post_payload env ev) (\<lambda>(ev, j). Inr (EventPost ev, Inl j))
      | ServiceCallReply r \<Rightarrow> c_bind (iot_tm_msg_service_call_reply_payload env r) (\<lambda>(r, j). Inr (ServiceCallReply r, Inl j))
      | CustomTopic _ params \<Rightarrow> Inr (d, Inr params)
      | UnknownMsg \<Rightarrow> Inl NullDeref)"

definition tm_payload :: "thing_env \<Rightarrow> msg_data \<Rightarrow> (msg_data \<times> char list) c_result" where
  "tm_payload env d =
     c_bind (tm_document env d) (\<lambda>(d, doc).
     Inr (d, case doc of Inl j \<Rightarrow> jl_print (te_json env) j | Inr t \<Rightarrow> t))"

definition iot_tm_send :: "thing_env \<Rightarrow> thing_handler option \<Rightarrow> tm_msg option \<Rightarrow> (int \<times> tm_msg option \<times> thing_act list) c_result" where
  "iot_tm_send env hp mp =
     (case (hp, mp) of
        (Some h, Some msg) \<Rightarrow>
          if ms_data msg = UnknownMsg then Inr (VOLC_ERR_TM_USER_INPUT_OUT_RANGE, mp, [])
          else (case th_mqtt h of
            None \<Rightarrow> Inr (VOLC_ERR_NULL_POINTER, mp, [])
          | Some cfg \<Rightarrow>
              c_bind (dm_prepare_send_topic cfg msg) (\<lambda>topic.
              c_bind (tm_payload env (ms_data msg)) (\<lambda>(d, payload).
              Inr (VOLC_OK, Some (msg\<lparr>ms_data := d\<rparr>), [PublishT topic payload]))))
      | _ \<Rightarrow> Inr (VOLC_ERR_NULL_POINTER, mp, []))"

text \<open>What the library sends on its own; the result is not looked at.\<close>

definition send_own :: "thing_env \<Rightarrow> thing_handler \<Rightarrow> msg_data \<Rightarrow> thing_acts" where
  "send_own env h d = c_bind (iot_tm_send env (Some h) (Some (library_msg d))) (\<lambda>(_, _, acts). Inr acts)"

section \<open>Handlers\<close>

definition topic_part :: "string \<Rightarrow> nat \<Rightarrow> string" where
  "topic_part topic i = (let ps = split_on (CHR ''/'') topic in if i < length ps then ps ! i else [])"

definition parsed :: "thing_env \<Rightarrow> char list \<Rightarrow> json option" where
  "parsed env payload = jl_parse (te_json env) (cstr payload)"

text \<open>\<^verbatim>\<open>aws_json_get_json_obj_to_bye_buf\<close>: the text of a member; without one the buffer is a null pointer.\<close>

definition member_text :: "thing_env \<Rightarrow> json option \<Rightarrow> string \<Rightarrow> char list option" where
  "member_text env doc key = map_option (jl_print (te_json env)) (aws_json_value_get_from_object (jl_eq (te_json env)) doc key)"

definition from_topic :: "string \<Rightarrow> recv_data \<Rightarrow> thing_act" where
  "from_topic topic d = RecvHandler \<lparr>rv_product_key = topic_part topic 1, rv_device_name = topic_part topic 2, rv_data = d\<rparr>"

definition tm_recv_property_set_handler :: "thing_env \<Rightarrow> thing_handler \<Rightarrow> string \<Rightarrow> char list \<Rightarrow> thing_acts" where
  "tm_recv_property_set_handler env h topic payload =
     (if \<not> th_recv h then Inr []
      else
        let doc = parsed env payload; msg_id = aws_json_get_str (jl_eq (te_json env)) doc ''ID'' in
        c_bind (send_own env h (PropertySetReply \<lparr>ps_id = msg_id, ps_code = 0\<rparr>)) (\<lambda>acts.
        Inr (from_topic topic (RecvPropertySet msg_id (case member_text env doc ''Params'' of None \<Rightarrow> [] | Some t \<Rightarrow> t)) # acts)))"

definition tm_recv_property_set_post_reply :: "thing_env \<Rightarrow> thing_handler \<Rightarrow> string \<Rightarrow> char list \<Rightarrow> thing_acts" where
  "tm_recv_property_set_post_reply env h topic payload =
     (if \<not> th_recv h then Inr []
      else
        let doc = parsed env payload in
        c_bind (json_int32 (jl_eq (te_json env)) doc ''Code'') (\<lambda>code.
        Inr [from_topic topic (RecvPropertySetPostReply (aws_json_get_str (jl_eq (te_json env)) doc ''ID'') code)]))"

definition tm_recv_shadow_report_reply_handler :: "thing_env \<Rightarrow> thing_handler \<Rightarrow> string \<Rightarrow> char list \<Rightarrow> thing_acts" where
  "tm_recv_shadow_report_reply_handler env h topic payload = Inr []"

text \<open>A reply without the number \<^verbatim>\<open>Code\<close> is judged by a variable never written.\<close>

definition tm_recv_shadow_get_reply_handler :: "thing_env \<Rightarrow> thing_handler \<Rightarrow> string \<Rightarrow> char list \<Rightarrow> thing_acts" where
  "tm_recv_shadow_get_reply_handler env h topic payload =
     (let keq = jl_eq (te_json env) in
      if \<not> th_recv h then Inr []
      else
        let doc = parsed env payload in
        c_bind (aws_json_get_num_val keq doc ''Code'') (\<lambda>code.
        if code \<noteq> 0 then Inr []
        else
          let d = aws_json_value_get_from_object keq doc ''Data'' in
          c_bind (aws_json_get_num_val keq d ''Version'') (\<lambda>v.
          c_bind (to_int64 v) (\<lambda>version.
          c_bind (if th_mqtt h = None then Inr [] else send_own env h ShadowClear) (\<lambda>acts.
          Inr (from_topic topic (RecvShadowGetReply (aws_json_get_str keq doc ''ID'') version (member_text env d ''Desired'')) # acts))))))"

text \<open>The desired state is looked for beside \<^verbatim>\<open>Params\<close>, not in it.\<close>

definition tm_recv_shadow_set_handler :: "thing_env \<Rightarrow> thing_handler \<Rightarrow> string \<Rightarrow> char list \<Rightarrow> thing_acts" where
  "tm_recv_shadow_set_handler env h topic payload =
     (if \<not> th_recv h then Inr []
      else
        let doc = parsed env payload in
        c_bind (aws_json_get_num_val (jl_eq (te_json env)) doc ''Version'') (\<lambda>v.
        c_bind (to_int64 v) (\<lambda>version.
        Inr [from_topic topic (RecvShadowSet version (member_text env doc ''Desired''))])))"

definition tm_recv_event_post_reply :: "thing_env \<Rightarrow> thing_handler \<Rightarrow> string \<Rightarrow> char list \<Rightarrow> thing_acts" where
  "tm_recv_event_post_reply env h topic payload =
     (if \<not> th_recv h then Inr []
      else
        let doc = parsed env payload in
        c_bind (json_int32 (jl_eq (te_json env)) doc ''Code'') (\<lambda>code.
        Inr [from_topic topic (RecvEventPostReply (aws_json_get_str (jl_eq (te_json env)) doc ''ID'')
          (topic_part topic 5) (topic_part topic 6) code)]))"

definition tm_recv_service_call :: "thing_env \<Rightarrow> thing_handler \<Rightarrow> string \<Rightarrow> char list \<Rightarrow> thing_acts" where
  "tm_recv_service_call env h topic payload =
     (let keq = jl_eq (te_json env) in
      if \<not> th_recv h then Inr []
      else
        let doc = parsed env payload; msg_id = aws_json_get_str keq doc ''ID'';
            m = topic_part topic 5; i = topic_part topic 6; uuid = topic_part topic 8
        in c_bind (send_own env h (ServiceCallReply (iot_tm_msg_service_call_reply_init m i uuid msg_id 0))) (\<lambda>acts.
           Inr (from_topic topic (RecvServiceCall msg_id m i (aws_json_get_str keq doc ''Version'')
             (case member_text env doc ''Params'' of None \<Rightarrow> [] | Some t \<Rightarrow> t) uuid) # acts)))"

definition tm_recv_custom_topic :: "thing_env \<Rightarrow> thing_handler \<Rightarrow> string \<Rightarrow> char list \<Rightarrow> thing_acts" where
  "tm_recv_custom_topic env h topic payload =
     (if \<not> th_recv h then Inr [] else Inr [from_topic topic (RecvCustomTopic (topic_part topic 4) payload)])"

text \<open>The network time is commented out.\<close>

definition tm_recv_device_ntp_info :: "thing_env \<Rightarrow> thing_handler \<Rightarrow> string \<Rightarrow> char list \<Rightarrow> thing_acts" where
  "tm_recv_device_ntp_info env h topic payload = Inr []"

definition tm_send_device_delay_reply_data :: "thing_handler \<Rightarrow> string \<Rightarrow> char list \<Rightarrow> thing_acts" where
  "tm_send_device_delay_reply_data h uuid payload =
     c_bind (config_names (th_mqtt h)) (\<lambda>(pk, dn).
     c_bind (iot_get_topic_with_1_param ''sys/%s/%s/delay/%s/post_reply'' pk dn uuid) (\<lambda>topic.
     Inr [PublishT topic payload]))"

definition tm_recv_device_delay_info :: "thing_env \<Rightarrow> thing_handler \<Rightarrow> string \<Rightarrow> char list \<Rightarrow> thing_acts" where
  "tm_recv_device_delay_info env h topic payload = tm_send_device_delay_reply_data h (topic_part topic 4) payload"

section \<open>The shell\<close>

text \<open>
  \<^verbatim>\<open>iot_popen\<close>: the call that would start the command is commented out, so that the stream is null and
  every command fails, whatever the mode.
\<close>

fun popen_mode :: "string \<Rightarrow> bool \<Rightarrow> bool \<Rightarrow> (bool \<times> bool) option" where
  "popen_mode [] r w = Some (r, w)"
| "popen_mode (c # cs) r w =
     (if c = CHR ''r'' then popen_mode cs True w else if c = CHR ''w'' then popen_mode cs r True else None)"

definition iot_popen :: "string option \<Rightarrow> string option \<Rightarrow> int" where
  "iot_popen cmd mode =
     (case (cmd, mode) of
        (Some _, Some m) \<Rightarrow>
          (case popen_mode m False False of
             None \<Rightarrow> -1
           | Some (r, w) \<Rightarrow> if r = w then -1 else -1)
      | _ \<Rightarrow> -1)"

text \<open>
  \<^verbatim>\<open>_tm_recv_webshell_command_handler\<close>. Every command is acknowledged first. The answer to a ping is sent
  without its data; the size of the terminal is printed from two numbers.
\<close>

definition tm_recv_webshell_command_handler :: "thing_env \<Rightarrow> thing_handler \<Rightarrow> string \<Rightarrow> char list \<Rightarrow> thing_acts" where
  "tm_recv_webshell_command_handler env h topic payload =
     (let keq = jl_eq (te_json env) in
      if \<not> th_recv h then Inr []
      else
        c_bind (send_own env h (WebshellCommandReply (topic_part topic 5))) (\<lambda>acts.
        let command = cstr payload in
        case command of
          [] \<Rightarrow> Inr acts
        | c # cmd \<Rightarrow>
            if c = CHR ''2'' then c_bind (send_own env h (WebshellCommandPong None)) (\<lambda>acts'. Inr (acts @ acts'))
            else if c = CHR ''3'' then
              (let doc = jl_parse (te_json env) cmd in
               c_bind (json_int32 keq doc ''Rows'') (\<lambda>rows.
               c_bind (json_int32 keq doc ''Columns'') (\<lambda>columns.
               c_bind (print_into 63 (''resize -s '' @ dec_int rows @ '' '' @ dec_int columns)) (\<lambda>_. Inr acts))))
            else Inr acts))"

section \<open>Subscriptions\<close>

text \<open>The table of the handlers, each with the number of its function; \<open>None\<close> is a null pointer.\<close>

definition g_dm_recv_topic_mapping :: "(string \<times> nat option) list" where
  "g_dm_recv_topic_mapping =
     [(''sys/%s/%s/thingmodel/service/preset/propertySet/post'', Some 0),
      (''sys/%s/%s/thingmodel/property/post_reply'', Some 1),
      (''sys/%s/%s/shadow/report_reply'', Some 2),
      (''sys/%s/%s/shadow/desired/get/reply'', Some 3),
      (''sys/%s/%s/shadow/desired/set'', Some 4),
      (''sys/%s/%s/webshell/cmd/+/post'', Some 5),
      (''sys/%s/%s/thingmodel/event/+/+/post_reply'', Some 6),
      (''sys/%s/%s/thingmodel/service/+/+/post/+'', Some 7),
      (''sys/%s/%s/custom/+'', None),
      (''sys/%s/%s/ntp/response'', Some 8)]"

definition thing_functions :: "(thing_env \<Rightarrow> thing_handler \<Rightarrow> string \<Rightarrow> char list \<Rightarrow> thing_acts) list" where
  "thing_functions =
     [tm_recv_property_set_handler, tm_recv_property_set_post_reply, tm_recv_shadow_report_reply_handler,
      tm_recv_shadow_get_reply_handler, tm_recv_shadow_set_handler, tm_recv_webshell_command_handler,
      tm_recv_event_post_reply, tm_recv_service_call, tm_recv_device_ntp_info, tm_recv_device_delay_info,
      tm_recv_custom_topic]"

definition s_tm_set_up_mqtt_topic :: "thing_handler \<Rightarrow> (int \<times> thing_act list) c_result" where
  "s_tm_set_up_mqtt_topic h =
     (if th_mqtt h = None then Inr (VOLC_ERR_INVALID_PARAM, [])
      else c_bind (config_names (th_mqtt h)) (\<lambda>(pk, dn).
        c_bind (c_map (\<lambda>(fmt, f). c_bind (iot_get_common_topic fmt pk dn) (\<lambda>topic.
            Inr (case f of None \<Rightarrow> [] | Some i \<Rightarrow> [SubscribeT topic i]))) g_dm_recv_topic_mapping) (\<lambda>as.
        Inr (VOLC_OK, concat as))))"

definition sub_device_delay_info :: "thing_handler \<Rightarrow> thing_acts" where
  "sub_device_delay_info h =
     c_bind (config_names (th_mqtt h)) (\<lambda>(pk, dn).
     c_bind (iot_get_common_topic ''sys/%s/%s/delay/+/post'' pk dn) (\<lambda>topic. Inr [SubscribeT topic 9]))"

definition tm_sub_custom_topic :: "thing_handler \<Rightarrow> string \<Rightarrow> thing_acts" where
  "tm_sub_custom_topic h sfx =
     c_bind (config_names (th_mqtt h)) (\<lambda>(pk, dn).
     c_bind (iot_get_topic_with_1_param ''sys/%s/%s/custom/%s'' pk dn sfx) (\<lambda>topic. Inr [SubscribeT topic 10]))"

definition iot_tm_set_mqtt_handler :: "basic_config option \<Rightarrow> thing_handler \<Rightarrow> (int \<times> thing_handler \<times> thing_act list) c_result" where
  "iot_tm_set_mqtt_handler mqtt h =
     (let h = h\<lparr>th_mqtt := mqtt\<rparr> in
      c_bind (s_tm_set_up_mqtt_topic h) (\<lambda>(ret, acts).
      if ret \<noteq> 0 then Inr (ret, h, acts)
      else c_bind (sub_device_delay_info h) (\<lambda>acts'. Inr (VOLC_OK, h, acts @ acts'))))"

end
