(* ===== verification/ThingProps.thy ===== *)
theory ThingProps
  imports ThingApi MqttTheorems
begin

text \<open>
  The properties of the thing model: documents are well formed, parameters reach the reader, calls of
  services are answered where they came from; and what the code does not do: some handlers are never
  reached, and two kinds of messages can never be sent.
\<close>

section \<open>Topics\<close>

lemma split_on_one [simp]: "c \<notin> set p \<Longrightarrow> split_on c p = [p]"
  by (induction p) auto

lemma split_on_cons [simp]: "c \<notin> set p \<Longrightarrow> split_on c (p @ c # rest) = p # split_on c rest"
  by (induction p) auto

definition thing_topic :: "string \<Rightarrow> string \<Rightarrow> string \<Rightarrow> string" where
  "thing_topic pk dn rest = ''sys/'' @ pk @ ''/'' @ dn @ rest"

lemma common_topic: "iot_get_common_topic fmt pk dn = Inr (fmt_s fmt [pk, dn])"
  using length_fmt_s [of fmt "[pk, dn]"] by (simp add: iot_get_common_topic_def print_into_def)

text \<open>The subscriptions, relative to the device.\<close>

definition thing_filters :: "(string \<times> nat) list" where
  "thing_filters =
     [(''/thingmodel/service/preset/propertySet/post'', 0), (''/thingmodel/property/post_reply'', 1),
      (''/shadow/report_reply'', 2), (''/shadow/desired/get/reply'', 3), (''/shadow/desired/set'', 4),
      (''/webshell/cmd/+/post'', 5), (''/thingmodel/event/+/+/post_reply'', 6),
      (''/thingmodel/service/+/+/post/+'', 7), (''/ntp/response'', 8), (''/delay/+/post'', 9)]"

lemma thing_subscriptions:
  assumes "bc_product_key cfg = Some pk" "bc_device_name cfg = Some dn"
  shows "iot_tm_set_mqtt_handler (Some cfg) h =
    Inr (VOLC_OK, h\<lparr>th_mqtt := Some cfg\<rparr>, map (\<lambda>(rest, f). SubscribeT (thing_topic pk dn rest) f) thing_filters)"
  using assms
  by (simp add: iot_tm_set_mqtt_handler_def s_tm_set_up_mqtt_topic_def config_names_def common_topic g_dm_recv_topic_mapping_def
      sub_device_delay_info_def thing_filters_def thing_topic_def VOLC_OK_def)

text \<open>The subscriptions as the MQTT client keeps them.\<close>

fun subscription_of :: "nat \<Rightarrow> thing_act \<Rightarrow> topic_map list" where
  "subscription_of u (SubscribeT topic f) =
     [\<lparr>tm_topic = topic, tm_message_cb = Some f, tm_event_cb = None, tm_user_data = u, tm_qos = QOS1\<rparr>]"
| "subscription_of u _ = []"

lemma thing_topic_prefix [simp]:
  "prefix (thing_topic pk dn a) (thing_topic pk dn b) \<longleftrightarrow> prefix a b" "thing_topic pk dn a \<noteq> []"
  "b \<noteq> [] \<Longrightarrow> last (thing_topic pk dn b) = last b" "b \<noteq> [] \<Longrightarrow> butlast (thing_topic pk dn b) = thing_topic pk dn (butlast b)"
  by (simp_all add: thing_topic_def butlast_append)

text \<open>Which handler a topic of the device finds.\<close>

definition thing_handler_of :: "string \<Rightarrow> nat option" where
  "thing_handler_of rest =
     map_option snd (find (\<lambda>(f, _). prefix rest f \<or> last f = CHR ''+'' \<and> prefix (butlast f) rest) thing_filters)"

lemma thing_rx:
  assumes names: "bc_product_key cfg = Some pk" "bc_device_name cfg = Some dn"
    and set: "iot_tm_set_mqtt_handler (Some cfg) h = Inr (ret, h', acts)"
    and subs: "sub_topic_maps c = concat (map (subscription_of u) acts)"
  shows "on_client_rx c (thing_topic pk dn rest) payload =
    (case thing_handler_of rest of
       None \<Rightarrow> Inr (c, [CallbackOnWritable], 0)
     | Some f \<Rightarrow> Inr (c, [MessageCallback f (thing_topic pk dn rest) payload u, CallbackOnWritable], 0))"
proof -
  define m where "m = (\<lambda>(rest, f :: nat). \<lparr>tm_topic = thing_topic pk dn rest, tm_message_cb = Some f, tm_event_cb = None, tm_user_data = u, tm_qos = QOS1\<rparr>)"
  have subs': "sub_topic_maps c = map m thing_filters"
    using subs set by (auto simp: thing_subscriptions [OF names] m_def thing_filters_def)
  have ne: "f \<noteq> []" if "(f, i) \<in> set thing_filters" for f i using that by (auto simp: thing_filters_def)
  have fd: "find P (map m fs) = map_option m (find (P \<circ> m) fs)" for P fs by (induction fs) auto
  have "find_subscription (thing_topic pk dn rest) (map m thing_filters) =
      Inr (map_option m (find (\<lambda>(f, _). prefix rest f \<or> last f = CHR ''+'' \<and> prefix (butlast f) rest) thing_filters))"
  proof -
    have "find_subscription (thing_topic pk dn rest) (map m thing_filters) =
      Inr (find (\<lambda>t. prefix (thing_topic pk dn rest) (tm_topic t) \<or>
           last (tm_topic t) = CHR ''+'' \<and> prefix (butlast (tm_topic t)) (thing_topic pk dn rest)) (map m thing_filters))"
      by (rule find_subscription_first) (auto simp: m_def)
    moreover have "find (\<lambda>x. prefix (thing_topic pk dn rest) (tm_topic (m x)) \<or>
           last (tm_topic (m x)) = CHR ''+'' \<and> prefix (butlast (tm_topic (m x))) (thing_topic pk dn rest)) thing_filters =
        find (\<lambda>(f, _). prefix rest f \<or> last f = CHR ''+'' \<and> prefix (butlast f) rest) thing_filters"
      by (rule find_cong) (use ne in \<open>auto simp: m_def\<close>)
    ultimately show ?thesis by (simp add: fd comp_def)
  qed
  then show ?thesis
    by (auto simp: on_client_rx_def subs' thing_handler_of_def m_def split: option.splits)
qed

lemma prefix_count: "prefix xs ys \<Longrightarrow> count_list xs c \<le> count_list ys c"
  by (auto simp: prefix_def count_list_append)

text \<open>A level of a topic as the server fills it in.\<close>

definition proper_level :: "string \<Rightarrow> bool" where
  "proper_level s \<longleftrightarrow> s \<noteq> [] \<and> hd s \<noteq> CHR ''+'' \<and> CHR ''/'' \<notin> set s"

lemma no_handler:
  assumes "proper_level m" "proper_level i" "proper_level uuid"
  shows "thing_handler_of (''/thingmodel/service/'' @ m @ ''/'' @ i @ ''/post/'' @ uuid) = None"
    and "thing_handler_of (''/thingmodel/event/'' @ m @ ''/'' @ i @ ''/post_reply'') = None"
    and "thing_handler_of (''/webshell/cmd/'' @ uuid @ ''/post'') = None"
    and "thing_handler_of (''/delay/'' @ uuid @ ''/post'') = None"
proof -
  obtain a m' b i' e u' where l: "m = a # m'" "a \<noteq> CHR ''+''" "i = b # i'" "b \<noteq> CHR ''+''" "uuid = e # u'" "e \<noteq> CHR ''+''"
    using assms by (cases m; cases i; cases uuid) (auto simp: proper_level_def)
  have "\<not> prefix (m @ CHR ''/'' # i @ ''/post/'' @ uuid) ''preset/propertySet/post''"
  proof
    assume "prefix (m @ CHR ''/'' # i @ ''/post/'' @ uuid) ''preset/propertySet/post''"
    from prefix_count [OF this, of "CHR ''/''"] show False by simp
  qed
  then show "thing_handler_of (''/thingmodel/service/'' @ m @ ''/'' @ i @ ''/post/'' @ uuid) = None"
    using l by (simp add: thing_handler_of_def thing_filters_def)
  show "thing_handler_of (''/thingmodel/event/'' @ m @ ''/'' @ i @ ''/post_reply'') = None"
    "thing_handler_of (''/webshell/cmd/'' @ uuid @ ''/post'') = None" "thing_handler_of (''/delay/'' @ uuid @ ''/post'') = None"
    using l by (simp_all add: thing_handler_of_def thing_filters_def)
qed

text \<open>
  C17. With the subscriptions of the thing model in place, a message on a topic without a wildcard reaches
  its handler; but the calls of services, the replies to events, the commands of the shell and the
  measurements of the delay reach none, since their filters have a wildcard inside.
\<close>

theorem thing_dispatch:
  assumes "bc_product_key cfg = Some pk" "bc_device_name cfg = Some dn"
    and "iot_tm_set_mqtt_handler (Some cfg) h = Inr (ret, h', acts)"
    and "sub_topic_maps c = concat (map (subscription_of u) acts)"
    and "proper_level m" "proper_level i" "proper_level uuid"
  shows "(\<forall>(rest, f)\<in>set thing_filters. CHR ''+'' \<notin> set rest \<longrightarrow>
      on_client_rx c (thing_topic pk dn rest) payload =
        Inr (c, [MessageCallback f (thing_topic pk dn rest) payload u, CallbackOnWritable], 0)) \<and>
    (\<forall>rest\<in>{''/thingmodel/service/'' @ m @ ''/'' @ i @ ''/post/'' @ uuid, ''/thingmodel/event/'' @ m @ ''/'' @ i @ ''/post_reply'',
        ''/webshell/cmd/'' @ uuid @ ''/post'', ''/delay/'' @ uuid @ ''/post''}.
      on_client_rx c (thing_topic pk dn rest) payload = Inr (c, [CallbackOnWritable], 0))"
proof (intro conjI)
  note rx = thing_rx [OF assms(1-4)]
  have "\<forall>(rest, f)\<in>set thing_filters. CHR ''+'' \<notin> set rest \<longrightarrow> thing_handler_of rest = Some f"
    by code_simp
  then show "\<forall>(rest, f)\<in>set thing_filters. CHR ''+'' \<notin> set rest \<longrightarrow> on_client_rx c (thing_topic pk dn rest) payload =
      Inr (c, [MessageCallback f (thing_topic pk dn rest) payload u, CallbackOnWritable], 0)"
    by (auto simp: rx)
  show "\<forall>rest\<in>{''/thingmodel/service/'' @ m @ ''/'' @ i @ ''/post/'' @ uuid, ''/thingmodel/event/'' @ m @ ''/'' @ i @ ''/post_reply'',
        ''/webshell/cmd/'' @ uuid @ ''/post'', ''/delay/'' @ uuid @ ''/post''}.
      on_client_rx c (thing_topic pk dn rest) payload = Inr (c, [CallbackOnWritable], 0)"
    by (simp only: ball_simps rx no_handler [OF assms(5-7)]) simp
qed

definition thing_cfg :: basic_config where
  "thing_cfg = \<lparr>bc_http_host = None, bc_instance_id = None, bc_auth_type = AUTH_DEVICE_SECRET, bc_product_key = Some ''pk'',
     bc_product_secret = None, bc_device_name = Some ''dev'', bc_device_secret = None, bc_verify_ssl = False,
     bc_ssl_ca_cert = None, bc_ssl_ca_path = None\<rparr>"

definition thing_env0 :: "(string \<Rightarrow> json option) \<Rightarrow> thing_env" where
  "thing_env0 parse = \<lparr>te_json = \<lparr>jl_eq = (=), jl_print = (\<lambda>_. ''text''), jl_parse = parse\<rparr>, te_random = 7, te_now = 1000, te_unix_ms = 1000\<rparr>"

definition thing_ctx :: mqtt_ctx where
  "thing_ctx = sample_ctx\<lparr>sub_topic_maps := concat (map (subscription_of 0)
     (map (\<lambda>(rest, f). SubscribeT (thing_topic ''pk'' ''dev'' rest) f) thing_filters))\<rparr>"

lemma thing_dispatch_witness:
  "on_client_rx thing_ctx (thing_topic ''pk'' ''dev'' ''/webshell/cmd/17/post'') [1] = Inr (thing_ctx, [CallbackOnWritable], 0)"
proof -
  have n: "bc_product_key thing_cfg = Some ''pk''" "bc_device_name thing_cfg = Some ''dev''" by (simp_all add: thing_cfg_def)
  show ?thesis
    using thing_dispatch [OF n thing_subscriptions [OF n, of iot_tm_init], of thing_ctx 0 "''m''" "''i''" "''17''" "[1]"]
    by (simp add: thing_ctx_def proper_level_def)
qed

section \<open>Calls of services\<close>

lemma service_topic_parts:
  assumes "\<forall>p\<in>{pk, dn, m, i, uuid}. CHR ''/'' \<notin> set p"
  shows "map (topic_part (thing_topic pk dn (''/thingmodel/service/'' @ m @ ''/'' @ i @ ''/post/'' @ uuid))) [1, 2, 5, 6, 8] = [pk, dn, m, i, uuid]"
proof -
  let ?t = "thing_topic pk dn (''/thingmodel/service/'' @ m @ ''/'' @ i @ ''/post/'' @ uuid)"
  have e: "?t = ''sys'' @ CHR ''/'' # pk @ CHR ''/'' # dn @ CHR ''/'' # ''thingmodel'' @ CHR ''/'' # ''service'' @ CHR ''/'' # m @
      CHR ''/'' # i @ CHR ''/'' # ''post'' @ CHR ''/'' # uuid"
    by (simp add: thing_topic_def)
  have "split_on (CHR ''/'') ?t = [''sys'', pk, dn, ''thingmodel'', ''service'', m, i, ''post'', uuid]"
    unfolding e using assms by (simp del: append.simps)
  then show ?thesis by (simp add: topic_part_def Let_def)
qed

text \<open>
  C31. A call of a service that reaches its handler is given to the user with the names of its topic and
  answered on the topic of the reply with the same names and the same identifier, with the code 0.
\<close>

theorem thing_service_answered:
  assumes names: "th_mqtt h = Some cfg" "bc_product_key cfg = Some pk" "bc_device_name cfg = Some dn" "th_recv h"
    and parts: "\<forall>p\<in>{pk, dn, m, i, uuid}. CHR ''/'' \<notin> set p \<and> length p < 1024"
    and doc: "jl_parse (te_json env) (cstr payload) = Some doc"
    and params: "aws_json_value_get_from_object (jl_eq (te_json env)) (Some doc) ''Params'' = Some params"
  shows "tm_recv_service_call env h (thing_topic pk dn (''/thingmodel/service/'' @ m @ ''/'' @ i @ ''/post/'' @ uuid)) payload =
    (let msg_id = aws_json_get_str (jl_eq (te_json env)) (Some doc) ''ID'';
         version = aws_json_get_str (jl_eq (te_json env)) (Some doc) ''Version''
     in Inr [RecvHandler \<lparr>rv_product_key = pk, rv_device_name = dn,
               rv_data = RecvServiceCall msg_id m i version (jl_print (te_json env) params) uuid\<rparr>,
             PublishT (thing_topic pk dn (''/thingmodel/service/'' @ m @ ''/'' @ i @ ''/post_reply/'' @ uuid))
               (jl_print (te_json env) (service_reply_doc env (iot_tm_msg_service_call_reply_init m i uuid msg_id 0)))])"
proof -
  have "\<forall>p\<in>{pk, dn, m, i, uuid}. CHR ''/'' \<notin> set p" using parts by blast
  note tp = service_topic_parts [OF this]
  show ?thesis
    using assms tp
    by (simp add: tm_recv_service_call_def Let_def parsed_def send_own_def library_msg_def iot_tm_send_def dm_prepare_send_topic_def
        msg_name_def iot_tm_msg_service_call_reply_init_def iot_get_topic_with_3_c_str_param_def print_into_def secure_strlen_def
        tm_payload_def tm_document_def iot_tm_msg_service_call_reply_payload_def from_topic_def member_text_def)
      (simp add: thing_topic_def)
qed

definition service_call_doc :: json where
  "service_call_doc = JObj [(''ID'', JStr ''638c''), (''Version'', JStr ''1.0.0''), (''Params'', JObj [(''n'', JNum 11)])]"

lemma thing_service_answered_witness:
  "tm_recv_service_call (thing_env0 (\<lambda>_. Some service_call_doc)) \<lparr>th_mqtt = Some thing_cfg, th_recv = True\<rparr>
     (thing_topic ''pk'' ''dev'' (''/thingmodel/service/'' @ ''m'' @ ''/'' @ ''i'' @ ''/post/'' @ ''u'')) ''call'' =
   Inr [RecvHandler \<lparr>rv_product_key = ''pk'', rv_device_name = ''dev'', rv_data = RecvServiceCall ''638c'' ''m'' ''i'' ''1.0.0'' ''text'' ''u''\<rparr>,
        PublishT ''sys/pk/dev/thingmodel/service/m/i/post_reply/u'' ''text'']"
proof -
  have d: "jl_parse (te_json (thing_env0 (\<lambda>_. Some service_call_doc))) (cstr ''call'') = Some service_call_doc"
    and p: "aws_json_value_get_from_object (jl_eq (te_json (thing_env0 (\<lambda>_. Some service_call_doc)))) (Some service_call_doc) ''Params'' = Some (JObj [(''n'', JNum 11)])"
    by (simp_all add: thing_env0_def service_call_doc_def aws_json_value_get_from_object_def json_find_def)
  show ?thesis
    by (subst thing_service_answered [OF _ _ _ _ _ d p, of _ thing_cfg])
      (simp_all add: thing_cfg_def thing_env0_def service_call_doc_def aws_json_get_str_def aws_json_value_get_from_object_def json_find_def,
       simp add: thing_topic_def)
qed

section \<open>Documents\<close>

text \<open>A tree in which no object has a key twice.\<close>

fun json_wf :: "key_eq \<Rightarrow> json \<Rightarrow> bool" where
  "json_wf keq (JObj kvs) \<longleftrightarrow> sorted_wrt (\<lambda>a b. \<not> keq (fst a) (fst b)) kvs \<and> (\<forall>kv\<in>set kvs. json_wf keq (snd kv))"
| "json_wf keq (JArr js) \<longleftrightarrow> (\<forall>j\<in>set js. json_wf keq j)"
| "json_wf keq _ \<longleftrightarrow> True"

lemma add_wf:
  assumes "json_wf keq obj" "json_wf keq v" "equivp keq"
  shows "json_wf keq (aws_json_value_add_to_object keq obj k v)"
  using assms by (cases obj) (auto simp: aws_json_value_add_to_object_def sorted_wrt_append json_find_def find_None_iff)

lemma remove_wf:
  assumes "json_wf keq obj"
  shows "json_wf keq (aws_json_value_remove_from_object keq obj k)"
proof (cases obj)
  case (JObj kvs)
  have "sorted_wrt P (remove_first Q kvs)" if "sorted_wrt P kvs" for P Q
    using that by (induction kvs) (auto dest: set_remove_first_subset [THEN subsetD])
  moreover have "set (remove_first (\<lambda>(k', v). keq k' k) kvs) \<subseteq> set kvs" by (rule set_remove_first_subset)
  ultimately show ?thesis using assms JObj by (auto simp: aws_json_value_remove_from_object_def)
qed (use assms in \<open>simp_all add: aws_json_value_remove_from_object_def\<close>)

lemma add_member_wf:
  assumes "json_wf keq obj" "equivp keq"
  shows "json_wf keq (aws_json_add_num_val keq k x obj)" "json_wf keq (aws_json_add_num_val1 keq k x obj)"
    "json_wf keq (aws_json_add_str_val keq k s obj)"
    "(case v of None \<Rightarrow> True | Some j \<Rightarrow> json_wf keq j) \<Longrightarrow> json_wf keq (aws_json_add_json_obj keq k v obj)"
  using assms by (auto simp: aws_json_add_num_val_def aws_json_add_num_val1_def aws_json_add_str_val_def aws_json_add_json_obj_def
    add_wf remove_wf split: option.splits)

text \<open>The messages a program can build.\<close>

inductive built :: "thing_env \<Rightarrow> msg_data \<Rightarrow> bool" for env where
  prop_init: "built env (PropertyPost (iot_property_post_init env))"
| prop_init_id: "built env (PropertyPost (iot_property_post_init_with_id i))"
| prop_num: "built env (PropertyPost p) \<Longrightarrow> built env (PropertyPost (iot_property_post_add_param_num env k x p))"
| prop_str: "built env (PropertyPost p) \<Longrightarrow> built env (PropertyPost (iot_property_post_add_param_string env k s p))"
| prop_json: "built env (PropertyPost p) \<Longrightarrow> built env (PropertyPost (iot_property_post_add_param_json_str env k t p))"
| prop_reply: "built env (PropertySetReply r)"
| shadow_init: "built env (ShadowReport (iot_shadow_post_init_with_id env i'))"
| shadow_num: "built env (ShadowReport q) \<Longrightarrow> built env (ShadowReport (iot_shadow_post_add_param_num env k x q))"
| shadow_str: "built env (ShadowReport q) \<Longrightarrow> built env (ShadowReport (iot_shadow_post_add_param_string env k s q))"
| shadow_json: "built env (ShadowReport q) \<Longrightarrow> built env (ShadowReport (iot_shadow_post_add_param_json_str env k t q))"
| shadow_get: "built env (ShadowGet (iot_shadow_get_init_with_id env i'))"
| shadow_clear: "built env ShadowClear"
| event_init: "built env (EventPost (iot_tm_msg_event_post_init env m i))"
| event_num: "built env (EventPost e) \<Longrightarrow> built env (EventPost (iot_tm_msg_event_post_param_add_num env k x e))"
| event_str: "built env (EventPost e) \<Longrightarrow> built env (EventPost (iot_tm_msg_event_post_param_add_string env k s e))"
| event_json: "built env (EventPost e) \<Longrightarrow> built env (EventPost (iot_tm_msg_event_post_set_prams_json_str env t e))"
| service_init: "built env (ServiceCallReply (iot_tm_msg_service_call_reply_init m i u msg c))"
| service_json: "built env (ServiceCallReply r') \<Longrightarrow> built env (ServiceCallReply (iot_tm_msg_service_call_reply_set_prams_json_str env t r'))"
| custom: "built env (CustomTopic m t)"
| sent: "built env d \<Longrightarrow> tm_document env d = Inr (d', doc) \<Longrightarrow> built env d'"

definition json_opt_wf :: "key_eq \<Rightarrow> json option \<Rightarrow> bool" where
  "json_opt_wf keq j = (case j of None \<Rightarrow> True | Some j \<Rightarrow> json_wf keq j)"

text \<open>The typing of a message: its trees are well formed, and the cleared pointers are what they are.\<close>

fun msg_typed :: "key_eq \<Rightarrow> msg_data \<Rightarrow> bool" where
  "msg_typed keq (PropertyPost p) = json_wf keq (pr_params p)"
| "msg_typed keq (ShadowReport q) = (json_wf keq (sp_params q) \<and> json_wf keq (sp_report q))"
| "msg_typed keq (ShadowGet q) = (sg_root q = None)"
| "msg_typed keq (EventPost e) = (json_opt_wf keq (ev_params e) \<and> ev_root e = None)"
| "msg_typed keq (ServiceCallReply r) = (json_opt_wf keq (sr_params r) \<and> json_opt_wf keq (sr_root r))"
| "msg_typed keq _ = True"

definition doc_wf :: "key_eq \<Rightarrow> json + char list \<Rightarrow> bool" where
  "doc_wf keq doc = (case doc of Inl j \<Rightarrow> json_wf keq j | Inr _ \<Rightarrow> True)"

definition parser_wf :: "json_lib \<Rightarrow> bool" where
  "parser_wf lib \<longleftrightarrow> equivp (jl_eq lib) \<and> (\<forall>s. json_opt_wf (jl_eq lib) (jl_parse lib s))"

lemma document_typed:
  assumes "msg_typed (jl_eq (te_json env)) d" "parser_wf (te_json env)" "tm_document env d = Inr (d', doc)"
  shows "msg_typed (jl_eq (te_json env)) d' \<and> doc_wf (jl_eq (te_json env)) doc"
  using assms
  by (cases d)
    (auto simp: tm_document_def parser_wf_def doc_wf_def json_opt_wf_def add_member_wf iot_property_post_payload_def
      iot_property_set_post_reply_payload_def iot_shadow_post_payload_def iot_shadow_get_payload_def iot_shadow_clear_payload_def
      iot_tm_msg_event_post_payload_def iot_tm_msg_service_call_reply_payload_def service_reply_doc_def Let_def
      split: option.splits if_splits)

lemma built_typed:
  assumes "built env d" "parser_wf (te_json env)"
  shows "msg_typed (jl_eq (te_json env)) d"
  using assms(1)
proof induction
  case (sent d d' doc)
  then show ?case using document_typed assms(2) by blast
qed (use assms(2) in \<open>auto simp: parser_wf_def json_opt_wf_def add_member_wf iot_property_post_init_def iot_property_post_init_with_id_def
  iot_property_post_add_param_num_def iot_property_post_add_param_string_def iot_property_post_add_param_json_str_def
  iot_property_post_add_param_object_def timed_param_def iot_shadow_post_init_with_id_def iot_shadow_post_add_param_num_def
  iot_shadow_post_add_param_string_def iot_shadow_post_add_param_json_str_def iot_shadow_post_add_param_object_def
  iot_shadow_get_init_with_id_def iot_tm_msg_event_post_init_def iot_tm_msg_event_post_param_add_num_def
  iot_tm_msg_event_post_param_add_string_def iot_tm_msg_event_post_set_prams_json_str_def iot_tm_msg_service_call_reply_init_def
  iot_tm_msg_service_call_reply_set_prams_json_str_def split: option.splits\<close>)



section \<open>What is never sent\<close>

fun uncleared :: "msg_data \<Rightarrow> bool" where
  "uncleared (ShadowGet q) = (sg_root q = None)"
| "uncleared (EventPost e) = (ev_root e = None)"
| "uncleared _ = True"

lemma built_uncleared: "built env d \<Longrightarrow> uncleared d"
proof (induction rule: built.induct)
  case (sent d d' doc)
  then show ?case
    by (cases d) (auto simp: tm_document_def iot_shadow_get_payload_def iot_tm_msg_event_post_payload_def iot_shadow_post_payload_def
        Let_def c_bind_Inr_iff split: option.splits)
qed (simp_all add: iot_shadow_get_init_with_id_def iot_tm_msg_event_post_init_def iot_tm_msg_event_post_param_add_num_def
  iot_tm_msg_event_post_param_add_string_def iot_tm_msg_event_post_set_prams_json_str_def)

text \<open>
  C38. No event and no request for the shadow can be sent: the structure is not cleared when it is created,
  and sending reads the pointer to the document before anything has been written to it.
\<close>

theorem thing_event_never_sent:
  assumes "built env d" "(\<exists>e. d = EventPost e) \<or> (\<exists>q. d = ShadowGet q)"
    and "th_mqtt h = Some cfg" "dm_prepare_send_topic cfg msg = Inr topic" "ms_data msg = d"
  shows "iot_tm_send env (Some h) (Some msg) = Inl Uninit"
  using assms built_uncleared [OF assms(1)]
  by (auto simp: iot_tm_send_def tm_payload_def tm_document_def iot_shadow_get_payload_def iot_tm_msg_event_post_payload_def)

lemma thing_event_never_sent_witness:
  "iot_tm_send (thing_env0 (\<lambda>_. None)) (Some \<lparr>th_mqtt = Some thing_cfg, th_recv = False\<rparr>)
     (Some (library_msg (EventPost (iot_tm_msg_event_post_init (thing_env0 (\<lambda>_. None)) ''m'' ''e'')))) = Inl Uninit"
  by (rule thing_event_never_sent [OF event_init, where topic = "''sys/pk/dev/thingmodel/event/m/e/post''" and cfg = thing_cfg])
    (simp_all add: library_msg_def dm_prepare_send_topic_def msg_name_def thing_cfg_def iot_get_topic_with_2_c_str_param_def
      print_into_def secure_strlen_def iot_tm_msg_event_post_init_def)

section \<open>Properties\<close>

definition add_params :: "thing_env \<Rightarrow> (string \<times> json option) list \<Rightarrow> property_post \<Rightarrow> property_post" where
  "add_params env = fold (\<lambda>(k, v). iot_property_post_add_param_object env k v)"

lemma find_app: "find P (xs @ ys) = (case find P xs of Some x \<Rightarrow> Some x | None \<Rightarrow> find P ys)"
  by (induction xs) auto

lemma add_params_kvs:
  assumes "equivp (jl_eq (te_json env))"
  shows "\<exists>kvs. add_params env ps (iot_property_post_init_with_id i) = \<lparr>pr_id = i, pr_params = JObj kvs\<rparr> \<and>
    (\<forall>k. json_find (jl_eq (te_json env)) kvs k = map_option (\<lambda>(_, v). timed_param env v) (find (\<lambda>(k', _). jl_eq (te_json env) k' k) ps))"
proof (induction ps rule: rev_induct)
  case Nil
  show ?case by (simp add: add_params_def iot_property_post_init_with_id_def json_find_def)
next
  case (snoc a ps)
  let ?keq = "jl_eq (te_json env)"
  obtain k0 v0 where a: "a = (k0, v0)" by (cases a)
  obtain kvs where kvs: "add_params env ps (iot_property_post_init_with_id i) = \<lparr>pr_id = i, pr_params = JObj kvs\<rparr>"
    and look: "json_find ?keq kvs k = map_option (\<lambda>(_, v). timed_param env v) (find (\<lambda>(k', _). ?keq k' k) ps)" for k
    using snoc by blast
  show ?case
  proof (cases "json_find ?keq kvs k0")
    case None
    then show ?thesis
      using kvs look a by (auto simp: add_params_def iot_property_post_add_param_object_def aws_json_add_json_obj_def
        aws_json_value_add_to_object_def json_find_app find_app split: option.splits)
  next
    case (Some j)
    then obtain b where b: "find (\<lambda>(k', _). ?keq k' k0) ps = Some b" using look [of k0] by auto
    have "find (\<lambda>(k', _). ?keq k' k) ps \<noteq> None" if "?keq k0 k" for k
    proof -
      obtain k1 v1 where "(k1, v1) \<in> set ps" "?keq k1 k0" using b by (cases b) (auto simp: find_Some_iff, metis nth_mem)
      then show ?thesis using that equivp_transp [OF assms, of k1 k0 k] by (auto simp: find_None_iff)
    qed
    then show ?thesis
      using Some kvs look a by (auto simp: add_params_def iot_property_post_add_param_object_def aws_json_add_json_obj_def
        aws_json_value_add_to_object_def find_app split: option.splits)
  qed
qed

text \<open>
  C35. A posted property is read back from the document that is published: under its key is the first value
  that was added with it, with the time; a later value for a key that the comparison identifies is lost.
\<close>

theorem thing_property_roundtrip:
  fixes env
  assumes "equivp (jl_eq (te_json env))"
    and "\<forall>a\<in>{''id'', ''version'', ''params'', ''value'', ''time''}. \<forall>b\<in>{''id'', ''version'', ''params'', ''value'', ''time''}. jl_eq (te_json env) a b \<longrightarrow> a = b"
  shows "let get = aws_json_value_get_from_object (jl_eq (te_json env));
             doc = iot_property_post_payload env (add_params env ps (iot_property_post_init_with_id i))
         in get (Some doc) ''id'' = Some (JStr i) \<and>
            get (get (Some doc) ''params'') k = map_option (\<lambda>(_, v). timed_param env v) (find (\<lambda>(k', _). jl_eq (te_json env) k' k) ps) \<and>
            get (Some (timed_param env v)) ''value'' = v \<and>
            get (Some (timed_param env v)) ''time'' = Some (JNum (time_value (te_unix_ms env)))"
proof -
  have refl: "jl_eq (te_json env) x x" for x using assms(1) by (rule equivp_reflp)
  obtain kvs where kvs: "add_params env ps (iot_property_post_init_with_id i) = \<lparr>pr_id = i, pr_params = JObj kvs\<rparr>"
    and look: "\<forall>k. json_find (jl_eq (te_json env)) kvs k = map_option (\<lambda>(_, v). timed_param env v) (find (\<lambda>(k', _). jl_eq (te_json env) k' k) ps)"
    using add_params_kvs [OF assms(1)] by blast
  have doc: "iot_property_post_payload env \<lparr>pr_id = i, pr_params = JObj kvs\<rparr> =
      JObj [(''id'', JStr i), (''version'', JStr SDK_VERSION), (''params'', JObj kvs)]"
    using assms(2) by (auto simp: iot_property_post_payload_def Let_def aws_json_add_json_obj_def aws_json_add_str_val_def
      aws_json_value_add_to_object_def json_find_def)
  have val: "timed_param env v = JObj ((case v of None \<Rightarrow> [] | Some j \<Rightarrow> [(''value'', j)]) @ [(''time'', JNum (time_value (te_unix_ms env)))])"
    using assms(2) by (auto simp: timed_param_def aws_json_add_json_obj_def aws_json_add_num_val_def aws_json_value_add_to_object_def
      aws_json_value_remove_from_object_def json_find_def split: option.splits)
  show ?thesis
    using assms(2) by (auto simp: kvs doc look val refl aws_json_value_get_from_object_def json_find_def [of _ "_ # _"] split: option.splits)
qed

lemma thing_property_roundtrip_witness:
  "let env = thing_env0 (\<lambda>_. None); get = aws_json_value_get_from_object (=);
       doc = iot_property_post_payload env (add_params env [(''k'', Some (JNum 1)), (''k'', Some (JNum 2))] (iot_property_post_init_with_id ''7''))
   in get (get (get (Some doc) ''params'') ''k'') ''value'' = Some (JNum 1)"
proof -
  let ?env = "thing_env0 (\<lambda>_. None)"
  have e: "jl_eq (te_json ?env) = (=)" by (simp add: thing_env0_def)
  have "equivp (jl_eq (te_json ?env))" by (simp add: e identity_equivp)
  from thing_property_roundtrip [OF this, of "[(''k'', Some (JNum 1)), (''k'', Some (JNum 2))]" "''7''" "''k''" "Some (JNum 1)"]
  show ?thesis by (simp add: e Let_def)
qed

end
