(* ===== verification/Mcp.thy ===== *)
theory Mcp
  imports IotUtils Sse ChatResponse
begin

text \<open>
  The client of the model context protocol, \<^verbatim>\<open>src/mcp_client.c\<close>: JSON-RPC requests are posted over
  HTTP, the answers arrive as server-sent events on another connection. A thread handles the events;
  a caller polls what it leaves, every ten milliseconds. What the receiver gets while the caller
  sleeps once, or waits for a request to be posted, is one batch of events. The outcome of a posted
  request is not looked at, so that posting is only recorded. The integer cJSON keeps beside an
  item is an argument.
\<close>

section \<open>State\<close>

record mcp_context =
  mc_initialize_request_id :: int
  mc_initialized :: bool
  mc_endpoint_got :: bool
  mc_endpoint :: "string option"
  mc_request_id :: int
  mc_result :: "string option"
  mc_address :: string
  mc_port :: int

text \<open>The context with the counter all clients share and the requests posted so far, in order.\<close>

record mcp_state =
  mx_ctx :: mcp_context
  mx_counter :: nat
  mx_posts :: "(string \<times> string) list"

record mcp_env =
  me_json :: json_lib
  me_int :: "json \<Rightarrow> int"

definition mcp_receiver_init :: "string \<Rightarrow> int \<Rightarrow> (mcp_context \<times> string) c_result" where
  "mcp_receiver_init ip port =
     c_bind (print_into 127 (''http://'' @ ip @ '':'' @ dec_int port @ ''/sse'')) (\<lambda>url.
     Inr (\<lparr>mc_initialize_request_id = 0, mc_initialized = False, mc_endpoint_got = False, mc_endpoint = None,
           mc_request_id = 0, mc_result = None, mc_address = ip, mc_port = port\<rparr>, url))"

definition get_jsonrpc_requestID :: "mcp_state \<Rightarrow> mcp_state \<times> nat" where
  "get_jsonrpc_requestID s =
     (if mx_counter s < 65535 then (s\<lparr>mx_counter := mx_counter s + 1\<rparr>, mx_counter s) else (s\<lparr>mx_counter := 1\<rparr>, 1))"

section \<open>Requests\<close>

definition LATEST_PROTOCOL_VERSION :: string where "LATEST_PROTOCOL_VERSION = ''2025-03-26''"

definition build_initialize_request :: "nat \<Rightarrow> json" where
  "build_initialize_request i =
     JObj [(''jsonrpc'', JStr ''2.0''), (''id'', JNum (of_nat i)), (''method'', JStr ''initialize''),
       (''params'', JObj [(''protocolVersion'', JStr LATEST_PROTOCOL_VERSION),
         (''clientInfo'', JObj [(''name'', JStr ''onesdk''), (''version'', JStr ''1.0.0'')]), (''capabilities'', JObj [])])]"

definition build_initialize_notification_request :: json where
  "build_initialize_notification_request =
     JObj [(''jsonrpc'', JStr ''2.0''), (''method'', JStr ''notifications/initialized''), (''params'', JObj [])]"

definition build_tools_list_request :: "nat \<Rightarrow> json" where
  "build_tools_list_request i = JObj [(''jsonrpc'', JStr ''2.0''), (''id'', JNum (of_nat i)), (''method'', JStr ''tools/list'')]"

text \<open>Arguments that are no JSON are left out.\<close>

definition build_tool_call_request :: "json_lib \<Rightarrow> nat \<Rightarrow> string \<Rightarrow> string \<Rightarrow> json" where
  "build_tool_call_request lib i name arguments =
     JObj [(''jsonrpc'', JStr ''2.0''), (''id'', JNum (of_nat i)), (''method'', JStr ''tools/call''),
       (''params'', JObj ((''name'', JStr name) # item_member ''arguments'' (jl_parse lib arguments)))]"

text \<open>The address of the endpoint, printed into an array without a bound; the server chose its path.\<close>

definition endpoint_url :: "nat \<Rightarrow> mcp_context \<Rightarrow> string c_result" where
  "endpoint_url n ctx =
     (case mc_endpoint ctx of
        None \<Rightarrow> Inl NullDeref
      | Some path \<Rightarrow> print_into n (''http://'' @ mc_address ctx @ '':'' @ dec_int (mc_port ctx) @ path))"

definition mcp_post :: "mcp_env \<Rightarrow> nat \<Rightarrow> json \<Rightarrow> mcp_state \<Rightarrow> mcp_state c_result" where
  "mcp_post env n doc s =
     c_bind (endpoint_url n (mx_ctx s)) (\<lambda>url.
     Inr (s\<lparr>mx_posts := mx_posts s @ [(url, jl_print (me_json env) doc)]\<rparr>))"

section \<open>The receiver\<close>

text \<open>
  Both are called by the receiver itself, with its lock held: nothing can change while they wait for
  the endpoint.
\<close>

definition mcp_client_init :: "mcp_env \<Rightarrow> mcp_state \<Rightarrow> mcp_state c_result" where
  "mcp_client_init env s =
     (if \<not> mc_endpoint_got (mx_ctx s) then Inr s
      else case get_jsonrpc_requestID s of (s, i) \<Rightarrow>
        mcp_post env 127 (build_initialize_request i) (s\<lparr>mx_ctx := (mx_ctx s)\<lparr>mc_initialize_request_id := int i\<rparr>\<rparr>))"

definition mcp_send_initialize_notification :: "mcp_env \<Rightarrow> mcp_state \<Rightarrow> mcp_state c_result" where
  "mcp_send_initialize_notification env s =
     (if \<not> mc_endpoint_got (mx_ctx s) then Inr s
      else mcp_post env 127 build_initialize_notification_request (fst (get_jsonrpc_requestID s)))"

definition parse_c :: "mcp_env \<Rightarrow> string option \<Rightarrow> json option" where
  "parse_c env text = (case text of None \<Rightarrow> None | Some t \<Rightarrow> jl_parse (me_json env) t)"

definition sse_parse_request_id :: "mcp_env \<Rightarrow> string option \<Rightarrow> int" where
  "sse_parse_request_id env data =
     (case get_item (jl_eq (me_json env)) (parse_c env data) ''id'' of None \<Rightarrow> -1 | Some j \<Rightarrow> me_int env j)"

definition sse_get_response_result :: "mcp_env \<Rightarrow> string option \<Rightarrow> string option" where
  "sse_get_response_result env data =
     map_option (jl_print (me_json env)) (get_item (jl_eq (me_json env)) (parse_c env data) ''result'')"

text \<open>
  \<^verbatim>\<open>mcp_packet_handle\<close>. Until the endpoint is known the name of the event is compared without a test.
  What the notification returns is ignored.
\<close>

definition mcp_packet_handle :: "mcp_env \<Rightarrow> sse_seen \<Rightarrow> mcp_state \<Rightarrow> mcp_state c_result" where
  "mcp_packet_handle env packet s =
     (case packet of (event, data) \<Rightarrow>
        if \<not> mc_endpoint_got (mx_ctx s) \<and> event = None then Inl NullDeref
        else if \<not> mc_endpoint_got (mx_ctx s) \<and> event = Some ''endpoint'' then
          (case data of
             None \<Rightarrow> Inl NullDeref
           | Some d \<Rightarrow> mcp_client_init env (s\<lparr>mx_ctx := (mx_ctx s)\<lparr>mc_endpoint := Some d, mc_endpoint_got := True\<rparr>\<rparr>))
        else
          let i = sse_parse_request_id env data;
              s = s\<lparr>mx_ctx := (mx_ctx s)\<lparr>mc_request_id := i\<rparr>\<rparr>
          in c_bind (if \<not> mc_initialized (mx_ctx s) \<and> i = mc_initialize_request_id (mx_ctx s)
               then c_bind (mcp_send_initialize_notification env s) (\<lambda>s. Inr (s\<lparr>mx_ctx := (mx_ctx s)\<lparr>mc_initialized := True\<rparr>\<rparr>))
               else Inr s)
             (\<lambda>s. Inr (s\<lparr>mx_ctx := (mx_ctx s)\<lparr>mc_result := sse_get_response_result env data\<rparr>\<rparr>)))"

fun mcp_receive :: "mcp_env \<Rightarrow> sse_seen list \<Rightarrow> mcp_state \<Rightarrow> mcp_state c_result" where
  "mcp_receive env [] s = Inr s"
| "mcp_receive env (p # ps) s = c_bind (mcp_packet_handle env p s) (mcp_receive env ps)"

section \<open>Waiting\<close>

text \<open>
  The loops of the callers: sleep, count down ten milliseconds, look again. When the script of batches
  has ended nothing arrives any more, and the time runs out.
\<close>

fun mcp_wait ::
  "mcp_env \<Rightarrow> (mcp_context \<Rightarrow> bool) \<Rightarrow> sse_seen list list \<Rightarrow> int \<Rightarrow> mcp_state \<Rightarrow> (mcp_state \<times> int \<times> sse_seen list list) c_result" where
  "mcp_wait env ready [] t s =
     (if ready (mx_ctx s) \<or> t \<le> 0 then Inr (s, t, []) else Inr (s, t - 10 * ((t + 9) div 10), []))"
| "mcp_wait env ready (b # bs) t s =
     (if ready (mx_ctx s) \<or> t \<le> 0 then Inr (s, t, b # bs)
      else c_bind (mcp_receive env b s) (mcp_wait env ready bs (t - 10)))"

text \<open>What arrives while a request is posted.\<close>

definition mcp_during :: "mcp_env \<Rightarrow> sse_seen list list \<Rightarrow> mcp_state \<Rightarrow> (mcp_state \<times> sse_seen list list) c_result" where
  "mcp_during env bs s = (case bs of [] \<Rightarrow> Inr (s, []) | b # bs \<Rightarrow> c_bind (mcp_receive env b s) (\<lambda>s. Inr (s, bs)))"

section \<open>Tools\<close>

record tool =
  tl_name :: string
  tl_description :: string
  tl_input_schema_raw :: "string option"

text \<open>Strings are copied with \<^verbatim>\<open>strdup\<close> without a test; a missing schema is printed as a null pointer.\<close>

definition tool_of_json :: "mcp_env \<Rightarrow> json \<Rightarrow> tool c_result" where
  "tool_of_json env j =
     (let keq = jl_eq (me_json env) in
      c_bind (dup_untested (get_item keq (Some j) ''name'')) (\<lambda>n.
      c_bind (dup_untested (get_item keq (Some j) ''description'')) (\<lambda>d.
      Inr \<lparr>tl_name = n, tl_description = d,
        tl_input_schema_raw = map_option (jl_print (me_json env)) (get_item keq (Some j) ''inputSchema'')\<rparr>)))"

definition mcp_tools_list_parse :: "mcp_env \<Rightarrow> string option \<Rightarrow> tool list option c_result" where
  "mcp_tools_list_parse env text =
     (case get_item (jl_eq (me_json env)) (parse_c env text) ''tools'' of
        Some (JArr js) \<Rightarrow> c_bind (c_map (tool_of_json env) js) (\<lambda>ts. Inr (Some ts))
      | _ \<Rightarrow> Inr None)"

record tool_result =
  tr_isError :: bool
  tr_content :: "(string \<times> string) list"

text \<open>The children cJSON counts: the elements of an array, the values of an object, else none.\<close>

definition children :: "json \<Rightarrow> json list" where
  "children j = (case j of JArr js \<Rightarrow> js | JObj kvs \<Rightarrow> map snd kvs | _ \<Rightarrow> [])"

definition content_of_json :: "mcp_env \<Rightarrow> json \<Rightarrow> (string \<times> string) c_result" where
  "content_of_json env j =
     c_bind (dup_untested (get_item (jl_eq (me_json env)) (Some j) ''type'')) (\<lambda>t.
     c_bind (dup_untested (get_item (jl_eq (me_json env)) (Some j) ''text'')) (\<lambda>x. Inr (t, x)))"

definition mcp_tool_result_parse :: "mcp_env \<Rightarrow> string option \<Rightarrow> tool_result option c_result" where
  "mcp_tool_result_parse env text =
     (let keq = jl_eq (me_json env); root = parse_c env text in
      case get_item keq root ''content'' of
        None \<Rightarrow> Inr None
      | Some content \<Rightarrow>
          c_bind (c_map (content_of_json env) (children content)) (\<lambda>cs.
          Inr (Some \<lparr>tr_isError = (case get_item keq root ''isError'' of None \<Rightarrow> False | Some j \<Rightarrow> me_int env j \<noteq> 0),
                     tr_content = cs\<rparr>)))"

definition mcp_get_tool_result_text :: "tool_result \<Rightarrow> string option" where
  "mcp_get_tool_result_text r =
     (if tr_content r = [] then None
      else Some (fold (\<lambda>(ty, x) acc. if ty = ''text'' then acc @ '' '' @ x else acc) (tr_content r) []))"

text \<open>
  The two calls. \<^verbatim>\<open>expired\<close> is the test after the loop: equality with zero in one, at most zero in
  the other.
\<close>

definition mcp_call ::
  "mcp_env \<Rightarrow> (int \<Rightarrow> bool) \<Rightarrow> (nat \<Rightarrow> json) \<Rightarrow> (mcp_env \<Rightarrow> string option \<Rightarrow> 'r option c_result) \<Rightarrow>
    sse_seen list list \<Rightarrow> mcp_state \<Rightarrow> (mcp_state \<times> 'r option) c_result" where
  "mcp_call env expired doc parse bs s =
     c_bind (mcp_wait env mc_endpoint_got bs 5000 s) (\<lambda>(s, t, bs).
     if \<not> mc_endpoint_got (mx_ctx s) then Inr (s, None)
     else
       c_bind (mcp_wait env mc_initialized bs t s) (\<lambda>(s, t, bs).
       if \<not> mc_initialized (mx_ctx s) then Inr (s, None)
       else case get_jsonrpc_requestID s of (s, i) \<Rightarrow>
         c_bind (mcp_post env 255 (doc i) s) (\<lambda>s.
         c_bind (mcp_during env bs s) (\<lambda>(s, bs).
         c_bind (mcp_wait env (\<lambda>ctx. mc_request_id ctx = int i) bs t s) (\<lambda>(s, t, bs).
         if expired t then Inr (s, None)
         else if mc_request_id (mx_ctx s) = int i then c_bind (parse env (mc_result (mx_ctx s))) (\<lambda>r. Inr (s, r))
         else Inr (s, None))))))"

definition mcp_tool_call :: "mcp_env \<Rightarrow> string \<Rightarrow> string \<Rightarrow> sse_seen list list \<Rightarrow> mcp_state \<Rightarrow> (mcp_state \<times> tool_result option) c_result" where
  "mcp_tool_call env name arguments =
     mcp_call env (\<lambda>t. t = 0) (\<lambda>i. build_tool_call_request (me_json env) i name arguments) mcp_tool_result_parse"

definition mcp_tools_list :: "mcp_env \<Rightarrow> sse_seen list list \<Rightarrow> mcp_state \<Rightarrow> (mcp_state \<times> tool list option) c_result" where
  "mcp_tools_list env = mcp_call env (\<lambda>t. t \<le> 0) build_tools_list_request mcp_tools_list_parse"

end
