(* ===== verification/McpProps.thy ===== *)
theory McpProps
  imports Mcp
begin

text \<open>
  The properties of the client of the model context protocol: what a call returns for every script of
  events, the handshake over all sequences of events, and the identifiers.
\<close>

section \<open>What the receiver leaves\<close>

text \<open>The identifier and the result of the last event of a batch replace what was there.\<close>

definition seen :: "mcp_env \<Rightarrow> sse_seen list \<Rightarrow> int \<times> string option \<Rightarrow> int \<times> string option" where
  "seen env b r = (if b = [] then r else (sse_parse_request_id env (snd (last b)), sse_get_response_result env (snd (last b))))"

definition left :: "mcp_context \<Rightarrow> int \<times> string option" where
  "left ctx = (mc_request_id ctx, mc_result ctx)"

definition leave :: "int \<times> string option \<Rightarrow> mcp_state \<Rightarrow> mcp_state" where
  "leave r s = s\<lparr>mx_ctx := (mx_ctx s)\<lparr>mc_request_id := fst r, mc_result := snd r\<rparr>\<rparr>"

lemma leave_simps [simp]:
  "left (mx_ctx (leave r s)) = r" "mc_request_id (mx_ctx (leave r s)) = fst r" "mc_result (mx_ctx (leave r s)) = snd r"
  "mc_endpoint_got (mx_ctx (leave r s)) = mc_endpoint_got (mx_ctx s)" "mc_initialized (mx_ctx (leave r s)) = mc_initialized (mx_ctx s)"
  "leave r (leave r' s) = leave r s" "leave (left (mx_ctx s)) s = s"
  by (simp_all add: leave_def left_def)

definition handshaken :: "mcp_state \<Rightarrow> bool" where
  "handshaken s \<longleftrightarrow> mc_endpoint_got (mx_ctx s) \<and> mc_initialized (mx_ctx s)"

lemma handshaken_leave [simp]: "handshaken (leave r s) = handshaken s"
  by (simp add: handshaken_def)

lemma packet_handshaken:
  "handshaken s \<Longrightarrow> mcp_packet_handle env p s = Inr (leave (seen env [p] (left (mx_ctx s))) s)"
  by (cases p) (simp add: mcp_packet_handle_def handshaken_def Let_def leave_def seen_def)

lemma receive_handshaken:
  "handshaken s \<Longrightarrow> mcp_receive env ps s = Inr (leave (seen env ps (left (mx_ctx s))) s)"
  by (induction ps arbitrary: s) (simp_all add: packet_handshaken seen_def)

definition after :: "mcp_env \<Rightarrow> sse_seen list list \<Rightarrow> int \<times> string option \<Rightarrow> int \<times> string option" where
  "after env bs r = fold (seen env) bs r"

lemma after_simps [simp]: "after env [] r = r" "after env (b # bs) r = after env bs (seen env b r)"
  by (simp_all add: after_def)

section \<open>Waiting\<close>

lemma wait_ready: "ready (mx_ctx s) \<or> t \<le> 0 \<Longrightarrow> mcp_wait env ready bs t s = Inr (s, t, bs)"
  by (cases bs) auto

text \<open>The answer is there after \<open>k\<close> sleeps and not before.\<close>

lemma wait_found:
  assumes "handshaken s" "10 * int k < t"
    and "\<forall>j<k. fst (after env (take j bs) (left (mx_ctx s))) \<noteq> i" "fst (after env (take k bs) (left (mx_ctx s))) = i"
  shows "mcp_wait env (\<lambda>ctx. mc_request_id ctx = i) bs t s =
    Inr (leave (after env (take k bs) (left (mx_ctx s))) s, t - 10 * int k, drop k bs)"
  using assms
proof (induction k arbitrary: bs t s)
  case 0
  then show ?case by (simp add: wait_ready left_def leave_def)
next
  case (Suc k)
  have no: "mc_request_id (mx_ctx s) \<noteq> i" using Suc.prems(3) by (auto simp: left_def dest: spec [of _ 0])
  show ?case
  proof (cases bs)
    case Nil
    then show ?thesis using Suc.prems(3,4) no by (simp add: left_def)
  next
    case (Cons b bs')
    let ?s = "leave (seen env b (left (mx_ctx s))) s"
    have "mcp_wait env (\<lambda>ctx. mc_request_id ctx = i) bs' (t - 10) ?s =
        Inr (leave (after env (take k bs') (left (mx_ctx ?s))) ?s, t - 10 - 10 * int k, drop k bs')"
    proof (rule Suc.IH)
      show "\<forall>j<k. fst (after env (take j bs') (left (mx_ctx ?s))) \<noteq> i"
        using Suc.prems(3) by (auto simp: Cons dest: spec [of _ "Suc _"])
    qed (use Suc.prems in \<open>simp_all add: Cons\<close>)
    then show ?thesis using Suc.prems no by (simp add: Cons receive_handshaken)
  qed
qed

lemma wait_timeout:
  assumes "handshaken s" "0 \<le> t" "10 dvd t"
    and "\<forall>j. 10 * int j < t \<longrightarrow> fst (after env (take j bs) (left (mx_ctx s))) \<noteq> i"
  shows "\<exists>s' bs'. mcp_wait env (\<lambda>ctx. mc_request_id ctx = i) bs t s = Inr (s', 0, bs')"
  using assms
proof (induction bs arbitrary: t s)
  case Nil
  have t: "t - 10 * ((t + 9) div 10) = 0" using Nil.prems(2,3) by (auto elim: dvdE)
  show ?case
  proof (cases "t = 0")
    case False
    then have "mc_request_id (mx_ctx s) \<noteq> i" using Nil.prems(2) Nil.prems(4) [rule_format, of 0] by (simp add: left_def)
    then show ?thesis using t False Nil.prems(2) by simp
  qed simp
next
  case (Cons b bs)
  show ?case
  proof (cases "t = 0")
    case True
    then show ?thesis by simp
  next
    case False
    then have t: "10 \<le> t" using Cons.prems(2,3) by (auto elim: dvdE)
    then have no: "mc_request_id (mx_ctx s) \<noteq> i" using Cons.prems(4) by (auto simp: left_def dest: spec [of _ 0])
    let ?s = "leave (seen env b (left (mx_ctx s))) s"
    have "\<exists>s' bs'. mcp_wait env (\<lambda>ctx. mc_request_id ctx = i) bs (t - 10) ?s = Inr (s', 0, bs')"
    proof (rule Cons.IH)
      show "\<forall>j. 10 * int j < t - 10 \<longrightarrow> fst (after env (take j bs) (left (mx_ctx ?s))) \<noteq> i"
      proof (intro allI impI)
        fix j assume "10 * int j < t - 10"
        then show "fst (after env (take j bs) (left (mx_ctx ?s))) \<noteq> i" using Cons.prems(4) [rule_format, of "Suc j"] by simp
      qed
      show "10 dvd t - 10" using Cons.prems(3) by simp
    qed (use Cons.prems t in simp_all)
    then show ?thesis using False Cons.prems no by (simp add: receive_handshaken)
  qed
qed

section \<open>Calls\<close>

lemma during_handshaken:
  "handshaken s \<Longrightarrow> mcp_during env bs s = Inr (leave (after env (take 1 bs) (left (mx_ctx s))) s, drop 1 bs)"
  by (cases bs) (simp_all add: mcp_during_def receive_handshaken)

lemma post_handshaken:
  "mc_endpoint (mx_ctx s) = Some path \<Longrightarrow> length (''http://'' @ mc_address (mx_ctx s) @ '':'' @ dec_int (mc_port (mx_ctx s)) @ path) \<le> n \<Longrightarrow>
    mcp_post env n doc s = Inr (s\<lparr>mx_posts := mx_posts s @
      [(''http://'' @ mc_address (mx_ctx s) @ '':'' @ dec_int (mc_port (mx_ctx s)) @ path, jl_print (me_json env) doc)]\<rparr>)"
  by (simp add: mcp_post_def endpoint_url_def print_into_def)

definition reachable_endpoint :: "mcp_state \<Rightarrow> bool" where
  "reachable_endpoint s \<longleftrightarrow> handshaken s \<and>
     (\<exists>path. mc_endpoint (mx_ctx s) = Some path \<and> length (''http://'' @ mc_address (mx_ctx s) @ '':'' @ dec_int (mc_port (mx_ctx s)) @ path) \<le> 255)"

lemma call_steps:
  assumes "reachable_endpoint s" "(s1, i) = get_jsonrpc_requestID s"
  obtains s2 where "mx_ctx s2 = mx_ctx s" "mx_counter s2 = mx_counter s1"
    "mcp_call env expired doc parse bs s =
      c_bind (mcp_wait env (\<lambda>ctx. mc_request_id ctx = int i) (drop 1 bs) 5000 (leave (after env (take 1 bs) (left (mx_ctx s))) s2))
       (\<lambda>(s, t, bs). if expired t then Inr (s, None)
          else if mc_request_id (mx_ctx s) = int i then c_bind (parse env (mc_result (mx_ctx s))) (\<lambda>r. Inr (s, r)) else Inr (s, None))"
proof -
  have hs: "handshaken s" using assms(1) by (simp add: reachable_endpoint_def)
  have ctx: "mx_ctx s1 = mx_ctx s" using assms(2) by (auto simp: get_jsonrpc_requestID_def split: if_splits)
  obtain s2 where s2: "mcp_post env 255 (doc i) s1 = Inr s2" "mx_ctx s2 = mx_ctx s1" "mx_counter s2 = mx_counter s1"
    using assms(1) post_handshaken [of s1] by (auto simp: reachable_endpoint_def ctx)
  have hs2: "handshaken s2" using hs by (simp add: handshaken_def s2 ctx)
  have "mcp_call env expired doc parse bs s =
      c_bind (mcp_wait env (\<lambda>ctx. mc_request_id ctx = int i) (drop 1 bs) 5000 (leave (after env (take 1 bs) (left (mx_ctx s))) s2))
       (\<lambda>(s, t, bs). if expired t then Inr (s, None)
          else if mc_request_id (mx_ctx s) = int i then c_bind (parse env (mc_result (mx_ctx s))) (\<lambda>r. Inr (s, r)) else Inr (s, None))"
    using hs during_handshaken [OF hs2, of env bs]
    by (simp add: mcp_call_def handshaken_def wait_ready assms(2) [symmetric] s2 ctx)
  then show thesis by (intro that) (simp_all add: s2 ctx)
qed

lemma call_outcome:
  assumes r: "reachable_endpoint s" and i: "(s1, i) = get_jsonrpc_requestID s" and e: "expired 0" "\<And>t. 0 < t \<Longrightarrow> \<not> expired t"
  shows "(\<exists>k<500. fst (after env (take (Suc k) bs) (left (mx_ctx s))) = int i) \<Longrightarrow>
      (\<exists>k<500. fst (after env (take (Suc k) bs) (left (mx_ctx s))) = int i \<and>
        (\<forall>j<k. fst (after env (take (Suc j) bs) (left (mx_ctx s))) \<noteq> int i) \<and>
        (\<exists>s'. reachable_endpoint s' \<and> mx_counter s' = mx_counter s1 \<and>
           left (mx_ctx s') = after env (take (Suc k) bs) (left (mx_ctx s)) \<and> mcp_call env expired doc parse bs s =
           c_bind (parse env (snd (after env (take (Suc k) bs) (left (mx_ctx s))))) (\<lambda>r. Inr (s', r))))"
    and "(\<forall>k<500. fst (after env (take (Suc k) bs) (left (mx_ctx s))) \<noteq> int i) \<Longrightarrow>
      (\<exists>s'. mcp_call env expired doc parse bs s = Inr (s', None))"
proof -
  obtain s2 where s2: "mx_ctx s2 = mx_ctx s" "mx_counter s2 = mx_counter s1"
    and call: "mcp_call env expired doc parse bs s =
      c_bind (mcp_wait env (\<lambda>ctx. mc_request_id ctx = int i) (drop 1 bs) 5000 (leave (after env (take 1 bs) (left (mx_ctx s))) s2))
       (\<lambda>(s, t, bs). if expired t then Inr (s, None)
          else if mc_request_id (mx_ctx s) = int i then c_bind (parse env (mc_result (mx_ctx s))) (\<lambda>r. Inr (s, r)) else Inr (s, None))"
    using call_steps [OF r i] by blast
  let ?s = "leave (after env (take 1 bs) (left (mx_ctx s))) s2"
  have hs: "handshaken ?s" using r by (simp add: reachable_endpoint_def handshaken_def s2)
  have re: "reachable_endpoint (leave x s2)" and co: "mx_counter (leave x s2) = mx_counter s1" for x
    using r by (simp_all add: reachable_endpoint_def handshaken_def leave_def s2)
  have split: "after env (take j (drop 1 bs)) (left (mx_ctx ?s)) = after env (take (Suc j) bs) (left (mx_ctx s))" for j
    by (cases bs) (simp_all add: s2)
  show "\<exists>k<500. fst (after env (take (Suc k) bs) (left (mx_ctx s))) = int i \<and>
        (\<forall>j<k. fst (after env (take (Suc j) bs) (left (mx_ctx s))) \<noteq> int i) \<and>
        (\<exists>s'. reachable_endpoint s' \<and> mx_counter s' = mx_counter s1 \<and>
           left (mx_ctx s') = after env (take (Suc k) bs) (left (mx_ctx s)) \<and> mcp_call env expired doc parse bs s =
           c_bind (parse env (snd (after env (take (Suc k) bs) (left (mx_ctx s))))) (\<lambda>r. Inr (s', r)))"
    if ex: "\<exists>k<500. fst (after env (take (Suc k) bs) (left (mx_ctx s))) = int i"
  proof -
    define P where "P k \<longleftrightarrow> fst (after env (take (Suc k) bs) (left (mx_ctx s))) = int i" for k
    define k where "k = (LEAST k. P k)"
    obtain k0 where k0: "k0 < 500" "P k0" using ex unfolding P_def by blast
    have k: "P k" unfolding k_def by (rule LeastI [of P, OF k0(2)])
    have kl: "\<not> P j" if "j < k" for j using that unfolding k_def by (rule not_less_Least)
    have "k \<le> k0" unfolding k_def by (rule Least_le [of P, OF k0(2)])
    then have k500: "k < 500" using k0(1) by (rule le_less_trans)
    have "mcp_wait env (\<lambda>ctx. mc_request_id ctx = int i) (drop 1 bs) 5000 ?s =
        Inr (leave (after env (take k (drop 1 bs)) (left (mx_ctx ?s))) ?s, 5000 - 10 * int k, drop k (drop 1 bs))"
      by (rule wait_found [OF hs]) (use k kl k500 in \<open>simp_all only: split P_def, simp_all\<close>)
    then have "\<exists>s'. reachable_endpoint s' \<and> mx_counter s' = mx_counter s1 \<and>
        left (mx_ctx s') = after env (take (Suc k) bs) (left (mx_ctx s)) \<and> mcp_call env expired doc parse bs s =
        c_bind (parse env (snd (after env (take (Suc k) bs) (left (mx_ctx s))))) (\<lambda>r. Inr (s', r))"
      using k k500 e(2) [of "5000 - 10 * int k"] unfolding call P_def by (auto simp: split [simplified] s2 re co intro!: exI [of _ "leave _ s2"])
    then show ?thesis using k kl k500 unfolding P_def by blast
  qed
  show "\<exists>s'. mcp_call env expired doc parse bs s = Inr (s', None)"
    if no: "\<forall>k<500. fst (after env (take (Suc k) bs) (left (mx_ctx s))) \<noteq> int i"
  proof -
    have "\<exists>s' bs'. mcp_wait env (\<lambda>ctx. mc_request_id ctx = int i) (drop 1 bs) 5000 ?s = Inr (s', 0, bs')"
      by (rule wait_timeout [OF hs]) (use no in \<open>simp_all only: split, simp_all\<close>)
    then obtain s' bs' where "mcp_wait env (\<lambda>ctx. mc_request_id ctx = int i) (drop 1 bs) 5000 ?s = Inr (s', 0, bs')" by blast
    then show ?thesis unfolding call by (simp add: e(1))
  qed
qed

text \<open>What the receiver has left when the caller looks for the \<open>k\<close>-th time after posting.\<close>

definition answer_seen :: "mcp_env \<Rightarrow> sse_seen list list \<Rightarrow> mcp_state \<Rightarrow> nat \<Rightarrow> int \<times> string option" where
  "answer_seen env bs s k = after env (take (Suc k) bs) (left (mx_ctx s))"

lemma tool_call_outcome:
  assumes "reachable_endpoint s" "(s1, i) = get_jsonrpc_requestID s"
  shows "(\<forall>k<500. fst (answer_seen env bs s k) \<noteq> int i) \<longrightarrow> (\<exists>s'. mcp_tool_call env name arguments bs s = Inr (s', None))"
    and "k < 500 \<Longrightarrow> fst (answer_seen env bs s k) = int i \<Longrightarrow> (\<forall>j<k. fst (answer_seen env bs s j) \<noteq> int i) \<Longrightarrow>
      (\<exists>s'. reachable_endpoint s' \<and> mx_counter s' = mx_counter s1 \<and> left (mx_ctx s') = answer_seen env bs s k \<and>
        mcp_tool_call env name arguments bs s = c_bind (mcp_tool_result_parse env (snd (answer_seen env bs s k))) (\<lambda>r. Inr (s', r)))"
proof -
  note out = call_outcome [OF assms, of "\<lambda>t. t = 0" env bs "\<lambda>i. build_tool_call_request (me_json env) i name arguments" mcp_tool_result_parse]
  show "(\<forall>k<500. fst (answer_seen env bs s k) \<noteq> int i) \<longrightarrow> (\<exists>s'. mcp_tool_call env name arguments bs s = Inr (s', None))"
    using out(2) by (simp add: mcp_tool_call_def answer_seen_def)
  assume k: "k < 500" "fst (answer_seen env bs s k) = int i" "\<forall>j<k. fst (answer_seen env bs s j) \<noteq> int i"
  then have "\<exists>k<500. fst (after env (take (Suc k) bs) (left (mx_ctx s))) = int i" by (auto simp: answer_seen_def)
  from out(1) [OF _ _ this] obtain k' s' where k': "fst (answer_seen env bs s k') = int i" "\<forall>j<k'. fst (answer_seen env bs s j) \<noteq> int i"
    and s': "reachable_endpoint s'" "mx_counter s' = mx_counter s1" "left (mx_ctx s') = answer_seen env bs s k'"
    "mcp_tool_call env name arguments bs s = c_bind (mcp_tool_result_parse env (snd (answer_seen env bs s k'))) (\<lambda>r. Inr (s', r))"
    by (auto simp: mcp_tool_call_def answer_seen_def)
  have "k' = k" using k(2,3) k' by (metis linorder_neqE_nat)
  with s' show "\<exists>s'. reachable_endpoint s' \<and> mx_counter s' = mx_counter s1 \<and> left (mx_ctx s') = answer_seen env bs s k \<and>
        mcp_tool_call env name arguments bs s = c_bind (mcp_tool_result_parse env (snd (answer_seen env bs s k))) (\<lambda>r. Inr (s', r))"
    by blast
qed


text \<open>A session with a server that answers every event with the same result.\<close>

definition mcp_env0 :: mcp_env where
  "mcp_env0 = \<lparr>me_json = \<lparr>jl_eq = (=),
      jl_print = (\<lambda>_. ''r''),
      jl_parse = (\<lambda>t. if t = ''r'' then Some (JObj [(''content'', JArr [])]) else Some (JObj [(''id'', JNum (of_nat (length t))), (''result'', JNull)]))\<rparr>,
    me_int = (\<lambda>j. case j of JNum x \<Rightarrow> \<lfloor>x\<rfloor> | _ \<Rightarrow> 0)\<rparr>"

definition mcp_state0 :: "nat \<Rightarrow> mcp_state" where
  "mcp_state0 c = \<lparr>mx_ctx = \<lparr>mc_initialize_request_id = 1, mc_initialized = True, mc_endpoint_got = True, mc_endpoint = Some ''/m'',
      mc_request_id = 0, mc_result = None, mc_address = ''a'', mc_port = 80\<rparr>, mx_counter = c, mx_posts = []\<rparr>"

lemma reachable_state0: "reachable_endpoint (mcp_state0 c)"
  by (simp add: reachable_endpoint_def handshaken_def mcp_state0_def dec_int_def dec_nat.simps)

lemma answers0:
  "fst (answer_seen mcp_env0 [[(None, Some ''ab'')], [(None, Some ''abc'')]] (mcp_state0 c) 0) = 2"
  "fst (answer_seen mcp_env0 [[(None, Some ''ab'')], [(None, Some ''abc'')]] (mcp_state0 c) 1) = 3"
  "snd (answer_seen mcp_env0 [[(None, Some ''ab'')], [(None, Some ''abc'')]] (mcp_state0 c) 1) = Some ''r''"
  by (simp_all add: answer_seen_def seen_def sse_parse_request_id_def sse_get_response_result_def parse_c_def get_item_def
      json_find_def mcp_env0_def)


section \<open>Time\<close>

lemma wait_tens:
  assumes "0 \<le> t" "10 dvd t" "mcp_wait env ready bs t s = Inr (s', t', bs')"
  shows "0 \<le> t' \<and> 10 dvd t'"
  using assms
proof (induction bs arbitrary: t s)
  case Nil
  moreover have "t - 10 * ((t + 9) div 10) = 0" using Nil.prems(1,2) by (auto elim: dvdE)
  ultimately show ?case by (auto split: if_splits)
next
  case (Cons b bs)
  show ?case
  proof (cases "ready (mx_ctx s) \<or> t \<le> 0")
    case True
    then show ?thesis using Cons.prems by auto
  next
    case False
    then have t: "0 \<le> t - 10" "10 dvd t - 10" using Cons.prems(2) by (auto elim: dvdE)
    obtain s1 where "mcp_wait env ready bs (t - 10) s1 = Inr (s', t', bs')"
      using Cons.prems(3) False by (auto simp: c_bind_Inr_iff)
    then show ?thesis by (rule Cons.IH [OF t])
  qed
qed

text \<open>Two continuations of a wait that agree for times from zero up.\<close>

lemma wait_cong:
  assumes "0 \<le> t" "10 dvd t" "\<And>s t bs. 0 \<le> t \<Longrightarrow> 10 dvd t \<Longrightarrow> f (s, t, bs) = g (s, t, bs)"
  shows "c_bind (mcp_wait env ready bs t s) f = c_bind (mcp_wait env ready bs t s) g"
proof (cases "mcp_wait env ready bs t s")
  case (Inr r)
  obtain s' t' bs' where r: "r = (s', t', bs')" by (cases r)
  have "0 \<le> t' \<and> 10 dvd t'" by (rule wait_tens [OF assms(1,2) Inr [unfolded r]])
  then show ?thesis using assms(3) by (simp add: Inr r)
qed simp

lemma bind_same: "(\<And>r. f r = g r) \<Longrightarrow> c_bind x f = c_bind x g"
  by (cases x) simp_all

lemma call_expired_agree:
  "mcp_call env (\<lambda>t. t = 0) doc parse bs s = mcp_call env (\<lambda>t. t \<le> 0) doc parse bs s"
proof -
  have neg: "(t \<le> 0) = (t = 0)" if "0 \<le> t" for t :: int using that by linarith
  show ?thesis
    unfolding mcp_call_def
  proof (rule wait_cong, goal_cases)
    case (3 s t bs)
    show ?case
      by (simp only: prod.case, rule if_cong [OF refl refl], rule wait_cong [OF 3], simp only: prod.case,
          rule if_cong [OF refl refl], rule prod.case_cong [OF refl], rule bind_same, rule bind_same, simp only: split_beta)
        (rule wait_cong, assumption, assumption, simp add: neg)
  qed simp_all
qed

text \<open>
  The two calls wait alike: that the one tests the time that is left for zero and the other for at most zero
  makes no difference, since the time only ever loses ten milliseconds.
\<close>

theorem mcp_timeouts_agree:
  "mcp_tool_call env name arguments bs s =
    mcp_call env (\<lambda>t. t \<le> 0) (\<lambda>i. build_tool_call_request (me_json env) i name arguments) mcp_tool_result_parse bs s"
  unfolding mcp_tool_call_def by (rule call_expired_agree)

section \<open>Identifiers\<close>

lemma repeated_call:
  assumes "reachable_endpoint s" "mx_counter s = 1" "left (mx_ctx s) = (1, r)" "mcp_tool_result_parse env r = Inr x"
  shows "\<exists>s'. mcp_tool_call env name arguments [] s = Inr (s', x)"
proof -
  have i: "(s\<lparr>mx_counter := 2\<rparr>, 1) = get_jsonrpc_requestID s" using assms(2) by (simp add: get_jsonrpc_requestID_def)
  have "answer_seen env [] s 0 = (1, r)" by (simp add: answer_seen_def assms(3))
  then show ?thesis using tool_call_outcome(2) [OF assms(1) i, of 0 env "[]"] assms(4) by auto
qed

text \<open>
  C26. When the counter reaches its end, two requests in a row get the identifier one: the second call takes the answer
  of the first for its own, whatever tool it names, although nothing has arrived for it.
\<close>

theorem mcp_repeated_id:
  assumes "reachable_endpoint s" "65535 \<le> mx_counter s"
    and "k < 500" "fst (answer_seen env bs s k) = 1" "\<forall>j<k. fst (answer_seen env bs s j) \<noteq> 1"
    and "mcp_tool_result_parse env (snd (answer_seen env bs s k)) = Inr x"
  shows "\<exists>s'. mcp_tool_call env name arguments bs s = Inr (s', x) \<and>
    (\<forall>name' arguments'. \<exists>s''. mcp_tool_call env name' arguments' [] s' = Inr (s'', x))"
proof -
  have i: "(s\<lparr>mx_counter := 1\<rparr>, 1) = get_jsonrpc_requestID s" using assms(2) by (simp add: get_jsonrpc_requestID_def)
  obtain s' where s': "reachable_endpoint s'" "mx_counter s' = 1" "left (mx_ctx s') = answer_seen env bs s k"
    "mcp_tool_call env name arguments bs s = Inr (s', x)"
    using tool_call_outcome(2) [OF assms(1) i assms(3), of env bs name arguments] assms(4-6) by auto
  have "left (mx_ctx s') = (1, snd (answer_seen env bs s k))" using s'(3) assms(4) by (metis prod.collapse)
  from repeated_call [OF s'(1,2) this assms(6)] s'(4) show ?thesis by blast
qed

lemma mcp_repeated_id_witness:
  "\<exists>s' s'' x. mcp_tool_call mcp_env0 ''t'' ''{}'' [[(None, Some ''a'')]] (mcp_state0 65535) = Inr (s', x) \<and>
     mcp_tool_call mcp_env0 ''another'' ''{}'' [] s' = Inr (s'', x)"
proof -
  have a: "answer_seen mcp_env0 [[(None, Some ''a'')]] (mcp_state0 65535) 0 = (1, Some ''r'')"
    by (simp add: answer_seen_def seen_def sse_parse_request_id_def sse_get_response_result_def parse_c_def get_item_def
        json_find_def mcp_env0_def)
  have p: "mcp_tool_result_parse mcp_env0 (Some ''r'') = Inr (Some \<lparr>tr_isError = False, tr_content = []\<rparr>)"
    by (simp add: mcp_tool_result_parse_def parse_c_def get_item_def json_find_def mcp_env0_def children_def)
  have c: "(65535::nat) \<le> mx_counter (mcp_state0 65535)" by (simp add: mcp_state0_def)
  show ?thesis
    using mcp_repeated_id [OF reachable_state0 c, of 0 mcp_env0 "[[(None, Some ''a'')]]" _ "''t''" "''{}''"]
    by (simp add: a p) blast
qed

section \<open>The handshake\<close>

text \<open>The events a receiver handles from its start, none of which carries the identifier zero.\<close>

definition mcp_fresh :: "nat \<Rightarrow> mcp_state \<Rightarrow> bool" where
  "mcp_fresh c s \<longleftrightarrow> (\<exists>ip port ctx url. mcp_receiver_init ip port = Inr (ctx, url) \<and> s = \<lparr>mx_ctx = ctx, mx_counter = c, mx_posts = []\<rparr>)"

definition mcp_event :: "mcp_env \<Rightarrow> mcp_state \<Rightarrow> sse_seen \<Rightarrow> mcp_state \<Rightarrow> bool" where
  "mcp_event env s p s' \<longleftrightarrow> mcp_packet_handle env p s = Inr s' \<and> sse_parse_request_id env (snd p) \<noteq> 0"

definition first_id :: "nat \<Rightarrow> nat" where "first_id c = (if c < 65535 then c else 1)"

definition posted :: "mcp_state \<Rightarrow> string list" where "posted s = map snd (mx_posts s)"

text \<open>What has been posted when the handshake is in this state.\<close>

definition handshake_posts :: "mcp_env \<Rightarrow> nat \<Rightarrow> bool \<Rightarrow> bool \<Rightarrow> string list" where
  "handshake_posts env c got notified =
     (if got then jl_print (me_json env) (build_initialize_request (first_id c)) #
        (if notified then [jl_print (me_json env) build_initialize_notification_request] else []) else [])"

definition handshake_inv :: "mcp_env \<Rightarrow> nat \<Rightarrow> mcp_state \<Rightarrow> bool" where
  "handshake_inv env c s \<longleftrightarrow> posted s = handshake_posts env c (mc_endpoint_got (mx_ctx s)) (mc_initialized (mx_ctx s)) \<and>
     (mc_initialized (mx_ctx s) \<longrightarrow> mc_endpoint_got (mx_ctx s)) \<and>
     (\<not> mc_endpoint_got (mx_ctx s) \<longrightarrow> mx_counter s = c \<and> mc_initialize_request_id (mx_ctx s) = 0)"

lemma requestID_ctx [simp]:
  "mx_ctx (fst (get_jsonrpc_requestID s)) = mx_ctx s" "mx_posts (fst (get_jsonrpc_requestID s)) = mx_posts s"
  "snd (get_jsonrpc_requestID s) = first_id (mx_counter s)"
  by (simp_all add: get_jsonrpc_requestID_def first_id_def)

lemma post_keeps:
  "mcp_post env n doc s = Inr s' \<Longrightarrow> mx_ctx s' = mx_ctx s \<and> mx_counter s' = mx_counter s \<and> posted s' = posted s @ [jl_print (me_json env) doc]"
  by (auto simp: mcp_post_def c_bind_Inr_iff posted_def)

lemma client_init_step:
  assumes "mcp_client_init env s = Inr s'" "mc_endpoint_got (mx_ctx s)"
  shows "mc_endpoint_got (mx_ctx s')" "mc_initialized (mx_ctx s') = mc_initialized (mx_ctx s)"
    "posted s' = posted s @ [jl_print (me_json env) (build_initialize_request (first_id (mx_counter s)))]"
  using assms by (auto simp: mcp_client_init_def split_beta posted_def dest: post_keeps)

lemma notification_step:
  assumes "mcp_send_initialize_notification env s = Inr s'" "mc_endpoint_got (mx_ctx s)"
  shows "mx_ctx s' = mx_ctx s" "posted s' = posted s @ [jl_print (me_json env) build_initialize_notification_request]"
  using assms by (auto simp: mcp_send_initialize_notification_def posted_def dest: post_keeps)

text \<open>The three things an event does.\<close>

lemma packet_cases [consumes 1, case_names endpoint_event initialized_event other_event]:
  assumes "mcp_packet_handle env p s = Inr s'"
  obtains d where "\<not> mc_endpoint_got (mx_ctx s)" "p = (Some ''endpoint'', Some d)"
      "mcp_client_init env (s\<lparr>mx_ctx := (mx_ctx s)\<lparr>mc_endpoint := Some d, mc_endpoint_got := True\<rparr>\<rparr>) = Inr s'"
  | s1 where "\<not> mc_initialized (mx_ctx s)" "sse_parse_request_id env (snd p) = mc_initialize_request_id (mx_ctx s)"
      "mcp_send_initialize_notification env (s\<lparr>mx_ctx := (mx_ctx s)\<lparr>mc_request_id := sse_parse_request_id env (snd p)\<rparr>\<rparr>) = Inr s1"
      "s' = leave (sse_parse_request_id env (snd p), sse_get_response_result env (snd p)) (s1\<lparr>mx_ctx := (mx_ctx s1)\<lparr>mc_request_id := sse_parse_request_id env (snd p), mc_initialized := True\<rparr>\<rparr>)"
  | "mc_initialized (mx_ctx s) \<or> sse_parse_request_id env (snd p) \<noteq> mc_initialize_request_id (mx_ctx s)"
      "s' = leave (sse_parse_request_id env (snd p), sse_get_response_result env (snd p)) s"
proof -
  have ctx: "mx_ctx s1 = (mx_ctx s)\<lparr>mc_request_id := i\<rparr>"
    if "mcp_send_initialize_notification env (s\<lparr>mx_ctx := (mx_ctx s)\<lparr>mc_request_id := i\<rparr>\<rparr>) = Inr s1" for i s1
    using that by (auto simp: mcp_send_initialize_notification_def dest: post_keeps split: if_splits)
  obtain event data where p: "p = (event, data)" by (cases p)
  let ?i = "sse_parse_request_id env data"
  let ?s = "s\<lparr>mx_ctx := (mx_ctx s)\<lparr>mc_request_id := ?i\<rparr>\<rparr>"
  show thesis
  proof (cases "\<not> mc_endpoint_got (mx_ctx s) \<and> (event = None \<or> event = Some ''endpoint'')")
    case True
    then obtain d where "event = Some ''endpoint''" "data = Some d"
      "mcp_client_init env (s\<lparr>mx_ctx := (mx_ctx s)\<lparr>mc_endpoint := Some d, mc_endpoint_got := True\<rparr>\<rparr>) = Inr s'"
      using assms by (auto simp: mcp_packet_handle_def p split: option.splits)
    then show thesis using that(1) True p by blast
  next
    case False
    then have h: "c_bind (if \<not> mc_initialized (mx_ctx s) \<and> ?i = mc_initialize_request_id (mx_ctx s)
        then c_bind (mcp_send_initialize_notification env ?s) (\<lambda>s. Inr (s\<lparr>mx_ctx := (mx_ctx s)\<lparr>mc_initialized := True\<rparr>\<rparr>)) else Inr ?s)
        (\<lambda>s. Inr (s\<lparr>mx_ctx := (mx_ctx s)\<lparr>mc_result := sse_get_response_result env data\<rparr>\<rparr>)) = Inr s'"
      using assms by (auto simp: mcp_packet_handle_def p Let_def)
    show thesis
    proof (cases "\<not> mc_initialized (mx_ctx s) \<and> ?i = mc_initialize_request_id (mx_ctx s)")
      case True
      then obtain s1 where s1: "mcp_send_initialize_notification env ?s = Inr s1"
        "s' = s1\<lparr>mx_ctx := (mx_ctx s1)\<lparr>mc_initialized := True, mc_result := sse_get_response_result env data\<rparr>\<rparr>"
        using h by (auto simp: c_bind_Inr_iff)
      show thesis by (rule that(2) [of s1]) (use True s1 in \<open>simp_all add: p leave_def ctx [OF s1(1)]\<close>)
    next
      case False
      then have "s' = leave (?i, sse_get_response_result env data) s" using h by (simp add: leave_def split: if_splits)
      then show thesis using that(3) False p by simp
    qed
  qed
qed

lemma handshake_step:
  assumes "handshake_inv env c s" "mcp_event env s p s'"
  shows "handshake_inv env c s'"
proof -
  have h: "mcp_packet_handle env p s = Inr s'" and nz: "sse_parse_request_id env (snd p) \<noteq> 0"
    using assms(2) by (simp_all add: mcp_event_def)
  from h show ?thesis
  proof (cases rule: packet_cases)
    case (endpoint_event d)
    then show ?thesis using client_init_step [OF endpoint_event(3)] assms(1)
      by (auto simp: handshake_inv_def handshake_posts_def posted_def)
  next
    case (initialized_event s1)
    have got: "mc_endpoint_got (mx_ctx s)" using initialized_event(2) nz assms(1) by (auto simp: handshake_inv_def)
    then show ?thesis using notification_step [OF initialized_event(3)] initialized_event(1,4) assms(1)
      by (auto simp: handshake_inv_def handshake_posts_def posted_def leave_def)
  next
    case other_event
    then show ?thesis using assms(1) by (auto simp: handshake_inv_def posted_def leave_def)
  qed
qed

lemma handshake_init: "mcp_fresh c s \<Longrightarrow> handshake_inv env c s"
  by (auto simp: mcp_fresh_def mcp_receiver_init_def c_bind_Inr_iff handshake_inv_def handshake_posts_def posted_def)

interpretation mcp_receiver: invariant_system "mcp_fresh c" "mcp_event env" "handshake_inv env c" for c env
  by unfold_locales (erule handshake_init, erule handshake_step)

text \<open>
  C18. The handshake, after any events of which none carries the identifier zero: nothing is posted before the
  endpoint is known, then the request to initialize, once, with the first identifier; and the client
  counts as initialized exactly when the notification has been posted after it.
\<close>

theorem mcp_handshake:
  assumes "reaches (mcp_fresh c) (mcp_event env) ps s"
  shows "map snd (mx_posts s) = handshake_posts env c (mc_endpoint_got (mx_ctx s)) (mc_initialized (mx_ctx s)) \<and>
    (mc_initialized (mx_ctx s) \<longrightarrow> mc_endpoint_got (mx_ctx s))"
  using mcp_receiver.reaches_inv [OF assms] by (simp add: handshake_inv_def posted_def)

lemma dec_80: "dec_int 80 = ''80''"
  by (simp add: dec_int_def dec_nat.simps) code_simp

definition mcp_state1 :: mcp_state where
  "mcp_state1 = \<lparr>mx_ctx = fst (sum.projr (mcp_receiver_init ''a'' 80)), mx_counter = 1, mx_posts = []\<rparr>"

lemma fresh_state1: "mcp_fresh 1 mcp_state1"
  unfolding mcp_fresh_def
  by (intro exI [of _ "''a''"] exI [of _ 80]) (simp add: mcp_state1_def mcp_receiver_init_def print_into_def dec_80)

text \<open>The endpoint, then the answer to the first request.\<close>

lemma handshake_run:
  "\<exists>s. reaches (mcp_fresh 1) (mcp_event mcp_env0) [(Some ''endpoint'', Some ''/m''), (Some ''message'', Some ''x'')] s \<and>
    mc_endpoint_got (mx_ctx s) \<and> mc_initialized (mx_ctx s)"
proof -
  note defs = mcp_event_def mcp_packet_handle_def mcp_state1_def mcp_receiver_init_def print_into_def dec_80
    mcp_client_init_def mcp_send_initialize_notification_def get_jsonrpc_requestID_def mcp_post_def endpoint_url_def Let_def
    sse_parse_request_id_def parse_c_def get_item_def json_find_def mcp_env0_def
  have "\<exists>s. mcp_event mcp_env0 mcp_state1 (Some ''endpoint'', Some ''/m'') s \<and> \<not> mc_initialized (mx_ctx s) \<and>
      mc_endpoint_got (mx_ctx s) \<and> mc_endpoint (mx_ctx s) = Some ''/m'' \<and> mc_initialize_request_id (mx_ctx s) = 1 \<and>
      mc_address (mx_ctx s) = ''a'' \<and> mc_port (mx_ctx s) = 80"
    by (simp add: defs)
  then obtain s where s: "mcp_event mcp_env0 mcp_state1 (Some ''endpoint'', Some ''/m'') s" "\<not> mc_initialized (mx_ctx s)"
    "mc_endpoint_got (mx_ctx s)" "mc_endpoint (mx_ctx s) = Some ''/m''" "mc_initialize_request_id (mx_ctx s) = 1"
    "mc_address (mx_ctx s) = ''a''" "mc_port (mx_ctx s) = 80" by blast
  have "\<exists>s'. mcp_event mcp_env0 s (Some ''message'', Some ''x'') s' \<and> mc_endpoint_got (mx_ctx s') \<and> mc_initialized (mx_ctx s')"
    using s(2-) by (simp add: defs)
  then obtain s' where "mcp_event mcp_env0 s (Some ''message'', Some ''x'') s'" "mc_endpoint_got (mx_ctx s')" "mc_initialized (mx_ctx s')"
    by blast
  then show ?thesis
    using reaches.step [OF reaches.step [OF reaches.start, of "mcp_fresh 1" mcp_state1 "mcp_event mcp_env0", OF fresh_state1 s(1)]] by auto
qed

lemma mcp_handshake_witness:
  "\<exists>s. reaches (mcp_fresh 1) (mcp_event mcp_env0) [(Some ''endpoint'', Some ''/m''), (Some ''message'', Some ''x'')] s \<and>
     map snd (mx_posts s) = [''r'', ''r'']"
proof -
  obtain s where s: "reaches (mcp_fresh 1) (mcp_event mcp_env0) [(Some ''endpoint'', Some ''/m''), (Some ''message'', Some ''x'')] s"
    "mc_endpoint_got (mx_ctx s)" "mc_initialized (mx_ctx s)" using handshake_run by blast
  then show ?thesis using mcp_handshake [OF s(1)] by (auto simp: handshake_posts_def mcp_env0_def)
qed

text \<open>Without that condition: the identifier before the request is sent is zero.\<close>

definition unnotified :: "mcp_env \<Rightarrow> nat \<Rightarrow> mcp_state \<Rightarrow> bool" where
  "unnotified env c s \<longleftrightarrow> mc_initialized (mx_ctx s) \<and> posted s = handshake_posts env c (mc_endpoint_got (mx_ctx s)) False \<and>
     (\<not> mc_endpoint_got (mx_ctx s) \<longrightarrow> mx_counter s = c)"

lemma unnotified_receive:
  "unnotified env c s \<Longrightarrow> mcp_receive env ps s = Inr s' \<Longrightarrow> unnotified env c s'"
proof (induction ps arbitrary: s)
  case (Cons p ps)
  obtain s1 where h: "mcp_packet_handle env p s = Inr s1" and rest: "mcp_receive env ps s1 = Inr s'"
    using Cons.prems(2) by (auto simp: c_bind_Inr_iff)
  from h have "unnotified env c s1"
  proof (cases rule: packet_cases)
    case (endpoint_event d)
    then show ?thesis using client_init_step [OF endpoint_event(3)] Cons.prems(1)
      by (auto simp: unnotified_def handshake_posts_def posted_def)
  next
    case (initialized_event s1')
    then show ?thesis using Cons.prems(1) by (simp add: unnotified_def)
  next
    case other_event
    then show ?thesis using Cons.prems(1) by (auto simp: unnotified_def posted_def leave_def)
  qed
  then show ?case by (rule Cons.IH [OF _ rest])
qed simp

text \<open>
  A first message whose identifier is zero, or no number, is taken for the answer to a request that has not
  been sent: the client counts as initialized and the notification is never posted.
\<close>

theorem mcp_zero_id_handshake:
  assumes "mcp_fresh c s" "e \<noteq> ''endpoint''" "sse_parse_request_id env data = 0"
    and "mcp_receive env ((Some e, data) # ps) s = Inr s'"
  shows "mc_initialized (mx_ctx s') \<and>
    map snd (mx_posts s') = (if mc_endpoint_got (mx_ctx s') then [jl_print (me_json env) (build_initialize_request (first_id c))] else [])"
proof -
  obtain s1 where h: "mcp_packet_handle env (Some e, data) s = Inr s1" and rest: "mcp_receive env ps s1 = Inr s'"
    using assms(4) by (auto simp: c_bind_Inr_iff)
  have "unnotified env c s1"
    using h assms(1-3) by (auto simp: mcp_packet_handle_def Let_def c_bind_Inr_iff mcp_fresh_def mcp_receiver_init_def
        mcp_send_initialize_notification_def unnotified_def posted_def handshake_posts_def)
  from unnotified_receive [OF this rest] show ?thesis
    by (auto simp: unnotified_def posted_def handshake_posts_def)
qed

lemma mcp_zero_id_handshake_witness:
  "\<exists>s'. mcp_receive mcp_env0 [(Some ''message'', Some []), (Some ''endpoint'', Some ''/m'')] mcp_state1 = Inr s' \<and>
     mc_initialized (mx_ctx s') \<and> map snd (mx_posts s') = [''r'']"
proof -
  have "\<exists>s'. mcp_receive mcp_env0 [(Some ''message'', Some []), (Some ''endpoint'', Some ''/m'')] mcp_state1 = Inr s' \<and> mc_endpoint_got (mx_ctx s')"
    by (simp add: mcp_packet_handle_def mcp_state1_def mcp_receiver_init_def print_into_def dec_80
        mcp_client_init_def mcp_send_initialize_notification_def get_jsonrpc_requestID_def mcp_post_def endpoint_url_def Let_def
        sse_parse_request_id_def parse_c_def get_item_def json_find_def mcp_env0_def)
  then obtain s' where s': "mcp_receive mcp_env0 ((Some ''message'', Some []) # [(Some ''endpoint'', Some ''/m'')]) mcp_state1 = Inr s'"
    "mc_endpoint_got (mx_ctx s')" by blast
  have "sse_parse_request_id mcp_env0 (Some []) = 0"
    by (simp add: sse_parse_request_id_def parse_c_def get_item_def json_find_def mcp_env0_def)
  from mcp_zero_id_handshake [OF fresh_state1 _ this s'(1)] s' show ?thesis by (auto simp: mcp_env0_def)
qed

end
