(* ===== verification/Log.thy ===== *)
theory Log
  imports IotUtils
begin

text \<open>
  Logs: \<^verbatim>\<open>src/iot/log/iot_log.c\<close>, which formats a line, prints it and hands it to a function that
  saves it, and \<^verbatim>\<open>src/iot/log/iot_log_report.c\<close>, which reports lines to the cloud. The one context of the
  program is a global pointer. The text of a line after its format, the date and the time are
  arguments. Locks are recorded as they are taken and released, also twice; whether they do anything is
  decided by the build of libwebsockets.
\<close>

section \<open>State\<close>

record log_obj =
  lo_time :: "64 word"
  lo_level_str :: string
  lo_level :: nat
  lo_type :: string
  lo_content :: string

text \<open>The function that saves: the one that reports to the cloud, or one of the user.\<close>

datatype log_saver = ReportSaver | UserSaver nat

record log_ctx =
  lc_save_dir :: string
  lc_pending :: "log_obj list"
  lc_time_to_send :: bool
  lc_finished :: bool
  lc_saver :: "log_saver option"
  lc_line_count :: int

record log_handler =
  lh_mqtt :: "basic_config option"
  lh_switch :: bool
  lh_lowest :: nat

text \<open>The global context and the handler the reports use.\<close>

record log_world =
  lw_ctx :: "log_ctx option"
  lw_handler :: log_handler

datatype log_lock = SyncLock | HandlerLock

datatype log_act =
    Lock log_lock
  | Unlock log_lock
  | Console string
  | UserSave nat "log_obj list"
  | PublishLog string "char list"
  | SubscribeLog string

record log_env =
  le_json :: json_lib
  le_random :: "32 word"
  le_now :: "64 word"
  le_date :: string

section \<open>Levels\<close>

definition s_log_level_strings :: "string list" where
  "s_log_level_strings = [''NONE'', ''FATAL'', ''ERROR'', ''WARN'', ''INFO'', ''DEBUG'']"

definition log_level_to_string :: "nat \<Rightarrow> string c_result" where
  "log_level_to_string l = (if l < length s_log_level_strings then Inr (s_log_level_strings ! l) else Inl OutOfBounds)"

definition log_string_to_level :: "string \<Rightarrow> nat" where
  "log_string_to_level s =
     (if s = ''debug'' \<or> s = ''DEBUG'' then 5 else if s = ''info'' \<or> s = ''INFO'' then 4
      else if s = ''warn'' \<or> s = ''WARN'' then 3 else if s = ''error'' \<or> s = ''ERROR'' then 2
      else if s = ''fatal'' \<or> s = ''FATAL'' then 1 else 5)"

section \<open>The context\<close>

definition iot_log_init_with_option :: "string \<Rightarrow> int \<Rightarrow> log_world \<Rightarrow> log_world" where
  "iot_log_init_with_option dir line_count w =
     (case lw_ctx w of
        Some _ \<Rightarrow> w
      | None \<Rightarrow> w\<lparr>lw_ctx := Some \<lparr>lc_save_dir = dir, lc_pending = [], lc_time_to_send = False, lc_finished = False,
          lc_saver = None, lc_line_count = line_count\<rparr>\<rparr>)"

definition iot_log_init :: "string option \<Rightarrow> log_world \<Rightarrow> log_world" where
  "iot_log_init dir w =
     (case dir of
        Some d \<Rightarrow> if d = [] then iot_log_init_with_option ''iot_logs'' 30 w else iot_log_init_with_option d 30 w
      | None \<Rightarrow> iot_log_init_with_option ''iot_logs'' 30 w)"

definition iot_log_set_on_log_save_fn :: "log_saver option \<Rightarrow> log_world \<Rightarrow> log_world" where
  "iot_log_set_on_log_save_fn saver w = w\<lparr>lw_ctx := map_option (\<lambda>c. c\<lparr>lc_saver := saver\<rparr>) (lw_ctx w)\<rparr>"

definition log_set_check_write_file_line_count :: "int \<Rightarrow> log_world \<Rightarrow> log_world" where
  "log_set_check_write_file_line_count n w = w\<lparr>lw_ctx := map_option (\<lambda>c. c\<lparr>lc_line_count := n\<rparr>) (lw_ctx w)\<rparr>"

definition iot_get_log_file_dir :: "log_world \<Rightarrow> string option" where
  "iot_get_log_file_dir w = map_option lc_save_dir (lw_ctx w)"

text \<open>The length of the list is compared as an unsigned number with the threshold; nothing waits on this.\<close>

definition s_background_wait :: "log_world \<Rightarrow> bool" where
  "s_background_wait w =
     (case lw_ctx w of
        None \<Rightarrow> True
      | Some c \<Rightarrow> lc_finished c \<or> (word_of_nat (length (lc_pending c)) :: 64 word) > word_of_int (lc_line_count c) \<or> lc_time_to_send c)"

section \<open>A line\<close>

text \<open>
  \<^verbatim>\<open>_log_format\<close>: the buffer has the size of the text and 160 bytes; what \<^verbatim>\<open>snprintf\<close> prints into \<open>n\<close> bytes is cut
  after \<open>n - 1\<close>.
\<close>

definition printed :: "nat \<Rightarrow> string \<Rightarrow> string" where
  "printed n t = take (n - 1) t"

definition log_prefix :: "string \<Rightarrow> string \<Rightarrow> string \<Rightarrow> string \<Rightarrow> string" where
  "log_prefix log_type level date tag = ''['' @ log_type @ ''] ['' @ level @ ''] ['' @ date @ ''] '' @ tag @ '' : ''"

definition log_format :: "log_env \<Rightarrow> nat \<Rightarrow> string \<Rightarrow> string \<Rightarrow> string \<Rightarrow> log_obj c_result" where
  "log_format env level log_type tag text =
     (if length text + 160 > 2147483647 then Inl SignedOverflow
      else c_bind (log_level_to_string level) (\<lambda>level_str.
        let total = length text + 10 + 150;
            prefix = printed total (log_prefix log_type level_str (le_date env) tag);
            line = prefix @ printed (total - length prefix) text;
            line = line @ printed (total - length line) [LF]
        in Inr \<lparr>lo_time = le_now env, lo_level_str = level_str, lo_level = level, lo_type = log_type, lo_content = line\<rparr>))"

section \<open>Reports\<close>

definition log_item :: "log_env \<Rightarrow> log_obj \<Rightarrow> json" where
  "log_item env l =
     (let keq = jl_eq (le_json env) in
      aws_json_add_aws_string_val1 keq ''Content'' (lo_content l)
        (aws_json_add_str_val keq ''Type'' (Some (lo_type l))
          (aws_json_add_str_val keq ''LogLevel'' (Some (lo_level_str l))
            (aws_json_add_num_val1 keq ''CreateTime'' (of_nat (double_of_nat (unat (lo_time l)))) (JObj [])))))"

definition log_report_doc :: "log_env \<Rightarrow> log_obj list \<Rightarrow> json" where
  "log_report_doc env ls =
     (let keq = jl_eq (le_json env) in
      aws_json_value_add_to_object keq
        (aws_json_add_str_val keq ''version'' (Some SDK_VERSION)
          (aws_json_add_str_val keq ''id'' (Some (get_random_string_with_time_suffix (le_random env) (le_now env))) (JObj [])))
        ''data'' (JArr (map (log_item env) ls)))"

definition s_common_log_report :: "log_env \<Rightarrow> log_handler \<Rightarrow> log_obj list \<Rightarrow> log_act list c_result" where
  "s_common_log_report env h lines =
     (if \<not> lh_switch h then Inr []
      else
        let kept = filter (\<lambda>l. lo_level l \<le> lh_lowest h) lines in
        if kept = [] then Inr []
        else c_bind (config_names (lh_mqtt h)) (\<lambda>(pk, dn).
          c_bind (iot_get_common_topic ''sys/%s/%s/log/batch/report'' pk dn) (\<lambda>topic.
          Inr [PublishLog topic (jl_print (le_json env) (log_report_doc env kept))])))"

definition s_log_report_on_log_save_fn :: "log_env \<Rightarrow> log_handler \<Rightarrow> log_obj list \<Rightarrow> log_act list c_result" where
  "s_log_report_on_log_save_fn env h lines =
     c_bind (s_common_log_report env h lines) (\<lambda>acts. Inr (Lock HandlerLock # acts @ [Unlock HandlerLock]))"

section \<open>Writing\<close>

text \<open>Entered with the lock held; it is released on every path, and once more by the caller.\<close>

definition write_log :: "log_env \<Rightarrow> log_world \<Rightarrow> log_ctx \<Rightarrow> (log_world \<times> log_act list) c_result" where
  "write_log env w c =
     (if lc_finished c then Inr (w\<lparr>lw_ctx := Some c\<rparr>, [Unlock SyncLock])
      else if lc_pending c = [] then Inr (w\<lparr>lw_ctx := Some c\<rparr>, [Unlock SyncLock])
      else
        let lines = lc_pending c in
        c_bind (case lc_saver c of
            None \<Rightarrow> Inr []
          | Some ReportSaver \<Rightarrow> s_log_report_on_log_save_fn env (lw_handler w) lines
          | Some (UserSaver u) \<Rightarrow> Inr [UserSave u lines])
          (\<lambda>acts. Inr (w\<lparr>lw_ctx := Some (c\<lparr>lc_time_to_send := False, lc_pending := []\<rparr>)\<rparr>, Unlock SyncLock # acts)))"

definition s_background_channel_send :: "log_env \<Rightarrow> log_obj \<Rightarrow> log_world \<Rightarrow> log_ctx \<Rightarrow> (log_world \<times> log_act list) c_result" where
  "s_background_channel_send env l w c =
     c_bind (write_log env w (c\<lparr>lc_pending := lc_pending c @ [l]\<rparr>)) (\<lambda>(w, acts).
     Inr (w, Lock SyncLock # acts @ [Unlock SyncLock]))"

definition sdk_log_print :: "log_env \<Rightarrow> nat \<Rightarrow> string \<Rightarrow> string \<Rightarrow> string \<Rightarrow> log_world \<Rightarrow> (log_world \<times> log_act list) c_result" where
  "sdk_log_print env level log_type tag text w =
     (case lw_ctx w of
        None \<Rightarrow> Inr (w, [])
      | Some c \<Rightarrow>
          if lc_finished c then Inr (w, [])
          else c_bind (log_format env level log_type tag text) (\<lambda>l.
            c_bind (s_background_channel_send env l w c) (\<lambda>(w, acts).
            Inr (w, Console (lo_content l) # acts))))"

text \<open>The context is marked and its lines are released; the pointer to it stays.\<close>

definition iot_log_deinit :: "log_world \<Rightarrow> log_world c_result" where
  "iot_log_deinit w =
     (case lw_ctx w of
        None \<Rightarrow> Inl NullDeref
      | Some c \<Rightarrow> Inr (w\<lparr>lw_ctx := Some (c\<lparr>lc_finished := True, lc_pending := []\<rparr>)\<rparr>))"

section \<open>Configuration of the reports\<close>

definition aiot_log_init :: "log_world \<Rightarrow> log_world" where
  "aiot_log_init w =
     iot_log_set_on_log_save_fn (Some ReportSaver) (w\<lparr>lw_handler := \<lparr>lh_mqtt = None, lh_switch = False, lh_lowest = 5\<rparr>\<rparr>)"

definition aiot_log_set_report_switch :: "bool \<Rightarrow> nat \<Rightarrow> log_world \<Rightarrow> log_world" where
  "aiot_log_set_report_switch upload lowest w =
     w\<lparr>lw_handler := (lw_handler w)\<lparr>lh_lowest := lowest, lh_switch := upload\<rparr>\<rparr>"

definition aiot_log_set_mqtt_handler :: "basic_config option \<Rightarrow> log_world \<Rightarrow> (log_world \<times> log_act list) c_result" where
  "aiot_log_set_mqtt_handler mqtt w =
     (let w = w\<lparr>lw_handler := (lw_handler w)\<lparr>lh_mqtt := mqtt\<rparr>\<rparr> in
      if mqtt = None then Inr (w, [])
      else c_bind (config_names mqtt) (\<lambda>(pk, dn).
        c_bind (iot_get_common_topic ''sys/%s/%s/log/batch/config'' pk dn) (\<lambda>topic. Inr (w, [SubscribeLog topic]))))"

text \<open>
  \<^verbatim>\<open>s_log_rev_log_report_config\<close>: it writes two lines of the log itself, the second one with its lock held.
  A message without the switch is judged by a variable never written.
\<close>

definition log_switch_of :: "log_env \<Rightarrow> json option \<Rightarrow> bool c_result" where
  "log_switch_of env d =
     (case aws_json_value_get_from_object (jl_eq (le_json env)) d ''Switch'' of Some (JBool b) \<Rightarrow> Inr b | _ \<Rightarrow> Inl Uninit)"

definition s_log_rev_log_report_config ::
  "log_env \<Rightarrow> string \<Rightarrow> char list \<Rightarrow> log_world \<Rightarrow> (log_world \<times> log_act list) c_result" where
  "s_log_rev_log_report_config env topic payload w =
     c_bind (sdk_log_print env 5 ''sdk'' ''IOT_MQTT''
         (''s_log_rev_log_report_config call topic = '' @ topic @ ''  payload = '' @ cstr payload) w) (\<lambda>(w, acts).
     let d = aws_json_value_get_from_object (jl_eq (le_json env)) (jl_parse (le_json env) (cstr payload)) ''data'' in
     c_bind (log_switch_of env d) (\<lambda>switch.
     c_bind (sdk_log_print env 5 ''sdk'' ''IOT_MQTT''
         (''s_log_rev_log_report_config call log_switch = '' @ (if switch then ''1'' else ''0'') @ '' '') w) (\<lambda>(w, acts').
     Inr (w\<lparr>lw_handler := (lw_handler w)\<lparr>lh_switch := switch,
            lh_lowest := log_string_to_level (aws_json_get_str (jl_eq (le_json env)) d ''LowestLevel'')\<rparr>\<rparr>,
          acts @ Lock HandlerLock # acts' @ [Unlock HandlerLock]))))"

end
