(* ===== verification/LogProps.thy ===== *)
theory LogProps
  imports Log
begin

text \<open>
  The properties of the logs: when a line is complete, that reports are exactly the lines of the level in
  order, that a context once released stays so, and what the locks would do.
\<close>

section \<open>Lines\<close>

lemma printed_fits: "length t < n \<Longrightarrow> printed n t = t"
  by (simp add: printed_def)

lemma printed_room: "length x < n \<Longrightarrow> length (x @ printed (n - length x) t) < n"
  by (auto simp: printed_def)

lemma log_format_line:
  assumes "log_format env level ty tag text = Inr l"
  obtains str where "log_level_to_string level = Inr str" "lo_level l = level" "lo_level_str l = str" "lo_type l = ty" "lo_time l = le_now env"
    "length (lo_content l) < length text + 160"
    "length (log_prefix ty str (le_date env) tag) \<le> 158 \<longleftrightarrow> lo_content l = log_prefix ty str (le_date env) tag @ text @ [LF]"
proof -
  obtain str where str: "log_level_to_string level = Inr str"
    and l: "l = (let total = length text + 10 + 150; prefix = printed total (log_prefix ty str (le_date env) tag);
            line = prefix @ printed (total - length prefix) text; line = line @ printed (total - length line) [LF]
        in \<lparr>lo_time = le_now env, lo_level_str = str, lo_level = level, lo_type = ty, lo_content = line\<rparr>)"
    using assms by (auto simp: log_format_def c_bind_Inr_iff Let_def split: if_splits)
  let ?p = "log_prefix ty str (le_date env) tag"
  have "length (lo_content l) < length text + 10 + 150"
    unfolding l Let_def log_obj.simps by (intro printed_room) (simp add: printed_def)
  then have len: "length (lo_content l) < length text + 160" by simp
  have "lo_content l = ?p @ text @ [LF]" if "length ?p \<le> 158"
    using that by (simp add: l Let_def printed_fits)
  then have "length ?p \<le> 158 \<longleftrightarrow> lo_content l = ?p @ text @ [LF]" using len by auto
  with len str show thesis by (intro that) (simp_all add: l Let_def)
qed

text \<open>
  C40. The line fits its buffer, and it is complete, with its end of line, exactly when what stands before
  the text has at most 158 bytes; with a longer tag the text or the end of line is cut.
\<close>

theorem log_line_complete:
  assumes "log_format env level ty tag text = Inr l"
  shows "length (lo_content l) < length text + 160 \<and>
    (length (log_prefix ty (lo_level_str l) (le_date env) tag) \<le> 158 \<longleftrightarrow>
      lo_content l = log_prefix ty (lo_level_str l) (le_date env) tag @ text @ [LF])"
  by (rule log_format_line [OF assms]) auto

section \<open>Histories\<close>

datatype log_op =
    OpInit "string option"
  | OpDeinit
  | OpStart
  | OpMqtt "basic_config option"
  | OpSwitch bool nat
  | OpPrint log_env nat string string string
  | OpConfig log_env string "char list"

definition quiet :: "log_world \<Rightarrow> log_world \<times> log_act list \<times> unit" where
  "quiet w = (w, [], ())"

definition log_exec :: "log_op \<Rightarrow> log_world \<Rightarrow> (log_world \<times> log_act list \<times> unit) c_result" where
  "log_exec op w =
     (case op of
        OpInit dir \<Rightarrow> Inr (quiet (iot_log_init dir w))
      | OpDeinit \<Rightarrow> c_bind (iot_log_deinit w) (\<lambda>w. Inr (quiet w))
      | OpStart \<Rightarrow> Inr (quiet (aiot_log_init w))
      | OpMqtt m \<Rightarrow> c_bind (aiot_log_set_mqtt_handler m w) (\<lambda>(w, acts). Inr (w, acts, ()))
      | OpSwitch upload lowest \<Rightarrow> Inr (quiet (aiot_log_set_report_switch upload lowest w))
      | OpPrint env level ty tag text \<Rightarrow> c_bind (sdk_log_print env level ty tag text w) (\<lambda>(w, acts). Inr (w, acts, ()))
      | OpConfig env topic payload \<Rightarrow> c_bind (s_log_rev_log_report_config env topic payload w) (\<lambda>(w, acts). Inr (w, acts, ())))"

text \<open>
  What a user of the logs has to know: whether they are not started, open (with the reports connected or
  not) or closed for good; and the configuration of the reports.
\<close>

datatype log_status = LogAbsent | LogOpen bool | LogClosed

record log_view =
  vw_status :: log_status
  vw_handler :: log_handler

definition log_view_of :: "log_world \<Rightarrow> log_view" where
  "log_view_of w =
     \<lparr>vw_status = (case lw_ctx w of None \<Rightarrow> LogAbsent
        | Some c \<Rightarrow> if lc_finished c then LogClosed else LogOpen (lc_saver c = Some ReportSaver)),
      vw_handler = lw_handler w\<rparr>"

definition log_topic :: "log_handler \<Rightarrow> string" where
  "log_topic h =
     (case lh_mqtt h of
        Some cfg \<Rightarrow> ''sys/'' @ the (bc_product_key cfg) @ ''/'' @ the (bc_device_name cfg) @ ''/log/batch/report''
      | None \<Rightarrow> [])"

text \<open>One line is one report, when the reports are connected and switched on and its level is low enough.\<close>

definition spec_print :: "log_env \<Rightarrow> nat \<Rightarrow> string \<Rightarrow> string \<Rightarrow> string \<Rightarrow> log_view \<Rightarrow> (string \<times> char list) list" where
  "spec_print env level ty tag text v =
     (case log_format env level ty tag text of
        Inl _ \<Rightarrow> []
      | Inr l \<Rightarrow>
          if vw_status v = LogOpen True \<and> lh_switch (vw_handler v) \<and> level \<le> lh_lowest (vw_handler v)
          then [(log_topic (vw_handler v), jl_print (le_json env) (log_report_doc env [l]))] else [])"

definition config_of :: "log_env \<Rightarrow> char list \<Rightarrow> json option" where
  "config_of env payload = aws_json_value_get_from_object (jl_eq (le_json env)) (jl_parse (le_json env) (cstr payload)) ''data''"

fun log_spec :: "log_op \<Rightarrow> log_view \<Rightarrow> log_view \<times> (string \<times> char list) list" where
  "log_spec (OpInit dir) v = (v\<lparr>vw_status := (if vw_status v = LogAbsent then LogOpen False else vw_status v)\<rparr>, [])"
| "log_spec OpDeinit v = (v\<lparr>vw_status := LogClosed\<rparr>, [])"
| "log_spec OpStart v =
     (\<lparr>vw_status = (case vw_status v of LogOpen _ \<Rightarrow> LogOpen True | st \<Rightarrow> st),
       vw_handler = \<lparr>lh_mqtt = None, lh_switch = False, lh_lowest = 5\<rparr>\<rparr>, [])"
| "log_spec (OpMqtt m) v = (v\<lparr>vw_handler := (vw_handler v)\<lparr>lh_mqtt := m\<rparr>\<rparr>, [])"
| "log_spec (OpSwitch upload lowest) v = (v\<lparr>vw_handler := (vw_handler v)\<lparr>lh_lowest := lowest, lh_switch := upload\<rparr>\<rparr>, [])"
| "log_spec (OpPrint env level ty tag text) v = (v, spec_print env level ty tag text v)"
| "log_spec (OpConfig env topic payload) v =
     (let d = config_of env payload; switch = (log_switch_of env d = Inr True) in
      (v\<lparr>vw_handler := (vw_handler v)\<lparr>lh_switch := switch,
          lh_lowest := log_string_to_level (aws_json_get_str (jl_eq (le_json env)) d ''LowestLevel'')\<rparr>\<rparr>,
       spec_print env 5 ''sdk'' ''IOT_MQTT'' (''s_log_rev_log_report_config call topic = '' @ topic @ ''  payload = '' @ cstr payload) v @
       spec_print env 5 ''sdk'' ''IOT_MQTT'' (''s_log_rev_log_report_config call log_switch = '' @ (if switch then ''1'' else ''0'') @ '' '') v))"

fun published :: "log_act list \<Rightarrow> (string \<times> char list) list" where
  "published [] = []"
| "published (PublishLog topic t # as) = (topic, t) # published as"
| "published (_ # as) = published as"

lemma published_append: "published (xs @ ys) = published xs @ published ys"
  by (induction xs rule: published.induct) auto

text \<open>Lines do not wait: between the calls the list is empty.\<close>

definition log_valid :: "log_world \<Rightarrow> bool" where
  "log_valid w \<longleftrightarrow> (\<forall>c. lw_ctx w = Some c \<longrightarrow> lc_pending c = [])"

lemma topic_of_names:
  "config_names m = Inr (pk, dn) \<Longrightarrow> iot_get_common_topic ''sys/%s/%s/log/batch/report'' pk dn = Inr (''sys/'' @ pk @ ''/'' @ dn @ ''/log/batch/report'')"
  using length_fmt_s [of "''sys/%s/%s/log/batch/report''" "[pk, dn]"]
  by (simp add: iot_get_common_topic_def print_into_def)

lemma report_published:
  assumes "s_log_report_on_log_save_fn env h [l] = Inr acts"
  shows "published acts = (if lh_switch h \<and> lo_level l \<le> lh_lowest h then [(log_topic h, jl_print (le_json env) (log_report_doc env [l]))] else [])"
  using assms
  by (auto simp: s_log_report_on_log_save_fn_def s_common_log_report_def c_bind_Inr_iff Let_def topic_of_names published_append
      log_topic_def config_names_def split: if_splits option.splits)

lemma print_spec:
  assumes "log_valid w" "sdk_log_print env level ty tag text w = Inr (w', acts)"
  shows "log_valid w' \<and> log_view_of w' = log_view_of w \<and> published acts = spec_print env level ty tag text (log_view_of w)"
proof (cases "lw_ctx w")
  case None
  then show ?thesis using assms by (auto simp: sdk_log_print_def spec_print_def log_view_of_def split: sum.splits)
next
  case (Some c)
  show ?thesis
  proof (cases "lc_finished c")
    case True
    then show ?thesis using assms Some by (auto simp: sdk_log_print_def spec_print_def log_view_of_def split: sum.splits)
  next
    case False
    obtain l where l: "log_format env level ty tag text = Inr l" and lv: "lo_level l = level"
      using assms(2) Some False by (auto simp: sdk_log_print_def c_bind_Inr_iff elim: log_format_line)
    have pend: "lc_pending c = []" using assms(1) Some by (simp add: log_valid_def)
    obtain as where as: "(case lc_saver c of None \<Rightarrow> Inr [] | Some ReportSaver \<Rightarrow> s_log_report_on_log_save_fn env (lw_handler w) [l]
        | Some (UserSaver u) \<Rightarrow> Inr [UserSave u [l]]) = Inr as"
      and w': "w' = w\<lparr>lw_ctx := Some (c\<lparr>lc_time_to_send := False, lc_pending := []\<rparr>)\<rparr>"
      and acts: "acts = Console (lo_content l) # Lock SyncLock # (Unlock SyncLock # as) @ [Unlock SyncLock]"
      using assms(2) Some False l
      by (auto simp: sdk_log_print_def s_background_channel_send_def write_log_def Let_def c_bind_Inr_iff pend)
    have "published as = (if lc_saver c = Some ReportSaver \<and> lh_switch (lw_handler w) \<and> level \<le> lh_lowest (lw_handler w)
        then [(log_topic (lw_handler w), jl_print (le_json env) (log_report_doc env [l]))] else [])"
      using as report_published [of env "lw_handler w" l as] by (auto simp: lv split: option.splits log_saver.splits)
    then show ?thesis
      using Some False by (simp add: w' acts log_valid_def log_view_of_def spec_print_def l published_append)
  qed
qed

lemma log_init_dir: "\<exists>d. iot_log_init dir w = iot_log_init_with_option d 30 w"
  by (auto simp: iot_log_init_def split: option.split)

lemma exec_spec:
  assumes "log_valid w" "log_exec op w = Inr (w', acts, r)"
  shows "log_valid w' \<and> log_spec op (log_view_of w) = (log_view_of w', published acts)"
proof (cases op)
  case (OpInit dir)
  obtain d where d: "iot_log_init dir w = iot_log_init_with_option d 30 w" using log_init_dir by blast
  show ?thesis using assms
    by (auto simp: OpInit d log_exec_def quiet_def iot_log_init_with_option_def log_valid_def log_view_of_def split: option.splits)
next
  case (OpPrint env level ty tag msg)
  then show ?thesis using assms print_spec [OF assms(1)] by (auto simp: log_exec_def c_bind_Inr_iff)
next
  case (OpConfig env topic payload)
  let ?d = "config_of env payload"
  obtain w1 a1 sw w2 a2 where p1: "sdk_log_print env 5 ''sdk'' ''IOT_MQTT''
         (''s_log_rev_log_report_config call topic = '' @ topic @ ''  payload = '' @ cstr payload) w = Inr (w1, a1)"
    and sw: "log_switch_of env ?d = Inr sw"
    and p2: "sdk_log_print env 5 ''sdk'' ''IOT_MQTT''
         (''s_log_rev_log_report_config call log_switch = '' @ (if sw then ''1'' else ''0'') @ '' '') w1 = Inr (w2, a2)"
    and w': "w' = w2\<lparr>lw_handler := (lw_handler w2)\<lparr>lh_switch := sw,
            lh_lowest := log_string_to_level (aws_json_get_str (jl_eq (le_json env)) ?d ''LowestLevel'')\<rparr>\<rparr>"
    and acts: "acts = a1 @ Lock HandlerLock # a2 @ [Unlock HandlerLock]"
    using assms(2) by (auto simp: OpConfig log_exec_def s_log_rev_log_report_config_def c_bind_Inr_iff Let_def config_of_def)
  have s1: "log_valid w1 \<and> log_view_of w1 = log_view_of w \<and>
      published a1 = spec_print env 5 ''sdk'' ''IOT_MQTT'' (''s_log_rev_log_report_config call topic = '' @ topic @ ''  payload = '' @ cstr payload) (log_view_of w)"
    by (rule print_spec [OF assms(1) p1])
  then have s2: "log_valid w2 \<and> log_view_of w2 = log_view_of w \<and>
      published a2 = spec_print env 5 ''sdk'' ''IOT_MQTT'' (''s_log_rev_log_report_config call log_switch = '' @ (if sw then ''1'' else ''0'') @ '' '') (log_view_of w)"
    using print_spec [OF _ p2] by simp
  have h: "lw_handler w2 = vw_handler (log_view_of w)" using s2 by (simp add: log_view_of_def)
  have v: "log_valid w'" using s2 by (simp add: w' log_valid_def)
  have vw: "log_view_of w' = (log_view_of w)\<lparr>vw_handler := (vw_handler (log_view_of w))\<lparr>lh_switch := sw,
            lh_lowest := log_string_to_level (aws_json_get_str (jl_eq (le_json env)) ?d ''LowestLevel'')\<rparr>\<rparr>"
    using s2 by (simp add: w' h [symmetric] log_view_of_def)
  show ?thesis
    using v by (simp add: OpConfig Let_def sw vw acts published_append s1 s2)
next
  case (OpMqtt m)
  then show ?thesis using assms
    by (auto simp: log_exec_def aiot_log_set_mqtt_handler_def c_bind_Inr_iff Let_def log_valid_def log_view_of_def split: if_splits option.splits)
qed (use assms in \<open>auto simp: log_exec_def quiet_def iot_log_deinit_def aiot_log_init_def
  iot_log_set_on_log_save_fn_def aiot_log_set_report_switch_def log_valid_def log_view_of_def c_bind_Inr_iff split: option.splits\<close>)

interpretation log_reports: refinement log_exec log_spec log_view_of published log_valid
  by unfold_locales (simp, rule published_append, erule exec_spec)

definition log_start :: log_world where
  "log_start = \<lparr>lw_ctx = None, lw_handler = \<lparr>lh_mqtt = None, lh_switch = False, lh_lowest = 5\<rparr>\<rparr>"

text \<open>
  C22. Every history of the logs refines its specification: a line is reported at once and alone, in the order of the
  calls, exactly when the reports are connected and switched on and its level is at most the configured
  one; lines are never collected, whatever the threshold.
\<close>

theorem log_reports_refine:
  assumes "c_run log_exec ops log_start = Inr (w, acts)"
  shows "spec_run log_spec ops (log_view_of log_start) = (log_view_of w, published acts) \<and>
    (\<forall>c. lw_ctx w = Some c \<longrightarrow> lc_pending c = [])"
proof -
  have "log_valid log_start" by (simp add: log_valid_def log_start_def)
  from log_reports.run_refines [OF this assms] show ?thesis by (simp add: log_valid_def)
qed

section \<open>After the release\<close>

lemma spec_closed:
  "vw_status v = LogClosed \<Longrightarrow> vw_status (fst (spec_run log_spec ops v)) = LogClosed \<and> snd (spec_run log_spec ops v) = []"
proof (induction ops arbitrary: v)
  case (Cons op ops)
  have "vw_status (fst (log_spec op v)) = LogClosed \<and> snd (log_spec op v) = []"
    using Cons.prems by (cases op) (auto simp: spec_print_def Let_def split: sum.splits)
  then show ?case using Cons.IH [of "fst (log_spec op v)"] by (simp add: Let_def split_beta)
qed simp

text \<open>
  Once released, the logs stay closed: no later initialisation opens the context again, and nothing is reported
  any more in the life of the program.
\<close>

theorem log_never_reopens:
  assumes "c_run log_exec (ops @ OpDeinit # ops') log_start = Inr (w, acts)" "c_run log_exec ops log_start = Inr (w1, acts1)"
  shows "published acts = published acts1 \<and> vw_status (log_view_of w) = LogClosed"
proof -
  have v: "log_valid log_start" by (simp add: log_valid_def log_start_def)
  have split: "spec_run log_spec (xs @ ys) u = (let (u1, d1) = spec_run log_spec xs u; (u2, d2) = spec_run log_spec ys u1 in (u2, d1 @ d2))"
    for xs ys u by (induction xs arbitrary: u) (simp_all add: split_beta Let_def)
  have a: "spec_run log_spec (ops @ OpDeinit # ops') (log_view_of log_start) = (log_view_of w, published acts)"
    using log_reports.run_refines [OF v assms(1)] by simp
  have b: "spec_run log_spec ops (log_view_of log_start) = (log_view_of w1, published acts1)"
    using log_reports.run_refines [OF v assms(2)] by simp
  have c: "spec_run log_spec ops' ((log_view_of w1)\<lparr>vw_status := LogClosed\<rparr>) = (log_view_of w, published acts')
      \<Longrightarrow> vw_status (log_view_of w) = LogClosed \<and> published acts' = []" for acts'
    using spec_closed [of "(log_view_of w1)\<lparr>vw_status := LogClosed\<rparr>" ops'] by simp
  show ?thesis
    using a spec_closed [of "(log_view_of w1)\<lparr>vw_status := LogClosed\<rparr>" ops'] unfolding split b
    by (auto simp: Let_def split_beta)
qed

section \<open>Locks\<close>

text \<open>
  What the recorded operations do where locks are locks: taking one that is held waits for ever (\<open>None\<close>);
  releasing one that is not held is taken to do nothing.
\<close>

fun lock_run :: "log_act list \<Rightarrow> log_lock set \<Rightarrow> log_lock set option" where
  "lock_run [] held = Some held"
| "lock_run (Lock l # as) held = (if l \<in> held then None else lock_run as (insert l held))"
| "lock_run (Unlock l # as) held = lock_run as (held - {l})"
| "lock_run (_ # as) held = lock_run as held"

lemma lock_run_append: "lock_run (xs @ ys) held = Option.bind (lock_run xs held) (lock_run ys)"
  by (induction xs held rule: lock_run.induct) auto

definition reporting :: "log_world \<Rightarrow> bool" where
  "reporting w \<longleftrightarrow> log_valid w \<and> vw_status (log_view_of w) = LogOpen True"

lemma report_acts:
  assumes "s_log_report_on_log_save_fn env h ls = Inr as"
  obtains ps where "as = Lock HandlerLock # map (\<lambda>(t, p). PublishLog t p) ps @ [Unlock HandlerLock]"
  using assms
proof -
  obtain bs where bs: "s_common_log_report env h ls = Inr bs" "as = Lock HandlerLock # bs @ [Unlock HandlerLock]"
    using assms by (auto simp: s_log_report_on_log_save_fn_def c_bind_Inr_iff)
  from bs(1) have "bs = [] \<or> (\<exists>t p. bs = [PublishLog t p])"
    by (auto simp: s_common_log_report_def c_bind_Inr_iff Let_def split: if_splits)
  then show thesis using that [of "[]"] that [of "[_]"] bs(2) by auto
qed

lemma print_acts:
  assumes "reporting w" "sdk_log_print env level ty tag text w = Inr (w', acts)"
  obtains line ps where "acts = [Console line, Lock SyncLock, Unlock SyncLock, Lock HandlerLock] @ map (\<lambda>(t, p). PublishLog t p) ps @
      [Unlock HandlerLock, Unlock SyncLock]" "reporting w'"
proof -
  obtain c where c: "lw_ctx w = Some c" "\<not> lc_finished c" "lc_saver c = Some ReportSaver" "lc_pending c = []"
    using assms(1) by (auto simp: reporting_def log_view_of_def log_valid_def split: option.splits if_splits)
  obtain l as where "s_log_report_on_log_save_fn env (lw_handler w) [l] = Inr as"
    "acts = Console (lo_content l) # Lock SyncLock # (Unlock SyncLock # as) @ [Unlock SyncLock]"
    using assms(2) c by (auto simp: sdk_log_print_def s_background_channel_send_def write_log_def Let_def c_bind_Inr_iff)
  moreover have "reporting w'" using print_spec [OF _ assms(2)] assms(1) by (simp add: reporting_def)
  ultimately show thesis using that by (auto elim: report_acts)
qed

lemma lock_run_publish [simp]: "lock_run (map (\<lambda>(t, p). PublishLog t p) ps @ as) held = lock_run as held"
  by (induction ps) auto

text \<open>
  C39. Where the locks are compiled in: every reported line releases the lock of the context twice, and the first
  message that configures the reports makes the handler wait for the lock it holds itself.
\<close>

theorem log_config_deadlocks:
  assumes "reporting w"
  shows "(\<forall>w' acts. s_log_rev_log_report_config env topic payload w = Inr (w', acts) \<longrightarrow> lock_run acts {} = None) \<and>
    (\<forall>level ty tag text w' acts. sdk_log_print env level ty tag text w = Inr (w', acts) \<longrightarrow>
      count_list acts (Lock SyncLock) = 1 \<and> count_list acts (Unlock SyncLock) = 2)"
proof (intro conjI allI impI)
  fix w' acts assume "s_log_rev_log_report_config env topic payload w = Inr (w', acts)"
  then obtain w1 a1 sw w2 a2 t2 where p1: "sdk_log_print env 5 ''sdk'' ''IOT_MQTT''
         (''s_log_rev_log_report_config call topic = '' @ topic @ ''  payload = '' @ cstr payload) w = Inr (w1, a1)"
    and p2: "sdk_log_print env 5 ''sdk'' ''IOT_MQTT'' t2 w1 = Inr (w2, a2)"
    and acts: "acts = a1 @ Lock HandlerLock # a2 @ [Unlock HandlerLock]"
    by (auto simp: s_log_rev_log_report_config_def c_bind_Inr_iff Let_def)
  obtain l1 ps1 where a1: "a1 = [Console l1, Lock SyncLock, Unlock SyncLock, Lock HandlerLock] @ map (\<lambda>(t, p). PublishLog t p) ps1 @
      [Unlock HandlerLock, Unlock SyncLock]" and r1: "reporting w1" by (rule print_acts [OF assms p1])
  obtain l2 ps2 where a2: "a2 = [Console l2, Lock SyncLock, Unlock SyncLock, Lock HandlerLock] @ map (\<lambda>(t, p). PublishLog t p) ps2 @
      [Unlock HandlerLock, Unlock SyncLock]" by (rule print_acts [OF r1 p2])
  show "lock_run acts {} = None" by (simp add: acts a1 a2)
next
  fix level ty tag msg w' acts assume "sdk_log_print env level ty tag msg w = Inr (w', acts)"
  from print_acts [OF assms this] obtain line ps where acts: "acts = [Console line, Lock SyncLock, Unlock SyncLock, Lock HandlerLock] @
      map (\<lambda>(t, p). PublishLog t p) ps @ [Unlock HandlerLock, Unlock SyncLock]" by blast
  have "count_list (map (\<lambda>(t, p). PublishLog t p) ps) (Lock SyncLock) = 0" "count_list (map (\<lambda>(t, p). PublishLog t p) ps) (Unlock SyncLock) = 0"
    by (induction ps) auto
  then show "count_list acts (Lock SyncLock) = 1" "count_list acts (Unlock SyncLock) = 2" by (simp_all add: acts count_list_append)
qed

section \<open>Examples\<close>

definition log_env0 :: log_env where
  "log_env0 = \<lparr>le_json = \<lparr>jl_eq = (=), jl_print = (\<lambda>_. ''report''),
      jl_parse = (\<lambda>_. Some (JObj [(''data'', JObj [(''Switch'', JBool True), (''LowestLevel'', JStr ''error'')])]))\<rparr>,
    le_random = 7, le_now = 1000, le_date = ''2025''\<rparr>"

definition log_cfg :: basic_config where
  "log_cfg = \<lparr>bc_http_host = None, bc_instance_id = None, bc_auth_type = AUTH_DEVICE_SECRET, bc_product_key = Some ''pk'',
     bc_product_secret = None, bc_device_name = Some ''dev'', bc_device_secret = None, bc_verify_ssl = False,
     bc_ssl_ca_cert = None, bc_ssl_ca_path = None\<rparr>"

lemma level_of_error: "log_level_to_string 2 = Inr ''ERROR''"
  by (simp add: log_level_to_string_def s_log_level_strings_def)

lemma format0:
  "log_format log_env0 2 ''sdk'' ''T'' ''x'' =
     Inr \<lparr>lo_time = 1000, lo_level_str = ''ERROR'', lo_level = 2, lo_type = ''sdk'', lo_content = ''[sdk] [ERROR] [2025] T : x'' @ [LF]\<rparr>"
  by (simp add: log_format_def level_of_error Let_def printed_def log_prefix_def log_env0_def)

lemma log_line_complete_witness:
  "lo_content (sum.projr (log_format log_env0 2 ''sdk'' ''T'' ''x'')) = ''[sdk] [ERROR] [2025] T : x'' @ [LF]"
proof -
  have d: "le_date log_env0 = ''2025''" by (simp add: log_env0_def)
  show ?thesis using log_line_complete [OF format0] by (simp add: format0 log_prefix_def d)
qed

definition log_ops0 :: "log_op list" where
  "log_ops0 = [OpInit (Some []), OpStart, OpMqtt (Some log_cfg), OpSwitch True 3, OpPrint log_env0 2 ''sdk'' ''T'' ''x'']"

lemma run0:
  "\<exists>w acts. c_run log_exec log_ops0 log_start = Inr (w, acts) \<and> published acts = [(''sys/pk/dev/log/batch/report'', ''report'')] \<and> reporting w"
proof -
  have names: "config_names (Some log_cfg) = Inr (''pk'', ''dev'')" by (simp add: config_names_def log_cfg_def)
  have sub: "iot_get_common_topic ''sys/%s/%s/log/batch/config'' ''pk'' ''dev'' = Inr ''sys/pk/dev/log/batch/config''"
    by (simp add: iot_get_common_topic_def print_into_def)
  have pr: "jl_print (le_json log_env0) j = ''report''" for j by (simp add: log_env0_def)
  show ?thesis
    by (simp add: log_ops0_def log_exec_def log_start_def quiet_def iot_log_init_def iot_log_init_with_option_def aiot_log_init_def
        iot_log_set_on_log_save_fn_def aiot_log_set_mqtt_handler_def names sub aiot_log_set_report_switch_def sdk_log_print_def format0
        s_background_channel_send_def write_log_def Let_def s_log_report_on_log_save_fn_def s_common_log_report_def topic_of_names [OF names] pr
        reporting_def log_valid_def log_view_of_def)
qed

lemma log_reports_refine_witness:
  "\<exists>w acts. c_run log_exec log_ops0 log_start = Inr (w, acts) \<and>
     snd (spec_run log_spec log_ops0 (log_view_of log_start)) = [(''sys/pk/dev/log/batch/report'', ''report'')]"
proof -
  obtain w acts where r: "c_run log_exec log_ops0 log_start = Inr (w, acts)" "published acts = [(''sys/pk/dev/log/batch/report'', ''report'')]"
    using run0 by blast
  then show ?thesis using log_reports_refine [OF r(1)] by auto
qed

lemma run_append:
  "c_run exec (xs @ ys) s = c_bind (c_run exec xs s) (\<lambda>(s, as). c_bind (c_run exec ys s) (\<lambda>(s, bs). Inr (s, as @ bs)))"
proof (induction xs arbitrary: s)
  case Nil
  then show ?case by (cases "c_run exec ys s") auto
next
  case (Cons x xs)
  show ?case
    by (cases "exec x s") (auto simp: Cons.IH c_bind_assoc split_beta intro!: c_bind_cong)
qed

lemma log_never_reopens_witness:
  "\<exists>w acts. c_run log_exec (log_ops0 @ OpDeinit # [OpInit None, OpStart]) log_start = Inr (w, acts) \<and>
     published acts = [(''sys/pk/dev/log/batch/report'', ''report'')]"
proof -
  obtain w1 as1 where r: "c_run log_exec log_ops0 log_start = Inr (w1, as1)" "published as1 = [(''sys/pk/dev/log/batch/report'', ''report'')]" "reporting w1"
    using run0 by blast
  obtain c where "lw_ctx w1 = Some c" using r(3) by (auto simp: reporting_def log_view_of_def split: option.splits)
  then have "\<exists>w as. c_run log_exec (OpDeinit # [OpInit None, OpStart]) w1 = Inr (w, as)"
    by (simp add: log_exec_def iot_log_deinit_def quiet_def)
  then obtain w acts where w: "c_run log_exec (log_ops0 @ OpDeinit # [OpInit None, OpStart]) log_start = Inr (w, acts)"
    by (auto simp: run_append r(1) simp del: c_run.simps)
  show ?thesis using log_never_reopens [OF w r(1)] w r(2) by auto
qed

lemma log_config_deadlocks_witness:
  "\<exists>w w' acts. s_log_rev_log_report_config log_env0 ''t'' ''c'' w = Inr (w', acts) \<and> lock_run acts {} = None"
proof -
  obtain w where w: "reporting w" "lh_switch (lw_handler w) = False"
  proof
    show "reporting (aiot_log_init (iot_log_init None log_start))" "lh_switch (lw_handler (aiot_log_init (iot_log_init None log_start))) = False"
      by (simp_all add: reporting_def log_valid_def log_view_of_def aiot_log_init_def iot_log_init_def iot_log_init_with_option_def
          log_start_def iot_log_set_on_log_save_fn_def)
  qed
  have "\<exists>w' acts. sdk_log_print log_env0 5 ''sdk'' ''IOT_MQTT'' t u = Inr (w', acts)"
    if "reporting u" "lh_switch (lw_handler u) = False" "length t < 1000" for t u
    using that by (auto simp: reporting_def log_view_of_def log_valid_def sdk_log_print_def log_format_def log_level_to_string_def
        s_log_level_strings_def s_background_channel_send_def write_log_def Let_def s_log_report_on_log_save_fn_def s_common_log_report_def
        split: option.splits if_splits)
  note ok = this
  have "\<exists>r. s_log_rev_log_report_config log_env0 ''t'' ''c'' w = Inr r"
  proof -
    have c: "cstr ''c'' = ''c''" by code_simp
    obtain w1 a1 where p1: "sdk_log_print log_env0 5 ''sdk'' ''IOT_MQTT'' (''s_log_rev_log_report_config call topic = '' @ ''t'' @ ''  payload = '' @ cstr ''c'') w = Inr (w1, a1)"
      using ok [OF w, of "''s_log_rev_log_report_config call topic = '' @ ''t'' @ ''  payload = '' @ cstr ''c''"] by (auto simp: c)
    have "log_view_of w1 = log_view_of w" "log_valid w1" using print_spec [OF _ p1] w(1) by (simp_all add: reporting_def)
    then have w1: "reporting w1" "lh_switch (lw_handler w1) = False" using w by (simp_all add: reporting_def log_view_of_def)
    obtain w2 a2 where p2: "sdk_log_print log_env0 5 ''sdk'' ''IOT_MQTT'' (''s_log_rev_log_report_config call log_switch = '' @ ''1'' @ '' '') w1 = Inr (w2, a2)"
      using ok [OF w1, of "''s_log_rev_log_report_config call log_switch = '' @ ''1'' @ '' ''"] by auto
    have "log_switch_of log_env0 (config_of log_env0 ''c'') = Inr True"
      by (simp add: log_switch_of_def config_of_def log_env0_def aws_json_value_get_from_object_def json_find_def)
    then show ?thesis using p1 p2 by (simp add: s_log_rev_log_report_config_def Let_def config_of_def)
  qed
  then obtain w' acts where "s_log_rev_log_report_config log_env0 ''t'' ''c'' w = Inr (w', acts)" by auto
  then show ?thesis using log_config_deadlocks [OF w(1)] by blast
qed

end
