(* ===== verification/Sdk.thy ===== *)
theory Sdk
  imports Log ThingApi
begin

text \<open>
  The entry points, \<^verbatim>\<open>src/onesdk.c\<close> and \<^verbatim>\<open>src/onesdk_iot.c\<close>, with all features compiled in: who creates, owns and
  releases the components. A component is a block of memory with a number; what the components do is
  the matter of their own theories, and their outcomes are arguments. The context is the one the caller
  passes; the lines of the log that the entry points write are left out.
\<close>

section \<open>State\<close>

record sdk_config =
  cf_device :: bool
  cf_mqtt :: bool
  cf_llm :: "nat option"
  cf_aigw_path :: "string option"
  cf_send_ping :: bool
  cf_ping_interval_s :: int

record sdk_ctx =
  sc_config :: bool
  sc_basic :: "nat option"
  sc_chat :: "nat option"
  sc_ws :: "nat option"
  sc_rt_json_buf :: "nat option"
  sc_mqtt :: "nat option"
  sc_log_switch :: bool
  sc_ota_switch :: bool
  sc_ota :: "nat option"
  sc_tm_switch :: bool
  sc_tm :: "nat option"

definition cleared_sdk_ctx :: sdk_ctx where
  "cleared_sdk_ctx = \<lparr>sc_config = False, sc_basic = None, sc_chat = None, sc_ws = None, sc_rt_json_buf = None, sc_mqtt = None,
     sc_log_switch = False, sc_ota_switch = False, sc_ota = None, sc_tm_switch = False, sc_tm = None\<rparr>"

text \<open>What the realtime session is configured with, apart from what comes from the cloud.\<close>

record ws_settings =
  se_path :: string
  se_send_ping :: bool
  se_ping_interval_s :: int

record sdk_state =
  sd_ctx :: sdk_ctx
  sd_config :: "sdk_config option"
  sd_live :: "nat set"
  sd_fresh :: nat
  sd_log :: log_world
  sd_tm :: thing_handler
  sd_ws :: "ws_settings option"

section \<open>Memory\<close>

definition sdk_alloc :: "sdk_state \<Rightarrow> sdk_state \<times> nat" where
  "sdk_alloc s = (s\<lparr>sd_live := insert (sd_fresh s) (sd_live s), sd_fresh := sd_fresh s + 1\<rparr>, sd_fresh s)"

definition sdk_free :: "nat option \<Rightarrow> sdk_state \<Rightarrow> sdk_state c_result" where
  "sdk_free p s =
     (case p of
        None \<Rightarrow> Inr s
      | Some n \<Rightarrow> if n \<in> sd_live s then Inr (s\<lparr>sd_live := sd_live s - {n}\<rparr>) else Inl UseAfterFree)"

definition sdk_use :: "nat option \<Rightarrow> sdk_state \<Rightarrow> unit c_result" where
  "sdk_use p s =
     (case p of None \<Rightarrow> Inl NullDeref | Some n \<Rightarrow> if n \<in> sd_live s then Inr () else Inl UseAfterFree)"

section \<open>Creation\<close>

text \<open>The outcomes of the allocations and of the functions that are called.\<close>

record sdk_outcome =
  oc_ctx :: bool
  oc_basic :: bool
  oc_register :: int
  oc_llm_alloc :: bool
  oc_llm :: int
  oc_llm_strings :: bool
  oc_chat :: bool
  oc_ws_config :: bool
  oc_ws :: bool
  oc_ws_init :: int
  oc_mqtt :: bool
  oc_mqtt_init :: int

text \<open>The key of the gateway: its memory is used without a test, and not released when fetching the key fails.\<close>

definition onesdk_fetch_config :: "sdk_outcome \<Rightarrow> sdk_state \<Rightarrow> (int \<times> sdk_state) c_result" where
  "onesdk_fetch_config oc s =
     (case sd_config s of
        None \<Rightarrow> Inr (VOLC_ERR_INVALID_PARAM, s)
      | Some cf \<Rightarrow>
          if \<not> oc_llm_alloc oc then Inl NullDeref
          else
            let (s, p) = sdk_alloc s in
            if oc_llm oc \<noteq> 0 then Inr (VOLC_ERR_INVALID_PARAM, s)
            else Inr (VOLC_OK, s\<lparr>sd_config := Some (cf\<lparr>cf_llm := Some p\<rparr>)\<rparr>))"

definition PING_INTERVAL_S :: int where "PING_INTERVAL_S = 110"

definition settings_of :: "sdk_config \<Rightarrow> ws_settings" where
  "settings_of cf =
     \<lparr>se_path = (case cf_aigw_path cf of Some p \<Rightarrow> p | None \<Rightarrow> ''/v1/realtime?model=AG-voice-chat-agent''),
      se_send_ping = cf_send_ping cf,
      se_ping_interval_s = (if cf_ping_interval_s cf \<le> 0 then PING_INTERVAL_S else cf_ping_interval_s cf)\<rparr>"

text \<open>The last two parts: the realtime session and the MQTT client, after the basic configuration is in the context.\<close>

definition init_mqtt :: "sdk_outcome \<Rightarrow> nat \<Rightarrow> sdk_config \<Rightarrow> sdk_state \<Rightarrow> (int \<times> sdk_state) c_result" where
  "init_mqtt oc basic cf s =
     (if \<not> cf_mqtt cf then Inr (VOLC_OK, s)
      else if \<not> oc_mqtt oc then Inr (VOLC_ERR_INIT, s)
      else
        let (s, p) = sdk_alloc s in
        if oc_mqtt_init oc \<noteq> VOLC_OK then
          c_bind (sdk_free (Some basic) s) (\<lambda>s. c_bind (sdk_free (Some p) s) (\<lambda>s. Inr (oc_mqtt_init oc, s)))
        else Inr (VOLC_OK, s\<lparr>sd_ctx := (sd_ctx s)\<lparr>sc_mqtt := Some p\<rparr>\<rparr>))"

definition init_ws :: "sdk_outcome \<Rightarrow> nat \<Rightarrow> sdk_config \<Rightarrow> sdk_state \<Rightarrow> (int \<times> sdk_state) c_result" where
  "init_ws oc basic cf s =
     (if \<not> oc_ws_config oc then c_bind (sdk_free (Some basic) s) (\<lambda>s. Inr (VOLC_ERR_MALLOC, s))
      else if \<not> oc_ws oc then c_bind (sdk_free (Some basic) s) (\<lambda>s. Inr (VOLC_ERR_MALLOC, s))
      else
        let (s, p) = sdk_alloc s in
        if oc_ws_init oc \<noteq> VOLC_OK then
          c_bind (sdk_free (Some basic) s) (\<lambda>s. c_bind (sdk_free (Some p) s) (\<lambda>s. Inr (oc_ws_init oc, s)))
        else init_mqtt oc basic cf (s\<lparr>sd_ctx := (sd_ctx s)\<lparr>sc_ws := Some p\<rparr>, sd_ws := Some (settings_of cf)\<rparr>))"

definition init_components :: "sdk_outcome \<Rightarrow> nat \<Rightarrow> sdk_state \<Rightarrow> (int \<times> sdk_state) c_result" where
  "init_components oc basic s =
     c_bind (onesdk_fetch_config oc s) (\<lambda>(ret, s).
        if ret \<noteq> VOLC_OK then c_bind (sdk_free (Some basic) s) (\<lambda>s. Inr (ret, s))
        else if \<not> oc_chat oc \<or> \<not> oc_llm_strings oc then
          c_bind (sdk_free (Some basic) (if oc_chat oc then fst (sdk_alloc s) else s)) (\<lambda>s. Inr (VOLC_ERR_MALLOC, s))
        else
          let (s, p) = sdk_alloc s in
          (case sd_config s of
             None \<Rightarrow> Inl NullDeref
           | Some cf \<Rightarrow> init_ws oc basic cf (s\<lparr>sd_ctx := (sd_ctx s)\<lparr>sc_chat := Some p\<rparr>\<rparr>)))"

text \<open>\<^verbatim>\<open>onesdk_init\<close> on the context of the caller.\<close>

definition init_given :: "sdk_outcome \<Rightarrow> sdk_state \<Rightarrow> (int \<times> sdk_state) c_result" where
  "init_given oc s =
     (let s = s\<lparr>sd_ctx := cleared_sdk_ctx\<rparr> in
      if \<not> oc_basic oc then Inr (VOLC_ERR_MALLOC, s)
      else
        let (s, basic) = sdk_alloc s in
        if (case sd_config s of None \<Rightarrow> True | Some cf \<Rightarrow> \<not> cf_device cf) then
          c_bind (sdk_free (Some basic) s) (\<lambda>s. Inr (VOLC_ERR_INVALID_PARAM, s))
        else
          let s = s\<lparr>sd_ctx := (sd_ctx s)\<lparr>sc_config := True\<rparr>\<rparr> in
          if oc_register oc \<noteq> VOLC_OK then c_bind (sdk_free (Some basic) s) (\<lambda>s. Inr (oc_register oc, s))
          else init_components oc basic (s\<lparr>sd_ctx := (sd_ctx s)\<lparr>sc_basic := Some basic\<rparr>\<rparr>))"

text \<open>Without a context one is allocated, and the caller never gets it.\<close>

definition onesdk_init :: "sdk_outcome \<Rightarrow> bool \<Rightarrow> sdk_state \<Rightarrow> (int \<times> sdk_state) c_result" where
  "onesdk_init oc given s =
     (let s = s\<lparr>sd_log := iot_log_init (Some []) (sd_log s)\<rparr> in
      if given then init_given oc s
      else if \<not> oc_ctx oc then Inr (VOLC_ERR_MALLOC, s)
      else c_bind (init_given oc (fst (sdk_alloc s))) (\<lambda>(ret, s'). Inr (ret, s'\<lparr>sd_ctx := sd_ctx s\<rparr>)))"

section \<open>Connecting\<close>

definition onesdk_connect :: "int \<Rightarrow> int \<Rightarrow> sdk_state \<Rightarrow> int c_result" where
  "onesdk_connect ws_ret mqtt_ret s =
     c_bind (sdk_use (sc_ws (sd_ctx s)) s) (\<lambda>_.
     if ws_ret \<noteq> VOLC_OK then Inr ws_ret
     else if sc_mqtt (sd_ctx s) = None then Inr VOLC_OK
     else c_bind (sdk_use (sc_mqtt (sd_ctx s)) s) (\<lambda>_. Inr mqtt_ret))"

definition onesdk_chat_release_context :: "sdk_state \<Rightarrow> sdk_state c_result" where
  "onesdk_chat_release_context s =
     c_bind (sdk_free (sc_chat (sd_ctx s)) s) (\<lambda>s. Inr (s\<lparr>sd_ctx := (sd_ctx s)\<lparr>sc_chat := None\<rparr>\<rparr>))"

text \<open>Unlike connecting, disconnecting does not ask whether there is an MQTT client.\<close>

definition onesdk_disconnect :: "sdk_state \<Rightarrow> (int \<times> sdk_state) c_result" where
  "onesdk_disconnect s =
     c_bind (onesdk_chat_release_context s) (\<lambda>s.
     c_bind (sdk_use (sc_ws (sd_ctx s)) s) (\<lambda>_.
     c_bind (sdk_use (sc_mqtt (sd_ctx s)) s) (\<lambda>_. Inr (VOLC_OK, s))))"

section \<open>Release\<close>

text \<open>
  The structures of the MQTT client, of the updates and of the log reports are used, but not released;
  the thing model is not mentioned. The pointers stay.
\<close>

definition onesdk_deinit :: "sdk_state \<Rightarrow> (int \<times> sdk_state) c_result" where
  "onesdk_deinit s =
     (let ctx = sd_ctx s in
      c_bind (sdk_free (sc_ws ctx) s) (\<lambda>s.
      c_bind (sdk_free (sc_rt_json_buf ctx) s) (\<lambda>s.
      c_bind (if sc_config ctx then sdk_free (Option.bind (sd_config s) cf_llm) s else Inr s) (\<lambda>s.
      c_bind (onesdk_chat_release_context s) (\<lambda>s.
      c_bind (if sc_ota_switch ctx then sdk_use (sc_ota ctx) s else Inr ()) (\<lambda>_.
      c_bind (if sc_mqtt ctx \<noteq> None then sdk_use (sc_mqtt ctx) s else Inr ()) (\<lambda>_.
      c_bind (sdk_free (sc_basic ctx) s) (\<lambda>s.
      c_bind (iot_log_deinit (sd_log s)) (\<lambda>w.
      Inr (VOLC_OK, s\<lparr>sd_log := w\<rparr>))))))))))"

section \<open>Parts of the device\<close>

fun onesdk_iot_keepalive :: "bool \<Rightarrow> int list \<Rightarrow> int option" where
  "onesdk_iot_keepalive False rs = Some VOLC_ERR_INIT"
| "onesdk_iot_keepalive True [] = None"
| "onesdk_iot_keepalive True (r # rs) = (if r < 0 then Some VOLC_OK else onesdk_iot_keepalive True rs)"

definition onesdk_iot_enable_log_upload :: "basic_config option \<Rightarrow> sdk_state \<Rightarrow> (int \<times> sdk_state \<times> log_act list) c_result" where
  "onesdk_iot_enable_log_upload cfg s =
     (if sc_mqtt (sd_ctx s) = None then Inr (VOLC_ERR_INIT, s, [])
      else c_bind (aiot_log_set_mqtt_handler cfg (aiot_log_init (sd_log s))) (\<lambda>(w, acts).
        Inr (VOLC_OK, s\<lparr>sd_log := w, sd_ctx := (sd_ctx s)\<lparr>sc_log_switch := True\<rparr>\<rparr>, acts)))"

definition onesdk_iot_enable_ota :: "int \<Rightarrow> sdk_state \<Rightarrow> int \<times> sdk_state" where
  "onesdk_iot_enable_ota ret s =
     (if sc_mqtt (sd_ctx s) = None then (VOLC_ERR_INIT, s)
      else let (s, p) = sdk_alloc s in
        if ret \<noteq> VOLC_OK then (ret, s)
        else (ret, s\<lparr>sd_ctx := (sd_ctx s)\<lparr>sc_ota_switch := True, sc_ota := Some p\<rparr>\<rparr>))"

datatype ota_status_call = CallInstallSuccess | CallInstallFailed string | CallInstalling

text \<open>The status of a download reports the installation.\<close>

definition onesdk_iot_ota_report_install_status :: "nat \<Rightarrow> int + ota_status_call" where
  "onesdk_iot_ota_report_install_status status =
     (if status = 0 then Inr CallInstallSuccess else if status = 1 then Inr (CallInstallFailed [])
      else if status = 2 then Inr CallInstalling else Inl VOLC_ERR_INVALID_PARAM)"

definition onesdk_iot_tm_init :: "basic_config option \<Rightarrow> sdk_state \<Rightarrow> (int \<times> sdk_state \<times> thing_act list) c_result" where
  "onesdk_iot_tm_init cfg s =
     (if sc_mqtt (sd_ctx s) = None then Inr (VOLC_ERR_INIT, s, [])
      else if sc_tm (sd_ctx s) \<noteq> None then Inr (VOLC_OK, s, [])
      else
        let (s, p) = sdk_alloc s in
        c_bind (iot_tm_set_mqtt_handler cfg iot_tm_init) (\<lambda>(ret, h, acts).
        if ret \<noteq> VOLC_OK then c_bind (sdk_free (Some p) s) (\<lambda>s. Inr (ret, s, acts))
        else Inr (VOLC_OK, s\<lparr>sd_ctx := (sd_ctx s)\<lparr>sc_tm := Some p, sc_tm_switch := True\<rparr>, sd_tm := h\<rparr>, acts)))"

definition onesdk_iot_tm_deinit :: "sdk_state \<Rightarrow> sdk_state c_result" where
  "onesdk_iot_tm_deinit s =
     (if sc_tm (sd_ctx s) = None then Inr s
      else c_bind (sdk_free (sc_tm (sd_ctx s)) s) (\<lambda>s.
        Inr (s\<lparr>sd_ctx := (sd_ctx s)\<lparr>sc_tm := None, sc_tm_switch := False\<rparr>\<rparr>)))"

definition onesdk_iot_tm_set_recv_cb :: "bool \<Rightarrow> sdk_state \<Rightarrow> int \<times> sdk_state" where
  "onesdk_iot_tm_set_recv_cb given s =
     (if sc_tm (sd_ctx s) = None then (VOLC_ERR_INIT, s)
      else if \<not> given then (VOLC_ERR_INVALID_PARAM, s)
      else (VOLC_OK, s\<lparr>sd_tm := iot_tm_set_tm_recv_handler_t True (sd_tm s)\<rparr>))"

definition onesdk_iot_get_tm_handler :: "sdk_state \<Rightarrow> nat option" where
  "onesdk_iot_get_tm_handler s = sc_tm (sd_ctx s)"

definition onesdk_iot_tm_custom_topic_sub :: "string option \<Rightarrow> sdk_state \<Rightarrow> (int \<times> thing_act list) c_result" where
  "onesdk_iot_tm_custom_topic_sub sfx s =
     (if sc_tm (sd_ctx s) = None then Inr (VOLC_ERR_INIT, [])
      else case sfx of
        None \<Rightarrow> Inr (VOLC_ERR_INVALID_PARAM, [])
      | Some x \<Rightarrow> if x = [] then Inr (VOLC_ERR_INVALID_PARAM, [])
          else c_bind (tm_sub_custom_topic (sd_tm s) x) (\<lambda>acts. Inr (VOLC_OK, acts)))"

definition onesdk_iot_tm_custom_topic_pub ::
  "thing_env \<Rightarrow> string option \<Rightarrow> string option \<Rightarrow> sdk_state \<Rightarrow> (int \<times> thing_act list) c_result" where
  "onesdk_iot_tm_custom_topic_pub env sfx payload s =
     (if sc_tm (sd_ctx s) = None then Inr (VOLC_ERR_INIT, [])
      else case (sfx, payload) of
        (Some x, Some t) \<Rightarrow>
          if x = [] \<or> t = [] then Inr (VOLC_ERR_INVALID_PARAM, [])
          else c_bind (iot_tm_send env (Some (sd_tm s)) (Some (library_msg (CustomTopic x t)))) (\<lambda>(ret, _, acts). Inr (ret, acts))
      | _ \<Rightarrow> Inr (VOLC_ERR_INVALID_PARAM, []))"

end
