(* ===== verification/SdkProps.thy ===== *)
theory SdkProps
  imports Sdk LogProps
begin

text \<open>
  The properties of the entry points: what a session releases, which failed initialisations leave pointers
  to released memory behind, and what a second session finds.
\<close>

section \<open>Initialisation\<close>

definition sdk_valid :: "sdk_state \<Rightarrow> bool" where
  "sdk_valid s \<longleftrightarrow> (\<forall>n\<in>sd_live s. n < sd_fresh s)"

lemmas init_defs = onesdk_init_def init_given_def init_components_def init_ws_def init_mqtt_def onesdk_fetch_config_def
  sdk_alloc_def sdk_free_def

text \<open>The state a successful initialisation leaves, written out.\<close>

lemma init_result:
  assumes "onesdk_init oc True s = Inr (VOLC_OK, s1)"
  obtains cf where "sd_config s = Some cf"
    "sd_config s1 = Some (cf\<lparr>cf_llm := Some (Suc (sd_fresh s))\<rparr>)" "sd_log s1 = iot_log_init (Some []) (sd_log s)"
    "sd_ctx s1 = cleared_sdk_ctx\<lparr>sc_config := True, sc_basic := Some (sd_fresh s), sc_chat := Some (sd_fresh s + 2),
       sc_ws := Some (sd_fresh s + 3), sc_mqtt := (if cf_mqtt cf then Some (sd_fresh s + 4) else None)\<rparr>"
    "sd_live s1 = sd_live s \<union> {sd_fresh s ..< sd_fresh s1}" "sd_fresh s1 = sd_fresh s + (if cf_mqtt cf then 5 else 4)"
proof -
  have r: "oc_basic oc" "oc_register oc = 0"
    and "\<exists>cf. sd_config s = Some cf \<and> cf_device cf"
    using assms by (auto simp: onesdk_init_def init_given_def sdk_alloc_def c_bind_Inr_iff Let_def error_codes split: if_splits option.splits)
  then obtain cf where cf: "sd_config s = Some cf" "cf_device cf" by blast
  have c: "oc_llm_alloc oc" "oc_llm oc = 0" "oc_chat oc" "oc_llm_strings oc"
    using assms by (auto simp: onesdk_init_def init_given_def sdk_alloc_def c_bind_Inr_iff Let_def error_codes r cf init_components_def
        onesdk_fetch_config_def split: if_splits)
  have w: "oc_ws_config oc" "oc_ws oc" "oc_ws_init oc = 0"
    using assms by (auto simp: onesdk_init_def init_given_def sdk_alloc_def c_bind_Inr_iff Let_def error_codes r cf init_components_def
        onesdk_fetch_config_def c init_ws_def split: if_splits)
  have e: "{n..<n + 5} = {n, Suc n, Suc (Suc n), Suc (Suc (Suc n)), Suc (Suc (Suc (Suc n)))}"
    "{n..<n + 4} = {n, Suc n, Suc (Suc n), Suc (Suc (Suc n))}" for n :: nat
    by auto
  show thesis
  proof (cases "cf_mqtt cf")
    case True
    have "oc_mqtt oc" "oc_mqtt_init oc = 0"
      using assms by (auto simp: onesdk_init_def init_given_def sdk_alloc_def c_bind_Inr_iff Let_def error_codes r cf init_components_def
          onesdk_fetch_config_def c w init_ws_def init_mqtt_def True split: if_splits)
    then show thesis using assms True
      by (intro that [OF cf(1)]) (auto simp: init_defs Let_def error_codes r cf c w e)
  next
    case False
    then show thesis using assms
      by (intro that [OF cf(1)]) (auto simp: cleared_sdk_ctx_def numeral_3_eq_3 init_defs Let_def error_codes r cf c w e)
  qed
qed

lemma valid_fresh: "sdk_valid s \<Longrightarrow> sd_fresh s \<le> n \<Longrightarrow> n \<notin> sd_live s"
  by (auto simp: sdk_valid_def)

lemma log_init_open: "\<exists>c. lw_ctx (iot_log_init (Some []) w) = Some c"
  by (cases "lw_ctx w") (simp_all add: iot_log_init_def iot_log_init_with_option_def)

lemma session_released:
  assumes "sdk_valid s" "onesdk_init oc True s = Inr (VOLC_OK, s1)"
  shows "\<exists>s2. onesdk_deinit s1 = Inr (VOLC_OK, s2) \<and> sd_live s2 = sd_live s \<union> set_option (sc_mqtt (sd_ctx s1)) \<and>
    vw_status (log_view_of (sd_log s2)) = LogClosed \<and> onesdk_deinit s2 = Inl UseAfterFree"
proof -
  obtain cf where r: "sd_config s = Some cf"
    "sd_config s1 = Some (cf\<lparr>cf_llm := Some (Suc (sd_fresh s))\<rparr>)" "sd_log s1 = iot_log_init (Some []) (sd_log s)"
    "sd_ctx s1 = cleared_sdk_ctx\<lparr>sc_config := True, sc_basic := Some (sd_fresh s), sc_chat := Some (sd_fresh s + 2),
       sc_ws := Some (sd_fresh s + 3), sc_mqtt := (if cf_mqtt cf then Some (sd_fresh s + 4) else None)\<rparr>"
    "sd_live s1 = sd_live s \<union> {sd_fresh s ..< sd_fresh s1}" "sd_fresh s1 = sd_fresh s + (if cf_mqtt cf then 5 else 4)"
    by (rule init_result [OF assms(2)])
  obtain c where c: "lw_ctx (sd_log s1) = Some c" using log_init_open r(3) by metis
  have "{n..<n + 5} = {n, Suc n, n + 2, n + 3, n + 4}" "{n..<n + 4} = {n, Suc n, n + 2, n + 3}" for n :: nat by auto
  note live = r(5) [unfolded r(6)] this
  have new: "sd_fresh s \<notin> sd_live s" "Suc (sd_fresh s) \<notin> sd_live s" "sd_fresh s + 2 \<notin> sd_live s" "sd_fresh s + 3 \<notin> sd_live s"
    "sd_fresh s + 4 \<notin> sd_live s" using valid_fresh [OF assms(1)] by auto
  show ?thesis
    using c new
    by (cases "cf_mqtt cf") (auto simp: onesdk_deinit_def Let_def r(2,4) live cleared_sdk_ctx_def sdk_free_def sdk_use_def
        onesdk_chat_release_context_def iot_log_deinit_def log_view_of_def)
qed

text \<open>
  C27. A session that was initialised releases everything it created exactly once, except the structure of the MQTT
  client, and closes the log; a second release uses memory that is gone.
\<close>

theorem sdk_session_released:
  assumes "sdk_valid s" "onesdk_init oc True s = Inr (VOLC_OK, s1)"
  shows "\<exists>s2. onesdk_deinit s1 = Inr (VOLC_OK, s2) \<and> sd_live s2 = sd_live s \<union> set_option (sc_mqtt (sd_ctx s1)) \<and>
    vw_status (log_view_of (sd_log s2)) = LogClosed \<and> onesdk_deinit s2 = Inl UseAfterFree"
  by (rule session_released [OF assms])

section \<open>Failures\<close>

text \<open>
  A failed initialisation leaves a pointer to released memory in the context, so that the release uses it again,
  exactly when the device was registered and the failure is not that of the allocation for the MQTT client.
\<close>

theorem sdk_failed_init_dangles:
  assumes "sdk_valid s" "onesdk_init oc True s = Inr (ret, s1)" "ret \<noteq> VOLC_OK"
    and "sd_config s = Some cf" "cf_llm cf = None"
  shows "onesdk_deinit s1 = Inl UseAfterFree \<longleftrightarrow>
    oc_basic oc \<and> cf_device cf \<and> oc_register oc = VOLC_OK \<and>
    \<not> (oc_llm oc = 0 \<and> oc_chat oc \<and> oc_llm_strings oc \<and> oc_ws_config oc \<and> oc_ws oc \<and> oc_ws_init oc = VOLC_OK \<and> cf_mqtt cf \<and> \<not> oc_mqtt oc)"
proof -
  have new: "sd_fresh s \<notin> sd_live s" "Suc (sd_fresh s) \<notin> sd_live s" "Suc (Suc (sd_fresh s)) \<notin> sd_live s"
    "Suc (Suc (Suc (sd_fresh s))) \<notin> sd_live s" "Suc (Suc (Suc (Suc (sd_fresh s)))) \<notin> sd_live s"
    using valid_fresh [OF assms(1)] by auto
  obtain c where c: "lw_ctx (iot_log_init (Some []) (sd_log s)) = Some c" using log_init_open by metis
  note release = onesdk_deinit_def onesdk_chat_release_context_def cleared_sdk_ctx_def sdk_use_def iot_log_deinit_def c
  show ?thesis
  proof (cases "oc_basic oc \<and> cf_device cf \<and> oc_register oc = 0 \<and> oc_llm_alloc oc \<and> oc_llm oc = 0 \<and> oc_chat oc \<and> oc_llm_strings oc")
    case True
    then show ?thesis
      using assms(2-) new
      by (cases "oc_ws_config oc"; cases "oc_ws oc"; cases "oc_ws_init oc = 0"; cases "cf_mqtt cf"; cases "oc_mqtt oc")
        (auto simp: init_defs Let_def error_codes release split: if_splits)
  next
    case False
    then show ?thesis
      using assms(2-) new
      by (cases "oc_basic oc"; cases "cf_device cf"; cases "oc_register oc = 0"; cases "oc_llm_alloc oc"; cases "oc_llm oc = 0")
        (auto simp: init_defs Let_def error_codes release split: if_splits)
  qed
qed

text \<open>
  Without an MQTT configuration a session connects, but disconnecting reads a null pointer.
\<close>

theorem sdk_disconnect_without_mqtt:
  assumes "sdk_valid s" "onesdk_init oc True s = Inr (VOLC_OK, s1)" "sd_config s = Some cf" "\<not> cf_mqtt cf"
  shows "onesdk_connect VOLC_OK ret s1 = Inr VOLC_OK \<and> onesdk_disconnect s1 = Inl NullDeref"
proof -
  obtain cf' where r: "sd_config s = Some cf'"
    "sd_ctx s1 = cleared_sdk_ctx\<lparr>sc_config := True, sc_basic := Some (sd_fresh s), sc_chat := Some (sd_fresh s + 2),
       sc_ws := Some (sd_fresh s + 3), sc_mqtt := (if cf_mqtt cf' then Some (sd_fresh s + 4) else None)\<rparr>"
    "sd_live s1 = sd_live s \<union> {sd_fresh s ..< sd_fresh s1}" "sd_fresh s1 = sd_fresh s + (if cf_mqtt cf' then 5 else 4)"
    by (rule init_result [OF assms(2)])
  then show ?thesis using assms(3,4)
    by (simp add: onesdk_connect_def onesdk_disconnect_def onesdk_chat_release_context_def sdk_free_def sdk_use_def cleared_sdk_ctx_def error_codes)
qed

text \<open>Only the initialisation of the logs and their release touch the log.\<close>

lemma free_log: "sdk_free p a = Inr b \<Longrightarrow> sd_log b = sd_log a" "sdk_free p a = Inr b \<Longrightarrow> sd_config b = sd_config a"
  by (auto simp: sdk_free_def split: option.splits if_splits)

lemma release_log: "onesdk_chat_release_context a = Inr b \<Longrightarrow> sd_log b = sd_log a"
    "onesdk_chat_release_context a = Inr b \<Longrightarrow> sd_config b = sd_config a"
  by (auto simp: onesdk_chat_release_context_def c_bind_Inr_iff free_log)

lemma deinit_log:
  assumes "onesdk_deinit s = Inr (ret, s')"
  shows "iot_log_deinit (sd_log s) = Inr (sd_log s')" "sd_config s' = sd_config s"
proof -
  obtain a b d e f w where steps: "sdk_free (sc_ws (sd_ctx s)) s = Inr a" "sdk_free (sc_rt_json_buf (sd_ctx s)) a = Inr b"
    "(if sc_config (sd_ctx s) then sdk_free (Option.bind (sd_config b) cf_llm) b else Inr b) = Inr d"
    "onesdk_chat_release_context d = Inr e" "sdk_free (sc_basic (sd_ctx s)) e = Inr f"
    "iot_log_deinit (sd_log f) = Inr w" "s' = f\<lparr>sd_log := w\<rparr>"
    using assms unfolding onesdk_deinit_def Let_def c_bind_Inr_iff by blast
  have "sd_log d = sd_log b \<and> sd_config d = sd_config b" using steps(3) by (cases "sc_config (sd_ctx s)") (auto dest: free_log)
  then have "sd_log f = sd_log s" "sd_config f = sd_config s" using steps(1,2,4,5) by (simp_all add: free_log release_log)
  then show "iot_log_deinit (sd_log s) = Inr (sd_log s')" "sd_config s' = sd_config s" using steps(6,7) by simp_all
qed

lemma mqtt_log: "init_mqtt oc basic cf a = Inr (r, b) \<Longrightarrow> sd_log b = sd_log a"
  by (auto simp: init_mqtt_def sdk_alloc_def Let_def c_bind_Inr_iff free_log split: if_splits)

lemma ws_log: "init_ws oc basic cf a = Inr (r, b) \<Longrightarrow> sd_log b = sd_log a"
  by (auto simp: init_ws_def sdk_alloc_def Let_def c_bind_Inr_iff free_log mqtt_log split: if_splits)

lemma fetch_log: "onesdk_fetch_config oc a = Inr (r, b) \<Longrightarrow> sd_log b = sd_log a"
  by (auto simp: onesdk_fetch_config_def sdk_alloc_def Let_def split: if_splits option.splits)

lemma components_log: "init_components oc basic a = Inr (r, b) \<Longrightarrow> sd_log b = sd_log a"
  by (auto simp: init_components_def sdk_alloc_def Let_def c_bind_Inr_iff free_log fetch_log ws_log split: if_splits option.splits)

lemma given_log: "init_given oc a = Inr (r, b) \<Longrightarrow> sd_log b = sd_log a"
  by (auto simp: init_given_def sdk_alloc_def Let_def c_bind_Inr_iff free_log components_log split: if_splits)

lemma init_log: "onesdk_init oc given a = Inr (r, b) \<Longrightarrow> sd_log b = iot_log_init (Some []) (sd_log a)"
  by (auto simp: onesdk_init_def Let_def c_bind_Inr_iff sdk_alloc_def given_log split: if_splits)

text \<open>
  The second session of a program has no log: whatever is logged after its initialisation, nothing is reported.
\<close>

theorem sdk_second_session_silent:
  assumes "onesdk_deinit s1 = Inr (ret, s2)" "onesdk_init oc given s2 = Inr (ret', s3)"
    and "c_run log_exec ops (sd_log s3) = Inr (w, acts)"
  shows "published acts = [] \<and> vw_status (log_view_of w) = LogClosed"
proof -
  obtain c where c: "lw_ctx (sd_log s2) = Some c" "lc_finished c" "lc_pending c = []"
    using deinit_log(1) [OF assms(1)] by (auto simp: iot_log_deinit_def split: option.splits dest: sym)
  then have "sd_log s3 = sd_log s2" by (simp add: init_log [OF assms(2)] iot_log_init_def iot_log_init_with_option_def)
  then have v: "log_valid (sd_log s3)" "vw_status (log_view_of (sd_log s3)) = LogClosed"
    using c by (simp_all add: log_valid_def log_view_of_def)
  from log_reports.run_refines [OF v(1) assms(3)] spec_closed [OF v(2), of ops] show ?thesis by simp
qed

section \<open>Custom topics\<close>

text \<open>
  A custom message is published exactly under the suffix the user gave, with the payload unchanged, and
  subscribing to the same suffix subscribes to the same topic.
\<close>

theorem sdk_custom_topic:
  assumes "onesdk_iot_tm_init (Some cfg) s = Inr (VOLC_OK, s1, acts)" "sc_mqtt (sd_ctx s) \<noteq> None" "sc_tm (sd_ctx s) = None"
    and "bc_product_key cfg = Some pk" "bc_device_name cfg = Some dn"
    and "sfx \<noteq> []" "length sfx < 1024" "payload \<noteq> []"
  shows "let topic = ''sys/'' @ pk @ ''/'' @ dn @ ''/custom/'' @ sfx in
    onesdk_iot_tm_custom_topic_pub env (Some sfx) (Some payload) s1 = Inr (VOLC_OK, [PublishT topic payload]) \<and>
    onesdk_iot_tm_custom_topic_sub (Some sfx) s1 = Inr (VOLC_OK, [SubscribeT topic 10])"
proof -
  obtain ret h as where h: "iot_tm_set_mqtt_handler (Some cfg) iot_tm_init = Inr (ret, h, as)" "sd_tm s1 = h" "sc_tm (sd_ctx s1) \<noteq> None"
    using assms(1-3) by (auto simp: onesdk_iot_tm_init_def sdk_alloc_def Let_def c_bind_Inr_iff split: if_splits)
  have "th_mqtt h = Some cfg"
    using h(1) by (auto simp: iot_tm_set_mqtt_handler_def Let_def c_bind_Inr_iff split: if_splits)
  then show ?thesis
    using assms(4-) h(2,3)
    by (auto simp: onesdk_iot_tm_custom_topic_pub_def onesdk_iot_tm_custom_topic_sub_def library_msg_def iot_tm_send_def
        dm_prepare_send_topic_def msg_name_def iot_get_topic_with_1_c_str_param_def print_into_def secure_strlen_def tm_payload_def
        tm_document_def tm_sub_custom_topic_def config_names_def iot_get_topic_with_1_param_def Let_def)
qed

section \<open>Examples\<close>

definition sdk_state0 :: "bool \<Rightarrow> sdk_state" where
  "sdk_state0 mqtt =
     \<lparr>sd_ctx = cleared_sdk_ctx,
      sd_config = Some \<lparr>cf_device = True, cf_mqtt = mqtt, cf_llm = None, cf_aigw_path = None, cf_send_ping = False, cf_ping_interval_s = 0\<rparr>,
      sd_live = {}, sd_fresh = 0, sd_log = log_start, sd_tm = iot_tm_init, sd_ws = None\<rparr>"

definition outcome0 :: sdk_outcome where
  "outcome0 = \<lparr>oc_ctx = True, oc_basic = True, oc_register = 0, oc_llm_alloc = True, oc_llm = 0, oc_llm_strings = True, oc_chat = True,
     oc_ws_config = True, oc_ws = True, oc_ws_init = 0, oc_mqtt = True, oc_mqtt_init = 0\<rparr>"

lemma valid_state0: "sdk_valid (sdk_state0 b)"
  by (simp add: sdk_valid_def sdk_state0_def)

lemma init0: "\<exists>s1. onesdk_init outcome0 True (sdk_state0 b) = Inr (VOLC_OK, s1)"
  by (cases b) (simp_all add: init_defs Let_def outcome0_def sdk_state0_def error_codes)

lemma sdk_session_released_witness:
  "\<exists>s1 s2. onesdk_init outcome0 True (sdk_state0 False) = Inr (VOLC_OK, s1) \<and> onesdk_deinit s1 = Inr (VOLC_OK, s2) \<and>
     onesdk_deinit s2 = Inl UseAfterFree"
proof -
  obtain s1 where i: "onesdk_init outcome0 True (sdk_state0 False) = Inr (VOLC_OK, s1)" using init0 by blast
  from sdk_session_released [OF valid_state0 i] i show ?thesis by blast
qed

lemma sdk_failed_init_dangles_witness:
  "\<exists>s1. onesdk_init (outcome0\<lparr>oc_llm := 1\<rparr>) True (sdk_state0 False) = Inr (VOLC_ERR_INVALID_PARAM, s1) \<and> onesdk_deinit s1 = Inl UseAfterFree"
proof -
  have "\<exists>s1. onesdk_init (outcome0\<lparr>oc_llm := 1\<rparr>) True (sdk_state0 False) = Inr (VOLC_ERR_INVALID_PARAM, s1)"
    by (simp add: init_defs Let_def outcome0_def sdk_state0_def error_codes)
  then obtain s1 where i: "onesdk_init (outcome0\<lparr>oc_llm := 1\<rparr>) True (sdk_state0 False) = Inr (VOLC_ERR_INVALID_PARAM, s1)" by blast
  have n: "VOLC_ERR_INVALID_PARAM \<noteq> VOLC_OK" by (simp add: error_codes)
  have cf: "sd_config (sdk_state0 False) = Some \<lparr>cf_device = True, cf_mqtt = False, cf_llm = None, cf_aigw_path = None, cf_send_ping = False, cf_ping_interval_s = 0\<rparr>"
    by (simp add: sdk_state0_def)
  from sdk_failed_init_dangles [OF valid_state0 i n cf] i show ?thesis by (auto simp: outcome0_def error_codes)
qed

lemma sdk_disconnect_without_mqtt_witness:
  "\<exists>s1. onesdk_init outcome0 True (sdk_state0 False) = Inr (VOLC_OK, s1) \<and> onesdk_disconnect s1 = Inl NullDeref"
proof -
  obtain s1 where i: "onesdk_init outcome0 True (sdk_state0 False) = Inr (VOLC_OK, s1)" using init0 by blast
  have cf: "sd_config (sdk_state0 False) = Some \<lparr>cf_device = True, cf_mqtt = False, cf_llm = None, cf_aigw_path = None, cf_send_ping = False, cf_ping_interval_s = 0\<rparr>"
    by (simp add: sdk_state0_def)
  from sdk_disconnect_without_mqtt [OF valid_state0 i cf] i show ?thesis by auto
qed

lemma init0_again:
  assumes "sd_config s = Some cf" "cf_device cf"
  shows "\<exists>s1. onesdk_init outcome0 True s = Inr (VOLC_OK, s1)"
  using assms by (cases "cf_mqtt cf") (simp_all add: init_defs Let_def outcome0_def error_codes)

lemma sdk_second_session_silent_witness:
  "\<exists>s1 s2 s3 w acts. onesdk_init outcome0 True (sdk_state0 False) = Inr (VOLC_OK, s1) \<and> onesdk_deinit s1 = Inr (VOLC_OK, s2) \<and>
     onesdk_init outcome0 True s2 = Inr (VOLC_OK, s3) \<and>
     c_run log_exec [OpStart, OpSwitch True 5, OpPrint log_env0 2 ''sdk'' ''T'' ''x''] (sd_log s3) = Inr (w, acts) \<and> published acts = []"
proof -
  obtain s1 where i: "onesdk_init outcome0 True (sdk_state0 False) = Inr (VOLC_OK, s1)" using init0 by blast
  have "\<exists>cf. sd_config s1 = Some cf \<and> cf_device cf"
  proof (rule init_result [OF i])
    fix cf assume "sd_config (sdk_state0 False) = Some cf"
      "sd_config s1 = Some (cf\<lparr>cf_llm := Some (Suc (sd_fresh (sdk_state0 False)))\<rparr>)"
    then show ?thesis by (auto simp: sdk_state0_def)
  qed
  then obtain cf where cf: "sd_config s1 = Some cf" "cf_device cf" by blast
  have log: "lw_ctx (sd_log s1) \<noteq> None" using init_log [OF i] log_init_open by auto
  have "\<exists>s2. onesdk_deinit s1 = Inr (VOLC_OK, s2)"
    using session_released [OF valid_state0 i] by blast
  then obtain s2 where d: "onesdk_deinit s1 = Inr (VOLC_OK, s2)" by blast
  obtain s3 where j: "onesdk_init outcome0 True s2 = Inr (VOLC_OK, s3)"
    using init0_again deinit_log(2) [OF d] cf by auto
  obtain c where c: "lw_ctx (sd_log s2) = Some c" "lc_finished c"
    using deinit_log(1) [OF d] by (auto simp: iot_log_deinit_def split: option.splits dest: sym)
  then have "sd_log s3 = sd_log s2" by (simp add: init_log [OF j] iot_log_init_def iot_log_init_with_option_def)
  then have "\<exists>w acts. c_run log_exec [OpStart, OpSwitch True 5, OpPrint log_env0 2 ''sdk'' ''T'' ''x''] (sd_log s3) = Inr (w, acts)"
    using c by (simp add: log_exec_def quiet_def aiot_log_init_def iot_log_set_on_log_save_fn_def aiot_log_set_report_switch_def sdk_log_print_def)
  then obtain w acts where r: "c_run log_exec [OpStart, OpSwitch True 5, OpPrint log_env0 2 ''sdk'' ''T'' ''x''] (sd_log s3) = Inr (w, acts)" by blast
  show ?thesis using sdk_second_session_silent [OF d j r] i d j r by blast
qed

definition sdk_cfg :: basic_config where
  "sdk_cfg = log_cfg"

lemma sdk_custom_topic_witness:
  "\<exists>s1 as. onesdk_iot_tm_init (Some sdk_cfg) ((sdk_state0 True)\<lparr>sd_ctx := cleared_sdk_ctx\<lparr>sc_mqtt := Some 0\<rparr>\<rparr>) = Inr (VOLC_OK, s1, as) \<and>
     onesdk_iot_tm_custom_topic_pub \<lparr>te_json = le_json log_env0, te_random = 1, te_now = 1, te_unix_ms = 1\<rparr> (Some ''get'') (Some ''{}'') s1 =
       Inr (VOLC_OK, [PublishT ''sys/pk/dev/custom/get'' ''{}''])"
proof -
  let ?s = "(sdk_state0 True)\<lparr>sd_ctx := cleared_sdk_ctx\<lparr>sc_mqtt := Some 0\<rparr>\<rparr>"
  have n: "bc_product_key sdk_cfg = Some ''pk''" "bc_device_name sdk_cfg = Some ''dev''" by (simp_all add: sdk_cfg_def log_cfg_def)
  have "\<exists>s1 as. onesdk_iot_tm_init (Some sdk_cfg) ?s = Inr (VOLC_OK, s1, as)"
  proof -
    have t: "iot_get_common_topic f ''pk'' ''dev'' = Inr (fmt_s f [''pk'', ''dev''])" for f
      using length_fmt_s [of f "[''pk'', ''dev'']"] by (simp add: iot_get_common_topic_def print_into_def)
    show ?thesis
      by (simp add: onesdk_iot_tm_init_def cleared_sdk_ctx_def sdk_alloc_def iot_tm_set_mqtt_handler_def s_tm_set_up_mqtt_topic_def
          config_names_def n t g_dm_recv_topic_mapping_def sub_device_delay_info_def error_codes)
  qed
  then obtain s1 as where i: "onesdk_iot_tm_init (Some sdk_cfg) ?s = Inr (VOLC_OK, s1, as)" by blast
  show ?thesis
    using sdk_custom_topic [OF i _ _ n, of "''get''" "''{}''"] i by (auto simp: cleared_sdk_ctx_def Let_def)
qed

end
