(* ===== verification/Spec2Isabelle.thy ===== *)
theory Spec2Isabelle
  imports MqttTheorems SseTheorems HttpProps Sha256Props Md5Props RegisterTheorems RtFragments ChatRoundtrip OtaProps ThingProps McpProps LogProps SdkProps
begin

text \<open>
  A model of the OneSDK C library (device side of an IoT and AI gateway cloud), with its properties.

  The program. A device is described by a basic configuration (\<^verbatim>\<open>src/iot_basic.c\<close>). It
  authenticates with HMAC signatures (\<^verbatim>\<open>src/iot/dynreg.c\<close>, \<^verbatim>\<open>src/aigw/auth.c\<close>) and fetches its
  secret and the gateway key by HTTP requests (\<^verbatim>\<open>src/protocols\<close>), whose answers it decrypts
  (\<^verbatim>\<open>src/util/aes_decode.c\<close>). Telemetry goes through an MQTT client that queues messages and
  subscriptions between API calls and network callbacks (\<^verbatim>\<open>src/iot/iot_mqtt.c\<close>). Model answers come
  as server-sent events over HTTP (\<^verbatim>\<open>src/protocols/http_libs.c\<close>, \<^verbatim>\<open>lws_http_client.c\<close>), to a chat
  (\<^verbatim>\<open>src/infer_inner_chat.c\<close>, \<^verbatim>\<open>src/onesdk_chat.c\<close>), or over a websocket to a realtime session
  (\<^verbatim>\<open>src/infer_realtime_ws.c\<close>, \<^verbatim>\<open>src/onesdk_rt.c\<close>). Firmware updates (\<^verbatim>\<open>src/iot/ota\<close>) are announced over
  MQTT, downloaded over HTTP, checked with MD5 (\<^verbatim>\<open>src/util/md5.c\<close>) and remembered across a restart in a
  key-value store (\<^verbatim>\<open>src/iot/iot_kv.c\<close>). A thing model (\<^verbatim>\<open>src/iot/thingmodel\<close>) exchanges properties, events,
  services and shadows with the cloud, tools of other servers are called over a session of the model context
  protocol (\<^verbatim>\<open>src/mcp_client.c\<close>), and log lines are reported (\<^verbatim>\<open>src/iot/log\<close>). The entry points
  (\<^verbatim>\<open>src/onesdk.c\<close>, \<^verbatim>\<open>src/onesdk_iot.c\<close>) create and release all of this.

  How C is modelled. A struct is a record, a null pointer \<open>None\<close>, an enumeration a datatype or its
  integer, a fixed-width integer a word or a number with the wrap written out, memory a list with
  offsets. Undefined behaviour is a value: \<open>Inl\<close> of its kind. The outcome of an allocation, of a
  call into libwebsockets, cJSON or the operating system is an argument of the definition that makes
  the call; calls and user callbacks are recorded in order. A handler that holds a lock is one step.

  The theories.
  \<^item> \<open>Prelude\<close>: error codes, C results, C strings and arrays, the locales of invariants
    and of codecs.
  \<^item> \<open>Basic\<close>: \<^verbatim>\<open>iot_basic.c\<close>, the deep copy and its roll back.
  \<^item> \<open>Mqtt\<close> (model), \<open>MqttQueue\<close> (the arrays of pending messages refine a queue), \<open>MqttProps\<close>
    (invariants over all histories of API calls and callbacks), \<open>MqttTheorems\<close> (the properties:
    order, bounds, one message in flight, progress of subscriptions, dispatch; and the queue that
    is never drained again).
  \<^item> \<open>Sse\<close>, \<open>SseProps\<close>, \<open>SseTheorems\<close>: the event parser and its receive buffer; they compute the
    cutting of a byte stream into messages, and the chunks of the network do not matter.
  \<^item> \<open>Http\<close>, \<open>HttpProps\<close>: request contexts, callbacks and the wait loop of \<^verbatim>\<open>http.c\<close> and
    \<^verbatim>\<open>lws_http_client.c\<close>: headers, body, termination, and state that leaks between requests.
  \<^item> \<open>StreamHash\<close> (the interface of a streaming hash), \<open>Sha256\<close>, \<open>Sha256Props\<close>: SHA-256 and HMAC
    against FIPS 180-4 and RFC 2104.
  \<^item> \<open>Base64\<close>, \<open>Base64Props\<close>: \<^verbatim>\<open>encoding.c\<close>, round trip and lengths.
  \<^item> \<open>Aes\<close>, \<open>AesTables\<close>, \<open>AesProps\<close>, \<open>AesFips\<close>, \<open>AesTheorems\<close>: \<^verbatim>\<open>aes.c\<close>, its generated tables
    and both key schedules against FIPS 197, and CBC.
  \<^item> \<open>SecretTheorems\<close>: \<^verbatim>\<open>aes_decode\<close> on what the cloud sends.
  \<^item> \<open>Decimal\<close>, \<open>Json\<close>: printed numbers, and JSON values as the library reads and builds them.
  \<^item> \<open>DeviceAuth\<close>, \<open>DeviceAuthProps\<close>, \<open>RegisterTheorems\<close>: signatures, registration, headers, MQTT
    credentials and the gateway configuration.
  \<^item> \<open>Realtime\<close>, \<open>RealtimeApi\<close>, \<open>RealtimeProps\<close>, \<open>RealtimeTheorems\<close>, \<open>RtFragments\<close>: the websocket
    session, its ring of requests as a queue, the fragments of a message, reconnection.
  \<^item> \<open>Md5\<close>, \<open>Md5Props\<close>: MD5 against RFC 1321, an instance of the streaming hash.
  \<^item> \<open>ChatRequest\<close>, \<open>ChatResponse\<close>, \<open>Chat\<close>, \<open>ChatProps\<close>, \<open>ChatTheorems\<close>, \<open>ChatRoundtrip\<close>: the document
    of a request (a codec), the answers, and the buffers an answer is collected in.
  \<^item> \<open>Kv\<close>, \<open>KvProps\<close>: the key-value store and its file, an instance of the interface of a store.
  \<^item> \<open>IotUtils\<close>, \<open>Ota\<close>, \<open>OtaDownload\<close>, \<open>OtaProps\<close>: topics and payloads, jobs and tasks of the firmware
    update, the callbacks of a download and the restart.
  \<^item> \<open>Thing\<close> (messages and documents), \<open>ThingApi\<close> (sending, topics, handlers), \<open>ThingProps\<close>: documents
    without repeated keys, which topic reaches which handler, what is answered, what cannot be sent.
  \<^item> \<open>Mcp\<close>, \<open>McpProps\<close>: the session of the model context protocol, its handshake as an invariant, and
    the outcome of a call of a tool.
  \<^item> \<open>Log\<close>, \<open>LogProps\<close>: log lines and their reports refine a specification; locks.
  \<^item> \<open>Sdk\<close>, \<open>SdkProps\<close>: creation and release of the components on a memory of numbered blocks, and
    the logs over two sessions.

  Bounds and fuel. The wait loop of a request is a recursion over the results of the service calls,
  of any number. The AES and SHA loops have constant bounds. The waiting for a
  download and for a chat are such recursions too. No definition needs fuel.

  Not modelled: the components listed as such in the manifest. \<^verbatim>\<open>gateway.c\<close> is commented out as a whole. Vendored containers of aws-c-common
  appear only through what their callers do, and cJSON and libwebsockets are not part of the
  repository. User callbacks are recorded as they are called; what they do is not modelled.
\<close>

end
